(* ===== verification/Cbrain_Prelude.thy ===== *)
theory Cbrain_Prelude
  imports Main "HOL-Library.Char_ord" "HOL-Library.List_Lexorder"
begin

text \<open>
  Shared vocabulary of the development: the exception classes the source raises, results of
  fallible code, Python text, and the generic lemmas the component theories use.

  \<^item> An exception is a value of \<open>exn\<close>; its message is dropped and its class is kept, because
    the class is what the code branches on and what it writes into reasons
    (\<^verbatim>\<open>type(exc).__name__\<close>, here \<open>exn_name\<close>). Classes raised by code outside the repository
    are \<open>External\<close> with their name.
  \<^item> Fallible code returns \<open>'a res\<close>, with \<open>Inl\<close> for a raised exception. \<open>rbind\<close> sequences,
    \<open>ensure\<close> is a guard that raises.
  \<^item> Code that also changes a world of type \<open>'w\<close> is a \<open>('w, 'a) eff\<close>.
  \<^item> Python text is \<open>string\<close>, one \<open>char\<close> per code point; the model covers the first 256 code
    points, on which \<open>py_isspace\<close> is Python's \<^verbatim>\<open>str.isspace\<close>.
\<close>

named_theorems res_simps \<open>how results of fallible code decompose\<close>

section \<open>Exceptions and results\<close>

datatype exn =
    ContractError
  | ValueError
  | TypeError
  | KeyError
  | RuntimeError
  | AuthorizationConsumptionError
  | PrivateVaultProtocolError
  | PrivateVaultBindingError
  | PrivateVaultExecutionError
  | PrivateVaultEvidenceRejected
  | DispatchPlanningError
  | ExecutionGatewayError
  | DispatchTransportError
  | HandlerNotInvoked
  | ProductionDispatchRequired
  | SidecarError
  | SidecarProtocolError
  | SidecarRPCError
  | ApprovalInboxError
  | RunStoreError
  | SimulatorContractError
  | SimulatorNotFound
  | SimulatorConflict
  | SimulatorBusinessError
  | ModelError
  | ModelContractError
  | ModelCredentialError
  | ModelTransportError
  | ModelResponseError
  | ToolRegistryError
  | FoundationAgentError
  | External string

fun exn_name :: "exn \<Rightarrow> string" where
  "exn_name ContractError = ''ContractError''"
| "exn_name ValueError = ''ValueError''"
| "exn_name TypeError = ''TypeError''"
| "exn_name KeyError = ''KeyError''"
| "exn_name RuntimeError = ''RuntimeError''"
| "exn_name AuthorizationConsumptionError = ''AuthorizationConsumptionError''"
| "exn_name PrivateVaultProtocolError = ''PrivateVaultProtocolError''"
| "exn_name PrivateVaultBindingError = ''PrivateVaultBindingError''"
| "exn_name PrivateVaultExecutionError = ''PrivateVaultExecutionError''"
| "exn_name PrivateVaultEvidenceRejected = ''PrivateVaultEvidenceRejected''"
| "exn_name DispatchPlanningError = ''DispatchPlanningError''"
| "exn_name ExecutionGatewayError = ''ExecutionGatewayError''"
| "exn_name DispatchTransportError = ''DispatchTransportError''"
| "exn_name HandlerNotInvoked = ''HandlerNotInvoked''"
| "exn_name ProductionDispatchRequired = ''ProductionDispatchRequired''"
| "exn_name SidecarError = ''SidecarError''"
| "exn_name SidecarProtocolError = ''SidecarProtocolError''"
| "exn_name SidecarRPCError = ''SidecarRPCError''"
| "exn_name ApprovalInboxError = ''ApprovalInboxError''"
| "exn_name RunStoreError = ''RunStoreError''"
| "exn_name SimulatorContractError = ''SimulatorContractError''"
| "exn_name SimulatorNotFound = ''SimulatorNotFound''"
| "exn_name SimulatorConflict = ''SimulatorConflict''"
| "exn_name SimulatorBusinessError = ''SimulatorBusinessError''"
| "exn_name ModelError = ''ModelError''"
| "exn_name ModelContractError = ''ModelContractError''"
| "exn_name ModelCredentialError = ''ModelCredentialError''"
| "exn_name ModelTransportError = ''ModelTransportError''"
| "exn_name ModelResponseError = ''ModelResponseError''"
| "exn_name ToolRegistryError = ''ToolRegistryError''"
| "exn_name FoundationAgentError = ''FoundationAgentError''"
| "exn_name (External n) = n"

type_synonym 'a res = "exn + 'a"
type_synonym ('w, 'a) eff = "'w \<Rightarrow> 'a res \<times> 'w"

definition rbind :: "'a res \<Rightarrow> ('a \<Rightarrow> 'b res) \<Rightarrow> 'b res" where
  "rbind m f = (case m of Inl e \<Rightarrow> Inl e | Inr a \<Rightarrow> f a)"

abbreviation OperationalError :: exn where
  "OperationalError \<equiv> External ''OperationalError''"

definition ensure :: "bool \<Rightarrow> exn \<Rightarrow> unit res" where
  "ensure b e = (if b then Inr () else Inl e)"

text \<open>\<open>rescue e m\<close> is \<^verbatim>\<open>except Exception as exc: raise e from exc\<close>.\<close>

definition rescue :: "exn \<Rightarrow> 'a res \<Rightarrow> 'a res" where
  "rescue e m = (case m of Inl _ \<Rightarrow> Inl e | Inr a \<Rightarrow> Inr a)"

definition of_option :: "exn \<Rightarrow> 'a option \<Rightarrow> 'a res" where
  "of_option e x = (case x of None \<Rightarrow> Inl e | Some a \<Rightarrow> Inr a)"

fun rmapM :: "('a \<Rightarrow> 'b res) \<Rightarrow> 'a list \<Rightarrow> 'b list res" where
  "rmapM f [] = Inr []"
| "rmapM f (x # xs) = rbind (f x) (\<lambda>y. rbind (rmapM f xs) (\<lambda>ys. Inr (y # ys)))"

text \<open>Effectful sequencing over a world.\<close>

definition ebind :: "('w, 'a) eff \<Rightarrow> ('a \<Rightarrow> ('w, 'b) eff) \<Rightarrow> ('w, 'b) eff" where
  "ebind m f = (\<lambda>w. case m w of (Inl e, w') \<Rightarrow> (Inl e, w') | (Inr a, w') \<Rightarrow> f a w')"

definition eret :: "'a res \<Rightarrow> ('w, 'a) eff" where
  "eret r = (\<lambda>w. (r, w))"

section \<open>Python text\<close>

definition py_isspace :: "char \<Rightarrow> bool" where
  "py_isspace c = (let n = of_char c :: nat in
     (9 \<le> n \<and> n \<le> 13) \<or> (28 \<le> n \<and> n \<le> 32) \<or> n = 133 \<or> n = 160)"

text \<open>\<open>nonblank s\<close> is the truth value of \<^verbatim>\<open>s.strip()\<close>.\<close>

definition nonblank :: "string \<Rightarrow> bool" where
  "nonblank s = list_ex (\<lambda>c. \<not> py_isspace c) s"

definition py_strip :: "string \<Rightarrow> string" where
  "py_strip s = rev (dropWhile py_isspace (rev (dropWhile py_isspace s)))"

definition starts_with :: "string \<Rightarrow> string \<Rightarrow> bool" where
  "starts_with p s = (take (length p) s = p)"

definition removeprefix :: "string \<Rightarrow> string \<Rightarrow> string" where
  "removeprefix p s = (if starts_with p s then drop (length p) s else s)"

definition is_hex_digit :: "char \<Rightarrow> bool" where
  "is_hex_digit c = (c \<in> set ''0123456789abcdef'')"

text \<open>The pattern \<^verbatim>\<open>sha256:[0-9a-f]{64}\<close>, matched in full.\<close>

definition sha256_text :: "string \<Rightarrow> bool" where
  "sha256_text s = (starts_with ''sha256:'' s \<and> length s = 71 \<and>
     list_all is_hex_digit (drop 7 s))"

section \<open>Generic lemmas\<close>

lemma rbind_simps [simp]:
  "rbind (Inl e) f = Inl e" "rbind (Inr a) f = f a"
  by (simp_all add: rbind_def)

lemma rbind_Inr_iff [res_simps]:
  "rbind m f = Inr b \<longleftrightarrow> (\<exists>a. m = Inr a \<and> f a = Inr b)"
  by (cases m) auto

lemma rbind_Inl_iff:
  "rbind m f = Inl e \<longleftrightarrow> m = Inl e \<or> (\<exists>a. m = Inr a \<and> f a = Inl e)"
  by (cases m) auto

lemma ensure_Inr [res_simps]: "ensure b e = Inr u \<longleftrightarrow> b"
  by (simp add: ensure_def)

lemma ensure_Inl [res_simps]: "ensure b e = Inl x \<longleftrightarrow> \<not> b \<and> x = e"
  by (auto simp: ensure_def)

lemma ensure_simps [simp]: "ensure True e = Inr ()" "ensure False e = Inl e"
  by (simp_all add: ensure_def)

lemma rescue_simps [simp]: "rescue e (Inl x) = Inl e" "rescue e (Inr a) = Inr a"
  by (simp_all add: rescue_def)

lemma rescue_Inr [res_simps]: "rescue e m = Inr a \<longleftrightarrow> m = Inr a"
  by (cases m) auto

lemma rescue_Inl [res_simps]: "rescue e m = Inl x \<longleftrightarrow> x = e \<and> (\<exists>y. m = Inl y)"
  by (cases m) auto

lemma of_option_simps [simp]: "of_option e None = Inl e" "of_option e (Some a) = Inr a"
  by (simp_all add: of_option_def)

lemma of_option_Inr [res_simps]: "of_option e x = Inr a \<longleftrightarrow> x = Some a"
  by (cases x) auto

lemma of_option_Inl [res_simps]: "of_option e x = Inl y \<longleftrightarrow> x = None \<and> y = e"
  by (cases x) auto

lemma rmapM_Inr_length: "rmapM f xs = Inr ys \<Longrightarrow> length ys = length xs"
  by (induction xs arbitrary: ys) (auto simp: res_simps)

lemma rmapM_Inr_iff:
  "rmapM f xs = Inr ys \<longleftrightarrow> list_all2 (\<lambda>x y. f x = Inr y) xs ys"
  by (induction xs arbitrary: ys) (auto simp: res_simps list_all2_Cons1)

lemma ebind_Inr:
  "ebind m f w = (Inr b, w') \<longleftrightarrow> (\<exists>a w1. m w = (Inr a, w1) \<and> f a w1 = (Inr b, w'))"
  by (auto simp: ebind_def split: prod.splits sum.splits)

lemma ebind_step: "m w = (Inr a, w1) \<Longrightarrow> ebind m f w = f a w1"
  by (simp add: ebind_def)

lemma ebind_fail: "m w = (Inl e, w1) \<Longrightarrow> ebind m f w = (Inl e, w1)"
  by (simp add: ebind_def)

lemma eret_Inr: "eret r w = (x, w') \<longleftrightarrow> r = x \<and> w' = w"
  by (auto simp: eret_def)

text \<open>Blankness of literals evaluates by \<open>simp\<close>.\<close>

lemma py_isspace_Char [simp]:
  "py_isspace (Char b0 b1 b2 b3 b4 b5 b6 b7) =
     (let n = of_char (Char b0 b1 b2 b3 b4 b5 b6 b7) :: nat in
       (9 \<le> n \<and> n \<le> 13) \<or> (28 \<le> n \<and> n \<le> 32) \<or> n = 133 \<or> n = 160)"
  by (simp add: py_isspace_def)

lemma nonblank_Nil [simp]: "\<not> nonblank []"
  by (simp add: nonblank_def)

lemma nonblank_Cons [simp]: "nonblank (c # s) \<longleftrightarrow> \<not> py_isspace c \<or> nonblank s"
  by (simp add: nonblank_def)

lemma nonblank_append [simp]: "nonblank (s @ t) \<longleftrightarrow> nonblank s \<or> nonblank t"
  by (simp add: nonblank_def)

lemma sha256_text_nonblank: "sha256_text s \<Longrightarrow> nonblank s"
  by (cases s) (auto simp: sha256_text_def starts_with_def nonblank_def py_isspace_def)

lemma nonblank_nonempty: "nonblank s \<Longrightarrow> s \<noteq> []"
  by (auto simp: nonblank_def)

end
