(* ===== verification/Py_Json.thy ===== *)
theory Py_Json
  imports Cbrain_Prelude "HOL-Library.AList" "HOL-Library.Multiset"
begin

text \<open>
  The Python values the governed runtime handles, and the part of the \<^verbatim>\<open>json\<close> module it uses.

  A \<open>json\<close> value is a JSON-compatible Python value, or \<open>JOpaque\<close>: a value of a class that
  JSON cannot represent (bytes, sets, objects, a mapping with a key that is not text). A mapping is
  an association list in insertion order; \<open>wf_json\<close> says that keys are distinct, as they are in a
  \<^verbatim>\<open>dict\<close>. A finite float is represented by its \<^verbatim>\<open>repr\<close>, which is what \<^verbatim>\<open>json.dumps\<close> and
  \<^verbatim>\<open>str\<close> print and what reading the text back gives.

  The frozen byte snapshots of the source (\<^verbatim>\<open>_arguments_json\<close> and its kin) are values of
  \<open>stored\<close>: what \<^verbatim>\<open>json.loads\<close> makes of the bytes. \<open>canon\<close> is the document the canonical bytes
  (sorted keys) decode to, and \<open>dumps\<close> renders those bytes.
\<close>

section \<open>Values\<close>

datatype pyfloat = Finite string | NaN | PosInf | NegInf

datatype json =
    JNull
  | JBool bool
  | JInt int
  | JFloat pyfloat
  | JStr string
  | JList "json list"
  | JObj "(string \<times> json) list"
  | JOpaque string

type_synonym jobj = "(string \<times> json) list"

text \<open>\<open>Undecodable e\<close>: bytes on which \<^verbatim>\<open>json.loads\<close> raises \<open>e\<close>.\<close>

datatype stored = NotBytes | Undecodable exn | Doc json

definition jget :: "jobj \<Rightarrow> string \<Rightarrow> json option" where
  "jget d k = map_of d k"

definition jset :: "string \<Rightarrow> json \<Rightarrow> jobj \<Rightarrow> jobj" where
  "jset k v d = AList.update k v d"

definition jkeys :: "jobj \<Rightarrow> string set" where
  "jkeys d = set (map fst d)"

fun is_JStr :: "json \<Rightarrow> bool" where
  "is_JStr (JStr _) = True"
| "is_JStr _ = False"

text \<open>\<open>text_field d k\<close> is \<^verbatim>\<open>d.get(k)\<close> where it is text with a non-blank character.\<close>

definition text_field :: "jobj \<Rightarrow> string \<Rightarrow> string option" where
  "text_field d k = (case jget d k of
       Some (JStr s) \<Rightarrow> if nonblank s then Some s else None
     | _ \<Rightarrow> None)"

primrec wf_json :: "json \<Rightarrow> bool" where
  "wf_json JNull = True"
| "wf_json (JBool _) = True"
| "wf_json (JInt _) = True"
| "wf_json (JFloat _) = True"
| "wf_json (JStr _) = True"
| "wf_json (JList xs) = list_all id (map wf_json xs)"
| "wf_json (JObj kvs) = (distinct (map fst kvs) \<and> list_all snd (map (map_prod id wf_json) kvs))"
| "wf_json (JOpaque _) = True"

text \<open>
  \<^verbatim>\<open>_validate_json\<close>: scalars pass, floats must be finite, containers recurse, anything else is
  refused. The cycle check of the source never fires on the finite trees of the model.
\<close>

primrec valid_json :: "json \<Rightarrow> bool" where
  "valid_json JNull = True"
| "valid_json (JBool _) = True"
| "valid_json (JInt _) = True"
| "valid_json (JFloat f) = (case f of Finite _ \<Rightarrow> True | _ \<Rightarrow> False)"
| "valid_json (JStr _) = True"
| "valid_json (JList xs) = list_all id (map valid_json xs)"
| "valid_json (JObj kvs) = list_all snd (map (map_prod id valid_json) kvs)"
| "valid_json (JOpaque _) = False"

text \<open>The document that the canonical rendering decodes to: keys sorted at every level.\<close>

primrec canon :: "json \<Rightarrow> json" where
  "canon JNull = JNull"
| "canon (JBool b) = JBool b"
| "canon (JInt i) = JInt i"
| "canon (JFloat f) = JFloat f"
| "canon (JStr s) = JStr s"
| "canon (JList xs) = JList (map canon xs)"
| "canon (JObj kvs) = JObj (sort_key fst (map (map_prod id canon) kvs))"
| "canon (JOpaque c) = JOpaque c"

definition canon_obj :: "jobj \<Rightarrow> jobj" where
  "canon_obj d = sort_key fst (map (map_prod id canon) d)"

section \<open>Rendering\<close>

fun digits :: "nat \<Rightarrow> string" where
  "digits n = (if n < 10 then [char_of (48 + n)] else digits (n div 10) @ [char_of (48 + n mod 10)])"

declare digits.simps [simp del]

definition show_int :: "int \<Rightarrow> string" where
  "show_int i = (if i < 0 then CHR ''-'' # digits (nat (- i)) else digits (nat i))"

definition hex_digit :: "nat \<Rightarrow> char" where
  "hex_digit n = char_of (if n < 10 then 48 + n else 87 + n)"

text \<open>Escapes of \<^verbatim>\<open>json.dumps(..., ensure_ascii=False)\<close>.\<close>

definition esc_char :: "char \<Rightarrow> string" where
  "esc_char c = (let n = of_char c :: nat in
     if n = 34 then [char_of (92::nat), char_of (34::nat)]
     else if n = 92 then [char_of (92::nat), char_of (92::nat)]
     else if n = 10 then char_of (92::nat) # ''n''
     else if n = 13 then char_of (92::nat) # ''r''
     else if n = 9 then char_of (92::nat) # ''t''
     else if n = 12 then char_of (92::nat) # ''f''
     else if n = 8 then char_of (92::nat) # ''b''
     else if n < 32 then char_of (92::nat) # ''u00'' @ [hex_digit (n div 16), hex_digit (n mod 16)]
     else [c])"

definition quote :: "string \<Rightarrow> string" where
  "quote s = CHR 0x22 # concat (map esc_char s) @ [CHR 0x22]"

fun join :: "string \<Rightarrow> string list \<Rightarrow> string" where
  "join sep [] = []"
| "join sep [x] = x"
| "join sep (x # y # ys) = x @ sep @ join sep (y # ys)"

fun show_float :: "pyfloat \<Rightarrow> string" where
  "show_float (Finite t) = t"
| "show_float NaN = ''NaN''"
| "show_float PosInf = ''Infinity''"
| "show_float NegInf = ''-Infinity''"

primrec render :: "json \<Rightarrow> string" where
  "render JNull = ''null''"
| "render (JBool b) = (if b then ''true'' else ''false'')"
| "render (JInt i) = show_int i"
| "render (JFloat f) = show_float f"
| "render (JStr s) = quote s"
| "render (JList xs) = ''['' @ join '','' (map render xs) @ '']''"
| "render (JObj kvs) =
     ''{'' @ join '','' (map (\<lambda>kv. quote (fst kv) @ '':'' @ snd kv) (map (map_prod id render) kvs)) @ ''}''"
| "render (JOpaque c) = c"

text \<open>The text of \<^verbatim>\<open>json.dumps(value, sort_keys=True, separators=(",", ":"), ensure_ascii=False)\<close>.\<close>

definition dumps :: "json \<Rightarrow> string" where
  "dumps j = render (canon j)"

section \<open>Lemmas\<close>

lemma canon_JObj: "canon (JObj d) = JObj (canon_obj d)"
  by (simp add: canon_obj_def)

lemma jget_Cons [simp]: "jget ((k, v) # d) x = (if x = k then Some v else jget d x)"
  by (simp add: jget_def)

lemma jget_Nil [simp]: "jget [] x = None"
  by (simp add: jget_def)

lemma map_fst_map_prod_id [simp]: "map (fst \<circ> map_prod id f) d = map fst d"
  by (induction d) auto

lemma map_snd_map_prod_id [simp]: "map (snd \<circ> map_prod id f) d = map (f \<circ> snd) d"
  by (induction d) auto

lemma set_canon_obj: "set (canon_obj d) = (\<lambda>kv. (fst kv, canon (snd kv))) ` set d"
  by (auto simp: canon_obj_def map_prod_def split_def)

lemma jkeys_canon [simp]: "jkeys (canon_obj d) = jkeys d"
  by (simp add: jkeys_def set_canon_obj image_image)

lemma distinct_canon_obj [simp]:
  "distinct (map fst (canon_obj d)) = distinct (map fst d)"
proof -
  have "mset (map fst (canon_obj d)) = mset (map fst d)"
    by (simp add: canon_obj_def multiset.map_comp comp_def map_prod_def split_def)
  then show ?thesis by (rule mset_eq_imp_distinct_iff)
qed

lemma jget_canon:
  assumes "distinct (map fst d)"
  shows "jget (canon_obj d) k = map_option canon (jget d k)"
proof (cases "jget d k")
  case None
  then have "k \<notin> fst ` set (canon_obj d)"
    by (force simp: jget_def map_of_eq_None_iff set_canon_obj)
  then have "map_of (canon_obj d) k = None" by (simp add: map_of_eq_None_iff)
  with None show ?thesis by (simp add: jget_def)
next
  case (Some v)
  then have "(k, v) \<in> set d" by (simp add: jget_def map_of_SomeD)
  then have "(k, canon v) \<in> set (canon_obj d)"
    by (force simp: set_canon_obj)
  with assms have "map_of (canon_obj d) k = Some (canon v)"
    by (intro map_of_is_SomeI) simp_all
  with Some show ?thesis by (simp add: jget_def)
qed

lemma valid_json_JObj: "valid_json (JObj d) \<longleftrightarrow> (\<forall>kv\<in>set d. valid_json (snd kv))"
  by (auto simp: list_all_iff)

lemma wf_json_JObj:
  "wf_json (JObj d) \<longleftrightarrow> distinct (map fst d) \<and> (\<forall>kv\<in>set d. wf_json (snd kv))"
  by (auto simp: list_all_iff)

lemma valid_json_canon [simp]: "valid_json (canon j) = valid_json j"
proof (induction j)
  case (JObj d)
  then have IH: "valid_json (canon (snd kv)) = valid_json (snd kv)" if "kv \<in> set d" for kv
    using that by (metis snds.intros)
  show ?case
    unfolding canon_JObj valid_json_JObj set_canon_obj by (auto simp: IH)
qed (auto simp: list_all_iff)

lemma wf_json_canon [simp]: "wf_json (canon j) = wf_json j"
proof (induction j)
  case (JObj d)
  then have IH: "wf_json (canon (snd kv)) = wf_json (snd kv)" if "kv \<in> set d" for kv
    using that by (metis snds.intros)
  show ?case
    unfolding canon_JObj wf_json_JObj set_canon_obj by (auto simp: IH)
qed (auto simp: list_all_iff)

lemma sorted_canon_obj: "sorted (map fst (canon_obj d))"
  by (simp add: canon_obj_def)

lemma canon_canon [simp]: "canon (canon j) = canon j"
proof (induction j)
  case (JObj d)
  then have IH: "canon (canon (snd kv)) = canon (snd kv)" if "kv \<in> set d" for kv
    using that by (metis snds.intros)
  have "map (map_prod id canon) (canon_obj d) = canon_obj d"
    by (rule map_idI) (auto simp: set_canon_obj IH [simplified] dest: IH)
  then have "canon_obj (canon_obj d) = canon_obj d"
    using sorted_canon_obj [of d] by (simp add: canon_obj_def [of "canon_obj d"] sorted_sort_id sort_key_id_if_sorted)
  then show ?case by (simp only: canon_JObj)
qed auto

lemma canon_obj_idem [simp]: "canon_obj (canon_obj d) = canon_obj d"
  using canon_canon [of "JObj d"] by (simp only: canon_JObj json.inject)

text \<open>Two mappings that hold the same entries, in whatever order, have the same canonical form.\<close>

lemma sort_key_fst_cong:
  assumes "distinct (map fst xs)" and "mset xs = mset ys"
  shows "sort_key fst xs = sort_key fst ys"
proof (rule sort_key_inj_key_eq)
  show "mset xs = mset (sort_key fst ys)" using assms(2) by simp
  show "inj_on fst (set xs)" using assms(1) by (simp add: distinct_map)
  show "sorted (map fst (sort_key fst ys))" by simp
qed

lemma canon_obj_cong:
  assumes "distinct (map fst d)" and "mset d = mset e"
  shows "canon_obj d = canon_obj e"
  unfolding canon_obj_def
  by (rule sort_key_fst_cong) (use assms in simp_all)

end
