(* ===== verification/Contracts.thy ===== *)
theory Contracts
  imports Py_Json
begin

text \<open>
  \<^verbatim>\<open>cbrain/contracts.py\<close>: the immutable \<open>ActionIntent\<close> captured before authorization and the
  \<open>GovernedExecution\<close> result with its status discipline. A constructor of the source (the dataclass
  fields followed by \<^verbatim>\<open>__post_init__\<close>) is a \<open>_post_init\<close> function that returns the record or the
  exception it raises; \<open>wf_action\<close> and \<open>wf_execution\<close> are the objects that can exist.
\<close>

section \<open>Text and snapshots\<close>

definition required_text :: "string \<Rightarrow> unit res" where
  "required_text value = ensure (nonblank value) ContractError"

definition snapshot_object :: "json \<Rightarrow> stored res" where
  "snapshot_object value = (case value of
       JObj d \<Rightarrow> rbind (ensure (valid_json value) ContractError) (\<lambda>_. Inr (Doc (canon value)))
     | _ \<Rightarrow> Inl ContractError)"

definition restore_object :: "stored \<Rightarrow> jobj res" where
  "restore_object value = (case value of
       NotBytes \<Rightarrow> Inl TypeError
     | Undecodable e \<Rightarrow> Inl e
     | Doc (JObj d) \<Rightarrow> Inr d
     | Doc _ \<Rightarrow> Inl ContractError)"

section \<open>ActionIntent\<close>

record ActionIntent =
  ai_request_id :: string
  ai_idempotency_key :: string
  ai_agent_id :: string
  ai_framework :: string
  ai_tool_name :: string
  ai_capability :: string
  ai_timestamp :: json
  ai_arguments_json :: stored
  ai_context_json :: stored
  ai_evidence_json :: stored

text \<open>\<^verbatim>\<open>float(i)\<close> raises \<^verbatim>\<open>OverflowError\<close> once \<open>i\<close> rounds beyond the largest double.\<close>

definition float_overflows :: "int \<Rightarrow> bool" where
  "float_overflows i = (2 ^ 1024 - 2 ^ 970 \<le> \<bar>i\<bar>)"

definition check_timestamp :: "json \<Rightarrow> unit res" where
  "check_timestamp t = (case t of
       JInt i \<Rightarrow> ensure (\<not> float_overflows i) (External ''OverflowError'')
     | JFloat (Finite _) \<Rightarrow> Inr ()
     | _ \<Rightarrow> Inl ContractError)"

definition check_stored :: "stored \<Rightarrow> unit res" where
  "check_stored v = rescue ContractError (rbind (restore_object v) (\<lambda>_. Inr ()))"

definition action_post_init :: "ActionIntent \<Rightarrow> ActionIntent res" where
  "action_post_init a =
     rbind (rmapM required_text
       [ai_request_id a, ai_idempotency_key a, ai_agent_id a,
        ai_framework a, ai_tool_name a, ai_capability a]) (\<lambda>_.
     rbind (check_timestamp (ai_timestamp a)) (\<lambda>_.
     rbind (rmapM check_stored
       [ai_arguments_json a, ai_context_json a, ai_evidence_json a]) (\<lambda>_.
     Inr a)))"

definition wf_action :: "ActionIntent \<Rightarrow> bool" where
  "wf_action a = (action_post_init a = Inr a)"

text \<open>
  \<^verbatim>\<open>ActionIntent.capture\<close>. The parameters \<open>fresh\<close> and \<open>now\<close> are what \<^verbatim>\<open>str(uuid.uuid4())\<close> and
  \<^verbatim>\<open>time.time()\<close> return if they are called.
\<close>

definition text_or :: "string option \<Rightarrow> string \<Rightarrow> string" where
  "text_or x d = (case x of Some s \<Rightarrow> if s = [] then d else s | None \<Rightarrow> d)"

definition capture_action ::
  "string \<Rightarrow> json \<Rightarrow> string \<Rightarrow> string \<Rightarrow> string \<Rightarrow> string \<Rightarrow> json \<Rightarrow> jobj option \<Rightarrow> jobj option \<Rightarrow>
   string option \<Rightarrow> string option \<Rightarrow> json option \<Rightarrow> ActionIntent res" where
  "capture_action fresh now agent_id framework tool_name capability arguments context evidence
       request_id idempotency_key timestamp =
     (let resolved = text_or request_id fresh in
      rbind (snapshot_object arguments) (\<lambda>args.
      rbind (snapshot_object (JObj (case context of Some d \<Rightarrow> d | None \<Rightarrow> []))) (\<lambda>ctx.
      rbind (snapshot_object (JObj (case evidence of Some d \<Rightarrow> d | None \<Rightarrow> []))) (\<lambda>evd.
      action_post_init
        \<lparr>ai_request_id = resolved,
         ai_idempotency_key = text_or idempotency_key resolved,
         ai_agent_id = agent_id, ai_framework = framework, ai_tool_name = tool_name,
         ai_capability = capability,
         ai_timestamp = (case timestamp of None \<Rightarrow> now | Some t \<Rightarrow> t),
         ai_arguments_json = args, ai_context_json = ctx, ai_evidence_json = evd\<rparr>))))"

definition ai_arguments :: "ActionIntent \<Rightarrow> jobj res" where
  "ai_arguments a = restore_object (ai_arguments_json a)"

definition ai_context :: "ActionIntent \<Rightarrow> jobj res" where
  "ai_context a = restore_object (ai_context_json a)"

definition ai_evidence :: "ActionIntent \<Rightarrow> jobj res" where
  "ai_evidence a = restore_object (ai_evidence_json a)"

definition privatevault_decide_payload :: "ActionIntent \<Rightarrow> jobj res" where
  "privatevault_decide_payload a =
     rbind (ai_context a) (\<lambda>context0.
     let context = jset ''cbrain'' (JObj
           [(''framework'', JStr (ai_framework a)),
            (''tool_name'', JStr (ai_tool_name a)),
            (''idempotency_key'', JStr (ai_idempotency_key a))]) context0 in
     rbind (ai_arguments a) (\<lambda>arguments.
     rbind (ai_evidence a) (\<lambda>evidence.
     Inr [(''agent_id'', JStr (ai_agent_id a)),
          (''capability'', JStr (ai_capability a)),
          (''timestamp'', ai_timestamp a),
          (''arguments'', JObj arguments),
          (''context'', JObj context),
          (''evidence'', JObj evidence),
          (''request_id'', JStr (ai_request_id a))])))"

section \<open>GovernedExecution\<close>

datatype ExecutionStatus = EXECUTED | BLOCKED | REVIEW_REQUIRED | CONTROL_FAILURE | INDETERMINATE

fun status_value :: "ExecutionStatus \<Rightarrow> string" where
  "status_value EXECUTED = ''EXECUTED''"
| "status_value BLOCKED = ''BLOCKED''"
| "status_value REVIEW_REQUIRED = ''REVIEW_REQUIRED''"
| "status_value CONTROL_FAILURE = ''CONTROL_FAILURE''"
| "status_value INDETERMINATE = ''INDETERMINATE''"

record GovernedExecution =
  ge_status :: ExecutionStatus
  ge_request_id :: string
  ge_tool_executed :: "bool option"
  ge_reason :: string
  ge_decision_id :: "string option"
  ge_output :: json
  ge_retryable :: bool

definition execution_post_init :: "GovernedExecution \<Rightarrow> GovernedExecution res" where
  "execution_post_init g =
     rbind (required_text (ge_request_id g)) (\<lambda>_.
     rbind (required_text (ge_reason g)) (\<lambda>_.
     rbind (ensure (\<not> (ge_status g = EXECUTED \<and> ge_tool_executed g \<noteq> Some True)) ContractError) (\<lambda>_.
     rbind (ensure (\<not> (ge_status g \<in> {BLOCKED, REVIEW_REQUIRED, CONTROL_FAILURE} \<and>
                       ge_tool_executed g \<noteq> Some False)) ContractError) (\<lambda>_.
     rbind (ensure (\<not> (ge_status g = INDETERMINATE \<and> ge_tool_executed g \<noteq> None)) ContractError) (\<lambda>_.
     rbind (ensure (\<not> (ge_retryable g \<and> ge_status g \<noteq> CONTROL_FAILURE)) ContractError) (\<lambda>_.
     rbind (ensure (\<not> (ge_retryable g \<and> ge_tool_executed g \<noteq> Some False)) ContractError) (\<lambda>_.
     Inr g)))))))"

definition wf_execution :: "GovernedExecution \<Rightarrow> bool" where
  "wf_execution g = (execution_post_init g = Inr g)"

text \<open>What the status alone says of the tool: the table of the contract.\<close>

fun tool_executed_of :: "ExecutionStatus \<Rightarrow> bool option" where
  "tool_executed_of EXECUTED = Some True"
| "tool_executed_of INDETERMINATE = None"
| "tool_executed_of _ = Some False"

section \<open>Lemmas\<close>

lemma required_text_Inr [res_simps]: "required_text s = Inr u \<longleftrightarrow> nonblank s"
  by (simp add: required_text_def res_simps)

lemma required_text_Inl [res_simps]: "required_text s = Inl e \<longleftrightarrow> \<not> nonblank s \<and> e = ContractError"
  by (simp add: required_text_def res_simps)

lemma snapshot_object_Inr [res_simps]:
  "snapshot_object v = Inr s \<longleftrightarrow> (\<exists>d. v = JObj d \<and> valid_json v \<and> s = Doc (JObj (canon_obj d)))"
  by (auto simp: snapshot_object_def res_simps canon_JObj simp del: canon.simps split: json.splits)

lemma snapshot_object_Inl:
  "snapshot_object v = Inl e \<Longrightarrow> e = ContractError"
  by (auto simp: snapshot_object_def rbind_Inl_iff res_simps split: json.splits)

lemma restore_object_Inr [res_simps]: "restore_object s = Inr d \<longleftrightarrow> s = Doc (JObj d)"
  by (auto simp: restore_object_def split: stored.splits json.splits)

lemma restore_snapshot:
  "snapshot_object (JObj d) = Inr s \<Longrightarrow> restore_object s = Inr (canon_obj d)"
  by (auto simp: res_simps)

lemma snapshot_restored:
  "restore_object s = Inr d \<Longrightarrow> snapshot_object (JObj d) = Inr s' \<Longrightarrow> restore_object s' = Inr (canon_obj d)"
  by (auto simp: res_simps)

lemma check_stored_Inr [res_simps]: "check_stored s = Inr u \<longleftrightarrow> (\<exists>d. s = Doc (JObj d))"
  by (auto simp: check_stored_def res_simps)

lemma action_post_init_Inr_iff:
  "action_post_init a = Inr b \<longleftrightarrow> b = a \<and> wf_action a"
  by (auto simp: wf_action_def action_post_init_def res_simps)

lemma wf_action_iff:
  "wf_action a \<longleftrightarrow>
     nonblank (ai_request_id a) \<and> nonblank (ai_idempotency_key a) \<and> nonblank (ai_agent_id a) \<and>
     nonblank (ai_framework a) \<and> nonblank (ai_tool_name a) \<and> nonblank (ai_capability a) \<and>
     check_timestamp (ai_timestamp a) = Inr () \<and>
     (\<exists>d. ai_arguments_json a = Doc (JObj d)) \<and> (\<exists>d. ai_context_json a = Doc (JObj d)) \<and>
     (\<exists>d. ai_evidence_json a = Doc (JObj d))"
  by (auto simp: wf_action_def action_post_init_def res_simps)

lemma wf_action_request_id [simp]: "wf_action a \<Longrightarrow> nonblank (ai_request_id a)"
  by (simp add: wf_action_iff)

lemma wf_action_arguments: "wf_action a \<Longrightarrow> \<exists>d. ai_arguments a = Inr d"
  by (auto simp: wf_action_iff ai_arguments_def res_simps)

lemma execution_post_init_Inr_iff:
  "execution_post_init g = Inr h \<longleftrightarrow> h = g \<and> wf_execution g"
  by (auto simp: wf_execution_def execution_post_init_def res_simps)

lemma wf_execution_iff:
  "wf_execution g \<longleftrightarrow>
     nonblank (ge_request_id g) \<and> nonblank (ge_reason g) \<and>
     ge_tool_executed g = tool_executed_of (ge_status g) \<and>
     (ge_retryable g \<longrightarrow> ge_status g = CONTROL_FAILURE)"
  by (cases "ge_status g") (auto simp: wf_execution_def execution_post_init_def res_simps)

end
