(* ===== verification/Py_Bytes.thy ===== *)
theory Py_Bytes
  imports Py_Json "HOL-Library.Word"
begin

text \<open>
  Byte strings: \<^verbatim>\<open>str.encode("utf-8")\<close> on the text of the model, and \<^verbatim>\<open>base64.b64encode\<close> and
  \<^verbatim>\<open>base64.b64decode(..., validate=True)\<close>, which carry wire bytes through the sidecar's JSON
  protocol. Decoding is strict: four characters at a time, padding only at the end.
\<close>

type_synonym bytes = "8 word list"

definition utf8_char :: "char \<Rightarrow> bytes" where
  "utf8_char c = (let n = of_char c :: nat in
     if n < 128 then [word_of_nat n]
     else [word_of_nat (192 + n div 64), word_of_nat (128 + n mod 64)])"

definition encode_utf8 :: "string \<Rightarrow> bytes" where
  "encode_utf8 s = concat (map utf8_char s)"

definition b64char :: "nat \<Rightarrow> char" where
  "b64char n = char_of
     (if n < 26 then 65 + n else if n < 52 then 71 + n else if n < 62 then n - 4
      else if n = 62 then 43 else 47)"

definition b64val :: "char \<Rightarrow> nat option" where
  "b64val c = (let n = of_char c :: nat in
     if 65 \<le> n \<and> n \<le> 90 then Some (n - 65)
     else if 97 \<le> n \<and> n \<le> 122 then Some (n - 71)
     else if 48 \<le> n \<and> n \<le> 57 then Some (n + 4)
     else if n = 43 then Some 62 else if n = 47 then Some 63 else None)"

abbreviation pad :: char where
  "pad \<equiv> CHR ''=''"

fun b64encode :: "bytes \<Rightarrow> string" where
  "b64encode [] = []"
| "b64encode [a] =
     [b64char (unat a div 4), b64char (unat a mod 4 * 16), pad, pad]"
| "b64encode [a, b] =
     [b64char (unat a div 4), b64char (unat a mod 4 * 16 + unat b div 16),
      b64char (unat b mod 16 * 4), pad]"
| "b64encode (a # b # c # r) =
     [b64char (unat a div 4), b64char (unat a mod 4 * 16 + unat b div 16),
      b64char (unat b mod 16 * 4 + unat c div 64), b64char (unat c mod 64)] @ b64encode r"

definition byte1 :: "nat \<Rightarrow> nat \<Rightarrow> 8 word" where
  "byte1 p q = word_of_nat (p * 4 + q div 16)"

definition byte2 :: "nat \<Rightarrow> nat \<Rightarrow> 8 word" where
  "byte2 q r = word_of_nat (q mod 16 * 16 + r div 4)"

definition byte3 :: "nat \<Rightarrow> nat \<Rightarrow> 8 word" where
  "byte3 r s = word_of_nat (r mod 4 * 64 + s)"

fun b64decode :: "string \<Rightarrow> bytes option" where
  "b64decode [] = Some []"
| "b64decode (a # b # c # d # rest) =
     (case (b64val a, b64val b) of
        (Some p, Some q) \<Rightarrow>
          if rest = [] \<and> d = pad then
            (if c = pad then Some [byte1 p q]
             else (case b64val c of
                     Some r \<Rightarrow> Some [byte1 p q, byte2 q r]
                   | None \<Rightarrow> None))
          else
            (case (b64val c, b64val d, b64decode rest) of
               (Some r, Some s, Some bs) \<Rightarrow> Some (byte1 p q # byte2 q r # byte3 r s # bs)
             | _ \<Rightarrow> None)
      | _ \<Rightarrow> None)"
| "b64decode _ = None"

section \<open>Lemmas\<close>

lemma of_char_of_nat [simp]: "n < 256 \<Longrightarrow> (of_char (char_of n :: char) :: nat) = n"
  by (simp add: of_char_of take_bit_nat_def)

lemma b64val_b64char [simp]: "n < 64 \<Longrightarrow> b64val (b64char n) = Some n"
  by (auto simp: b64val_def b64char_def Let_def)

lemma b64val_pad [simp]: "b64val pad = None"
  by (simp add: b64val_def)

lemma b64char_not_pad [simp]: "n < 64 \<Longrightarrow> b64char n \<noteq> pad" "n < 64 \<Longrightarrow> pad \<noteq> b64char n"
  using b64val_b64char [of n] b64val_pad by (force simp del: b64val_b64char)+

lemma byte_bound [simp]: "unat (a :: 8 word) < 256"
  using unsigned_less [of a, where 'a = nat] by simp

lemma sextet_bounds [simp]:
  fixes a b :: "8 word"
  shows "unat a div 4 < 64" "unat a mod 4 * 16 < 64" "unat a mod 4 * 16 + unat b div 16 < 64"
    "unat a mod 16 * 4 < 64" "unat a mod 16 * 4 + unat b div 64 < 64" "unat a mod 64 < 64"
  using byte_bound [of a] byte_bound [of b] by (simp_all; linarith)+

lemma byte1_join [simp]:
  fixes a b :: "8 word"
  shows "byte1 (unat a div 4) (unat a mod 4 * 16 + unat b div 16) = a"
    "byte1 (unat a div 4) (unat a mod 4 * 16) = a"
proof -
  have "unat b div 16 < 16" using byte_bound [of b] by linarith
  then have "unat a div 4 * 4 + (unat a mod 4 * 16 + unat b div 16) div 16 = unat a" by simp
  then show "byte1 (unat a div 4) (unat a mod 4 * 16 + unat b div 16) = a"
    by (simp add: byte1_def)
  show "byte1 (unat a div 4) (unat a mod 4 * 16) = a" by (simp add: byte1_def)
qed

lemma byte2_join [simp]:
  fixes a b c :: "8 word"
  shows "byte2 (unat a mod 4 * 16 + unat b div 16) (unat b mod 16 * 4 + unat c div 64) = b"
    "byte2 (unat a mod 4 * 16 + unat b div 16) (unat b mod 16 * 4) = b"
proof -
  have "unat b div 16 < 16" "unat c div 64 < 4" using byte_bound [of b] byte_bound [of c] by linarith+
  then have "(unat a mod 4 * 16 + unat b div 16) mod 16 * 16 + (unat b mod 16 * 4 + unat c div 64) div 4
      = unat b"
    and "(unat a mod 4 * 16 + unat b div 16) mod 16 * 16 + (unat b mod 16 * 4) div 4 = unat b"
    by simp_all
  then show "byte2 (unat a mod 4 * 16 + unat b div 16) (unat b mod 16 * 4 + unat c div 64) = b"
    and "byte2 (unat a mod 4 * 16 + unat b div 16) (unat b mod 16 * 4) = b"
    by (simp_all add: byte2_def)
qed

lemma byte3_join [simp]:
  fixes b c :: "8 word"
  shows "byte3 (unat b mod 16 * 4 + unat c div 64) (unat c mod 64) = c"
proof -
  have "unat c div 64 < 4" using byte_bound [of c] by linarith
  then have "(unat b mod 16 * 4 + unat c div 64) mod 4 * 64 + unat c mod 64 = unat c" by simp
  then show ?thesis by (simp add: byte3_def)
qed

lemma b64_roundtrip [simp]: "b64decode (b64encode bs) = Some bs"
  by (induction bs rule: b64encode.induct) simp_all

lemma b64encode_Nil_iff [simp]: "b64encode bs = [] \<longleftrightarrow> bs = []"
  by (cases bs rule: b64encode.cases) auto

lemma encode_utf8_Nil_iff [simp]: "encode_utf8 s = [] \<longleftrightarrow> s = []"
  by (cases s) (auto simp: encode_utf8_def utf8_char_def Let_def)

end
