(* ===== verification/Dispatch.thy ===== *)
theory Dispatch
  imports Contracts Py_Bytes
begin

text \<open>
  \<^verbatim>\<open>cbrain/dispatch.py\<close>: \<open>PreparedDispatch\<close>, the exact outbound bytes and the dispatch document that
  a permit binds. \<open>wf_dispatch\<close> says that the object can exist.
\<close>

definition text_fields :: "string list" where
  "text_fields = [''transport'', ''destination'', ''operation'', ''wire_content_type'',
     ''wire_content_encoding'', ''tool_id'', ''credential_audience'', ''serialization'']"

definition digest_fields :: "string list" where
  "digest_fields = [''tool_schema_digest'', ''tool_artifact_digest'', ''idempotency_key_digest'',
     ''retry_policy_digest'']"

definition required_dispatch_fields :: "string list" where
  "required_dispatch_fields =
     [''transport'', ''destination'', ''operation'', ''wire_content_type'',
      ''wire_content_encoding'', ''tool_id'', ''tool_schema_digest'', ''tool_artifact_digest'',
      ''credential_audience'', ''idempotency_key_digest'', ''retry_policy_digest'', ''serialization'']"

record PreparedDispatch =
  pd_request_id :: string
  pd_dispatch_json :: stored
  pd_wire_bytes :: bytes
  pd_peer_identity_bytes :: bytes

definition digest_field :: "jobj \<Rightarrow> string \<Rightarrow> string option" where
  "digest_field d k = (case jget d k of
       Some (JStr s) \<Rightarrow> if sha256_text s then Some s else None
     | _ \<Rightarrow> None)"

definition validate_dispatch :: "jobj \<Rightarrow> unit res" where
  "validate_dispatch d =
     rbind (ensure (jkeys d = set required_dispatch_fields) ContractError) (\<lambda>_.
     rbind (rmapM (\<lambda>k. of_option ContractError (text_field d k)) text_fields) (\<lambda>_.
     rbind (rmapM (\<lambda>k. of_option ContractError (digest_field d k)) digest_fields) (\<lambda>_.
     Inr ())))"

definition dispatch_post_init :: "PreparedDispatch \<Rightarrow> PreparedDispatch res" where
  "dispatch_post_init p =
     rbind (ensure (nonblank (pd_request_id p)) ContractError) (\<lambda>_.
     rbind (ensure (pd_dispatch_json p \<noteq> NotBytes) ContractError) (\<lambda>_.
     rbind (restore_object (pd_dispatch_json p)) (\<lambda>dispatch.
     rbind (validate_dispatch dispatch) (\<lambda>_.
     rbind (ensure (pd_wire_bytes p \<noteq> []) ContractError) (\<lambda>_.
     rbind (ensure (pd_peer_identity_bytes p \<noteq> []) ContractError) (\<lambda>_.
     Inr p))))))"

definition wf_dispatch :: "PreparedDispatch \<Rightarrow> bool" where
  "wf_dispatch p = (dispatch_post_init p = Inr p)"

definition capture_dispatch :: "string \<Rightarrow> json \<Rightarrow> bytes \<Rightarrow> bytes \<Rightarrow> PreparedDispatch res" where
  "capture_dispatch request_id dispatch wire_bytes peer_identity_bytes =
     rbind (snapshot_object dispatch) (\<lambda>snapshot.
     dispatch_post_init
       \<lparr>pd_request_id = request_id, pd_dispatch_json = snapshot,
        pd_wire_bytes = wire_bytes, pd_peer_identity_bytes = peer_identity_bytes\<rparr>)"

definition pd_dispatch :: "PreparedDispatch \<Rightarrow> jobj res" where
  "pd_dispatch p = restore_object (pd_dispatch_json p)"

section \<open>Lemmas\<close>

lemma text_field_Some:
  "text_field d k = Some s \<longleftrightarrow> jget d k = Some (JStr s) \<and> nonblank s"
  by (auto simp: text_field_def split: option.splits json.splits if_splits)

lemma digest_field_Some:
  "digest_field d k = Some s \<longleftrightarrow> jget d k = Some (JStr s) \<and> sha256_text s"
  by (auto simp: digest_field_def split: option.splits json.splits if_splits)

lemma rmapM_of_option_iff:
  "(\<exists>ys. rmapM (\<lambda>k. of_option e (f k)) ks = Inr ys) \<longleftrightarrow> (\<forall>k\<in>set ks. f k \<noteq> None)"
  by (induction ks) (auto simp: res_simps)

lemma validate_dispatch_Inr:
  "validate_dispatch d = Inr u \<longleftrightarrow>
     jkeys d = set required_dispatch_fields \<and>
     (\<forall>k\<in>set text_fields. text_field d k \<noteq> None) \<and>
     (\<forall>k\<in>set digest_fields. digest_field d k \<noteq> None)"
  using rmapM_of_option_iff [of ContractError "text_field d" text_fields]
    rmapM_of_option_iff [of ContractError "digest_field d" digest_fields]
  by (auto simp: validate_dispatch_def res_simps)

lemma dispatch_post_init_Inr_iff: "dispatch_post_init p = Inr q \<longleftrightarrow> q = p \<and> wf_dispatch p"
  by (auto simp: wf_dispatch_def dispatch_post_init_def res_simps)

lemma wf_dispatch_iff:
  "wf_dispatch p \<longleftrightarrow> nonblank (pd_request_id p) \<and> pd_wire_bytes p \<noteq> [] \<and>
     pd_peer_identity_bytes p \<noteq> [] \<and>
     (\<exists>d. pd_dispatch_json p = Doc (JObj d) \<and> validate_dispatch d = Inr ())"
  by (auto simp: wf_dispatch_def dispatch_post_init_def res_simps)

lemma jget_canon_scalar:
  assumes "distinct (map fst d)"
  shows "jget (canon_obj d) k = Some (JStr s) \<longleftrightarrow> jget d k = Some (JStr s)"
proof -
  have "canon j = JStr s \<longleftrightarrow> j = JStr s" for j by (cases j) auto
  then show ?thesis by (auto simp: jget_canon [OF assms])
qed

lemma text_field_canon [simp]:
  assumes "distinct (map fst d)"
  shows "text_field (canon_obj d) k = text_field d k"
proof -
  have "text_field (canon_obj d) k = Some s \<longleftrightarrow> text_field d k = Some s" for s
    by (simp add: text_field_Some jget_canon_scalar [OF assms])
  then show ?thesis by (metis option.exhaust)
qed

lemma digest_field_canon [simp]:
  assumes "distinct (map fst d)"
  shows "digest_field (canon_obj d) k = digest_field d k"
proof -
  have "digest_field (canon_obj d) k = Some s \<longleftrightarrow> digest_field d k = Some s" for s
    by (simp add: digest_field_Some jget_canon_scalar [OF assms])
  then show ?thesis by (metis option.exhaust)
qed

lemma validate_dispatch_canon [simp]:
  "distinct (map fst d) \<Longrightarrow> validate_dispatch (canon_obj d) = validate_dispatch d"
  by (simp add: validate_dispatch_def)

lemma capture_dispatch_Inr:
  "capture_dispatch rid dj wire peer = Inr p \<longleftrightarrow>
     (\<exists>d. dj = JObj d \<and> valid_json dj \<and> wf_dispatch p \<and>
       p = \<lparr>pd_request_id = rid, pd_dispatch_json = Doc (JObj (canon_obj d)),
            pd_wire_bytes = wire, pd_peer_identity_bytes = peer\<rparr>)"
  by (auto simp: capture_dispatch_def res_simps dispatch_post_init_Inr_iff)

text \<open>Capturing what a prepared dispatch restores to gives the same prepared dispatch.\<close>

lemma recapture_dispatch:
  assumes "capture_dispatch rid (JObj d) wire peer = Inr p"
  shows "capture_dispatch (pd_request_id p) (JObj (canon_obj d)) (pd_wire_bytes p)
           (pd_peer_identity_bytes p) = Inr p"
  using assms valid_json_canon [of "JObj d"]
  by (auto simp: capture_dispatch_Inr canon_JObj simp del: valid_json_canon canon.simps)

end
