(* ===== verification/Consumption.thy ===== *)
theory Consumption
  imports Cbrain_Prelude
begin

text \<open>
  \<^verbatim>\<open>cbrain/consumption.py\<close>: the claim on an execution authorization and the PostgreSQL ledger that
  makes it single-use.

  The database is the table \<^verbatim>\<open>cbrain_execution_authorization_uses\<close> as a list of rows. The two SQL
  statements of the source are \<open>lookup_sql\<close> and \<open>claim_sql\<close>: the first selects on the primary key or
  the digest, the second inserts unless a row conflicts with the primary key
  \<^verbatim>\<open>(organisation_id, execution_authorization_id)\<close> or with the unique digest, after the table's
  checks. What the connection may do instead is a \<open>db_fault\<close>: it is an input of every call, so that
  the theorems hold for every way the database can fail, including a commit whose outcome is unknown.

  The locale \<open>single_use_store\<close> is the interface the claim coordinator and the sidecar rely on.
\<close>

section \<open>Authorization uses\<close>

record AuthorizationUse =
  au_organisation_id :: string
  au_execution_authorization_id :: string
  au_authorization_digest :: string
  au_request_id :: string
  au_claimed_at :: string

definition require_digest :: "exn \<Rightarrow> string \<Rightarrow> string res" where
  "require_digest err value =
     (let hexadecimal = removeprefix ''sha256:'' value in
      if \<not> starts_with ''sha256:'' value \<or> length hexadecimal \<noteq> 64 \<or>
         list_ex (\<lambda>c. \<not> is_hex_digit c) hexadecimal
      then Inl err else Inr value)"

definition use_post_init :: "AuthorizationUse \<Rightarrow> AuthorizationUse res" where
  "use_post_init u =
     rbind (rmapM (\<lambda>v. ensure (nonblank v) ValueError)
       [au_organisation_id u, au_execution_authorization_id u, au_request_id u, au_claimed_at u]) (\<lambda>_.
     rbind (require_digest ValueError (au_authorization_digest u)) (\<lambda>_. Inr u))"

section \<open>The PostgreSQL store\<close>

type_synonym uses_table = "AuthorizationUse list"

datatype db_fault =
    NoFault
  | ConnectFails
  | CursorFails exn
  | StatementFails
  | CommitFails bool
  | CloseFails exn

definition same_key :: "AuthorizationUse \<Rightarrow> AuthorizationUse \<Rightarrow> bool" where
  "same_key u v = (au_organisation_id u = au_organisation_id v \<and>
     au_execution_authorization_id u = au_execution_authorization_id v)"

definition conflicts :: "AuthorizationUse \<Rightarrow> AuthorizationUse \<Rightarrow> bool" where
  "conflicts u v = (same_key u v \<or> au_authorization_digest u = au_authorization_digest v)"

definition row_checks :: "AuthorizationUse \<Rightarrow> bool" where
  "row_checks u = (au_organisation_id u \<noteq> [] \<and> au_execution_authorization_id u \<noteq> [] \<and>
     sha256_text (au_authorization_digest u) \<and> au_request_id u \<noteq> [])"

definition lookup_sql :: "AuthorizationUse \<Rightarrow> uses_table \<Rightarrow> bool" where
  "lookup_sql u rows = list_ex (conflicts u) rows"

text \<open>\<open>None\<close>: the statement is refused by a check of the table. \<open>Some b\<close>: a row was returned or not.\<close>

definition claim_sql :: "AuthorizationUse \<Rightarrow> uses_table \<Rightarrow> (bool \<times> uses_table) option" where
  "claim_sql u rows =
     (if \<not> row_checks u then None
      else if list_ex (conflicts u) rows then Some (False, rows)
      else Some (True, rows @ [u]))"

definition is_consumed :: "db_fault \<Rightarrow> AuthorizationUse \<Rightarrow> uses_table \<Rightarrow> bool res \<times> uses_table" where
  "is_consumed fault u rows = (case fault of
       ConnectFails \<Rightarrow> (Inl AuthorizationConsumptionError, rows)
     | CursorFails e \<Rightarrow> (Inl e, rows)
     | StatementFails \<Rightarrow> (Inl AuthorizationConsumptionError, rows)
     | CommitFails _ \<Rightarrow> (Inl AuthorizationConsumptionError, rows)
     | CloseFails e \<Rightarrow> (Inl e, rows)
     | NoFault \<Rightarrow> (Inr (lookup_sql u rows), rows))"

definition claim_once :: "db_fault \<Rightarrow> AuthorizationUse \<Rightarrow> uses_table \<Rightarrow> bool res \<times> uses_table" where
  "claim_once fault u rows = (case fault of
       ConnectFails \<Rightarrow> (Inl AuthorizationConsumptionError, rows)
     | CursorFails e \<Rightarrow> (Inl e, rows)
     | StatementFails \<Rightarrow> (Inl AuthorizationConsumptionError, rows)
     | _ \<Rightarrow> (case claim_sql u rows of
           None \<Rightarrow> (Inl AuthorizationConsumptionError, rows)
         | Some (claimed, rows') \<Rightarrow> (case fault of
               CommitFails applied \<Rightarrow>
                 (Inl AuthorizationConsumptionError, if applied then rows' else rows)
             | CloseFails e \<Rightarrow> (Inl e, rows')
             | _ \<Rightarrow> (Inr claimed, rows'))))"

text \<open>Claims of several workers, in the order the database serialises them.\<close>

fun run_claims ::
  "('f \<Rightarrow> 'u \<Rightarrow> 's \<Rightarrow> bool res \<times> 's) \<Rightarrow> ('f \<times> 'u) list \<Rightarrow> 's \<Rightarrow> ('u \<times> bool res) list \<times> 's" where
  "run_claims claim [] s = ([], s)"
| "run_claims claim ((f, u) # cs) s =
     (case claim f u s of (r, s') \<Rightarrow>
        (case run_claims claim cs s' of (rs, s'') \<Rightarrow> ((u, r) # rs, s'')))"

definition wins :: "('u \<Rightarrow> bool) \<Rightarrow> ('u \<times> bool res) list \<Rightarrow> nat" where
  "wins p rs = length (filter (\<lambda>(u, r). p u \<and> r = Inr True) rs)"

definition table_inv :: "uses_table \<Rightarrow> bool" where
  "table_inv rows =
     (list_all row_checks rows \<and>
      distinct (map (\<lambda>u. (au_organisation_id u, au_execution_authorization_id u)) rows) \<and>
      distinct (map au_authorization_digest rows))"

section \<open>The interface of a single-use store\<close>

text \<open>
  \<open>single_use_claim\<close> is what makes a claim single-use: winning spends, and spending is for ever. A
  store adds that losing means spent.
\<close>

locale single_use_claim =
  fixes claim :: "'f \<Rightarrow> 'u \<Rightarrow> 's \<Rightarrow> bool res \<times> 's"
    and consumed :: "'u \<Rightarrow> 's \<Rightarrow> bool"
    and same :: "'u \<Rightarrow> 'u \<Rightarrow> bool"
    and inv :: "'s \<Rightarrow> bool"
  assumes claim_inv: "inv s \<Longrightarrow> claim f u s = (r, s') \<Longrightarrow> inv s'"
    and claim_success: "claim f u s = (Inr True, s') \<Longrightarrow> \<not> consumed u s"
    and claim_spends: "claim f u s = (Inr True, s') \<Longrightarrow> same v u \<Longrightarrow> consumed v s'"
    and consumed_mono: "claim f u s = (r, s') \<Longrightarrow> consumed v s \<Longrightarrow> consumed v s'"
begin

lemma run_claims_inv: "inv s \<Longrightarrow> inv (snd (run_claims claim cs s))"
proof (induction cs arbitrary: s)
  case (Cons c cs)
  obtain f u r s' where c: "c = (f, u)" and cl: "claim f u s = (r, s')" by (metis surj_pair)
  from Cons.IH [OF claim_inv [OF Cons.prems cl]] show ?case by (simp add: c cl split_def)
qed simp

lemma run_claims_mono: "consumed v s \<Longrightarrow> consumed v (snd (run_claims claim cs s))"
proof (induction cs arbitrary: s)
  case (Cons c cs)
  obtain f u r s' where c: "c = (f, u)" and cl: "claim f u s = (r, s')" by (metis surj_pair)
  from Cons.IH [OF consumed_mono [OF cl Cons.prems]] show ?case
    by (simp add: c cl split_def)
qed simp

text \<open>Once every use in a set is consumed, no claim on one of them wins.\<close>

lemma no_wins_when_consumed:
  assumes "\<And>v. p v \<Longrightarrow> consumed v s"
  shows "wins p (fst (run_claims claim cs s)) = 0"
  using assms
proof (induction cs arbitrary: s)
  case (Cons c cs)
  obtain f u where c: "c = (f, u)" by fastforce
  obtain r s' where cl: "claim f u s = (r, s')" by fastforce
  have "\<And>v. p v \<Longrightarrow> consumed v s'" using Cons.prems consumed_mono [OF cl] by blast
  then have "wins p (fst (run_claims claim cs s')) = 0" by (rule Cons.IH)
  moreover have "\<not> (p u \<and> r = Inr True)" using Cons.prems [of u] claim_success [of f u s s'] cl by auto
  ultimately show ?case by (auto simp: wins_def c cl split: prod.splits)
qed (simp add: wins_def)

lemma at_most_one_win:
  assumes "\<And>u v. p u \<Longrightarrow> p v \<Longrightarrow> same v u"
  shows "wins p (fst (run_claims claim cs s)) \<le> 1"
proof (induction cs arbitrary: s)
  case (Cons c cs)
  obtain f u where c: "c = (f, u)" by fastforce
  obtain r s' where cl: "claim f u s = (r, s')" by fastforce
  show ?case
  proof (cases "p u \<and> r = Inr True")
    case True
    then have "\<And>v. p v \<Longrightarrow> consumed v s'" using claim_spends [of f u s s'] cl assms by auto
    then have "wins p (fst (run_claims claim cs s')) = 0" by (rule no_wins_when_consumed)
    with True show ?thesis by (auto simp: wins_def c cl split: prod.splits)
  next
    case False
    with Cons [of s'] show ?thesis by (auto simp: wins_def c cl split: prod.splits)
  qed
qed (simp add: wins_def)

end

locale single_use_store = single_use_claim +
  assumes claim_refused: "claim f u s = (Inr False, s') \<Longrightarrow> consumed u s \<and> s' = s"
begin

text \<open>An answered claim says whether the use was still free, and leaves it consumed.\<close>

lemma claim_answer:
  assumes "claim f u s = (Inr b, s')" and "same u u"
  shows "b \<longleftrightarrow> \<not> consumed u s" and "consumed u s'"
  using assms claim_success [of f u s s'] claim_refused [of f u s s'] claim_spends [of f u s s' u]
  by (cases b; auto)+

end

section \<open>Lemmas and the interpretation\<close>

lemma require_digest_iff: "require_digest e v = (if sha256_text v then Inr v else Inl e)"
proof -
  have "length ''sha256:'' = 7" by simp
  then show ?thesis
    unfolding require_digest_def sha256_text_def removeprefix_def Let_def
    by (auto simp: list_ex_iff list_all_iff simp del: list.size)
qed

lemma use_post_init_Inr:
  "use_post_init u = Inr v \<longleftrightarrow> v = u \<and> nonblank (au_organisation_id u) \<and>
     nonblank (au_execution_authorization_id u) \<and> nonblank (au_request_id u) \<and>
     nonblank (au_claimed_at u) \<and> sha256_text (au_authorization_digest u)"
  by (auto simp: use_post_init_def res_simps require_digest_iff split: if_splits)

lemma use_post_init_checks: "use_post_init u = Inr v \<Longrightarrow> row_checks u"
  by (auto simp: use_post_init_Inr row_checks_def dest: nonblank_nonempty)

lemma conflicts_sym: "conflicts u v = conflicts v u"
  by (auto simp: conflicts_def same_key_def)

lemma conflicts_refl [simp]: "conflicts u u"
  by (simp add: conflicts_def)

lemma claim_sql_inv: "table_inv rows \<Longrightarrow> claim_sql u rows = Some (b, rows') \<Longrightarrow> table_inv rows'"
  by (auto simp: claim_sql_def table_inv_def conflicts_def same_key_def list_ex_iff split: if_splits)

lemma claim_sql_lookup: "claim_sql u rows = Some (b, rows') \<Longrightarrow> b \<longleftrightarrow> \<not> lookup_sql u rows"
  by (auto simp: claim_sql_def lookup_sql_def split: if_splits)

lemma claim_sql_rows:
  "claim_sql u rows = Some (b, rows') \<Longrightarrow> rows' = (if b then rows @ [u] else rows)"
  by (auto simp: claim_sql_def split: if_splits)

lemma claim_once_True:
  "claim_once f u rows = (Inr b, rows') \<longleftrightarrow> f = NoFault \<and> claim_sql u rows = Some (b, rows')"
  by (auto simp: claim_once_def split: db_fault.splits option.splits)

lemma claim_once_rows:
  assumes "claim_once f u rows = (r, rows')"
  shows "rows' = rows \<or> (\<exists>b. claim_sql u rows = Some (b, rows'))"
proof (cases "claim_sql u rows")
  case None
  with assms show ?thesis by (cases f) (simp_all add: claim_once_def)
next
  case (Some x)
  obtain b rows0 where x: "x = (b, rows0)" by (cases x)
  have "rows' = rows \<or> rows' = rows0"
    using assms Some x by (cases f) (auto simp: claim_once_def split: if_splits)
  with Some x show ?thesis by blast
qed

interpretation pg: single_use_store claim_once lookup_sql conflicts table_inv
proof unfold_locales
  fix s f u r s' v
  show "table_inv s'" if "table_inv s" "claim_once f u s = (r, s')"
    using claim_once_rows [OF that(2)] that(1) claim_sql_inv by blast
  show "\<not> lookup_sql u s" if "claim_once f u s = (Inr True, s')"
    using that by (auto simp: claim_once_True dest: claim_sql_lookup)
  show "lookup_sql v s'" if "claim_once f u s = (Inr True, s')" "conflicts v u"
    using that by (auto simp: claim_once_True lookup_sql_def dest: claim_sql_rows)
  show "lookup_sql u s \<and> s' = s" if "claim_once f u s = (Inr False, s')"
    using that by (auto simp: claim_once_True dest: claim_sql_lookup claim_sql_rows)
  show "lookup_sql v s'" if "claim_once f u s = (r, s')" "lookup_sql v s"
    using claim_once_rows [OF that(1)] that(2)
    by (auto simp: lookup_sql_def dest!: claim_sql_rows split: if_splits)
qed

section \<open>Properties\<close>

text \<open>
  C2: in any sequence of claims, in any order, by any workers, and whatever the database does to
  them (unreachable, a refused statement, a commit whose outcome is unknown), at most one claim on
  an execution authorization is ever told that it won; the table keeps its keys unique throughout.
\<close>

theorem authorization_claimed_at_most_once:
  assumes "table_inv rows"
  shows "wins (same_key u) (fst (run_claims claim_once cs rows)) \<le> 1 \<and>
    wins (\<lambda>v. au_authorization_digest v = au_authorization_digest u)
      (fst (run_claims claim_once cs rows)) \<le> 1 \<and>
    table_inv (snd (run_claims claim_once cs rows))"
proof (intro conjI)
  show "wins (same_key u) (fst (run_claims claim_once cs rows)) \<le> 1"
    by (rule pg.at_most_one_win) (auto simp: conflicts_def same_key_def)
  show "wins (\<lambda>v. au_authorization_digest v = au_authorization_digest u)
      (fst (run_claims claim_once cs rows)) \<le> 1"
    by (rule pg.at_most_one_win) (auto simp: conflicts_def)
  show "table_inv (snd (run_claims claim_once cs rows))"
    using assms by (rule pg.run_claims_inv)
qed

end
