(* ===== verification/PV_Execution.thy ===== *)
theory PV_Execution
  imports Dispatch Consumption
begin

text \<open>
  \<^verbatim>\<open>cbrain/adapters/privatevault_execution.py\<close>, \<^verbatim>\<open>privatevault_consumption.py\<close> and
  \<^verbatim>\<open>privatevault_claim.py\<close>: the binding a permit must match, the three evidence stages in strict order,
  and the coordinator that verifies and consumes one authorization.

  Agent DNA is not part of the repository: its three verifiers and its digest function are fields of
  \<open>AgentDNA\<close>, arbitrary functions of the evidence they are shown, which may raise. The consumption
  store is a pair of effects on a world; \<open>Consumption\<close> gives the PostgreSQL one.
\<close>

section \<open>The binding\<close>

record ExecutionAuthorizationBinding =
  eb_request_id :: string
  eb_prepared_dispatch :: PreparedDispatch
  eb_action_json :: stored
  eb_decision_receipt_digest :: string
  eb_authority_receipt_digest :: string
  eb_approval_artifact_digest :: "string option"
  eb_state_snapshot_digest :: string
  eb_policy_bundle_digest :: string
  eb_obligations_digest :: string
  eb_at_time :: string

definition require_digest_contract :: "string \<Rightarrow> string res" where
  "require_digest_contract value =
     (let hexadecimal = removeprefix ''sha256:'' value in
      if \<not> starts_with ''sha256:'' value \<or> length hexadecimal \<noteq> 64 \<or>
         list_ex (\<lambda>c. \<not> is_hex_digit c) hexadecimal
      then Inl ContractError else Inr value)"

definition binding_post_init :: "ExecutionAuthorizationBinding \<Rightarrow> ExecutionAuthorizationBinding res" where
  "binding_post_init b =
     rbind (ensure (eb_request_id b = pd_request_id (eb_prepared_dispatch b)) ContractError) (\<lambda>_.
     rbind (ensure (eb_action_json b \<noteq> NotBytes) ContractError) (\<lambda>_.
     rbind (restore_object (eb_action_json b)) (\<lambda>_.
     rbind (rmapM require_digest_contract
       [eb_decision_receipt_digest b, eb_authority_receipt_digest b, eb_state_snapshot_digest b,
        eb_policy_bundle_digest b, eb_obligations_digest b]) (\<lambda>_.
     rbind (case eb_approval_artifact_digest b of
              None \<Rightarrow> Inr [] | Some d \<Rightarrow> require_digest_contract d) (\<lambda>_.
     rbind (ensure (nonblank (eb_at_time b)) ContractError) (\<lambda>_.
     Inr b))))))"

definition wf_binding :: "ExecutionAuthorizationBinding \<Rightarrow> bool" where
  "wf_binding b = (binding_post_init b = Inr b)"

definition capture_authorization_binding ::
  "string \<Rightarrow> json \<Rightarrow> PreparedDispatch \<Rightarrow> string \<Rightarrow> string \<Rightarrow> string option \<Rightarrow> string \<Rightarrow> string \<Rightarrow> string \<Rightarrow>
   string \<Rightarrow> ExecutionAuthorizationBinding res" where
  "capture_authorization_binding request_id action prepared decision authority approval state policy
       obligations at_time =
     rbind (snapshot_object action) (\<lambda>action_json.
     binding_post_init
       \<lparr>eb_request_id = request_id, eb_prepared_dispatch = prepared, eb_action_json = action_json,
        eb_decision_receipt_digest = decision, eb_authority_receipt_digest = authority,
        eb_approval_artifact_digest = approval, eb_state_snapshot_digest = state,
        eb_policy_bundle_digest = policy, eb_obligations_digest = obligations,
        eb_at_time = at_time\<rparr>)"

definition eb_action :: "ExecutionAuthorizationBinding \<Rightarrow> jobj res" where
  "eb_action b = restore_object (eb_action_json b)"

section \<open>Agent DNA and its reports\<close>

text \<open>A report is what \<^verbatim>\<open>getattr\<close> finds on the object, with enumeration members as their values.\<close>

record report =
  rp_ok :: "json option"
  rp_evidence_state :: "json option"
  rp_decision_conformance :: "json option"
  rp_reason_code :: "json option"
  rp_accountable_principal :: "json option"

record AuthExpectation =
  ax_request_id :: string
  ax_action :: jobj
  ax_dispatch :: jobj
  ax_decision_receipt_digest :: string
  ax_authority_receipt_digest :: string
  ax_approval_artifact_digest :: "string option"
  ax_state_snapshot_digest :: string
  ax_policy_bundle_digest :: string
  ax_obligations_digest :: string
  ax_wire_bytes :: bytes
  ax_peer_identity_bytes :: bytes
  ax_at_time :: string
  ax_already_consumed :: bool

record DispatchObservation =
  ob_action :: jobj
  ob_dispatch :: jobj
  ob_wire_bytes :: bytes
  ob_peer_identity_bytes :: bytes

record AgentDNA =
  verify_execution_authorization :: "jobj \<Rightarrow> jobj option \<Rightarrow> AuthExpectation \<Rightarrow> report res"
  verify_dispatch_witness :: "jobj option \<Rightarrow> jobj \<Rightarrow> jobj \<Rightarrow> DispatchObservation \<Rightarrow> report res"
  verify_closure_chain :: "jobj \<Rightarrow> jobj \<Rightarrow> jobj option \<Rightarrow> jobj \<Rightarrow> bool \<Rightarrow> report res"
  execution_authorization_digest :: "jobj \<Rightarrow> json res"

record VerifiedEvidence =
  ve_stage :: string
  ve_accountable_principal :: "string option"
  ve_reason_code :: string

definition py_upper :: "string \<Rightarrow> string" where
  "py_upper s = map (\<lambda>c. let n = of_char c :: nat in
     if 97 \<le> n \<and> n \<le> 122 then char_of (n - 32) else c) s"

text \<open>
  \<^verbatim>\<open>_enum_label\<close>: the upper-cased text of a value. Only text and enumeration members print a label
  of interest; how any other value prints is none of the labels the code compares with, and
  \<open>render\<close> stands for it.
\<close>

definition enum_label :: "json option \<Rightarrow> string" where
  "enum_label v = (case v of
       None \<Rightarrow> ''UNKNOWN''
     | Some (JStr s) \<Rightarrow> py_upper s
     | Some (JOpaque s) \<Rightarrow> py_upper s
     | Some j \<Rightarrow> py_upper (render j))"

definition report_text :: "json option \<Rightarrow> string \<Rightarrow> string" where
  "report_text v fallback = (case v of Some (JStr s) \<Rightarrow> if s = [] then fallback else s | _ \<Rightarrow> fallback)"

definition accepted :: "report \<Rightarrow> bool" where
  "accepted rp = (rp_ok rp = Some (JBool True) \<and>
     enum_label (rp_evidence_state rp) = ''VERIFIED'' \<and>
     enum_label (rp_decision_conformance rp) = ''CONFORMANT'')"

definition require_accepted :: "string \<Rightarrow> report \<Rightarrow> VerifiedEvidence res" where
  "require_accepted stage rp =
     (let reason_code = report_text (rp_reason_code rp)
            (if accepted rp then ''ACCEPTED'' else ''MALFORMED_VERIFICATION_REPORT'') in
      rbind (ensure (accepted rp) PrivateVaultEvidenceRejected) (\<lambda>_.
      Inr \<lparr>ve_stage = stage,
           ve_accountable_principal = (case rp_accountable_principal rp of
              Some (JStr s) \<Rightarrow> if s = [] then None else Some s | _ \<Rightarrow> None),
           ve_reason_code = reason_code\<rparr>))"

text \<open>\<^verbatim>\<open>_invoke\<close>: whatever a verifier raises becomes one exception class.\<close>

definition invoke_verifier :: "report res \<Rightarrow> report res" where
  "invoke_verifier r = rescue PrivateVaultExecutionError r"

section \<open>The three stages\<close>

record VerifiedAuthorization =
  va_binding :: ExecutionAuthorizationBinding
  va_evidence :: VerifiedEvidence
  va_authorization_json :: stored
  va_trust_bundle_json :: stored

record VerifiedDispatch =
  vd_authorization :: VerifiedAuthorization
  vd_evidence :: VerifiedEvidence
  vd_witness_json :: stored

record VerifiedClosure =
  vc_dispatch :: VerifiedDispatch
  vc_evidence :: VerifiedEvidence
  vc_closure_json :: stored

text \<open>\<open>opt_snapshot v\<close> snapshots and restores an optional mapping.\<close>

definition opt_snapshot :: "json option \<Rightarrow> (stored \<times> jobj) option res" where
  "opt_snapshot v = (case v of
       None \<Rightarrow> Inr None
     | Some j \<Rightarrow> rbind (snapshot_object j) (\<lambda>s. rbind (restore_object s) (\<lambda>d. Inr (Some (s, d)))))"

definition auth_expectation ::
  "ExecutionAuthorizationBinding \<Rightarrow> jobj \<Rightarrow> jobj \<Rightarrow> bool \<Rightarrow> AuthExpectation" where
  "auth_expectation binding action dispatch already_consumed =
     (let prepared = eb_prepared_dispatch binding in
       \<lparr>ax_request_id = eb_request_id binding, ax_action = action, ax_dispatch = dispatch,
        ax_decision_receipt_digest = eb_decision_receipt_digest binding,
        ax_authority_receipt_digest = eb_authority_receipt_digest binding,
        ax_approval_artifact_digest = eb_approval_artifact_digest binding,
        ax_state_snapshot_digest = eb_state_snapshot_digest binding,
        ax_policy_bundle_digest = eb_policy_bundle_digest binding,
        ax_obligations_digest = eb_obligations_digest binding,
        ax_wire_bytes = pd_wire_bytes prepared,
        ax_peer_identity_bytes = pd_peer_identity_bytes prepared,
        ax_at_time = eb_at_time binding,
        ax_already_consumed = already_consumed\<rparr>)"

definition dispatch_observation ::
  "ExecutionAuthorizationBinding \<Rightarrow> jobj \<Rightarrow> jobj \<Rightarrow> DispatchObservation" where
  "dispatch_observation binding action dispatch =
     \<lparr>ob_action = action, ob_dispatch = dispatch,
      ob_wire_bytes = pd_wire_bytes (eb_prepared_dispatch binding),
      ob_peer_identity_bytes = pd_peer_identity_bytes (eb_prepared_dispatch binding)\<rparr>"

definition verify_authorization ::
  "AgentDNA \<Rightarrow> json \<Rightarrow> json option \<Rightarrow> ExecutionAuthorizationBinding \<Rightarrow> bool \<Rightarrow> VerifiedAuthorization res" where
  "verify_authorization dna authorization trust_bundle binding already_consumed =
     rbind (snapshot_object authorization) (\<lambda>authorization_json.
     rbind (restore_object authorization_json) (\<lambda>authorization_document.
     rbind (opt_snapshot trust_bundle) (\<lambda>tb.
     let prepared = eb_prepared_dispatch binding in
     rbind (eb_action binding) (\<lambda>action.
     rbind (pd_dispatch prepared) (\<lambda>dispatch.
     rbind (invoke_verifier (verify_execution_authorization dna authorization_document (map_option snd tb)
       (auth_expectation binding action dispatch already_consumed))) (\<lambda>report.
     rbind (require_accepted ''authorization'' report) (\<lambda>evidence.
     rbind (of_option PrivateVaultEvidenceRejected tb) (\<lambda>tb'.
     Inr \<lparr>va_binding = binding, va_evidence = evidence,
          va_authorization_json = authorization_json, va_trust_bundle_json = fst tb'\<rparr>))))))))"

definition verify_dispatch ::
  "AgentDNA \<Rightarrow> VerifiedAuthorization \<Rightarrow> json option \<Rightarrow> VerifiedDispatch res" where
  "verify_dispatch dna va witness =
     rbind (opt_snapshot witness) (\<lambda>wt.
     let binding = va_binding va; prepared = eb_prepared_dispatch binding in
     rbind (restore_object (va_authorization_json va)) (\<lambda>authorization.
     rbind (restore_object (va_trust_bundle_json va)) (\<lambda>trust_bundle.
     rbind (eb_action binding) (\<lambda>action.
     rbind (pd_dispatch prepared) (\<lambda>dispatch.
     rbind (invoke_verifier (verify_dispatch_witness dna (map_option snd wt) authorization trust_bundle
       (dispatch_observation binding action dispatch))) (\<lambda>report.
     rbind (require_accepted ''dispatch'' report) (\<lambda>evidence.
     rbind (of_option PrivateVaultEvidenceRejected wt) (\<lambda>wt'.
     Inr \<lparr>vd_authorization = va, vd_evidence = evidence, vd_witness_json = fst wt'\<rparr>))))))))"

definition verify_closure ::
  "AgentDNA \<Rightarrow> VerifiedDispatch \<Rightarrow> json option \<Rightarrow> VerifiedClosure res" where
  "verify_closure dna vd closure =
     rbind (opt_snapshot closure) (\<lambda>cl.
     let va = vd_authorization vd in
     rbind (restore_object (va_authorization_json va)) (\<lambda>authorization.
     rbind (restore_object (vd_witness_json vd)) (\<lambda>witness.
     rbind (restore_object (va_trust_bundle_json va)) (\<lambda>trust_bundle.
     rbind (invoke_verifier (verify_closure_chain dna authorization witness (map_option snd cl)
       trust_bundle True)) (\<lambda>report.
     rbind (require_accepted ''closure'' report) (\<lambda>evidence.
     rbind (of_option PrivateVaultEvidenceRejected cl) (\<lambda>cl'.
     Inr \<lparr>vc_dispatch = vd, vc_evidence = evidence, vc_closure_json = fst cl'\<rparr>)))))))"

section \<open>Claims\<close>

definition create_candidate ::
  "AgentDNA \<Rightarrow> jobj \<Rightarrow> ExecutionAuthorizationBinding \<Rightarrow> string \<Rightarrow> AuthorizationUse res" where
  "create_candidate dna authorization binding claimed_at =
     rbind (of_option PrivateVaultExecutionError (text_field authorization ''organisation_id'')) (\<lambda>org.
     rbind (of_option PrivateVaultExecutionError
              (text_field authorization ''execution_authorization_id'')) (\<lambda>aid.
     rbind (of_option PrivateVaultExecutionError (text_field authorization ''request_id'')) (\<lambda>rid.
     rbind (ensure (rid = eb_request_id binding) PrivateVaultExecutionError) (\<lambda>_.
     rbind (rescue PrivateVaultExecutionError (execution_authorization_digest dna authorization)) (\<lambda>digest.
     rbind (case digest of JStr s \<Rightarrow> Inr s | _ \<Rightarrow> Inl PrivateVaultExecutionError) (\<lambda>digest_text.
     rescue PrivateVaultExecutionError (use_post_init
       \<lparr>au_organisation_id = org, au_execution_authorization_id = aid,
        au_authorization_digest = digest_text, au_request_id = eb_request_id binding,
        au_claimed_at = claimed_at\<rparr>)))))))"

definition create_use ::
  "AgentDNA \<Rightarrow> VerifiedAuthorization \<Rightarrow> string \<Rightarrow> AuthorizationUse res" where
  "create_use dna va claimed_at =
     rbind (restore_object (va_authorization_json va)) (\<lambda>authorization.
     create_candidate dna authorization (va_binding va) claimed_at)"

record 'w ConsumptionStore =
  cs_is_consumed :: "AuthorizationUse \<Rightarrow> ('w, bool) eff"
  cs_claim_once :: "AuthorizationUse \<Rightarrow> ('w, bool) eff"

definition verify_and_claim ::
  "AgentDNA \<Rightarrow> 'w ConsumptionStore \<Rightarrow> json \<Rightarrow> json option \<Rightarrow> ExecutionAuthorizationBinding \<Rightarrow>
   string option \<Rightarrow> ('w, VerifiedAuthorization) eff" where
  "verify_and_claim dna store authorization trust_bundle binding0 claimed_at =
     (let claim_time = (case claimed_at of None \<Rightarrow> eb_at_time binding0 | Some t \<Rightarrow> t) in
      ebind (eret (ensure (nonblank claim_time) PrivateVaultExecutionError)) (\<lambda>_.
      ebind (eret (binding_post_init (binding0\<lparr>eb_at_time := claim_time\<rparr>))) (\<lambda>binding.
      ebind (eret (rbind (snapshot_object authorization) restore_object)) (\<lambda>authorization_document.
      ebind (eret (create_candidate dna authorization_document binding claim_time)) (\<lambda>candidate.
      ebind (cs_is_consumed store candidate) (\<lambda>already_consumed.
      ebind (eret (verify_authorization dna (JObj authorization_document) trust_bundle binding
                     already_consumed)) (\<lambda>verified.
      ebind (eret (ensure (\<not> already_consumed) PrivateVaultEvidenceRejected)) (\<lambda>_.
      ebind (eret (create_use dna verified claim_time)) (\<lambda>verified_use.
      ebind (eret (ensure (verified_use = candidate) PrivateVaultExecutionError)) (\<lambda>_.
      ebind (cs_claim_once store verified_use) (\<lambda>won.
      ebind (eret (ensure won PrivateVaultEvidenceRejected)) (\<lambda>_.
      eret (Inr verified)))))))))))))"

section \<open>Lemmas\<close>

lemma require_digest_contract_eq: "require_digest_contract v = require_digest ContractError v"
  by (simp add: require_digest_contract_def require_digest_def)

lemma binding_post_init_Inr_iff: "binding_post_init b = Inr c \<longleftrightarrow> c = b \<and> wf_binding b"
  by (auto simp: wf_binding_def binding_post_init_def rbind_Inr_iff)

lemma wf_binding_iff:
  "wf_binding b \<longleftrightarrow> eb_request_id b = pd_request_id (eb_prepared_dispatch b) \<and>
     (\<exists>d. eb_action_json b = Doc (JObj d)) \<and>
     sha256_text (eb_decision_receipt_digest b) \<and> sha256_text (eb_authority_receipt_digest b) \<and>
     sha256_text (eb_state_snapshot_digest b) \<and> sha256_text (eb_policy_bundle_digest b) \<and>
     sha256_text (eb_obligations_digest b) \<and>
     (\<forall>d. eb_approval_artifact_digest b = Some d \<longrightarrow> sha256_text d) \<and> nonblank (eb_at_time b)"
  by (auto simp: wf_binding_def binding_post_init_def rbind_Inr_iff ensure_Inr restore_object_Inr
      require_digest_contract_eq require_digest_iff split: if_splits option.splits)

lemma require_accepted_Inr: "require_accepted st rp = Inr e \<Longrightarrow> accepted rp \<and> ve_stage e = st"
  by (auto simp: require_accepted_def Let_def rbind_Inr_iff ensure_Inr)

lemma opt_snapshot_Inr:
  "opt_snapshot v = Inr x \<Longrightarrow>
     (v = None \<and> x = None) \<or>
     (\<exists>d. v = Some (JObj d) \<and> valid_json (JObj d) \<and> x = Some (Doc (JObj (canon_obj d)), canon_obj d))"
  by (auto simp: opt_snapshot_def rbind_Inr_iff snapshot_object_Inr restore_object_Inr
      simp del: valid_json.simps split: option.splits)

lemma verify_authorization_Inr:
  assumes "verify_authorization dna auth tb b consumed = Inr va"
  obtains d t action dispatch rp where "auth = JObj d" "tb = Some (JObj t)"
    "eb_action b = Inr action" "pd_dispatch (eb_prepared_dispatch b) = Inr dispatch"
    "verify_execution_authorization dna (canon_obj d) (Some (canon_obj t))
       (auth_expectation b action dispatch consumed) = Inr rp"
    "accepted rp" "va_binding va = b"
    "va_authorization_json va = Doc (JObj (canon_obj d))"
    "va_trust_bundle_json va = Doc (JObj (canon_obj t))"
proof -
  from assms obtain d x action dispatch rp ev where
    a: "auth = JObj d" "opt_snapshot tb = Inr (Some x)" "eb_action b = Inr action"
    "pd_dispatch (eb_prepared_dispatch b) = Inr dispatch"
    and rp: "verify_execution_authorization dna (canon_obj d) (Some (snd x))
       (auth_expectation b action dispatch consumed) = Inr rp"
    and ev: "require_accepted ''authorization'' rp = Inr ev"
    and va: "va_binding va = b" "va_authorization_json va = Doc (JObj (canon_obj d))"
      "va_trust_bundle_json va = fst x"
    unfolding verify_authorization_def Let_def rbind_Inr_iff snapshot_object_Inr restore_object_Inr
      invoke_verifier_def rescue_Inr of_option_Inr
    by fastforce
  from opt_snapshot_Inr [OF a(2)] obtain t where "tb = Some (JObj t)"
    "x = (Doc (JObj (canon_obj t)), canon_obj t)" by auto
  with a rp va require_accepted_Inr [OF ev] show thesis by (intro that) auto
qed

lemma verify_dispatch_Inr:
  assumes "verify_dispatch dna va wt = Inr vd"
    and "va_authorization_json va = Doc (JObj au)" "va_trust_bundle_json va = Doc (JObj t)"
  obtains w action dispatch rp where "wt = Some (JObj w)" "eb_action (va_binding va) = Inr action"
    "pd_dispatch (eb_prepared_dispatch (va_binding va)) = Inr dispatch"
    "verify_dispatch_witness dna (Some (canon_obj w)) au t
       (dispatch_observation (va_binding va) action dispatch) = Inr rp"
    "accepted rp" "vd_authorization vd = va" "vd_witness_json vd = Doc (JObj (canon_obj w))"
proof -
  from assms obtain x action dispatch rp ev where
    a: "opt_snapshot wt = Inr (Some x)" "eb_action (va_binding va) = Inr action"
    "pd_dispatch (eb_prepared_dispatch (va_binding va)) = Inr dispatch"
    and rp: "verify_dispatch_witness dna (Some (snd x)) au t
       (dispatch_observation (va_binding va) action dispatch) = Inr rp"
    and ev: "require_accepted ''dispatch'' rp = Inr ev"
    and vd: "vd_authorization vd = va" "vd_witness_json vd = fst x"
    unfolding verify_dispatch_def Let_def rbind_Inr_iff restore_object_Inr
      invoke_verifier_def rescue_Inr of_option_Inr
    by fastforce
  from opt_snapshot_Inr [OF a(1)] obtain w where "wt = Some (JObj w)"
    "x = (Doc (JObj (canon_obj w)), canon_obj w)" by auto
  with a rp vd require_accepted_Inr [OF ev] show thesis by (intro that) auto
qed

lemma verify_closure_Inr:
  assumes "verify_closure dna vd cl = Inr vc"
    and "va_authorization_json (vd_authorization vd) = Doc (JObj au)"
    and "va_trust_bundle_json (vd_authorization vd) = Doc (JObj t)"
    and "vd_witness_json vd = Doc (JObj w)"
  obtains c rp where "cl = Some (JObj c)"
    "verify_closure_chain dna au w (Some (canon_obj c)) t True = Inr rp" "accepted rp"
proof -
  from assms obtain x rp ev where a: "opt_snapshot cl = Inr (Some x)"
    and rp: "verify_closure_chain dna au w (Some (snd x)) t True = Inr rp"
    and ev: "require_accepted ''closure'' rp = Inr ev"
    unfolding verify_closure_def Let_def rbind_Inr_iff restore_object_Inr
      invoke_verifier_def rescue_Inr of_option_Inr
    by fastforce
  from opt_snapshot_Inr [OF a] obtain c where "cl = Some (JObj c)"
    "x = (Doc (JObj (canon_obj c)), canon_obj c)" by auto
  with rp require_accepted_Inr [OF ev] show thesis by (intro that) auto
qed

text \<open>
  \<open>evidence_chain\<close>: Agent DNA accepted the authorization for exactly this binding, the witness of
  the bytes and the peer the binding prepared, and the closure of that chain with an independent
  witness required.
\<close>

definition evidence_chain ::
  "AgentDNA \<Rightarrow> ExecutionAuthorizationBinding \<Rightarrow> jobj \<Rightarrow> jobj \<Rightarrow> jobj \<Rightarrow> jobj \<Rightarrow> bool" where
  "evidence_chain dna b authorization trust_bundle witness closure =
     (\<exists>action dispatch rp1 rp2 rp3.
        eb_action b = Inr action \<and> pd_dispatch (eb_prepared_dispatch b) = Inr dispatch \<and>
        verify_execution_authorization dna authorization (Some trust_bundle)
          (auth_expectation b action dispatch False) = Inr rp1 \<and> accepted rp1 \<and>
        verify_dispatch_witness dna (Some witness) authorization trust_bundle
          (dispatch_observation b action dispatch) = Inr rp2 \<and> accepted rp2 \<and>
        verify_closure_chain dna authorization witness (Some closure) trust_bundle True = Inr rp3 \<and>
        accepted rp3)"

lemma verified_stages_chain:
  assumes "verify_authorization dna auth tb b False = Inr va"
    and "verify_dispatch dna va wt = Inr vd" and "verify_closure dna vd cl = Inr vc"
  shows "\<exists>d t w c. auth = JObj d \<and> tb = Some (JObj t) \<and> wt = Some (JObj w) \<and> cl = Some (JObj c) \<and>
    evidence_chain dna b (canon_obj d) (canon_obj t) (canon_obj w) (canon_obj c)"
proof -
  obtain d t action dispatch rp1 where A: "auth = JObj d" "tb = Some (JObj t)"
    "eb_action b = Inr action" "pd_dispatch (eb_prepared_dispatch b) = Inr dispatch"
    "verify_execution_authorization dna (canon_obj d) (Some (canon_obj t))
       (auth_expectation b action dispatch False) = Inr rp1" "accepted rp1"
    and va: "va_binding va = b" "va_authorization_json va = Doc (JObj (canon_obj d))"
      "va_trust_bundle_json va = Doc (JObj (canon_obj t))"
    by (rule verify_authorization_Inr [OF assms(1)])
  obtain w rp2 where W: "wt = Some (JObj w)" "verify_dispatch_witness dna (Some (canon_obj w))
      (canon_obj d) (canon_obj t) (dispatch_observation b action dispatch) = Inr rp2" "accepted rp2"
    and vd: "vd_authorization vd = va" "vd_witness_json vd = Doc (JObj (canon_obj w))"
    by (rule verify_dispatch_Inr [OF assms(2) va(2,3)]) (use va(1) A(3,4) in auto)
  obtain c rp3 where C: "cl = Some (JObj c)" "verify_closure_chain dna (canon_obj d) (canon_obj w)
      (Some (canon_obj c)) (canon_obj t) True = Inr rp3" "accepted rp3"
    by (rule verify_closure_Inr [OF assms(3), unfolded vd(1), OF va(2,3) vd(2)])
  have "evidence_chain dna b (canon_obj d) (canon_obj t) (canon_obj w) (canon_obj c)"
    unfolding evidence_chain_def by (intro exI conjI) (rule A W C)+
  with A W C show ?thesis by simp
qed

lemma create_candidate_Inr:
  assumes "create_candidate dna d b t = Inr u"
  shows "use_post_init u = Inr u \<and> au_request_id u = eb_request_id b \<and> au_claimed_at u = t \<and>
    text_field d ''organisation_id'' = Some (au_organisation_id u) \<and>
    text_field d ''execution_authorization_id'' = Some (au_execution_authorization_id u) \<and>
    text_field d ''request_id'' = Some (eb_request_id b) \<and>
    execution_authorization_digest dna d = Inr (JStr (au_authorization_digest u))"
proof -
  have str: "(case j of JStr s \<Rightarrow> Inr s | _ \<Rightarrow> Inl PrivateVaultExecutionError) = Inr s \<longleftrightarrow> j = JStr s"
    for j s by (cases j) auto
  from assms obtain org aid dg where
    f: "text_field d ''organisation_id'' = Some org"
      "text_field d ''execution_authorization_id'' = Some aid"
      "text_field d ''request_id'' = Some (eb_request_id b)"
      "execution_authorization_digest dna d = Inr (JStr dg)"
    and u: "use_post_init \<lparr>au_organisation_id = org, au_execution_authorization_id = aid,
        au_authorization_digest = dg, au_request_id = eb_request_id b, au_claimed_at = t\<rparr> = Inr u"
    unfolding create_candidate_def rbind_Inr_iff of_option_Inr ensure_Inr rescue_Inr str
    by auto
  have "u = \<lparr>au_organisation_id = org, au_execution_authorization_id = aid,
        au_authorization_digest = dg, au_request_id = eb_request_id b, au_claimed_at = t\<rparr>"
    using u by (simp add: use_post_init_Inr)
  with f u show ?thesis by simp
qed

text \<open>What the coordinator's success means, over one choice of the candidate and the clock.\<close>

lemma verify_and_claim_Inr:
  assumes "verify_and_claim dna store auth tb b (Some now) w = (Inr va, w')"
  obtains d u w1 where "auth = JObj d"
    and "create_candidate dna (canon_obj d) (b\<lparr>eb_at_time := now\<rparr>) now = Inr u"
    and "cs_is_consumed store u w = (Inr False, w1)"
    and "verify_authorization dna (JObj (canon_obj d)) tb (b\<lparr>eb_at_time := now\<rparr>) False = Inr va"
    and "cs_claim_once store u w1 = (Inr True, w')"
  using assms
  unfolding verify_and_claim_def Let_def ebind_Inr eret_Inr rbind_Inr_iff snapshot_object_Inr
    restore_object_Inr ensure_Inr binding_post_init_Inr_iff option.case
  by auto

lemma verified_binding: "verify_authorization dna auth tb b c = Inr va \<Longrightarrow> va_binding va = b"
  by (rule verify_authorization_Inr) auto

lemma claimed_authorization:
  assumes "verify_and_claim dna store auth tb b (Some now) w = (Inr va, w')"
  shows "\<exists>d. auth = JObj d \<and> va_binding va = b\<lparr>eb_at_time := now\<rparr> \<and>
    verify_authorization dna (JObj (canon_obj d)) tb (va_binding va) False = Inr va"
proof (rule verify_and_claim_Inr [OF assms])
  fix d u w1
  assume "auth = JObj d"
    and v: "verify_authorization dna (JObj (canon_obj d)) tb (b\<lparr>eb_at_time := now\<rparr>) False = Inr va"
  with verified_binding [OF v] show ?thesis by simp
qed

section \<open>Properties\<close>


end
