(* ===== verification/Interaction.thy ===== *)
theory Interaction
  imports Py_Json
begin

text \<open>
  Programs that act on a world and may call a handler they were given.

  A gateway receives the handler as a callable and may call it any number of times, at any point,
  catch what it raises, and talk to other services before and after. A program is therefore a tree:
  it returns, raises, acts on the world, or invokes the handler and continues with what the call
  gave. Every property of the runtime that is proved for all programs holds for every gateway.

  \<open>run_prog\<close> runs a program against a handler. Its state is the number of times the wrapper around
  the handler was entered, the list of calls that reached the handler itself, and the world.
\<close>

datatype (dead 'w, 'r) prog =
    Done 'r
  | Raise exn
  | Act "'w \<Rightarrow> 'w \<times> ('w, 'r) prog"
  | Invoke json "json res \<Rightarrow> ('w, 'r) prog"

type_synonym 'w handler = "json \<Rightarrow> ('w, json) eff"

text \<open>A call of a service: it may change the world and it may raise.\<close>

definition service :: "('w, 'r) eff \<Rightarrow> ('w, 'r) prog" where
  "service e = Act (\<lambda>w. case e w of
       (Inl x, w') \<Rightarrow> (w', Raise x)
     | (Inr a, w') \<Rightarrow> (w', Done a))"

definition of_res :: "'r res \<Rightarrow> ('w, 'r) prog" where
  "of_res r = (case r of Inl e \<Rightarrow> Raise e | Inr a \<Rightarrow> Done a)"

primrec pbind :: "('w, 'a) prog \<Rightarrow> ('a \<Rightarrow> ('w, 'b) prog) \<Rightarrow> ('w, 'b) prog" where
  "pbind (Done r) k = k r"
| "pbind (Raise e) k = Raise e"
| "pbind (Act f) k = Act (map_prod id (\<lambda>p. pbind p k) \<circ> f)"
| "pbind (Invoke a g) k = Invoke a ((\<lambda>p. pbind p k) \<circ> g)"

text \<open>
  \<open>attempt b p\<close> is the \<^verbatim>\<open>try\<close> block around \<open>p\<close> together with the flag that the handler was
  entered: the flag starts as \<open>b\<close>, every call sets it, and both ways out are values.
\<close>

primrec attempt :: "('w, 'a) prog \<Rightarrow> bool \<Rightarrow> ('w, bool \<times> 'a res) prog" where
  "attempt (Done r) = (\<lambda>b. Done (b, Inr r))"
| "attempt (Raise e) = (\<lambda>b. Done (b, Inl e))"
| "attempt (Act f) = (\<lambda>b. Act (map_prod id (\<lambda>q. q b) \<circ> (map_prod id attempt \<circ> f)))"
| "attempt (Invoke a g) = (\<lambda>b. Invoke a (\<lambda>o'. (attempt \<circ> g) o' True))"

record 'w run_state =
  entries :: nat
  calls :: "json list"
  world :: 'w

text \<open>
  \<^verbatim>\<open>GovernedRuntime.execute\<close>'s wrapper \<^verbatim>\<open>invoke_once\<close>: it counts the entry and refuses every one
  after the first before the handler is reached.
\<close>

definition invoke_once :: "'w handler \<Rightarrow> json \<Rightarrow> 'w run_state \<Rightarrow> json res \<times> 'w run_state" where
  "invoke_once h a s =
     (let s' = s\<lparr>entries := entries s + 1\<rparr> in
      if entries s' > 1 then (Inl RuntimeError, s')
      else (case h a (world s') of (r, w') \<Rightarrow>
              (r, s'\<lparr>calls := calls s' @ [a], world := w'\<rparr>)))"

primrec run_prog :: "'w handler \<Rightarrow> ('w, 'r) prog \<Rightarrow> 'w run_state \<Rightarrow> 'r res \<times> 'w run_state" where
  "run_prog h (Done r) = (\<lambda>s. (Inr r, s))"
| "run_prog h (Raise e) = (\<lambda>s. (Inl e, s))"
| "run_prog h (Act f) = (\<lambda>s. case map_prod id (run_prog h) (f (world s)) of
       (w', k) \<Rightarrow> k (s\<lparr>world := w'\<rparr>))"
| "run_prog h (Invoke a g) = (\<lambda>s. case invoke_once h a s of
       (r, s') \<Rightarrow> (run_prog h \<circ> g) r s')"

definition start :: "'w \<Rightarrow> 'w run_state" where
  "start w = \<lparr>entries = 0, calls = [], world = w\<rparr>"

text \<open>No leaf of the program is reached by a call of the handler.\<close>

primrec handler_free :: "('w, 'r) prog \<Rightarrow> bool" where
  "handler_free (Done r) = True"
| "handler_free (Raise e) = True"
| "handler_free (Act f) = (\<forall>w. snd ((map_prod id handler_free \<circ> f) w))"
| "handler_free (Invoke a g) = False"

section \<open>Lemmas\<close>

lemma run_service:
  "run_prog h (service e) s = (case e (world s) of (r, w') \<Rightarrow> (r, s\<lparr>world := w'\<rparr>))"
  by (auto simp: service_def split: prod.splits sum.splits)

lemma run_of_res [simp]: "run_prog h (of_res r) s = (r, s)"
  by (cases r) (auto simp: of_res_def)

lemma run_pbind:
  "run_prog h (pbind p k) s =
     (case run_prog h p s of
        (Inl e, s') \<Rightarrow> (Inl e, s')
      | (Inr a, s') \<Rightarrow> run_prog h (k a) s')"
proof (induction p arbitrary: s)
  case (Act f)
  have "snd (f (world s)) \<in> Basic_BNFs.snds (f (world s))" by (cases "f (world s)") auto
  then show ?case
    using Act [of "f (world s)" "snd (f (world s))"] by (auto split: prod.splits simp: map_prod_def split_def)
next
  case (Invoke a g)
  then show ?case by (auto split: prod.splits)
qed auto

text \<open>The flag \<open>attempt\<close> computes is exactly that the wrapper was entered while \<open>p\<close> ran.\<close>

lemma run_attempt:
  "run_prog h (attempt p b) s =
     (case run_prog h p s of (r, s') \<Rightarrow> (Inr (b \<or> entries s < entries s', r), s')) \<and>
   entries s \<le> entries (snd (run_prog h p s))"
proof (induction p arbitrary: s b)
  case (Act f)
  have "snd (f (world s)) \<in> Basic_BNFs.snds (f (world s))" by (cases "f (world s)") auto
  then show ?case
    using Act [of "f (world s)" "snd (f (world s))" b "s\<lparr>world := fst (f (world s))\<rparr>"]
    by (auto split: prod.splits simp: map_prod_def split_def)
next
  case (Invoke a g)
  obtain r s' where i: "invoke_once h a s = (r, s')" by fastforce
  then have e: "entries s' = entries s + 1"
    by (auto simp: invoke_once_def Let_def split: if_splits prod.splits)
  show ?case using Invoke [of "g r" True s'] i e by (auto split: prod.splits)
qed auto

lemmas run_attempt_eq = run_attempt [THEN conjunct1]
lemmas entries_mono = run_attempt [THEN conjunct2]

text \<open>
  The invariant of every run: the calls that reach the handler are the first entry only, and none
  is forgotten.
\<close>

definition entry_inv :: "'w run_state \<Rightarrow> bool" where
  "entry_inv s = (length (calls s) = min 1 (entries s))"

lemma entry_inv_start [simp]: "entry_inv (start w)"
  by (simp add: entry_inv_def start_def)

lemma start_simps [simp]: "entries (start w) = 0" "calls (start w) = []" "world (start w) = w"
  by (simp_all add: start_def)

lemma entry_inv_invoke: "entry_inv s \<Longrightarrow> invoke_once h a s = (r, s') \<Longrightarrow> entry_inv s'"
  by (auto simp: entry_inv_def invoke_once_def Let_def split: if_splits prod.splits)

lemma entry_inv_run: "entry_inv s \<Longrightarrow> run_prog h p s = (r, s') \<Longrightarrow> entry_inv s'"
proof (induction p arbitrary: s r s')
  case (Act f)
  have "snd (f (world s)) \<in> Basic_BNFs.snds (f (world s))" by (cases "f (world s)") auto
  moreover have "entry_inv (s\<lparr>world := fst (f (world s))\<rparr>)"
    using Act.prems(1) by (simp add: entry_inv_def)
  ultimately show ?case using Act.IH [of "f (world s)" "snd (f (world s))"] Act.prems(2)
    by (auto simp: map_prod_def split_def)
next
  case (Invoke a g)
  obtain r0 s0 where i: "invoke_once h a s = (r0, s0)" by fastforce
  with Invoke.prems have "entry_inv s0" by (auto intro: entry_inv_invoke)
  with Invoke.IH [of "g r0"] Invoke.prems(2) i show ?case by auto
qed auto

lemma handler_free_run:
  "handler_free p \<Longrightarrow> run_prog h p s = (r, s') \<Longrightarrow> entries s' = entries s \<and> calls s' = calls s"
proof (induction p arbitrary: s r s')
  case (Act f)
  have m: "snd (f (world s)) \<in> Basic_BNFs.snds (f (world s))" by (cases "f (world s)") auto
  have "handler_free (snd (f (world s)))" using Act.prems(1)
    by (auto simp: map_prod_def split_def)
  with Act.IH [OF _ m] Act.prems(2) show ?case
    by (auto simp: map_prod_def split_def)
qed auto

lemma handler_free_service [simp]: "handler_free (service e)"
  by (auto simp: service_def split: prod.splits sum.splits)

lemma handler_free_of_res [simp]: "handler_free (of_res r)"
  by (cases r) (auto simp: of_res_def)

text \<open>Results of a run are leaves of the program.\<close>

lemma run_result_leaf: "run_prog h p s = (Inr r, s') \<Longrightarrow> r \<in> set_prog p"
proof (induction p arbitrary: s s')
  case (Act f)
  have "snd (f (world s)) \<in> Basic_BNFs.snds (f (world s))" by (cases "f (world s)") auto
  with Act.IH [of "f (world s)" "snd (f (world s))"] Act.prems show ?case
    by (fastforce simp: map_prod_def split_def)
next
  case (Invoke a g)
  then show ?case by (fastforce split: prod.splits)
qed auto

end
