(* ===== verification/Transport.thy ===== *)
theory Transport
  imports PV_Execution Interaction
begin

text \<open>
  \<^verbatim>\<open>cbrain/execution/transport.py\<close>: what a dispatch transport is given, what it returns, the assembly
  guard for production, and the in-process transport, whose \<open>dispatch\<close> runs the request's handler.

  A transport is its identity, whether it can be bound to a handler (the \<^verbatim>\<open>with_handler\<close> attribute),
  whether it is an \<^verbatim>\<open>InProcessDispatchTransport\<close>, and its \<open>dispatch\<close>, a program that may invoke the
  handler it was bound to. The locale \<open>pre_execution_refusals\<close> states the contract of
  \<^verbatim>\<open>HandlerNotInvoked\<close> that the gateway relies on.
\<close>

record WitnessIdentity =
  wi_witness_component_id :: string
  wi_signer_key_id :: string
  wi_independent :: bool

record DispatchResult =
  dr_witness :: json
  dr_dispatch_outcome :: string
  dr_response_status :: string
  dr_response_bytes :: bytes
  dr_effect_state :: string
  dr_output :: json
  dr_closure :: "json option"

text \<open>The keyword arguments of \<^verbatim>\<open>DispatchTransport.dispatch\<close>.\<close>

record DispatchRequest =
  rq_authorization :: json
  rq_trust_bundle :: json
  rq_action :: json
  rq_prepared :: PreparedDispatch
  rq_witness_id :: string
  rq_observed_at :: string
  rq_attempt :: int
  rq_binding :: ExecutionAuthorizationBinding

record 'w DispatchTransport =
  tr_identity :: WitnessIdentity
  tr_with_handler :: bool
  tr_in_process :: bool
  tr_dispatch :: "DispatchRequest \<Rightarrow> ('w, DispatchResult) prog"

definition require_production_dispatch_transport :: "'w DispatchTransport \<Rightarrow> unit res" where
  "require_production_dispatch_transport tr =
     (if tr_in_process tr then Inl ProductionDispatchRequired
      else if \<not> wi_independent (tr_identity tr) then Inl ProductionDispatchRequired
      else Inr ())"

section \<open>The in-process transport\<close>

text \<open>\<open>reraise e m\<close> runs \<open>m\<close> in a \<^verbatim>\<open>try\<close> whose handler raises \<open>e\<close>.\<close>

definition reraise :: "exn \<Rightarrow> ('w, 'a) eff \<Rightarrow> ('w, 'a) eff" where
  "reraise e m = (\<lambda>w. map_prod (rescue e) id (m w))"

type_synonym 'w witness_signer =
  "jobj \<Rightarrow> json \<Rightarrow> json \<Rightarrow> json \<Rightarrow> jobj \<Rightarrow> bytes \<Rightarrow> bytes \<Rightarrow> ('w, json) eff"

definition witness_metadata :: "WitnessIdentity \<Rightarrow> jobj \<Rightarrow> DispatchRequest \<Rightarrow> jobj res" where
  "witness_metadata identity dispatch_document rq =
     rbind (of_option KeyError (jget dispatch_document ''wire_content_type'')) (\<lambda>ct.
     rbind (of_option KeyError (jget dispatch_document ''wire_content_encoding'')) (\<lambda>ce.
     Inr [(''dispatch_witness_id'', JStr (rq_witness_id rq)),
          (''observed_at'', JStr (rq_observed_at rq)),
          (''attempt'', JInt (rq_attempt rq)),
          (''witness_component_id'', JStr (wi_witness_component_id identity)),
          (''wire_content_type'', ct),
          (''wire_content_encoding'', ce),
          (''signer_key_id'', JStr (wi_signer_key_id identity))]))"

definition in_process_dispatch ::
  "'w witness_signer \<Rightarrow> (json \<Rightarrow> bytes res) \<Rightarrow> WitnessIdentity \<Rightarrow> DispatchRequest \<Rightarrow>
   ('w, DispatchResult) prog" where
  "in_process_dispatch signer encoder identity rq =
     pbind (of_res (pd_dispatch (rq_prepared rq))) (\<lambda>dispatch_document.
     case (case rq_action rq of JObj d \<Rightarrow> jget d ''parameters'' | _ \<Rightarrow> None) of
       Some (JObj arguments) \<Rightarrow>
         Invoke (JObj arguments) (\<lambda>ran. case ran of
           Inl exc \<Rightarrow> Raise DispatchTransportError
         | Inr output \<Rightarrow>
             pbind (of_res (rescue DispatchTransportError (encoder output))) (\<lambda>response_bytes.
             pbind (of_res (witness_metadata identity dispatch_document rq)) (\<lambda>metadata.
             pbind (service (reraise DispatchTransportError
                      (signer metadata (rq_authorization rq) (rq_trust_bundle rq) (rq_action rq)
                         dispatch_document (pd_wire_bytes (rq_prepared rq))
                         (pd_peer_identity_bytes (rq_prepared rq))))) (\<lambda>witness.
             Done \<lparr>dr_witness = witness, dr_dispatch_outcome = ''ACKNOWLEDGED'',
                   dr_response_status = ''200'', dr_response_bytes = response_bytes,
                   dr_effect_state = ''CONFIRMED'', dr_output = output, dr_closure = None\<rparr>))))
     | _ \<Rightarrow> Raise HandlerNotInvoked)"

definition in_process_transport ::
  "'w witness_signer \<Rightarrow> (json \<Rightarrow> bytes res) \<Rightarrow> WitnessIdentity \<Rightarrow> 'w DispatchTransport res" where
  "in_process_transport signer encoder identity =
     rbind (ensure (\<not> wi_independent identity) DispatchTransportError) (\<lambda>_.
     Inr \<lparr>tr_identity = identity, tr_with_handler = True, tr_in_process = True,
          tr_dispatch = in_process_dispatch signer encoder identity\<rparr>)"

section \<open>The contract of a refusal\<close>

text \<open>
  \<^verbatim>\<open>HandlerNotInvoked\<close> is documented as a failure proven to have occurred before the handler ran.
  The law is over the runs of the dispatch program under the single-entry wrapper.
\<close>

locale pre_execution_refusals =
  fixes dispatch :: "DispatchRequest \<Rightarrow> ('w, DispatchResult) prog"
  assumes refusal_pre_execution:
    "run_prog h (dispatch rq) s = (Inl HandlerNotInvoked, s') \<Longrightarrow> entries s' = entries s"
begin

lemma refused_flag:
  "run_prog h (attempt (dispatch rq) False) s = (Inr (b, Inl HandlerNotInvoked), s') \<Longrightarrow>
     \<not> b \<and> entries s' = entries s"
  using refusal_pre_execution [of h rq s s']
  by (auto simp: run_attempt_eq split: prod.splits)

end

lemma reraise_Inl: "reraise e m w = (Inl x, w') \<Longrightarrow> x = e"
  by (cases "m w") (auto simp: reraise_def rescue_Inl)

lemma witness_metadata_not_refused: "witness_metadata i d rq \<noteq> Inl HandlerNotInvoked"
  by (auto simp: witness_metadata_def rbind_Inl_iff of_option_Inl)

text \<open>The programs of the in-process transport, run: what every way out says of the handler.\<close>

lemma in_process_run:
  assumes "run_prog h (in_process_dispatch signer encoder identity rq) s = (r, s')"
  shows "(r = Inl HandlerNotInvoked \<longrightarrow> entries s' = entries s) \<and>
    (\<forall>x. r = Inr x \<longrightarrow> dr_closure x = None \<and> entries s' = Suc (entries s))"
proof (cases "pd_dispatch (rq_prepared rq)")
  case (Inl e)
  then show ?thesis using assms by (auto simp: in_process_dispatch_def run_pbind)
next
  case (Inr d)
  show ?thesis
  proof (cases "\<exists>args. (case rq_action rq of JObj d \<Rightarrow> jget d ''parameters'' | _ \<Rightarrow> None) = Some (JObj args)")
    case False
    with Inr assms show ?thesis
      by (auto simp: in_process_dispatch_def run_pbind split: option.splits json.splits)
  next
    case True
    then obtain args where args:
      "(case rq_action rq of JObj d \<Rightarrow> jget d ''parameters'' | _ \<Rightarrow> None) = Some (JObj args)" by auto
    obtain r0 s0 where i: "invoke_once h (JObj args) s = (r0, s0)" by fastforce
    then have "entries s0 = Suc (entries s)"
      by (auto simp: invoke_once_def Let_def split: if_splits prod.splits)
    with Inr assms i args show ?thesis
      by (auto simp: in_process_dispatch_def run_pbind run_service rescue_Inl
          witness_metadata_not_refused dest: reraise_Inl split: sum.splits prod.splits)
  qed
qed

interpretation inproc: pre_execution_refusals "in_process_dispatch signer encoder identity"
  for signer encoder identity
  by unfold_locales (use in_process_run in blast)

lemma in_process_transport_Inr:
  "in_process_transport signer encoder identity = Inr tr \<longleftrightarrow> \<not> wi_independent identity \<and>
     tr = \<lparr>tr_identity = identity, tr_with_handler = True, tr_in_process = True,
           tr_dispatch = in_process_dispatch signer encoder identity\<rparr>"
  by (auto simp: in_process_transport_def rbind_Inr_iff ensure_Inr)

lemma production_transport_iff:
  "require_production_dispatch_transport tr = Inr () \<longleftrightarrow>
     \<not> tr_in_process tr \<and> wi_independent (tr_identity tr)"
  by (auto simp: require_production_dispatch_transport_def)

end
