(* ===== verification/Py_Decimal.thy ===== *)
theory Py_Decimal
  imports Py_Json
begin

text \<open>
  Decimal text as Python reads it, and equality of the values that \<^verbatim>\<open>json.loads\<close> produces.

  \<open>parse_dec\<close> is the finite part of the grammar of \<^verbatim>\<open>decimal.Decimal(text)\<close>: sign, digits with an
  optional point, optional exponent; the result is a coefficient and an exponent of ten. \<open>json_eq\<close>
  is Python's \<^verbatim>\<open>==\<close> on decoded documents: mappings compare without regard to order, and an integer,
  a boolean and a float compare by value (exact for floats whose \<^verbatim>\<open>repr\<close> is positional, that is
  below \<open>10 ^ 16\<close> in magnitude).
\<close>

definition is_digit :: "char \<Rightarrow> bool" where
  "is_digit c = (48 \<le> (of_char c :: nat) \<and> (of_char c :: nat) \<le> 57)"

definition digit_val :: "char \<Rightarrow> nat" where
  "digit_val c = (of_char c :: nat) - 48"

definition nat_of_digits :: "string \<Rightarrow> nat" where
  "nat_of_digits s = foldl (\<lambda>n c. n * 10 + digit_val c) 0 s"

definition split_sign :: "string \<Rightarrow> int \<times> string" where
  "split_sign s = (case s of
       [] \<Rightarrow> (1, [])
     | c # r \<Rightarrow> if c = CHR ''-'' then (-1, r) else if c = CHR ''+'' then (1, r) else (1, s))"

definition split_at :: "(char \<Rightarrow> bool) \<Rightarrow> string \<Rightarrow> string \<times> string option" where
  "split_at p s = (takeWhile (\<lambda>c. \<not> p c) s,
     case dropWhile (\<lambda>c. \<not> p c) s of [] \<Rightarrow> None | _ # r \<Rightarrow> Some r)"

definition parse_exp :: "string option \<Rightarrow> int option" where
  "parse_exp e = (case e of
       None \<Rightarrow> Some 0
     | Some t \<Rightarrow> (case split_sign t of (sg, ds) \<Rightarrow>
         if ds \<noteq> [] \<and> list_all is_digit ds then Some (sg * int (nat_of_digits ds)) else None))"

definition parse_dec :: "string \<Rightarrow> (int \<times> int) option" where
  "parse_dec s =
     (case split_sign s of (sg, r) \<Rightarrow>
      case split_at (\<lambda>c. c = CHR ''e'' \<or> c = CHR ''E'') r of (mant, ex) \<Rightarrow>
      case split_at (\<lambda>c. c = CHR ''.'') mant of (ip, fpo) \<Rightarrow>
      let fp = (case fpo of None \<Rightarrow> [] | Some f \<Rightarrow> f) in
      if ip @ fp = [] \<or> \<not> list_all is_digit (ip @ fp) then None
      else (case parse_exp ex of
              None \<Rightarrow> None
            | Some e \<Rightarrow> Some (sg * int (nat_of_digits (ip @ fp)), e - int (length fp))))"

text \<open>Comparison of values \<open>c * 10 ^ e\<close> without fractions.\<close>

definition dec_scale :: "int \<times> int \<Rightarrow> int \<Rightarrow> int" where
  "dec_scale x m = fst x * 10 ^ nat (snd x - m)"

definition dec_eq :: "int \<times> int \<Rightarrow> int \<times> int \<Rightarrow> bool" where
  "dec_eq x y = (let m = min (snd x) (snd y) in dec_scale x m = dec_scale y m)"

definition num_val :: "json \<Rightarrow> (int \<times> int) option" where
  "num_val j = (case j of
       JBool b \<Rightarrow> Some (if b then 1 else 0, 0)
     | JInt i \<Rightarrow> Some (i, 0)
     | JFloat (Finite t) \<Rightarrow> parse_dec t
     | _ \<Rightarrow> None)"

definition scalar_eq :: "json \<Rightarrow> json \<Rightarrow> bool" where
  "scalar_eq j k = (j = k \<or> (case (num_val j, num_val k) of
       (Some x, Some y) \<Rightarrow> dec_eq x y
     | _ \<Rightarrow> False))"

primrec json_eq :: "json \<Rightarrow> json \<Rightarrow> bool" where
  "json_eq JNull = (\<lambda>k. k = JNull)"
| "json_eq (JBool b) = scalar_eq (JBool b)"
| "json_eq (JInt i) = scalar_eq (JInt i)"
| "json_eq (JFloat f) = (\<lambda>k. f \<noteq> NaN \<and> scalar_eq (JFloat f) k)"
| "json_eq (JStr s) = (\<lambda>k. k = JStr s)"
| "json_eq (JList xs) = (\<lambda>k. case k of
     JList ys \<Rightarrow> list_all2 (\<lambda>f y. f y) (map json_eq xs) ys
   | _ \<Rightarrow> False)"
| "json_eq (JObj d) = (\<lambda>k. case k of
     JObj e \<Rightarrow> jkeys d = jkeys e \<and>
       list_all (\<lambda>kf. case jget e (fst kf) of Some v \<Rightarrow> snd kf v | None \<Rightarrow> False)
         (map (map_prod id json_eq) d)
   | _ \<Rightarrow> False)"
| "json_eq (JOpaque c) = (\<lambda>k. False)"

section \<open>Lemmas\<close>

lemma json_eq_JObj:
  "json_eq (JObj d) (JObj e) \<longleftrightarrow> jkeys d = jkeys e \<and>
     (\<forall>kv\<in>set d. \<exists>v. jget e (fst kv) = Some v \<and> json_eq (snd kv) v)"
  by (auto simp: list_all_iff split: option.splits)

lemma jget_mem: "distinct (map fst d) \<Longrightarrow> kv \<in> set d \<Longrightarrow> jget d (fst kv) = Some (snd kv)"
  by (cases kv) (simp add: jget_def)

lemma json_eq_refl: "valid_json j \<Longrightarrow> wf_json j \<Longrightarrow> json_eq j j"
proof (induction j)
  case (JList xs)
  then show ?case by (auto simp: list_all2_map1 list_all2_same list_all_iff)
next
  case (JObj d)
  have "json_eq (snd kv) (snd kv)" if "kv \<in> set d" for kv
    using JObj.IH [OF that] JObj.prems that
    by (cases kv) (force simp: valid_json_JObj wf_json_JObj simp del: valid_json.simps wf_json.simps)
  with JObj.prems show ?case unfolding json_eq_JObj wf_json_JObj by (auto simp: jget_mem)
qed (auto simp: scalar_eq_def split: pyfloat.splits)

text \<open>Printing a number in decimal and reading it back.\<close>

lemma of_char_of_small [simp]: "n < 256 \<Longrightarrow> (of_char (char_of n :: char) :: nat) = n"
  by simp

lemma is_digit_char: "n < 10 \<Longrightarrow> is_digit (char_of (48 + n :: nat))"
  by (simp add: is_digit_def)

lemma digit_val_char: "n < 10 \<Longrightarrow> digit_val (char_of (48 + n :: nat)) = n"
  by (simp add: digit_val_def)

lemma nat_of_digits_append [simp]:
  "nat_of_digits (s @ [c]) = nat_of_digits s * 10 + digit_val c"
  by (simp add: nat_of_digits_def)

lemma nat_of_digits_digits [simp]: "nat_of_digits (digits n) = n"
proof (induction n rule: digits.induct)
  case (1 n)
  show ?case
  proof (cases "n < 10")
    case True
    then have "digits n = [] @ [char_of (48 + n)]" by (simp add: digits.simps)
    then show ?thesis using True by (simp only: nat_of_digits_append digit_val_char) (simp add: nat_of_digits_def)
  next
    case False
    then have "digits n = digits (n div 10) @ [char_of (48 + n mod 10)]" by (simp add: digits.simps)
    then show ?thesis using 1 False by (simp add: digit_val_char)
  qed
qed

lemma digits_are_digits [simp]: "list_all is_digit (digits n)"
proof (induction n rule: digits.induct)
  case (1 n)
  then show ?case by (cases "n < 10") (simp_all add: digits.simps [of n] is_digit_char)
qed

lemma digits_nonempty [simp]: "digits n \<noteq> []"
  by (simp add: digits.simps [of n])

lemma length_digits: "n < 10 ^ k \<Longrightarrow> 0 < k \<Longrightarrow> length (digits n) \<le> k"
proof (induction n arbitrary: k rule: digits.induct)
  case (1 n)
  show ?case
  proof (cases "n < 10")
    case True
    then show ?thesis using 1 by (simp add: digits.simps [of n])
  next
    case False
    obtain j where k: "k = Suc j" using 1 by (cases k) auto
    have j: "0 < j" using 1(2) False k by (cases j) auto
    have "n div 10 < 10 ^ j" using 1(2) k by (simp add: less_mult_imp_div_less mult.commute)
    from 1(1) [OF False this j] False k show ?thesis by (simp add: digits.simps [of n])
  qed
qed

end
