(* ===== verification/PV_Decision.thy ===== *)
theory PV_Decision
  imports Dispatch Py_Decimal
begin

text \<open>
  \<^verbatim>\<open>cbrain/adapters/privatevault.py\<close>: the binding of a plan into a mintable decision request and the
  strict client of \<^verbatim>\<open>/v1/decide\<close>. The transport that posts JSON to PrivateVault is the parameter
  \<open>post_json\<close>, any effect on the world; everything the client demands of the answer is in
  \<open>interpret_response\<close>.
\<close>

section \<open>Verdicts and responses\<close>

datatype PrivateVaultVerdict = ALLOW | REQUIRE_APPROVAL | BLOCK

fun verdict_value :: "PrivateVaultVerdict \<Rightarrow> string" where
  "verdict_value ALLOW = ''allow''"
| "verdict_value REQUIRE_APPROVAL = ''require_approval''"
| "verdict_value BLOCK = ''block''"

definition verdict_of_text :: "string \<Rightarrow> PrivateVaultVerdict option" where
  "verdict_of_text s = find (\<lambda>v. verdict_value v = s) [ALLOW, REQUIRE_APPROVAL, BLOCK]"

fun expected_status :: "PrivateVaultVerdict \<Rightarrow> int" where
  "expected_status ALLOW = 200"
| "expected_status REQUIRE_APPROVAL = 202"
| "expected_status BLOCK = 403"

record HttpJsonResponse =
  hr_status_code :: int
  hr_body :: json

definition response_post_init :: "HttpJsonResponse \<Rightarrow> HttpJsonResponse res" where
  "response_post_init r =
     rbind (ensure (100 \<le> hr_status_code r \<and> hr_status_code r \<le> 599) PrivateVaultProtocolError) (\<lambda>_.
     (case hr_body r of JObj _ \<Rightarrow> Inr r | _ \<Rightarrow> Inl PrivateVaultProtocolError))"

record PrivateVaultDecision =
  dc_verdict :: PrivateVaultVerdict
  dc_triggered_by :: string
  dc_reason :: string
  dc_request_id :: string
  dc_record_json :: stored

definition dc_record :: "PrivateVaultDecision \<Rightarrow> jobj res" where
  "dc_record d = (case dc_record_json d of
       NotBytes \<Rightarrow> Inl TypeError
     | Undecodable e \<Rightarrow> Inl e
     | Doc (JObj r) \<Rightarrow> Inr r
     | Doc _ \<Rightarrow> Inl PrivateVaultProtocolError)"

section \<open>The decision binding\<close>

definition execution_action_fields :: "string list" where
  "execution_action_fields =
     [''subject_principal'', ''subject_key_id'', ''action'', ''resource'', ''parameters'']"

definition dispatch_context_fields :: "string list" where
  "dispatch_context_fields =
     [''adapter'', ''transport'', ''operation'', ''destination'', ''wire_content_type'', ''serialization'']"

definition wire_serialization :: string where
  "wire_serialization = ''pv-json-parameters/0.1''"

text \<open>\<open>nonempty_text v\<close>: a string that is not empty (it may be blank).\<close>

definition nonempty_text :: "json option \<Rightarrow> string option" where
  "nonempty_text v = (case v of Some (JStr s) \<Rightarrow> if s = [] then None else Some s | _ \<Rightarrow> None)"

definition validate_execution_action :: "json \<Rightarrow> jobj res" where
  "validate_execution_action v = (case v of
       JObj d \<Rightarrow>
         rbind (ensure (jkeys d = set execution_action_fields) PrivateVaultBindingError) (\<lambda>_.
         rbind (rmapM (\<lambda>k. of_option PrivateVaultBindingError (nonempty_text (jget d k)))
           [''subject_principal'', ''subject_key_id'', ''action'', ''resource'']) (\<lambda>_.
         (case jget d ''parameters'' of
            Some (JObj _) \<Rightarrow> Inr d
          | _ \<Rightarrow> Inl PrivateVaultBindingError)))
     | _ \<Rightarrow> Inl PrivateVaultBindingError)"

definition dispatch_context_from_dispatch :: "jobj \<Rightarrow> jobj res" where
  "dispatch_context_from_dispatch dispatch =
     (let transport = jget dispatch ''transport'';
          adapter = (case nonempty_text (jget dispatch ''adapter'') of
                       Some s \<Rightarrow> Some (JStr s) | None \<Rightarrow> transport);
          candidate = (\<lambda>k. if k = ''adapter'' then adapter else jget dispatch k) in
      rbind (rmapM (\<lambda>k. rbind (of_option PrivateVaultBindingError (nonempty_text (candidate k)))
                           (\<lambda>s. Inr (k, JStr s)))
               (sort dispatch_context_fields)) (\<lambda>context.
      rbind (ensure (jget context ''serialization'' = Some (JStr wire_serialization))
               PrivateVaultBindingError) (\<lambda>_.
      Inr context)))"

record DecisionBinding =
  bd_execution_action_json :: stored
  bd_dispatch_context_json :: stored

definition capture_binding :: "ActionIntent \<Rightarrow> json \<Rightarrow> jobj \<Rightarrow> DecisionBinding res" where
  "capture_binding action execution_action dispatch =
     rbind (validate_execution_action execution_action) (\<lambda>validated.
     rbind (ensure (jget validated ''action'' = Some (JStr (ai_capability action)))
              PrivateVaultBindingError) (\<lambda>_.
     rbind (ensure (jget validated ''subject_key_id'' = Some (JStr (ai_agent_id action)))
              PrivateVaultBindingError) (\<lambda>_.
     rbind (ai_arguments action) (\<lambda>arguments.
     rbind (ensure (case jget validated ''parameters'' of
                      Some p \<Rightarrow> json_eq p (JObj arguments) | None \<Rightarrow> False)
              PrivateVaultBindingError) (\<lambda>_.
     rbind (dispatch_context_from_dispatch dispatch) (\<lambda>context.
     rbind (snapshot_object (JObj validated)) (\<lambda>ea.
     rbind (snapshot_object (JObj context)) (\<lambda>dc.
     Inr \<lparr>bd_execution_action_json = ea, bd_dispatch_context_json = dc\<rparr>))))))))"

definition decide_payload :: "DecisionBinding \<Rightarrow> ActionIntent \<Rightarrow> jobj res" where
  "decide_payload b action =
     rbind (privatevault_decide_payload action) (\<lambda>payload.
     rbind (restore_object (bd_execution_action_json b)) (\<lambda>ea.
     rbind (restore_object (bd_dispatch_context_json b)) (\<lambda>dc.
     Inr (jset ''dispatch_context'' (JObj dc) (jset ''execution_action'' (JObj ea) payload)))))"

section \<open>The answer\<close>

definition py_lower :: "string \<Rightarrow> string" where
  "py_lower s = map (\<lambda>c. let n = of_char c :: nat in
     if (65 \<le> n \<and> n \<le> 90) \<or> (192 \<le> n \<and> n \<le> 222 \<and> n \<noteq> 215) then char_of (n + 32) else c) s"

definition sha256_hex :: "string \<Rightarrow> bool" where
  "sha256_hex s = (length s = 64 \<and> list_all is_hex_digit s)"

definition require_mintable_record :: "jobj \<Rightarrow> string \<Rightarrow> string \<Rightarrow> (string \<times> string) res" where
  "require_mintable_record record agent_id capability =
     rbind (ensure (jget record ''protocol_version'' = Some (JStr ''drp/0.2''))
              PrivateVaultProtocolError) (\<lambda>_.
     rbind (rmapM (\<lambda>k. of_option PrivateVaultProtocolError (digest_field record k))
              [''action_digest'', ''dispatch_context_digest'']) (\<lambda>_.
     rbind (of_option PrivateVaultProtocolError (text_field record ''decision_id'')) (\<lambda>decision_id.
     rbind (case jget record ''record_hash'' of
              Some (JStr s) \<Rightarrow> Inr s | _ \<Rightarrow> Inl PrivateVaultProtocolError) (\<lambda>record_hash.
     let bare_hash = py_lower (removeprefix ''sha256:'' record_hash) in
     rbind (ensure (sha256_hex bare_hash) PrivateVaultProtocolError) (\<lambda>_.
     rbind (ensure (jget record ''agent_id'' = Some (JStr agent_id)) PrivateVaultProtocolError) (\<lambda>_.
     rbind (ensure (jget record ''capability'' = Some (JStr capability)) PrivateVaultProtocolError) (\<lambda>_.
     Inr (decision_id, bare_hash))))))))"

text \<open>\<open>opt_text v\<close>: \<^verbatim>\<open>None\<close>, non-blank text, or a protocol error.\<close>

definition opt_text :: "json option \<Rightarrow> string option res" where
  "opt_text v = (case v of
       None \<Rightarrow> Inr None
     | Some JNull \<Rightarrow> Inr None
     | Some (JStr s) \<Rightarrow> if nonblank s then Inr (Some s) else Inl PrivateVaultProtocolError
     | _ \<Rightarrow> Inl PrivateVaultProtocolError)"

definition bound_request_id :: "jobj \<Rightarrow> string \<Rightarrow> string res" where
  "bound_request_id body expected =
     (let nested = (case jget body ''record'' of Some (JObj r) \<Rightarrow> jget r ''request_id'' | _ \<Rightarrow> None) in
      rbind (opt_text (jget body ''request_id'')) (\<lambda>top.
      rbind (opt_text nested) (\<lambda>nest.
      (case (top, nest) of
         (None, None) \<Rightarrow> Inl PrivateVaultProtocolError
       | (Some t, Some n) \<Rightarrow>
           rbind (ensure (t = n) PrivateVaultProtocolError) (\<lambda>_.
           rbind (ensure (t = expected) PrivateVaultProtocolError) (\<lambda>_. Inr t))
       | (Some t, None) \<Rightarrow> rbind (ensure (t = expected) PrivateVaultProtocolError) (\<lambda>_. Inr t)
       | (None, Some n) \<Rightarrow> rbind (ensure (n = expected) PrivateVaultProtocolError) (\<lambda>_. Inr n)))))"

definition snapshot_record :: "json option \<Rightarrow> stored res" where
  "snapshot_record v = (case v of
       Some (JObj d) \<Rightarrow>
         rbind (ensure (valid_json (JObj d)) PrivateVaultProtocolError) (\<lambda>_. Inr (Doc (canon (JObj d))))
     | _ \<Rightarrow> Inl PrivateVaultProtocolError)"

definition interpret_response ::
  "ActionIntent \<Rightarrow> DecisionBinding option \<Rightarrow> int \<Rightarrow> jobj \<Rightarrow> PrivateVaultDecision res" where
  "interpret_response action binding status_code body =
     rbind (of_option PrivateVaultProtocolError (text_field body ''decision'')) (\<lambda>raw_verdict.
     rbind (of_option PrivateVaultProtocolError (verdict_of_text raw_verdict)) (\<lambda>verdict.
     rbind (ensure (status_code = expected_status verdict) PrivateVaultProtocolError) (\<lambda>_.
     rbind (snapshot_record (jget body ''record'')) (\<lambda>record_json.
     rbind (bound_request_id body (ai_request_id action)) (\<lambda>request_id.
     rbind (case binding of
              None \<Rightarrow> Inr ()
            | Some _ \<Rightarrow>
                rbind (restore_object record_json) (\<lambda>record.
                rbind (require_mintable_record record (ai_agent_id action) (ai_capability action)) (\<lambda>_.
                Inr ()))) (\<lambda>_.
     rbind (of_option PrivateVaultProtocolError (text_field body ''triggered_by'')) (\<lambda>triggered_by.
     rbind (of_option PrivateVaultProtocolError (text_field body ''reason'')) (\<lambda>reason.
     Inr \<lparr>dc_verdict = verdict, dc_triggered_by = triggered_by, dc_reason = reason,
          dc_request_id = request_id, dc_record_json = record_json\<rparr>))))))))"

definition decide ::
  "(string \<Rightarrow> jobj \<Rightarrow> ('w, HttpJsonResponse) eff) \<Rightarrow> ActionIntent \<Rightarrow> DecisionBinding option \<Rightarrow>
   ('w, PrivateVaultDecision) eff" where
  "decide post_json action binding =
     ebind (eret (case binding of
                    None \<Rightarrow> privatevault_decide_payload action
                  | Some b \<Rightarrow> decide_payload b action)) (\<lambda>payload.
     ebind (post_json ''/v1/decide'' payload) (\<lambda>response.
     ebind (eret (response_post_init response)) (\<lambda>r.
     eret (case hr_body r of
             JObj body \<Rightarrow> interpret_response action binding (hr_status_code r) body
           | _ \<Rightarrow> Inl PrivateVaultProtocolError))))"

section \<open>Lemmas\<close>

lemma verdict_of_text_Some: "verdict_of_text s = Some v \<longleftrightarrow> s = verdict_value v"
  by (cases v) (auto simp: verdict_of_text_def)

lemma opt_text_Inr: "opt_text v = Inr (Some s) \<Longrightarrow> v = Some (JStr s) \<and> nonblank s"
  by (auto simp: opt_text_def split: option.splits json.splits if_splits)

lemma bound_request_id_Inr: "bound_request_id body e = Inr r \<Longrightarrow> r = e"
  by (auto simp: bound_request_id_def Let_def res_simps split: option.splits)

lemma snapshot_record_Inr:
  "snapshot_record v = Inr s \<longleftrightarrow>
     (\<exists>d. v = Some (JObj d) \<and> valid_json (JObj d) \<and> s = Doc (JObj (canon_obj d)))"
  by (auto simp: snapshot_record_def res_simps canon_JObj simp del: canon.simps valid_json.simps
      split: option.splits json.splits)

text \<open>\<open>mintable r a\<close>: the sealed record has all that \<^verbatim>\<open>/v1/authorize\<close> will demand for this intent.\<close>

definition mintable :: "jobj \<Rightarrow> ActionIntent \<Rightarrow> bool" where
  "mintable r a = (jget r ''protocol_version'' = Some (JStr ''drp/0.2'') \<and>
     digest_field r ''action_digest'' \<noteq> None \<and> digest_field r ''dispatch_context_digest'' \<noteq> None \<and>
     text_field r ''decision_id'' \<noteq> None \<and>
     jget r ''agent_id'' = Some (JStr (ai_agent_id a)) \<and>
     jget r ''capability'' = Some (JStr (ai_capability a)))"

lemma require_mintable_record_Inr:
  "require_mintable_record r (ai_agent_id a) (ai_capability a) = Inr x \<Longrightarrow> mintable r a"
  by (auto simp: require_mintable_record_def mintable_def Let_def res_simps)

lemma interpret_response_Inr:
  assumes "interpret_response a b st body = Inr d"
  obtains raw where "text_field body ''decision'' = Some raw"
    and "verdict_of_text raw = Some (dc_verdict d)" and "st = expected_status (dc_verdict d)"
    and "snapshot_record (jget body ''record'') = Inr (dc_record_json d)"
    and "bound_request_id body (ai_request_id a) = Inr (dc_request_id d)"
    and "case b of None \<Rightarrow> True | Some _ \<Rightarrow> (\<exists>r x. restore_object (dc_record_json d) = Inr r \<and>
           require_mintable_record r (ai_agent_id a) (ai_capability a) = Inr x)"
proof -
  note e = assms [unfolded interpret_response_def rbind_Inr_iff of_option_Inr ensure_Inr]
  show thesis
    using e by (elim exE conjE, intro that) (auto simp: rbind_Inr_iff split: option.splits)
qed

lemma interpret_response_sound:
  assumes "interpret_response a b st body = Inr d"
  shows "st = expected_status (dc_verdict d) \<and>
    jget body ''decision'' = Some (JStr (verdict_value (dc_verdict d))) \<and>
    dc_request_id d = ai_request_id a \<and>
    (\<exists>r. dc_record d = Inr r \<and> (b \<noteq> None \<longrightarrow> mintable r a))"
proof (rule interpret_response_Inr [OF assms], intro conjI)
  fix raw
  assume raw: "text_field body ''decision'' = Some raw" "verdict_of_text raw = Some (dc_verdict d)"
    and st: "st = expected_status (dc_verdict d)"
    and snap: "snapshot_record (jget body ''record'') = Inr (dc_record_json d)"
    and rid: "bound_request_id body (ai_request_id a) = Inr (dc_request_id d)"
    and mint: "case b of None \<Rightarrow> True | Some _ \<Rightarrow> (\<exists>r x. restore_object (dc_record_json d) = Inr r \<and>
           require_mintable_record r (ai_agent_id a) (ai_capability a) = Inr x)"
  show "st = expected_status (dc_verdict d)" by fact
  show "jget body ''decision'' = Some (JStr (verdict_value (dc_verdict d)))"
    using raw by (simp add: text_field_Some verdict_of_text_Some)
  show "dc_request_id d = ai_request_id a" using rid by (rule bound_request_id_Inr)
  obtain r where r: "dc_record_json d = Doc (JObj r)" using snap by (auto simp: snapshot_record_Inr)
  have "b \<noteq> None \<longrightarrow> mintable r a"
    using mint r require_mintable_record_Inr by (auto simp: restore_object_Inr)
  then show "\<exists>r. dc_record d = Inr r \<and> (b \<noteq> None \<longrightarrow> mintable r a)"
    using r by (auto simp: dc_record_def)
qed

lemma nonempty_text_Some: "nonempty_text v = Some s \<longleftrightarrow> v = Some (JStr s) \<and> s \<noteq> []"
  by (auto simp: nonempty_text_def split: option.splits json.splits if_splits)

lemma validate_execution_action_Inr:
  "validate_execution_action v = Inr d \<Longrightarrow>
     v = JObj d \<and> jkeys d = set execution_action_fields \<and> (\<exists>p. jget d ''parameters'' = Some (JObj p))"
  by (auto simp: validate_execution_action_def res_simps split: json.splits option.splits)

lemma capture_binding_Inr:
  assumes "capture_binding a ea dispatch = Inr b"
  shows "\<exists>d p args ctx. ea = JObj d \<and> valid_json (JObj d) \<and>
    jkeys d = set execution_action_fields \<and>
    jget d ''action'' = Some (JStr (ai_capability a)) \<and>
    jget d ''subject_key_id'' = Some (JStr (ai_agent_id a)) \<and>
    jget d ''parameters'' = Some (JObj p) \<and> ai_arguments a = Inr args \<and>
    json_eq (JObj p) (JObj args) \<and>
    dispatch_context_from_dispatch dispatch = Inr ctx \<and>
    bd_execution_action_json b = Doc (JObj (canon_obj d)) \<and>
    bd_dispatch_context_json b = Doc (JObj (canon_obj ctx))"
proof -
  obtain d args ctx where v: "validate_execution_action ea = Inr d"
    and act: "jget d ''action'' = Some (JStr (ai_capability a))"
    and sub: "jget d ''subject_key_id'' = Some (JStr (ai_agent_id a))"
    and args: "ai_arguments a = Inr args"
    and eq: "case jget d ''parameters'' of Some p \<Rightarrow> json_eq p (JObj args) | None \<Rightarrow> False"
    and ctx: "dispatch_context_from_dispatch dispatch = Inr ctx"
    and val: "valid_json (JObj d)"
    and b: "bd_execution_action_json b = Doc (JObj (canon_obj d))"
      "bd_dispatch_context_json b = Doc (JObj (canon_obj ctx))"
    using assms by (auto simp: capture_binding_def res_simps simp del: valid_json.simps)
  from validate_execution_action_Inr [OF v] obtain p where
    "ea = JObj d" "jkeys d = set execution_action_fields" "jget d ''parameters'' = Some (JObj p)"
    by blast
  with eq show ?thesis using act sub args ctx val b by auto
qed

section \<open>Properties\<close>


text \<open>
  A decision binding that is captured binds this intent: the sealed execution action has exactly
  the five contract fields, names the governed capability and the agent as subject, and carries
  parameters equal to the governed arguments, so that a plan which dropped or changed an argument is
  never sent for a decision.
\<close>

theorem binding_binds_intent:
  assumes "capture_binding a ea dispatch = Inr b"
  shows "\<exists>d p args. ea = JObj d \<and> jkeys d = set execution_action_fields \<and>
    restore_object (bd_execution_action_json b) = Inr (canon_obj d) \<and>
    jget d ''action'' = Some (JStr (ai_capability a)) \<and>
    jget d ''subject_key_id'' = Some (JStr (ai_agent_id a)) \<and>
    jget d ''parameters'' = Some (JObj p) \<and> ai_arguments a = Inr args \<and>
    json_eq (JObj p) (JObj args)"
  using capture_binding_Inr [OF assms] by (auto simp: res_simps)

end
