(* ===== verification/Governed_Runtime.thy ===== *)
theory Governed_Runtime
  imports Contracts Interaction
begin

text \<open>
  \<^verbatim>\<open>cbrain/runtime.py\<close>: \<open>GovernedRuntime.execute\<close>, the entry point every consequential tool call
  goes through. The gateway is any program over any world, with whatever value its
  \<^verbatim>\<open>independent_execution\<close> attribute has.
\<close>

datatype gateway_result = Execution GovernedExecution | NotAnExecution

record 'w PrivateVaultGateway =
  gw_independent_execution :: "json option"
  gw_decide_and_execute :: "ActionIntent \<Rightarrow> ('w, gateway_result) prog"

definition is_independent_gateway :: "'w PrivateVaultGateway \<Rightarrow> bool" where
  "is_independent_gateway gw = (gw_independent_execution gw = Some (JBool True))"

definition execution_possible :: "nat \<Rightarrow> bool \<Rightarrow> bool" where
  "execution_possible handler_entries independent = (handler_entries > 0 \<or> independent)"

definition contract_failure :: "ActionIntent \<Rightarrow> nat \<Rightarrow> string \<Rightarrow> bool \<Rightarrow> GovernedExecution res" where
  "contract_failure action handler_entries reason independent =
     (let possible = execution_possible handler_entries independent in
      execution_post_init
        \<lparr>ge_status = (if possible then INDETERMINATE else CONTROL_FAILURE),
         ge_request_id = ai_request_id action,
         ge_tool_executed = (if possible then None else Some False),
         ge_reason = reason, ge_decision_id = None, ge_output = JNull, ge_retryable = False\<rparr>)"

definition judge_result ::
  "ActionIntent \<Rightarrow> bool \<Rightarrow> nat \<Rightarrow> gateway_result res \<Rightarrow> GovernedExecution res" where
  "judge_result action independent handler_entries outcome = (case outcome of
       Inl exc \<Rightarrow> contract_failure action handler_entries
                    (''privatevault_gateway_error:'' @ exn_name exc) independent
     | Inr NotAnExecution \<Rightarrow>
         contract_failure action handler_entries ''invalid_gateway_result'' independent
     | Inr (Execution result) \<Rightarrow>
         if ge_request_id result \<noteq> ai_request_id action
         then contract_failure action handler_entries ''request_id_mismatch'' independent
         else if ge_status result = EXECUTED \<and>
                 handler_entries \<noteq> (if independent then 0 else 1)
         then contract_failure action handler_entries ''unproven_execution'' independent
         else if ge_status result \<noteq> EXECUTED \<and> handler_entries \<noteq> 0
         then contract_failure action handler_entries ''tool_called_without_executed_status'' independent
         else Inr result)"

text \<open>\<open>execute\<close> returns the execution and the final state of the run.\<close>

definition execute ::
  "'w PrivateVaultGateway \<Rightarrow> ActionIntent \<Rightarrow> 'w handler \<Rightarrow> 'w \<Rightarrow> GovernedExecution res \<times> 'w run_state" where
  "execute gw action handler w =
     (case run_prog handler (gw_decide_and_execute gw action) (start w) of
        (outcome, s) \<Rightarrow>
          (judge_result action (is_independent_gateway gw) (entries s) outcome, s))"

text \<open>
  \<open>constructed p\<close>: every execution object the program can return went through its constructor. A
  frozen dataclass has no other way to exist.
\<close>

definition constructed :: "('w, gateway_result) prog \<Rightarrow> bool" where
  "constructed p = (\<forall>g. Execution g \<in> set_prog p \<longrightarrow> wf_execution g)"

section \<open>Lemmas\<close>

lemma contract_failure_ok:
  assumes "wf_action a" and "nonblank reason"
  shows "\<exists>g. contract_failure a n reason ind = Inr g \<and> wf_execution g \<and>
     ge_request_id g = ai_request_id a \<and> \<not> ge_retryable g \<and>
     ge_status g = (if n > 0 \<or> ind then INDETERMINATE else CONTROL_FAILURE)"
  using assms
  by (auto simp: contract_failure_def execution_possible_def Let_def execution_post_init_Inr_iff
      wf_execution_iff)

text \<open>What the runtime's verdict says, from the number of entries alone.\<close>

definition verdict_ok :: "bool \<Rightarrow> nat \<Rightarrow> ActionIntent \<Rightarrow> GovernedExecution \<Rightarrow> bool" where
  "verdict_ok ind n a g =
     (wf_execution g \<and> ge_request_id g = ai_request_id a \<and>
      (case ge_status g of
         EXECUTED \<Rightarrow> n = (if ind then 0 else 1)
       | INDETERMINATE \<Rightarrow> True
       | _ \<Rightarrow> n = 0))"

lemma judge_contract_failure:
  assumes "wf_action a" "nonblank reason" "contract_failure a n reason ind = r"
  shows "\<exists>g. r = Inr g \<and> verdict_ok ind n a g"
  using contract_failure_ok [OF assms(1,2), of n ind] assms(3)
  by (auto simp: verdict_ok_def split: if_splits)

text \<open>Every verdict is a contract failure or the gateway's own result, with what was checked of it.\<close>

lemma judge_result_cases:
  obtains (failure) reason where "nonblank reason"
      and "contract_failure a n reason ind = judge_result a ind n outcome"
  | (passed) g where "outcome = Inr (Execution g)" and "judge_result a ind n outcome = Inr g"
      and "ge_request_id g = ai_request_id a"
      and "if ge_status g = EXECUTED then n = (if ind then 0 else 1) else n = 0"
proof (cases outcome)
  case (Inl e)
  then show thesis
    by (intro failure [of "''privatevault_gateway_error:'' @ exn_name e"])
      (simp_all add: judge_result_def)
next
  case (Inr x)
  show thesis
  proof (cases x)
    case NotAnExecution
    with Inr show thesis
      by (intro failure [of "''invalid_gateway_result''"]) (simp_all add: judge_result_def)
  next
    case (Execution g)
    consider "ge_request_id g \<noteq> ai_request_id a"
      | "ge_request_id g = ai_request_id a" "ge_status g = EXECUTED" "n \<noteq> (if ind then 0 else 1)"
      | "ge_request_id g = ai_request_id a" "ge_status g \<noteq> EXECUTED" "n \<noteq> 0"
      | "ge_request_id g = ai_request_id a" "if ge_status g = EXECUTED then n = (if ind then 0 else 1) else n = 0"
      by metis
    then show thesis
    proof cases
      case 1
      then show thesis using failure [of "''request_id_mismatch''"] Inr Execution
        by (simp add: judge_result_def)
    next
      case 2
      then show thesis using failure [of "''unproven_execution''"] Inr Execution
        by (simp add: judge_result_def)
    next
      case 3
      then show thesis using failure [of "''tool_called_without_executed_status''"] Inr Execution
        by (simp add: judge_result_def)
    next
      case 4
      then show thesis using passed [of g] Inr Execution
        by (simp add: judge_result_def split: if_splits)
    qed
  qed
qed

lemma judge_result_ok:
  assumes "wf_action a" and "\<And>g. outcome = Inr (Execution g) \<Longrightarrow> wf_execution g"
  shows "\<exists>g. judge_result a ind n outcome = Inr g \<and> verdict_ok ind n a g"
proof (cases rule: judge_result_cases [of a n ind outcome])
  case (failure reason)
  then show ?thesis by (rule judge_contract_failure [OF assms(1)])
next
  case (passed g)
  then show ?thesis using assms(2)
    by (auto simp: verdict_ok_def split: ExecutionStatus.splits)
qed

lemma execute_ok:
  assumes "wf_action a" and "constructed (gw_decide_and_execute gw a)"
    and "execute gw a h w = (r, s)"
  shows "\<exists>g. r = Inr g \<and> verdict_ok (is_independent_gateway gw) (entries s) a g \<and> entry_inv s"
proof -
  obtain outcome where run: "run_prog h (gw_decide_and_execute gw a) (start w) = (outcome, s)"
    and r: "r = judge_result a (is_independent_gateway gw) (entries s) outcome"
    using assms(3) by (auto simp: execute_def split: prod.splits)
  have "\<And>g. outcome = Inr (Execution g) \<Longrightarrow> wf_execution g"
    using run_result_leaf run assms(2) by (fastforce simp: constructed_def)
  from judge_result_ok [OF assms(1) this] entry_inv_run [OF entry_inv_start run] r
  show ?thesis by metis
qed

section \<open>Properties\<close>

text \<open>
  C1: whatever the gateway does, a request enters its handler at most once; if it is reported
  EXECUTED by a gateway that runs the tool in this process, it entered it exactly once; if it is
  reported BLOCKED, REVIEW_REQUIRED or CONTROL_FAILURE, or EXECUTED by an independent gateway, it
  never entered it. The result answers the request it was asked about, and an exception never
  escapes.
\<close>

theorem execute_handler_discipline:
  assumes "wf_action a" and "constructed (gw_decide_and_execute gw a)"
  shows "\<exists>g. fst (execute gw a h w) = Inr g \<and> wf_execution g \<and>
    ge_request_id g = ai_request_id a \<and>
    length (calls (snd (execute gw a h w))) \<le> 1 \<and>
    (case ge_status g of
       EXECUTED \<Rightarrow> length (calls (snd (execute gw a h w))) = (if is_independent_gateway gw then 0 else 1)
     | INDETERMINATE \<Rightarrow> True
     | _ \<Rightarrow> calls (snd (execute gw a h w)) = [])"
proof -
  obtain r s where e: "execute gw a h w = (r, s)" by fastforce
  from execute_ok [OF assms e] show ?thesis
    using e by (auto simp: verdict_ok_def entry_inv_def split: ExecutionStatus.splits)
qed

end
