(* ===== verification/Gateway.thy ===== *)
theory Gateway
  imports Transport PV_Decision Governed_Runtime
begin

text \<open>
  \<^verbatim>\<open>cbrain/execution/gateway.py\<close>: \<open>PrivateVaultExecutionGateway.decide_and_execute\<close>, which plans,
  asks PrivateVault for the decision, obtains and verifies a permit, dispatches once, and verifies
  the witness and the closure before it reports EXECUTED.

  The planner, decision client, issuer, clock and witness id factory are effects on the world; the
  claim coordinator and the verifier are those of \<open>PV_Execution\<close> over one Agent DNA; the
  transport is any transport of \<open>Transport\<close>. Each \<^verbatim>\<open>try\<close> of the source is an \<open>attempt\<close>, whose flag
  is the closure's \<^verbatim>\<open>handler_entered\<close>.
\<close>

record PlannedDispatch =
  pl_action :: json
  pl_prepared :: PreparedDispatch

record IssuedAuthorization =
  is_authorization :: json
  is_trust_bundle :: json
  is_binding_digests :: jobj

record 'w ExecutionGateway =
  xg_decide :: "ActionIntent \<Rightarrow> DecisionBinding \<Rightarrow> ('w, PrivateVaultDecision) eff"
  xg_plan :: "ActionIntent \<Rightarrow> ('w, PlannedDispatch) eff"
  xg_issue :: "ActionIntent \<Rightarrow> PrivateVaultDecision \<Rightarrow> PlannedDispatch \<Rightarrow> ('w, IssuedAuthorization) eff"
  xg_store :: "'w ConsumptionStore"
  xg_dna :: AgentDNA
  xg_transport :: "'w DispatchTransport"
  xg_clock :: "('w, string) eff"
  xg_witness_id :: "ActionIntent \<Rightarrow> ('w, string) eff"

definition independent_execution :: "'w ExecutionGateway \<Rightarrow> bool" where
  "independent_execution xg = wi_independent (tr_identity (xg_transport xg))"

definition decision_id_of :: "PrivateVaultDecision \<Rightarrow> string option" where
  "decision_id_of decision = (case dc_record decision of
       Inl _ \<Rightarrow> None
     | Inr d \<Rightarrow> nonempty_text (jget d ''decision_id''))"

definition control_failure :: "ActionIntent \<Rightarrow> string \<Rightarrow> string option \<Rightarrow> GovernedExecution res" where
  "control_failure action reason decision_id =
     execution_post_init
       \<lparr>ge_status = CONTROL_FAILURE, ge_request_id = ai_request_id action,
        ge_tool_executed = Some False, ge_reason = reason, ge_decision_id = decision_id,
        ge_output = JNull, ge_retryable = True\<rparr>"

definition indeterminate ::
  "ActionIntent \<Rightarrow> string \<Rightarrow> bool \<Rightarrow> string option \<Rightarrow> GovernedExecution res" where
  "indeterminate action reason handler_entered decision_id =
     (if \<not> handler_entered then control_failure action reason decision_id
      else execution_post_init
        \<lparr>ge_status = INDETERMINATE, ge_request_id = ai_request_id action,
         ge_tool_executed = None, ge_reason = reason, ge_decision_id = decision_id,
         ge_output = JNull, ge_retryable = False\<rparr>)"

definition answer :: "GovernedExecution res \<Rightarrow> ('w, gateway_result) prog" where
  "answer r = (case r of Inl e \<Rightarrow> Raise e | Inr g \<Rightarrow> Done (Execution g))"

section \<open>Binding the permit\<close>

text \<open>A digest that is not text is refused by the constructor with the same exception as a bad one.\<close>

definition digest_arg :: "jobj \<Rightarrow> string \<Rightarrow> string res" where
  "digest_arg digests k = (case jget digests k of
       None \<Rightarrow> Inl KeyError
     | Some (JStr s) \<Rightarrow> Inr s
     | Some _ \<Rightarrow> Inl ContractError)"

definition bind_issued ::
  "ActionIntent \<Rightarrow> PlannedDispatch \<Rightarrow> IssuedAuthorization \<Rightarrow> ExecutionAuthorizationBinding res" where
  "bind_issued action planned issued =
     (let digests = is_binding_digests issued in
      rbind (digest_arg digests ''decision_receipt_digest'') (\<lambda>decision.
      rbind (digest_arg digests ''authority_receipt_digest'') (\<lambda>authority.
      rbind (case jget digests ''approval_artifact_digest'' of
               None \<Rightarrow> Inr None
             | Some JNull \<Rightarrow> Inr None
             | Some (JStr s) \<Rightarrow> Inr (Some s)
             | Some _ \<Rightarrow> Inl ContractError) (\<lambda>approval.
      rbind (digest_arg digests ''state_snapshot_digest'') (\<lambda>state.
      rbind (digest_arg digests ''policy_bundle_digest'') (\<lambda>policy.
      rbind (digest_arg digests ''obligations_digest'') (\<lambda>obligations.
      rbind (digest_arg digests ''at_time'') (\<lambda>at_time.
      capture_authorization_binding (ai_request_id action) (pl_action planned) (pl_prepared planned)
        decision authority approval state policy obligations at_time))))))))"

section \<open>The stages\<close>

definition plan_stage :: "'w ExecutionGateway \<Rightarrow> ActionIntent \<Rightarrow> ('w, PlannedDispatch \<times> DecisionBinding) eff" where
  "plan_stage xg action =
     ebind (xg_plan xg action) (\<lambda>planned.
     ebind (eret (pd_dispatch (pl_prepared planned))) (\<lambda>dispatch.
     ebind (eret (capture_binding action (pl_action planned) dispatch)) (\<lambda>decision_binding.
     eret (Inr (planned, decision_binding)))))"

definition permit_stage ::
  "'w ExecutionGateway \<Rightarrow> ActionIntent \<Rightarrow> PrivateVaultDecision \<Rightarrow> PlannedDispatch \<Rightarrow>
   ('w, IssuedAuthorization \<times> ExecutionAuthorizationBinding \<times> VerifiedAuthorization) eff" where
  "permit_stage xg action decision planned =
     ebind (xg_issue xg action decision planned) (\<lambda>issued.
     ebind (eret (bind_issued action planned issued)) (\<lambda>binding.
     ebind (if independent_execution xg
            then eret (verify_authorization (xg_dna xg) (is_authorization issued)
                         (Some (is_trust_bundle issued)) binding False)
            else ebind (xg_clock xg) (\<lambda>now.
                 verify_and_claim (xg_dna xg) (xg_store xg) (is_authorization issued)
                   (Some (is_trust_bundle issued)) binding (Some now))) (\<lambda>verified.
     eret (Inr (issued, binding, verified)))))"

definition prepare_transport :: "'w DispatchTransport \<Rightarrow> ('w DispatchTransport) res" where
  "prepare_transport transport =
     (if wi_independent (tr_identity transport) then Inr transport
      else if tr_with_handler transport then Inr transport
      else Inl ExecutionGatewayError)"

definition dispatch_stage ::
  "'w ExecutionGateway \<Rightarrow> ActionIntent \<Rightarrow> PlannedDispatch \<Rightarrow> IssuedAuthorization \<Rightarrow>
   ExecutionAuthorizationBinding \<Rightarrow> 'w DispatchTransport \<Rightarrow> ('w, DispatchResult) prog" where
  "dispatch_stage xg action planned issued binding transport =
     pbind (service (xg_witness_id xg action)) (\<lambda>witness_id.
     pbind (service (xg_clock xg)) (\<lambda>observed_at.
     tr_dispatch transport
       \<lparr>rq_authorization = is_authorization issued, rq_trust_bundle = is_trust_bundle issued,
        rq_action = pl_action planned, rq_prepared = pl_prepared planned,
        rq_witness_id = witness_id, rq_observed_at = observed_at, rq_attempt = 1,
        rq_binding = binding\<rparr>))"

definition evidence_stage ::
  "'w ExecutionGateway \<Rightarrow> VerifiedAuthorization \<Rightarrow> DispatchResult \<Rightarrow> VerifiedClosure res" where
  "evidence_stage xg verified result =
     rbind (verify_dispatch (xg_dna xg) verified (Some (dr_witness result))) (\<lambda>verified_dispatch.
     rbind (of_option ExecutionGatewayError (dr_closure result)) (\<lambda>closure.
     verify_closure (xg_dna xg) verified_dispatch (Some closure)))"

definition conclude ::
  "'w ExecutionGateway \<Rightarrow> ActionIntent \<Rightarrow> PrivateVaultDecision \<Rightarrow> VerifiedAuthorization \<Rightarrow> bool \<Rightarrow>
   DispatchResult res \<Rightarrow> GovernedExecution res" where
  "conclude xg action decision verified handler_entered dispatched =
     (let did = decision_id_of decision; ind = independent_execution xg in
      case dispatched of
        Inl exc \<Rightarrow>
          if exc = HandlerNotInvoked
          then control_failure action (''dispatch_refused:'' @ exn_name exc) did
          else indeterminate action (''dispatch_failed:'' @ exn_name exc) (handler_entered \<or> ind) did
      | Inr result \<Rightarrow>
          (case evidence_stage xg verified result of
             Inl exc \<Rightarrow>
               indeterminate action (''closure_unproven:'' @ exn_name exc) (handler_entered \<or> ind) did
           | Inr _ \<Rightarrow>
               if ind \<and> handler_entered
               then indeterminate action ''independent_dispatch_entered_local_handler'' True did
               else if \<not> ind \<and> \<not> handler_entered
               then indeterminate action ''closure_without_handler_entry'' handler_entered did
               else execution_post_init
                 \<lparr>ge_status = EXECUTED, ge_request_id = ai_request_id action,
                  ge_tool_executed = Some True, ge_reason = ''execution_closed'',
                  ge_decision_id = did, ge_output = dr_output result, ge_retryable = False\<rparr>))"

definition refused_verdict ::
  "ActionIntent \<Rightarrow> PrivateVaultDecision \<Rightarrow> ExecutionStatus \<Rightarrow> string \<Rightarrow> GovernedExecution res" where
  "refused_verdict action decision status prefix =
     execution_post_init
       \<lparr>ge_status = status, ge_request_id = ai_request_id action, ge_tool_executed = Some False,
        ge_reason = prefix @ dc_triggered_by decision, ge_decision_id = decision_id_of decision,
        ge_output = JNull, ge_retryable = False\<rparr>"

definition execute_allowed ::
  "'w ExecutionGateway \<Rightarrow> ActionIntent \<Rightarrow> PrivateVaultDecision \<Rightarrow> PlannedDispatch \<Rightarrow>
   ('w, gateway_result) prog" where
  "execute_allowed xg action decision planned =
     pbind (attempt (service (permit_stage xg action decision planned)) False) (\<lambda>(_, permit).
     case permit of
       Inl exc \<Rightarrow> answer (control_failure action (''authorization_refused:'' @ exn_name exc) None)
     | Inr (issued, binding, verified) \<Rightarrow>
         pbind (of_res (prepare_transport (xg_transport xg))) (\<lambda>transport.
         pbind (attempt (dispatch_stage xg action planned issued binding transport) False)
           (\<lambda>(handler_entered, dispatched).
         answer (conclude xg action decision verified handler_entered dispatched))))"

definition decide_and_execute ::
  "'w ExecutionGateway \<Rightarrow> ActionIntent \<Rightarrow> ('w, gateway_result) prog" where
  "decide_and_execute xg action =
     pbind (attempt (service (plan_stage xg action)) False) (\<lambda>(_, plan).
     case plan of
       Inl exc \<Rightarrow> answer (control_failure action (''dispatch_planning_failed:'' @ exn_name exc) None)
     | Inr (planned, decision_binding) \<Rightarrow>
         pbind (attempt (service (xg_decide xg action decision_binding)) False) (\<lambda>(_, decided).
         case decided of
           Inl exc \<Rightarrow> answer (control_failure action (''decision_unavailable:'' @ exn_name exc) None)
         | Inr decision \<Rightarrow>
             (case dc_verdict decision of
                BLOCK \<Rightarrow> answer (refused_verdict action decision BLOCKED ''privatevault_block:'')
              | REQUIRE_APPROVAL \<Rightarrow>
                  answer (refused_verdict action decision REVIEW_REQUIRED ''privatevault_review:'')
              | ALLOW \<Rightarrow> execute_allowed xg action decision planned)))"

text \<open>The gateway as the runtime sees it: its \<^verbatim>\<open>independent_execution\<close> attribute is the transport's flag.\<close>

definition execution_gateway :: "'w ExecutionGateway \<Rightarrow> 'w PrivateVaultGateway" where
  "execution_gateway xg =
     \<lparr>gw_independent_execution = Some (JBool (independent_execution xg)),
      gw_decide_and_execute = decide_and_execute xg\<rparr>"

section \<open>Lemmas\<close>

lemma run_try_service [simp]:
  "run_prog h (pbind (attempt (service e) b) k) s =
     (case e (world s) of (r, w') \<Rightarrow> run_prog h (k (b, r)) (s\<lparr>world := w'\<rparr>))"
  by (auto simp: run_pbind run_attempt_eq run_service split: prod.splits)

lemma run_answer:
  "run_prog h (answer r) s = (Inr (Execution g), s') \<longleftrightarrow> r = Inr g \<and> s' = s"
  by (cases r) (auto simp: answer_def)

lemma control_failure_Inr:
  "control_failure a r d = Inr g \<Longrightarrow> ge_status g = CONTROL_FAILURE \<and> ge_retryable g \<and> wf_execution g \<and>
     ge_request_id g = ai_request_id a"
  by (auto simp: control_failure_def execution_post_init_Inr_iff)

lemma refused_verdict_Inr:
  "refused_verdict a dc st p = Inr g \<Longrightarrow> ge_status g = st \<and> \<not> ge_retryable g \<and> wf_execution g \<and>
     ge_request_id g = ai_request_id a"
  by (auto simp: refused_verdict_def execution_post_init_Inr_iff)

lemma indeterminate_Inr:
  "indeterminate a r b d = Inr g \<Longrightarrow>
     ge_status g = (if b then INDETERMINATE else CONTROL_FAILURE) \<and> ge_retryable g = (\<not> b) \<and>
     wf_execution g \<and> ge_request_id g = ai_request_id a"
  by (auto simp: indeterminate_def execution_post_init_Inr_iff dest: control_failure_Inr split: if_splits)

text \<open>What the final step of the gateway reports, from the outcome of the dispatch.\<close>

lemma conclude_Inr:
  assumes "conclude xg a dc va entered dispatched = Inr g"
  shows "wf_execution g \<and> ge_request_id g = ai_request_id a \<and>
    ge_status g \<notin> {BLOCKED, REVIEW_REQUIRED} \<and>
    (ge_status g = EXECUTED \<longrightarrow> entered = (\<not> independent_execution xg) \<and>
       (\<exists>x vc. dispatched = Inr x \<and> evidence_stage xg va x = Inr vc \<and> ge_output g = dr_output x)) \<and>
    (ge_status g = CONTROL_FAILURE \<longrightarrow> dispatched = Inl HandlerNotInvoked \<or>
       (\<not> entered \<and> \<not> independent_execution xg))"
  using assms
  by (cases dispatched)
    (auto simp: conclude_def Let_def execution_post_init_Inr_iff dest!: control_failure_Inr indeterminate_Inr
      split: if_splits sum.splits)

lemma evidence_stage_Inr:
  "evidence_stage xg va x = Inr vc \<longleftrightarrow>
     (\<exists>vd c. verify_dispatch (xg_dna xg) va (Some (dr_witness x)) = Inr vd \<and> dr_closure x = Some c \<and>
        verify_closure (xg_dna xg) vd (Some c) = Inr vc)"
  by (auto simp: evidence_stage_def rbind_Inr_iff of_option_Inr)

lemma plan_stage_Inr:
  "plan_stage xg a w = (Inr (planned, bd), w') \<longleftrightarrow>
     xg_plan xg a w = (Inr planned, w') \<and>
     (\<exists>d. pd_dispatch (pl_prepared planned) = Inr d \<and>
          capture_binding a (pl_action planned) d = Inr bd)"
  by (auto simp: plan_stage_def ebind_Inr eret_Inr)

lemma digest_arg_Inr: "digest_arg d k = Inr s \<longleftrightarrow> jget d k = Some (JStr s)"
  by (auto simp: digest_arg_def split: option.splits json.splits)

lemma capture_authorization_binding_Inr:
  "capture_authorization_binding r act p d1 d2 ap d3 d4 d5 t = Inr b \<Longrightarrow>
     wf_binding b \<and> eb_request_id b = r \<and> eb_prepared_dispatch b = p \<and>
     (\<exists>d. act = JObj d \<and> eb_action b = Inr (canon_obj d))"
  by (auto simp: capture_authorization_binding_def rbind_Inr_iff snapshot_object_Inr
      binding_post_init_Inr_iff eb_action_def restore_object_Inr)

lemma bind_issued_Inr:
  assumes "bind_issued a planned issued = Inr b"
  shows "wf_binding b \<and> eb_request_id b = ai_request_id a \<and>
    eb_prepared_dispatch b = pl_prepared planned \<and>
    (\<exists>d. pl_action planned = JObj d \<and> eb_action b = Inr (canon_obj d))"
  using assms unfolding bind_issued_def Let_def rbind_Inr_iff
  by (fastforce dest: capture_authorization_binding_Inr)

text \<open>
  \<open>permitted xg issued b va w w'\<close>: how a permit became a verified authorization. An independent
  transport leaves the claim to its own boundary; any other needs the claim won here.
\<close>

definition permitted ::
  "'w ExecutionGateway \<Rightarrow> IssuedAuthorization \<Rightarrow> ExecutionAuthorizationBinding \<Rightarrow> VerifiedAuthorization \<Rightarrow>
   'w \<Rightarrow> 'w \<Rightarrow> bool" where
  "permitted xg issued b va w w' =
     (if independent_execution xg
      then verify_authorization (xg_dna xg) (is_authorization issued) (Some (is_trust_bundle issued)) b False
             = Inr va \<and> w' = w
      else \<exists>now w1. xg_clock xg w = (Inr now, w1) \<and>
             verify_and_claim (xg_dna xg) (xg_store xg) (is_authorization issued)
               (Some (is_trust_bundle issued)) b (Some now) w1 = (Inr va, w'))"

lemma permit_stage_Inr:
  "permit_stage xg a dc planned w = (Inr (issued, b, va), w') \<longleftrightarrow>
     (\<exists>w1. xg_issue xg a dc planned w = (Inr issued, w1) \<and> bind_issued a planned issued = Inr b \<and>
        permitted xg issued b va w1 w')"
  by (auto simp: permit_stage_def permitted_def ebind_Inr eret_Inr)

text \<open>Every answer of the gateway: refused before the dispatch, or the verdict on one dispatch.\<close>

definition dispatched_run ::
  "'w ExecutionGateway \<Rightarrow> ActionIntent \<Rightarrow> 'w handler \<Rightarrow> 'w run_state \<Rightarrow> 'w run_state \<Rightarrow>
   GovernedExecution \<Rightarrow> bool" where
  "dispatched_run xg a h s s' g =
     (\<exists>planned bd dc issued b va w1 w2 w3 dispatched.
        plan_stage xg a (world s) = (Inr (planned, bd), w1) \<and>
        xg_decide xg a bd w1 = (Inr dc, w2) \<and> dc_verdict dc = ALLOW \<and>
        permit_stage xg a dc planned w2 = (Inr (issued, b, va), w3) \<and>
        run_prog h (dispatch_stage xg a planned issued b (xg_transport xg)) (s\<lparr>world := w3\<rparr>)
          = (dispatched, s') \<and>
        conclude xg a dc va (entries s < entries s') dispatched = Inr g)"

lemma execute_allowed_run:
  assumes "run_prog h (execute_allowed xg a dc planned) s = (Inr (Execution g), s')"
  shows "(ge_retryable g \<and> wf_execution g \<and> ge_request_id g = ai_request_id a \<and> entries s' = entries s) \<or>
    (\<exists>issued b va w3 dispatched.
        permit_stage xg a dc planned (world s) = (Inr (issued, b, va), w3) \<and>
        run_prog h (dispatch_stage xg a planned issued b (xg_transport xg)) (s\<lparr>world := w3\<rparr>)
          = (dispatched, s') \<and>
        conclude xg a dc va (entries s < entries s') dispatched = Inr g)"
proof (cases "permit_stage xg a dc planned (world s)")
  case (Pair r w3)
  show ?thesis
  proof (cases r)
    case (Inl e)
    with Pair assms show ?thesis
      by (auto simp: execute_allowed_def run_answer dest: control_failure_Inr)
  next
    case (Inr x)
    obtain issued b va where "x = (issued, b, va)" by (cases x)
    with Pair Inr assms have
      "run_prog h (pbind (of_res (prepare_transport (xg_transport xg))) (\<lambda>transport.
         pbind (attempt (dispatch_stage xg a planned issued b transport) False) (\<lambda>(entered, dispatched).
         answer (conclude xg a dc va entered dispatched)))) (s\<lparr>world := w3\<rparr>) = (Inr (Execution g), s')"
      by (simp add: execute_allowed_def)
    then have "\<exists>dispatched. run_prog h (dispatch_stage xg a planned issued b (xg_transport xg))
          (s\<lparr>world := w3\<rparr>) = (dispatched, s') \<and>
        conclude xg a dc va (entries s < entries s') dispatched = Inr g"
      by (cases "run_prog h (dispatch_stage xg a planned issued b (xg_transport xg)) (s\<lparr>world := w3\<rparr>)")
        (auto simp: run_answer run_pbind run_attempt_eq prepare_transport_def split: if_splits)
    with Pair Inr \<open>x = _\<close> show ?thesis by auto
  qed
qed

lemma decide_and_execute_run:
  assumes "run_prog h (decide_and_execute xg a) s = (Inr (Execution g), s')"
  shows "((ge_retryable g \<or> ge_status g \<in> {BLOCKED, REVIEW_REQUIRED}) \<and> wf_execution g \<and>
      ge_request_id g = ai_request_id a \<and> entries s' = entries s) \<or> dispatched_run xg a h s s' g"
proof (cases "plan_stage xg a (world s)")
  case p: (Pair r w1)
  show ?thesis
  proof (cases r)
    case (Inl e)
    with p assms show ?thesis
      by (auto simp: decide_and_execute_def run_answer dest: control_failure_Inr)
  next
    case r: (Inr x)
    obtain planned bd where x: "x = (planned, bd)" by (cases x)
    obtain r2 w2 where d: "xg_decide xg a bd w1 = (r2, w2)" by fastforce
    show ?thesis
    proof (cases r2)
      case (Inl e)
      with p r x d assms show ?thesis
        by (auto simp: decide_and_execute_def run_answer dest: control_failure_Inr)
    next
      case r2: (Inr dc)
      show ?thesis
      proof (cases "dc_verdict dc")
        case ALLOW
        with p r x d r2 assms have
          "run_prog h (execute_allowed xg a dc planned) (s\<lparr>world := w2\<rparr>) = (Inr (Execution g), s')"
          by (simp add: decide_and_execute_def)
        from execute_allowed_run [OF this] p r x d r2 ALLOW show ?thesis
          unfolding dispatched_run_def by fastforce
      next
        case REQUIRE_APPROVAL
        with p r x d r2 assms show ?thesis
          by (auto simp: decide_and_execute_def run_answer dest: refused_verdict_Inr)
      next
        case BLOCK
        with p r x d r2 assms show ?thesis
          by (auto simp: decide_and_execute_def run_answer dest: refused_verdict_Inr)
      qed
    qed
  qed
qed

text \<open>What a permit, once verified, was verified against.\<close>

lemma permitted_authorization:
  assumes "permitted xg issued b va w w'"
  obtains auth where "verify_authorization (xg_dna xg) auth (Some (is_trust_bundle issued)) (va_binding va) False
      = Inr va"
    and "\<exists>d. is_authorization issued = JObj d \<and> (auth = JObj d \<or> auth = JObj (canon_obj d))"
    and "\<exists>t. va_binding va = b\<lparr>eb_at_time := t\<rparr>"
proof (cases "independent_execution xg")
  case True
  with assms have v: "verify_authorization (xg_dna xg) (is_authorization issued)
      (Some (is_trust_bundle issued)) b False = Inr va" by (simp add: permitted_def)
  then obtain d where "is_authorization issued = JObj d" and b: "va_binding va = b"
    by (rule verify_authorization_Inr) auto
  moreover have "b = b\<lparr>eb_at_time := eb_at_time b\<rparr>" by simp
  ultimately show thesis using v that by metis
next
  case False
  with assms obtain now w1 where
    "verify_and_claim (xg_dna xg) (xg_store xg) (is_authorization issued)
       (Some (is_trust_bundle issued)) b (Some now) w1 = (Inr va, w')" by (auto simp: permitted_def)
  from claimed_authorization [OF this] show thesis using that by metis
qed

lemma evidence_of_dispatch:
  assumes "permitted xg issued b va w w'" and "evidence_stage xg va x = Inr vc"
  shows "\<exists>d t wt c. is_authorization issued = JObj d \<and> is_trust_bundle issued = JObj t \<and>
    dr_witness x = JObj wt \<and> dr_closure x = Some (JObj c) \<and>
    evidence_chain (xg_dna xg) (va_binding va) (canon_obj d) (canon_obj t) (canon_obj wt) (canon_obj c)"
proof -
  obtain auth where v: "verify_authorization (xg_dna xg) auth (Some (is_trust_bundle issued))
      (va_binding va) False = Inr va"
    and d: "\<exists>d. is_authorization issued = JObj d \<and> (auth = JObj d \<or> auth = JObj (canon_obj d))"
    by (rule permitted_authorization [OF assms(1)])
  from assms(2) obtain vd c where "verify_dispatch (xg_dna xg) va (Some (dr_witness x)) = Inr vd"
    "dr_closure x = Some c" "verify_closure (xg_dna xg) vd (Some c) = Inr vc"
    by (auto simp: evidence_stage_Inr)
  from verified_stages_chain [OF v this(1,3)] d this(2) show ?thesis
    by (auto simp: canon_obj_idem)
qed

lemma passed_result:
  assumes "execute gw a h w = (Inr g, s)" and "ge_status g = EXECUTED"
  shows "run_prog h (gw_decide_and_execute gw a) (start w) = (Inr (Execution g), s) \<and>
    entries s = (if is_independent_gateway gw then 0 else 1)"
proof -
  obtain outcome where run: "run_prog h (gw_decide_and_execute gw a) (start w) = (outcome, s)"
    and r: "judge_result a (is_independent_gateway gw) (entries s) outcome = Inr g"
    using assms(1) by (auto simp: execute_def split: prod.splits)
  show ?thesis
  proof (cases rule: judge_result_cases [of a "entries s" "is_independent_gateway gw" outcome])
    case (failure reason)
    with r assms(2) show ?thesis
      by (auto simp: contract_failure_def Let_def execution_post_init_Inr_iff split: if_splits)
  next
    case (passed g')
    with r assms(2) run show ?thesis by (auto split: if_splits)
  qed
qed

lemma independent_execution_gateway [simp]:
  "is_independent_gateway (execution_gateway xg) = independent_execution xg"
  "gw_decide_and_execute (execution_gateway xg) = decide_and_execute xg"
  by (simp_all add: is_independent_gateway_def execution_gateway_def)

text \<open>
  A transport that keeps the contract of refusals gives the gateway's: an answer that allows a retry
  was reached without entering the handler.
\<close>

lemma dispatch_stage_run:
  assumes "run_prog h (dispatch_stage xg a planned issued b tr) s = (r, s')"
  shows "(entries s' = entries s \<and> (\<exists>e. r = Inl e)) \<or>
    (\<exists>rq s1. entries s1 = entries s \<and> run_prog h (tr_dispatch tr rq) s1 = (r, s'))"
  using assms unfolding dispatch_stage_def run_pbind run_service
  by (fastforce split: prod.splits sum.splits)

context pre_execution_refusals
begin

lemma stage_refusal:
  assumes "tr_dispatch tr = dispatch"
    and "run_prog h (dispatch_stage xg a planned issued b tr) s = (Inl HandlerNotInvoked, s')"
  shows "entries s' = entries s"
  using dispatch_stage_run [OF assms(2)] refusal_pre_execution assms(1) by metis

lemma gateway_control_failure:
  assumes "tr_dispatch (xg_transport xg) = dispatch"
    and "run_prog h (decide_and_execute xg a) s = (Inr (Execution g), s')"
    and "ge_status g = CONTROL_FAILURE"
  shows "entries s' = entries s"
proof -
  have "entries s' = entries s" if "dispatched_run xg a h s s' g"
  proof -
    from that obtain planned dc issued b va w3 dispatched where
      run: "run_prog h (dispatch_stage xg a planned issued b (xg_transport xg)) (s\<lparr>world := w3\<rparr>)
          = (dispatched, s')"
      and c: "conclude xg a dc va (entries s < entries s') dispatched = Inr g"
      unfolding dispatched_run_def by blast
    from conclude_Inr [OF c] assms(3) consider "dispatched = Inl HandlerNotInvoked"
      | "\<not> entries s < entries s'" by auto
    then show ?thesis
    proof cases
      case 1
      with run stage_refusal [OF assms(1)] show ?thesis by fastforce
    next
      case 2
      then show ?thesis
        using entries_mono [of "s\<lparr>world := w3\<rparr>" h "dispatch_stage xg a planned issued b (xg_transport xg)"]
          run by simp
    qed
  qed
  with decide_and_execute_run [OF assms(2)] show ?thesis by blast
qed

end

section \<open>Properties\<close>


text \<open>
  C7: with the in-process transport the gateway never reports EXECUTED, because that transport
  returns no closure; and it reports INDETERMINATE exactly when the handler was called, so every
  answer that allows a retry, a review or a denial was reached without calling it.
\<close>

theorem in_process_never_executed:
  assumes "in_process_transport signer encoder identity = Inr (xg_transport xg)"
    and "run_prog h (decide_and_execute xg a) (start w) = (Inr (Execution g), s)"
  shows "ge_status g \<noteq> EXECUTED \<and> (ge_status g = INDETERMINATE \<longleftrightarrow> calls s \<noteq> [])"
proof -
  have tr: "tr_dispatch (xg_transport xg) = in_process_dispatch signer encoder identity"
    and ind: "\<not> independent_execution xg"
    using assms(1) by (auto simp: in_process_transport_Inr independent_execution_def)
  have inv: "calls s \<noteq> [] \<longleftrightarrow> entries s > 0"
    using entry_inv_run [OF entry_inv_start assms(2)] by (cases "entries s") (auto simp: entry_inv_def)
  from decide_and_execute_run [OF assms(2)] show ?thesis
  proof (elim disjE)
    assume "dispatched_run xg a h (start w) s g"
    then obtain planned dc issued b va w3 dispatched where
      run: "run_prog h (dispatch_stage xg a planned issued b (xg_transport xg)) ((start w)\<lparr>world := w3\<rparr>)
          = (dispatched, s)"
      and c: "conclude xg a dc va (0 < entries s) dispatched = Inr g"
      unfolding dispatched_run_def by auto
    have noclosure: "\<forall>x. dispatched = Inr x \<longrightarrow> dr_closure x = None"
      using dispatch_stage_run [OF run] in_process_run by (fastforce simp: tr)
    then have "ge_status g \<noteq> EXECUTED" using conclude_Inr [OF c] by (auto simp: evidence_stage_Inr)
    moreover have "ge_status g = INDETERMINATE \<Longrightarrow> entries s > 0"
      using c noclosure ind by (auto simp: conclude_def Let_def evidence_stage_Inr
        dest!: control_failure_Inr indeterminate_Inr split: sum.splits if_splits)
    moreover have "ge_status g = CONTROL_FAILURE \<Longrightarrow> entries s = 0"
      using inproc.gateway_control_failure [OF tr assms(2)] by simp
    ultimately show ?thesis using conclude_Inr [OF c] inv by (cases "ge_status g") auto
  qed (use inv in \<open>auto simp: wf_execution_iff\<close>)
qed

end
