(* ===== verification/Py_Hash.thy ===== *)
theory Py_Hash
  imports Py_Bytes Cbrain_Prelude
begin

text \<open>
  \<^verbatim>\<open>hashlib.sha256\<close> of the Python standard library, as FIPS 180-4 defines it over 32-bit words, with
  \<^verbatim>\<open>digest()\<close> and \<^verbatim>\<open>hexdigest()\<close>. The development uses two facts of it: the digest has 32 bytes and
  its text 64 lower-case hexadecimal digits.
\<close>

unbundle bit_operations_syntax

definition sha_K :: "32 word list" where
  "sha_K = [1116352408, 1899447441, 3049323471, 3921009573, 961987163, 1508970993, 2453635748, 2870763221,
    3624381080, 310598401, 607225278, 1426881987, 1925078388, 2162078206, 2614888103, 3248222580,
    3835390401, 4022224774, 264347078, 604807628, 770255983, 1249150122, 1555081692, 1996064986,
    2554220882, 2821834349, 2952996808, 3210313671, 3336571891, 3584528711, 113926993, 338241895,
    666307205, 773529912, 1294757372, 1396182291, 1695183700, 1986661051, 2177026350, 2456956037,
    2730485921, 2820302411, 3259730800, 3345764771, 3516065817, 3600352804, 4094571909, 275423344,
    430227734, 506948616, 659060556, 883997877, 958139571, 1322822218, 1537002063, 1747873779,
    1955562222, 2024104815, 2227730452, 2361852424, 2428436474, 2756734187, 3204031479, 3329325298]"

datatype sha_state = ShaState "32 word" "32 word" "32 word" "32 word" "32 word" "32 word" "32 word" "32 word"

definition sha_init :: sha_state where
  "sha_init = ShaState 1779033703 3144134277 1013904242 2773480762 1359893119 2600822924 528734635 1541459225"

definition sha_pad :: "bytes \<Rightarrow> bytes" where
  "sha_pad m = m @ [0x80] @ replicate ((119 - length m mod 64) mod 64) 0 @
     map (\<lambda>i. of_nat (8 * length m div 256 ^ i)) [7, 6, 5, 4, 3, 2, 1, 0]"

fun sha_words :: "bytes \<Rightarrow> 32 word list" where
  "sha_words (a # b # c # d # m) =
     (push_bit 24 (ucast a) OR push_bit 16 (ucast b) OR push_bit 8 (ucast c) OR ucast d) # sha_words m"
| "sha_words _ = []"

definition small_sigma0 :: "32 word \<Rightarrow> 32 word" where
  "small_sigma0 x = word_rotr 7 x XOR word_rotr 18 x XOR drop_bit 3 x"

definition small_sigma1 :: "32 word \<Rightarrow> 32 word" where
  "small_sigma1 x = word_rotr 17 x XOR word_rotr 19 x XOR drop_bit 10 x"

definition sha_extend :: "32 word list \<Rightarrow> 32 word list" where
  "sha_extend w = (let t = length w in
     w @ [small_sigma1 (w ! (t - 2)) + w ! (t - 7) + small_sigma0 (w ! (t - 15)) + w ! (t - 16)])"

definition sha_schedule :: "32 word list \<Rightarrow> 32 word list" where
  "sha_schedule block = (sha_extend ^^ 48) block"

fun sha_round :: "sha_state \<Rightarrow> 32 word \<times> 32 word \<Rightarrow> sha_state" where
  "sha_round (ShaState a b c d e f g h) (k, w) =
     (let s1 = word_rotr 6 e XOR word_rotr 11 e XOR word_rotr 25 e;
          ch = (e AND f) XOR (NOT e AND g);
          t1 = h + s1 + ch + k + w;
          s0 = word_rotr 2 a XOR word_rotr 13 a XOR word_rotr 22 a;
          maj = (a AND b) XOR (a AND c) XOR (b AND c)
      in ShaState (t1 + s0 + maj) a b c (d + t1) e f g)"

fun sha_add :: "sha_state \<Rightarrow> sha_state \<Rightarrow> sha_state" where
  "sha_add (ShaState a b c d e f g h) (ShaState a' b' c' d' e' f' g' h') =
     ShaState (a + a') (b + b') (c + c') (d + d') (e + e') (f + f') (g + g') (h + h')"

definition sha_compress :: "sha_state \<Rightarrow> 32 word list \<Rightarrow> sha_state" where
  "sha_compress st block = sha_add st (foldl sha_round st (zip sha_K (sha_schedule block)))"

function sha_blocks :: "sha_state \<Rightarrow> 32 word list \<Rightarrow> sha_state" where
  "sha_blocks st ws = (if ws = [] then st else sha_blocks (sha_compress st (take 16 ws)) (drop 16 ws))"
  by auto
termination by (relation "measure (length \<circ> snd)") auto

declare sha_blocks.simps [simp del]

definition word_bytes :: "32 word \<Rightarrow> bytes" where
  "word_bytes w = [ucast (drop_bit 24 w), ucast (drop_bit 16 w), ucast (drop_bit 8 w), ucast w]"

definition sha256_digest :: "bytes \<Rightarrow> bytes" where
  "sha256_digest m = (case sha_blocks sha_init (sha_words (sha_pad m)) of
     ShaState a b c d e f g h \<Rightarrow> concat (map word_bytes [a, b, c, d, e, f, g, h]))"

definition hex_bytes :: "bytes \<Rightarrow> string" where
  "hex_bytes bs = concat (map (\<lambda>b. [hex_digit (unat b div 16), hex_digit (unat b mod 16)]) bs)"

definition sha256_hexdigest :: "bytes \<Rightarrow> string" where
  "sha256_hexdigest m = hex_bytes (sha256_digest m)"

text \<open>The digest text the code writes everywhere: \<^verbatim>\<open>"sha256:" + hashlib.sha256(payload).hexdigest()\<close>.\<close>

definition digest_text :: "bytes \<Rightarrow> string" where
  "digest_text payload = ''sha256:'' @ sha256_hexdigest payload"

section \<open>Lemmas\<close>

lemma length_sha256_digest [simp]: "length (sha256_digest m) = 32"
  by (simp add: sha256_digest_def word_bytes_def split: sha_state.split)

lemma length_hex_bytes [simp]: "length (hex_bytes bs) = 2 * length bs"
  by (induction bs) (simp_all add: hex_bytes_def)

lemma is_hex_digit_hex_digit [simp]: "n < 16 \<Longrightarrow> is_hex_digit (hex_digit n)"
proof -
  assume "n < 16"
  then have "n \<in> set [0..<16]" by simp
  moreover have "\<forall>k\<in>set [0..<16]. is_hex_digit (hex_digit k)"
    by code_simp
  ultimately show ?thesis by blast
qed

lemma unat_byte_div [simp]: "unat (b :: 8 word) div 16 < 16"
  using unsigned_less [of b, where 'a = nat] by (simp add: less_mult_imp_div_less)

lemma hex_bytes_digits: "list_all is_hex_digit (hex_bytes bs)"
  by (induction bs) (simp_all add: hex_bytes_def)

lemma digest_text_sha256 [simp]: "sha256_text (digest_text m)"
  by (simp add: sha256_text_def digest_text_def starts_with_def sha256_hexdigest_def hex_bytes_digits)

end
