(* ===== verification/Planner.thy ===== *)
theory Planner
  imports Gateway Py_Hash
begin

text \<open>
  \<^verbatim>\<open>cbrain/execution/planner.py\<close>: the static route table and \<open>HttpDispatchPlanner.plan\<close>, which turns
  an intent into the exact outbound bytes. The route table is a finite map from tool names.
\<close>

record ToolRoute =
  rt_tool_id :: string
  rt_capability :: string
  rt_destination :: string
  rt_operation :: string
  rt_credential_audience :: string
  rt_peer_identity :: string
  rt_allowed_parameters :: "string list"
  rt_required_parameters :: "string list"
  rt_transport :: string
  rt_wire_content_type :: string
  rt_wire_content_encoding :: string
  rt_tool_schema_digest :: string
  rt_tool_artifact_digest :: string
  rt_retry_policy_digest :: string

definition route_post_init :: "ToolRoute \<Rightarrow> ToolRoute res" where
  "route_post_init r =
     rbind (ensure (list_all (\<lambda>s. s \<noteq> [])
       [rt_tool_id r, rt_capability r, rt_destination r, rt_operation r, rt_credential_audience r,
        rt_peer_identity r]) ValueError) (\<lambda>_.
     rbind (ensure (set (rt_required_parameters r) \<subseteq> set (rt_allowed_parameters r)) ValueError) (\<lambda>_.
     Inr r))"

record HttpDispatchPlanner =
  hp_routes :: "string \<rightharpoonup> ToolRoute"
  hp_subject_principal :: string
  hp_subject_key_id :: string

primrec is_json_safe :: "json \<Rightarrow> bool" where
  "is_json_safe JNull = True"
| "is_json_safe (JBool _) = True"
| "is_json_safe (JInt _) = True"
| "is_json_safe (JFloat f) = (case f of Finite _ \<Rightarrow> True | _ \<Rightarrow> False)"
| "is_json_safe (JStr _) = True"
| "is_json_safe (JObj kvs) = list_all snd (map (map_prod id is_json_safe) kvs)"
| "is_json_safe (JList xs) = list_all id (map is_json_safe xs)"
| "is_json_safe (JOpaque _) = False"

definition filter_arguments :: "ActionIntent \<Rightarrow> ToolRoute \<Rightarrow> jobj res" where
  "filter_arguments action route =
     rbind (ai_arguments action) (\<lambda>raw.
     let filtered = filter (\<lambda>kv. fst kv \<in> set (rt_allowed_parameters route)) raw in
     rbind (ensure (set (rt_required_parameters route) \<subseteq> jkeys filtered) DispatchPlanningError) (\<lambda>_.
     rbind (ensure (list_all (is_json_safe \<circ> snd) filtered) DispatchPlanningError) (\<lambda>_.
     Inr filtered)))"

text \<open>
  \<^verbatim>\<open>_canonical_bytes\<close>: \<^verbatim>\<open>json.dumps\<close> raises on a value that is not a JSON value or a non-finite
  float, and the exception becomes \<open>DispatchPlanningError\<close>.
\<close>

definition canonical_bytes :: "jobj \<Rightarrow> bytes res" where
  "canonical_bytes payload =
     rbind (ensure (valid_json (JObj payload)) DispatchPlanningError) (\<lambda>_.
     Inr (encode_utf8 (dumps (JObj payload))))"

definition or_digest :: "string \<Rightarrow> bytes \<Rightarrow> json" where
  "or_digest given payload = JStr (if given = [] then digest_text payload else given)"

definition plan_dispatch_document :: "ActionIntent \<Rightarrow> ToolRoute \<Rightarrow> jobj" where
  "plan_dispatch_document action route =
     [(''transport'', JStr (rt_transport route)),
      (''destination'', JStr (rt_destination route)),
      (''operation'', JStr (rt_operation route)),
      (''wire_content_type'', JStr (rt_wire_content_type route)),
      (''wire_content_encoding'', JStr (rt_wire_content_encoding route)),
      (''tool_id'', JStr (rt_tool_id route)),
      (''tool_schema_digest'', or_digest (rt_tool_schema_digest route) (encode_utf8 (rt_tool_id route))),
      (''tool_artifact_digest'', or_digest (rt_tool_artifact_digest route) (encode_utf8 (rt_operation route))),
      (''credential_audience'', JStr (rt_credential_audience route)),
      (''idempotency_key_digest'', JStr (digest_text (encode_utf8 (ai_idempotency_key action)))),
      (''retry_policy_digest'', or_digest (rt_retry_policy_digest route) (encode_utf8 ''no-retry'')),
      (''serialization'', JStr ''pv-json-parameters/0.1'')]"

definition plan :: "HttpDispatchPlanner \<Rightarrow> ActionIntent \<Rightarrow> PlannedDispatch res" where
  "plan hp action =
     rbind (of_option DispatchPlanningError (hp_routes hp (ai_tool_name action))) (\<lambda>route.
     rbind (ensure (rt_capability route = ai_capability action) DispatchPlanningError) (\<lambda>_.
     rbind (filter_arguments action route) (\<lambda>arguments.
     let action_document =
       [(''subject_principal'', JStr (hp_subject_principal hp)),
        (''subject_key_id'', JStr (hp_subject_key_id hp)),
        (''action'', JStr (ai_capability action)),
        (''resource'', JStr (rt_destination route)),
        (''parameters'', JObj arguments)] in
     rbind (canonical_bytes arguments) (\<lambda>wire_bytes.
     let peer_identity_bytes = encode_utf8 (rt_peer_identity route) in
     rbind (capture_dispatch (ai_request_id action) (JObj (plan_dispatch_document action route))
              wire_bytes peer_identity_bytes) (\<lambda>prepared.
     Inr \<lparr>pl_action = JObj action_document, pl_prepared = prepared\<rparr>)))))"

section \<open>Lemmas\<close>

lemma is_json_safe_valid: "is_json_safe j = valid_json j"
  by (induction j) (auto simp: list_all_iff)

lemma filter_arguments_Inr:
  "filter_arguments a r = Inr f \<longleftrightarrow>
     (\<exists>raw. ai_arguments a = Inr raw \<and> f = filter (\<lambda>kv. fst kv \<in> set (rt_allowed_parameters r)) raw \<and>
       set (rt_required_parameters r) \<subseteq> jkeys f \<and> valid_json (JObj f))"
  by (auto simp: filter_arguments_def Let_def rbind_Inr_iff ensure_Inr valid_json_JObj list_all_iff
      is_json_safe_valid simp del: valid_json.simps)

lemma plan_Inr:
  assumes "plan hp a = Inr pl"
  obtains route f where "hp_routes hp (ai_tool_name a) = Some route"
    and "rt_capability route = ai_capability a" and "filter_arguments a route = Inr f"
    and "pl_action pl = JObj [(''subject_principal'', JStr (hp_subject_principal hp)),
        (''subject_key_id'', JStr (hp_subject_key_id hp)),
        (''action'', JStr (ai_capability a)),
        (''resource'', JStr (rt_destination route)),
        (''parameters'', JObj f)]"
    and "capture_dispatch (ai_request_id a) (JObj (plan_dispatch_document a route))
        (encode_utf8 (dumps (JObj f))) (encode_utf8 (rt_peer_identity route)) = Inr (pl_prepared pl)"
  using assms
  by (auto simp: plan_def Let_def rbind_Inr_iff of_option_Inr ensure_Inr canonical_bytes_def)

lemma captured_dispatch_restores:
  "capture_dispatch rid (JObj d) wire peer = Inr p \<Longrightarrow> pd_dispatch p = Inr (canon_obj d)"
  by (auto simp: capture_dispatch_Inr pd_dispatch_def restore_object_Inr)

text \<open>An argument document that equals its own restriction lost nothing.\<close>

lemma filtered_json_eq:
  assumes "json_eq (JObj (filter (\<lambda>kv. fst kv \<in> A) args)) (JObj args)"
  shows "filter (\<lambda>kv. fst kv \<in> A) args = args"
proof -
  have "jkeys (filter (\<lambda>kv. fst kv \<in> A) args) = jkeys args"
    using assms unfolding json_eq_JObj by simp
  moreover have "jkeys (filter (\<lambda>kv. fst kv \<in> A) args) \<subseteq> A" by (auto simp: jkeys_def)
  ultimately have "jkeys args \<subseteq> A" by simp
  then have "\<forall>kv\<in>set args. fst kv \<in> A" by (auto simp: jkeys_def)
  then show ?thesis by (simp add: filter_id_conv)
qed

section \<open>Properties\<close>

text \<open>
  C8: a plan exists only for a routed tool whose capability is the governed one; its parameters are
  the governed arguments restricted to the operator's allow-list, with every required one present;
  the wire bytes are the canonical JSON of exactly those parameters; and the prepared dispatch is
  well formed, belongs to the request, and names the destination, operation, tool and peer of the
  route and the digest of the idempotency key.
\<close>

theorem plan_sound:
  assumes "plan hp a = Inr pl"
  shows "\<exists>route args f d. hp_routes hp (ai_tool_name a) = Some route \<and>
    rt_capability route = ai_capability a \<and> ai_arguments a = Inr args \<and>
    f = filter (\<lambda>kv. fst kv \<in> set (rt_allowed_parameters route)) args \<and>
    set (rt_required_parameters route) \<subseteq> jkeys f \<and>
    (\<exists>act. pl_action pl = JObj act \<and> jget act ''parameters'' = Some (JObj f)) \<and>
    wf_dispatch (pl_prepared pl) \<and> pd_request_id (pl_prepared pl) = ai_request_id a \<and>
    pd_wire_bytes (pl_prepared pl) = encode_utf8 (dumps (JObj f)) \<and>
    pd_peer_identity_bytes (pl_prepared pl) = encode_utf8 (rt_peer_identity route) \<and>
    pd_dispatch (pl_prepared pl) = Inr d \<and>
    jget d ''destination'' = Some (JStr (rt_destination route)) \<and>
    jget d ''operation'' = Some (JStr (rt_operation route)) \<and>
    jget d ''tool_id'' = Some (JStr (rt_tool_id route)) \<and>
    jget d ''idempotency_key_digest'' =
      Some (JStr (digest_text (encode_utf8 (ai_idempotency_key a))))"
proof (rule plan_Inr [OF assms])
  fix route f
  assume r: "hp_routes hp (ai_tool_name a) = Some route" "rt_capability route = ai_capability a"
    and f: "filter_arguments a route = Inr f"
    and act: "pl_action pl = JObj [(''subject_principal'', JStr (hp_subject_principal hp)),
        (''subject_key_id'', JStr (hp_subject_key_id hp)), (''action'', JStr (ai_capability a)),
        (''resource'', JStr (rt_destination route)), (''parameters'', JObj f)]"
    and c: "capture_dispatch (ai_request_id a) (JObj (plan_dispatch_document a route))
        (encode_utf8 (dumps (JObj f))) (encode_utf8 (rt_peer_identity route)) = Inr (pl_prepared pl)"
  let ?d = "plan_dispatch_document a route"
  have dist: "distinct (map fst ?d)" by (simp add: plan_dispatch_document_def)
  have g: "jget (canon_obj ?d) k = map_option canon (jget ?d k)" for k by (rule jget_canon [OF dist])
  have "jget (canon_obj ?d) ''destination'' = Some (JStr (rt_destination route))"
    "jget (canon_obj ?d) ''operation'' = Some (JStr (rt_operation route))"
    "jget (canon_obj ?d) ''tool_id'' = Some (JStr (rt_tool_id route))"
    "jget (canon_obj ?d) ''idempotency_key_digest'' =
      Some (JStr (digest_text (encode_utf8 (ai_idempotency_key a))))"
    unfolding g by (simp_all add: plan_dispatch_document_def jget_def)
  with r f act c captured_dispatch_restores [OF c] show ?thesis
    by (auto simp: filter_arguments_Inr capture_dispatch_Inr jget_def)
qed

text \<open>
  C9: a plan that was bound for a decision dropped nothing: every argument of the intent is on the
  allow-list, the wire bytes are the canonical JSON of the governed arguments themselves, and the
  subject key is the agent's. An intent with an argument off the allow-list is refused before
  PrivateVault sees it.
\<close>

theorem bound_plan_is_lossless:
  assumes "plan hp a = Inr pl" and "pd_dispatch (pl_prepared pl) = Inr d"
    and "capture_binding a (pl_action pl) d = Inr b"
  shows "\<exists>route args. hp_routes hp (ai_tool_name a) = Some route \<and> ai_arguments a = Inr args \<and>
    jkeys args \<subseteq> set (rt_allowed_parameters route) \<and>
    pd_wire_bytes (pl_prepared pl) = encode_utf8 (dumps (JObj args)) \<and>
    hp_subject_key_id hp = ai_agent_id a"
proof (rule plan_Inr [OF assms(1)])
  fix route f
  assume r: "hp_routes hp (ai_tool_name a) = Some route" "filter_arguments a route = Inr f"
    and act: "pl_action pl = JObj [(''subject_principal'', JStr (hp_subject_principal hp)),
        (''subject_key_id'', JStr (hp_subject_key_id hp)), (''action'', JStr (ai_capability a)),
        (''resource'', JStr (rt_destination route)), (''parameters'', JObj f)]"
    and c: "capture_dispatch (ai_request_id a) (JObj (plan_dispatch_document a route))
        (encode_utf8 (dumps (JObj f))) (encode_utf8 (rt_peer_identity route)) = Inr (pl_prepared pl)"
  from r obtain args where args: "ai_arguments a = Inr args"
    "f = filter (\<lambda>kv. fst kv \<in> set (rt_allowed_parameters route)) args"
    by (auto simp: filter_arguments_Inr)
  from capture_binding_Inr [OF assms(3)] act args
  have "json_eq (JObj f) (JObj args)" and sub: "hp_subject_key_id hp = ai_agent_id a"
    by (auto simp: jget_def)
  then have f: "f = args" using filtered_json_eq args(2) by metis
  then have "\<forall>kv\<in>set args. fst kv \<in> set (rt_allowed_parameters route)"
    using args(2) by (metis filter_id_conv)
  with r args sub c f show ?thesis by (auto simp: capture_dispatch_Inr jkeys_def)
qed

end
