(* ===== verification/Sidecar_Protocol.thy ===== *)
theory Sidecar_Protocol
  imports Transport PV_Decision Py_Hash
begin

text \<open>
  The wire protocol and the small checks of \<^verbatim>\<open>cbrain/execution/sidecar.py\<close>: credentials, routes, the
  request and response codecs between agent and sidecar, the operation line, and the names a client
  certificate carries. The service and the transport are in \<open>Sidecar\<close>.
\<close>

section \<open>Credentials and routes\<close>

definition header_name_char :: "char \<Rightarrow> bool" where
  "header_name_char c = (let n = of_char c :: nat in
     (48 \<le> n \<and> n \<le> 57) \<or> (65 \<le> n \<and> n \<le> 90) \<or> (97 \<le> n \<and> n \<le> 122) \<or>
     n \<in> {33, 35, 36, 37, 38, 39, 42, 43, 45, 46, 94, 95, 96, 124, 126})"

definition header_name :: "string \<Rightarrow> bool" where
  "header_name s = (s \<noteq> [] \<and> list_all header_name_char s)"

definition no_line_breaks :: "string \<Rightarrow> bool" where
  "no_line_breaks s = list_all (\<lambda>c. c \<noteq> CHR 0x0D \<and> c \<noteq> CHR 0x0A) s"

record CredentialHeader =
  ch_name :: string
  ch_value :: string

definition credential_post_init :: "CredentialHeader \<Rightarrow> CredentialHeader res" where
  "credential_post_init c =
     rbind (ensure (header_name (ch_name c)) SidecarError) (\<lambda>_.
     rbind (ensure (ch_value c \<noteq> [] \<and> no_line_breaks (ch_value c)) SidecarError) (\<lambda>_.
     Inr c))"

record EnvironmentCredentialBinding =
  ec_environment_variable :: string
  ec_header_name :: string
  ec_value_prefix :: string

definition environment_binding_post_init ::
  "EnvironmentCredentialBinding \<Rightarrow> EnvironmentCredentialBinding res" where
  "environment_binding_post_init b =
     rbind (ensure (nonblank (ec_environment_variable b)) ValueError) (\<lambda>_.
     rbind (ensure (header_name (ec_header_name b)) ValueError) (\<lambda>_.
     rbind (ensure (no_line_breaks (ec_value_prefix b)) ValueError) (\<lambda>_.
     Inr b)))"

text \<open>\<^verbatim>\<open>EnvironmentCredentialProvider.resolve\<close> over the environment of the process.\<close>

definition resolve ::
  "(string \<rightharpoonup> EnvironmentCredentialBinding) \<Rightarrow> (string \<rightharpoonup> string) \<Rightarrow> string \<Rightarrow> CredentialHeader res" where
  "resolve bindings environ audience =
     rbind (of_option SidecarError (bindings audience)) (\<lambda>binding.
     let value = (case environ (ec_environment_variable binding) of None \<Rightarrow> [] | Some v \<Rightarrow> v) in
     rbind (ensure (value \<noteq> []) SidecarError) (\<lambda>_.
     credential_post_init
       \<lparr>ch_name = ec_header_name binding, ch_value = ec_value_prefix binding @ value\<rparr>))"

record HTTPSRoute =
  hs_destination :: string
  hs_host :: string
  hs_port :: int
  hs_operations :: "string list"
  hs_credential_audience :: string

definition https_route_post_init :: "HTTPSRoute \<Rightarrow> HTTPSRoute res" where
  "https_route_post_init r =
     rbind (ensure (nonblank (hs_destination r) \<and> nonblank (hs_host r)) ValueError) (\<lambda>_.
     rbind (ensure (1 \<le> hs_port r \<and> hs_port r \<le> 65535) ValueError) (\<lambda>_.
     rbind (ensure (hs_operations r \<noteq> [] \<and> list_all nonblank (hs_operations r)) ValueError) (\<lambda>_.
     rbind (ensure (nonblank (hs_credential_audience r)) ValueError) (\<lambda>_.
     Inr r))))"

section \<open>Helpers\<close>

definition required_mapping :: "json option \<Rightarrow> jobj res" where
  "required_mapping v = (case v of Some (JObj d) \<Rightarrow> Inr d | _ \<Rightarrow> Inl SidecarProtocolError)"

definition sidecar_text :: "jobj \<Rightarrow> string \<Rightarrow> string res" where
  "sidecar_text d k = of_option SidecarProtocolError (text_field d k)"

definition unb64 :: "json option \<Rightarrow> bytes res" where
  "unb64 v = (case v of
       Some (JStr s) \<Rightarrow>
         rbind (ensure (s \<noteq> []) SidecarProtocolError) (\<lambda>_.
         rbind (of_option SidecarProtocolError (b64decode s)) (\<lambda>decoded.
         rbind (ensure (decoded \<noteq> []) SidecarProtocolError) (\<lambda>_.
         Inr decoded)))
     | _ \<Rightarrow> Inl SidecarProtocolError)"

definition sidecar_canonical_json :: "jobj \<Rightarrow> bytes res" where
  "sidecar_canonical_json d =
     rbind (ensure (valid_json (JObj d)) SidecarProtocolError) (\<lambda>_.
     Inr (encode_utf8 (dumps (JObj d))))"

definition trust_bundle_digest :: "jobj \<Rightarrow> string res" where
  "trust_bundle_digest bundle =
     rbind (sidecar_canonical_json bundle) (\<lambda>b. Inr (digest_text b))"

definition possible_request_id :: "jobj \<Rightarrow> string" where
  "possible_request_id payload = (case jget payload ''prepared'' of
       Some (JObj p) \<Rightarrow> (case jget p ''request_id'' of Some (JStr s) \<Rightarrow> s | _ \<Rightarrow> ''unknown'')
     | _ \<Rightarrow> ''unknown'')"

definition safe_header_value :: "string \<Rightarrow> string res" where
  "safe_header_value v = rbind (ensure (no_line_breaks v) SidecarProtocolError) (\<lambda>_. Inr v)"

text \<open>
  \<^verbatim>\<open>_parse_operation\<close>. On the code points of the model, \<open>py_isalpha\<close> is \<^verbatim>\<open>str.isalpha\<close> of one
  character and \<open>upper_stable\<close> says that \<^verbatim>\<open>str.upper\<close> leaves it alone.
\<close>

definition py_isalpha :: "char \<Rightarrow> bool" where
  "py_isalpha c = (let n = of_char c :: nat in
     (65 \<le> n \<and> n \<le> 90) \<or> (97 \<le> n \<and> n \<le> 122) \<or> n = 170 \<or> n = 181 \<or> n = 186 \<or>
     (192 \<le> n \<and> n \<noteq> 215 \<and> n \<noteq> 247))"

definition upper_stable :: "char \<Rightarrow> bool" where
  "upper_stable c = (let n = of_char c :: nat in
     \<not> ((97 \<le> n \<and> n \<le> 122) \<or> n = 181 \<or> (223 \<le> n \<and> n \<noteq> 247)))"

definition parse_operation :: "string \<Rightarrow> (string \<times> string) res" where
  "parse_operation operation =
     (let method = takeWhile (\<lambda>c. c \<noteq> CHR '' '') operation;
          rest = dropWhile (\<lambda>c. c \<noteq> CHR '' '') operation in
      rbind (ensure (rest \<noteq> []) SidecarError) (\<lambda>_.
      let path = tl rest in
      rbind (ensure (method \<noteq> [] \<and> list_all py_isalpha method \<and> list_all upper_stable method)
               SidecarError) (\<lambda>_.
      rbind (ensure (starts_with ''/'' path \<and> no_line_breaks path) SidecarError) (\<lambda>_.
      Inr (method, path)))))"

text \<open>
  \<^verbatim>\<open>_content_length\<close>: \<^verbatim>\<open>str.isdigit\<close> holds of the superscripts 1, 2 and 3 too, which \<^verbatim>\<open>int\<close>
  refuses, as it refuses more than 4300 digits; that exception is \<^verbatim>\<open>ValueError\<close>.
\<close>

definition py_isdigit :: "char \<Rightarrow> bool" where
  "py_isdigit c = (let n = of_char c :: nat in (48 \<le> n \<and> n \<le> 57) \<or> n = 178 \<or> n = 179 \<or> n = 185)"

definition content_length :: "string option \<Rightarrow> nat res" where
  "content_length value = (case value of
       None \<Rightarrow> Inl SidecarProtocolError
     | Some v \<Rightarrow>
         if v = [] \<or> \<not> list_all py_isdigit v then Inl SidecarProtocolError
         else if list_all is_digit v \<and> length v \<le> 4300 then Inr (nat_of_digits v)
         else Inl ValueError)"

section \<open>Client certificates\<close>

text \<open>What \<^verbatim>\<open>getpeercert()\<close> holds: nested tuples of text, and values of other types.\<close>

datatype cert_value = CTuple "cert_value list" | CStr string | COther

type_synonym peercert = "(string \<times> cert_value) list"

definition tuple_items :: "cert_value option \<Rightarrow> cert_value list" where
  "tuple_items v = (case v of Some (CTuple xs) \<Rightarrow> xs | _ \<Rightarrow> [])"

fun common_name :: "cert_value \<Rightarrow> string list" where
  "common_name (CTuple [CStr k, CStr v]) = (if k = ''commonName'' \<and> nonblank v then [v] else [])"
| "common_name _ = []"

fun alt_name :: "cert_value \<Rightarrow> string list" where
  "alt_name (CTuple [_, CStr v]) = (if nonblank v then [v] else [])"
| "alt_name _ = []"

text \<open>\<open>None\<close> is a certificate that is not a mapping.\<close>

definition principals_from_peercert :: "peercert option \<Rightarrow> string set" where
  "principals_from_peercert certificate = (case certificate of
       None \<Rightarrow> {}
     | Some c \<Rightarrow>
         set (concat (map (\<lambda>rdn. concat (map common_name (tuple_items (Some rdn))))
                (tuple_items (map_of c ''subject'')))) \<union>
         set (concat (map alt_name (tuple_items (map_of c ''subjectAltName'')))))"

text \<open>A connection without \<^verbatim>\<open>getpeercert\<close>, or whose \<^verbatim>\<open>getpeercert\<close> raises, is \<open>Inl\<close>.\<close>

definition client_principal_allowed :: "peercert option res \<Rightarrow> string set \<Rightarrow> bool" where
  "client_principal_allowed connection allowed = (case connection of
       Inl _ \<Rightarrow> False
     | Inr certificate \<Rightarrow> principals_from_peercert certificate \<inter> allowed \<noteq> {})"

section \<open>Requests\<close>

record SidecarEnvelope =
  se_authorization :: jobj
  se_trust_bundle :: jobj
  se_binding :: ExecutionAuthorizationBinding
  se_witness_id :: string
  se_attempt :: int

definition request_schema :: string where
  "request_schema = ''cbrain-dispatch-sidecar/request-v1''"

definition response_schema :: string where
  "response_schema = ''cbrain-dispatch-sidecar/response-v1''"

definition as_dict :: "json \<Rightarrow> jobj res" where
  "as_dict v = (case v of JObj d \<Rightarrow> Inr d | _ \<Rightarrow> Inl TypeError)"

definition encode_prepared :: "PreparedDispatch \<Rightarrow> jobj \<Rightarrow> json" where
  "encode_prepared prepared dispatch = JObj
     [(''request_id'', JStr (pd_request_id prepared)),
      (''dispatch'', JObj dispatch),
      (''wire_bytes'', JStr (b64encode (pd_wire_bytes prepared))),
      (''peer_identity_bytes'', JStr (b64encode (pd_peer_identity_bytes prepared)))]"

definition encode_binding :: "ExecutionAuthorizationBinding \<Rightarrow> json" where
  "encode_binding binding = JObj
     [(''decision_receipt_digest'', JStr (eb_decision_receipt_digest binding)),
      (''authority_receipt_digest'', JStr (eb_authority_receipt_digest binding)),
      (''approval_artifact_digest'', case eb_approval_artifact_digest binding of
         None \<Rightarrow> JNull | Some d \<Rightarrow> JStr d),
      (''state_snapshot_digest'', JStr (eb_state_snapshot_digest binding)),
      (''policy_bundle_digest'', JStr (eb_policy_bundle_digest binding)),
      (''obligations_digest'', JStr (eb_obligations_digest binding)),
      (''at_time'', JStr (eb_at_time binding))]"

definition encode_request ::
  "json \<Rightarrow> json \<Rightarrow> ExecutionAuthorizationBinding \<Rightarrow> string \<Rightarrow> string \<Rightarrow> int \<Rightarrow> jobj res" where
  "encode_request authorization trust_bundle binding witness_id observed_at attempt_no =
     (let prepared = eb_prepared_dispatch binding in
      rbind (as_dict authorization) (\<lambda>au.
      rbind (as_dict trust_bundle) (\<lambda>tb.
      rbind (eb_action binding) (\<lambda>action.
      rbind (pd_dispatch prepared) (\<lambda>dispatch.
      Inr [(''schema'', JStr request_schema),
           (''authorization'', JObj au),
           (''trust_bundle'', JObj tb),
           (''action'', JObj action),
           (''prepared'', encode_prepared prepared dispatch),
           (''binding'', encode_binding binding),
           (''witness'', JObj [(''witness_id'', JStr witness_id), (''attempt'', JInt attempt_no)])])))))"

definition decode_prepared :: "jobj \<Rightarrow> PreparedDispatch res" where
  "decode_prepared prepared_value =
     rbind (sidecar_text prepared_value ''request_id'') (\<lambda>request_id.
     rbind (required_mapping (jget prepared_value ''dispatch'')) (\<lambda>dispatch.
     rbind (unb64 (jget prepared_value ''wire_bytes'')) (\<lambda>wire_bytes.
     rbind (unb64 (jget prepared_value ''peer_identity_bytes'')) (\<lambda>peer_identity_bytes.
     capture_dispatch request_id (JObj dispatch) wire_bytes peer_identity_bytes))))"

definition decode_approval :: "jobj \<Rightarrow> string option res" where
  "decode_approval binding_value = (case jget binding_value ''approval_artifact_digest'' of
       None \<Rightarrow> Inr None
     | Some JNull \<Rightarrow> Inr None
     | Some (JStr s) \<Rightarrow> Inr (Some s)
     | Some _ \<Rightarrow> Inl SidecarProtocolError)"

definition decode_binding :: "jobj \<Rightarrow> jobj \<Rightarrow> PreparedDispatch \<Rightarrow> ExecutionAuthorizationBinding res" where
  "decode_binding binding_value action prepared =
     rbind (decode_approval binding_value) (\<lambda>approval.
     rbind (sidecar_text binding_value ''decision_receipt_digest'') (\<lambda>decision.
     rbind (sidecar_text binding_value ''authority_receipt_digest'') (\<lambda>authority.
     rbind (sidecar_text binding_value ''state_snapshot_digest'') (\<lambda>state.
     rbind (sidecar_text binding_value ''policy_bundle_digest'') (\<lambda>policy.
     rbind (sidecar_text binding_value ''obligations_digest'') (\<lambda>obligations.
     rbind (sidecar_text binding_value ''at_time'') (\<lambda>at_time.
     capture_authorization_binding (pd_request_id prepared) (JObj action) prepared decision authority
       approval state policy obligations at_time)))))))"

definition decode_attempt :: "jobj \<Rightarrow> int res" where
  "decode_attempt witness = (case jget witness ''attempt'' of
       Some (JInt n) \<Rightarrow> if n < 1 then Inl SidecarProtocolError else Inr n
     | _ \<Rightarrow> Inl SidecarProtocolError)"

definition decode_request :: "jobj \<Rightarrow> SidecarEnvelope res" where
  "decode_request payload =
     rbind (ensure (jget payload ''schema'' = Some (JStr request_schema)) SidecarProtocolError) (\<lambda>_.
     rbind (required_mapping (jget payload ''authorization'')) (\<lambda>authorization.
     rbind (required_mapping (jget payload ''trust_bundle'')) (\<lambda>trust_bundle.
     rbind (required_mapping (jget payload ''action'')) (\<lambda>action.
     rbind (required_mapping (jget payload ''prepared'')) (\<lambda>prepared_value.
     rbind (required_mapping (jget payload ''binding'')) (\<lambda>binding_value.
     rbind (required_mapping (jget payload ''witness'')) (\<lambda>witness.
     rbind (decode_prepared prepared_value) (\<lambda>prepared.
     rbind (decode_binding binding_value action prepared) (\<lambda>binding.
     rbind (decode_attempt witness) (\<lambda>attempt_no.
     rbind (sidecar_text witness ''witness_id'') (\<lambda>witness_id.
     Inr \<lparr>se_authorization = authorization, se_trust_bundle = trust_bundle, se_binding = binding,
          se_witness_id = witness_id, se_attempt = attempt_no\<rparr>)))))))))))"

section \<open>Responses\<close>

definition encode_success :: "string \<Rightarrow> DispatchResult \<Rightarrow> jobj res" where
  "encode_success request_id result =
     rbind (of_option SidecarProtocolError (dr_closure result)) (\<lambda>closure_value.
     rbind (as_dict (dr_witness result)) (\<lambda>witness.
     rbind (as_dict closure_value) (\<lambda>closure.
     Inr [(''schema'', JStr response_schema),
          (''status'', JStr ''EXECUTED''),
          (''phase'', JStr ''CLOSED''),
          (''request_id'', JStr request_id),
          (''witness'', JObj witness),
          (''closure'', JObj closure),
          (''dispatch_outcome'', JStr (dr_dispatch_outcome result)),
          (''response_status'', JStr (dr_response_status result)),
          (''response_bytes'', JStr (b64encode (dr_response_bytes result))),
          (''effect_state'', JStr (dr_effect_state result)),
          (''output'', dr_output result)])))"

definition decode_response :: "jobj \<Rightarrow> string \<Rightarrow> DispatchResult res" where
  "decode_response response expected_request_id =
     rbind (ensure (jget response ''schema'' = Some (JStr response_schema)) DispatchTransportError) (\<lambda>_.
     rbind (sidecar_text response ''request_id'') (\<lambda>request_id.
     rbind (ensure (request_id = expected_request_id) DispatchTransportError) (\<lambda>_.
     rbind (sidecar_text response ''status'') (\<lambda>status.
     rbind (sidecar_text response ''phase'') (\<lambda>phase.
     rbind (ensure (\<not> (status = ''REFUSED'' \<and> phase = ''PRE_DISPATCH'')) HandlerNotInvoked) (\<lambda>_.
     rbind (ensure (status = ''EXECUTED'' \<and> phase = ''CLOSED'') DispatchTransportError) (\<lambda>_.
     rbind (required_mapping (jget response ''witness'')) (\<lambda>witness.
     rbind (required_mapping (jget response ''closure'')) (\<lambda>closure.
     rbind (sidecar_text response ''dispatch_outcome'') (\<lambda>dispatch_outcome.
     rbind (sidecar_text response ''response_status'') (\<lambda>response_status.
     rbind (unb64 (jget response ''response_bytes'')) (\<lambda>response_bytes.
     rbind (sidecar_text response ''effect_state'') (\<lambda>effect_state.
     Inr \<lparr>dr_witness = JObj witness, dr_dispatch_outcome = dispatch_outcome,
          dr_response_status = response_status, dr_response_bytes = response_bytes,
          dr_effect_state = effect_state,
          dr_output = (case jget response ''output'' of None \<Rightarrow> JNull | Some v \<Rightarrow> v),
          dr_closure = Some (JObj closure)\<rparr>)))))))))))))"

section \<open>Lemmas\<close>

lemma sidecar_text_canon [simp]: "distinct (map fst d) \<Longrightarrow> sidecar_text (canon_obj d) k = sidecar_text d k"
  by (simp add: sidecar_text_def)

lemma sidecar_text_field: "jget d k = Some (JStr s) \<Longrightarrow> nonblank s \<Longrightarrow> sidecar_text d k = Inr s"
  by (simp add: sidecar_text_def text_field_def)

lemma required_mapping_JObj [simp]: "required_mapping (Some (JObj d)) = Inr d"
  by (simp add: required_mapping_def)

lemma as_dict_JObj [simp]: "as_dict (JObj d) = Inr d"
  by (simp add: as_dict_def)

lemma unb64_b64 [simp]:
  "unb64 (Some (JStr (b64encode bs))) = (if bs = [] then Inl SidecarProtocolError else Inr bs)"
  by (simp add: unb64_def)

lemma recapture_binding:
  assumes "capture_authorization_binding rid (JObj d) p d1 d2 ap d3 d4 d5 t = Inr b"
  shows "capture_authorization_binding rid (JObj (canon_obj d)) p d1 d2 ap d3 d4 d5 t = Inr b"
  using assms valid_json_canon [of "JObj d"]
  by (auto simp: capture_authorization_binding_def rbind_Inr_iff snapshot_object_Inr canon_JObj
      simp del: valid_json_canon canon.simps valid_json.simps)

lemma decode_prepared_encoded:
  assumes "capture_dispatch rid (JObj d) wire peer = Inr p"
  shows "\<exists>c. encode_prepared p (canon_obj d) = JObj c \<and> decode_prepared (canon_obj c) = Inr p"
proof -
  let ?c = "[(''request_id'', JStr (pd_request_id p)), (''dispatch'', JObj (canon_obj d)),
      (''wire_bytes'', JStr (b64encode (pd_wire_bytes p))),
      (''peer_identity_bytes'', JStr (b64encode (pd_peer_identity_bytes p)))]"
  have dist: "distinct (map fst ?c)" by simp
  have wf: "wf_dispatch p" using assms by (auto simp: capture_dispatch_Inr)
  have j: "jget (canon_obj ?c) k = map_option canon (jget ?c k)" for k by (rule jget_canon [OF dist])
  have "sidecar_text (canon_obj ?c) ''request_id'' = Inr (pd_request_id p)"
    unfolding sidecar_text_canon [OF dist] using wf by (intro sidecar_text_field) (auto simp: wf_dispatch_iff)
  moreover have "jget (canon_obj ?c) ''dispatch'' = Some (JObj (canon_obj d))"
    unfolding j by (simp add: canon_JObj del: canon.simps)
  moreover have "jget (canon_obj ?c) ''wire_bytes'' = Some (JStr (b64encode (pd_wire_bytes p)))"
    "jget (canon_obj ?c) ''peer_identity_bytes'' = Some (JStr (b64encode (pd_peer_identity_bytes p)))"
    unfolding j by simp_all
  ultimately have "decode_prepared (canon_obj ?c) = Inr p"
    using wf recapture_dispatch [OF assms] by (simp add: decode_prepared_def wf_dispatch_iff)
  then show ?thesis by (auto simp: encode_prepared_def)
qed

lemma decode_binding_encoded:
  assumes "capture_authorization_binding (pd_request_id p) (JObj d) p d1 d2 ap d3 d4 d5 t = Inr b"
  shows "\<exists>c. encode_binding b = JObj c \<and> decode_binding (canon_obj c) (canon_obj d) p = Inr b"
proof -
  have wf: "wf_binding b" and b: "eb_decision_receipt_digest b = d1" "eb_authority_receipt_digest b = d2"
    "eb_approval_artifact_digest b = ap" "eb_state_snapshot_digest b = d3" "eb_policy_bundle_digest b = d4"
    "eb_obligations_digest b = d5" "eb_at_time b = t"
    using assms by (auto simp: capture_authorization_binding_def rbind_Inr_iff binding_post_init_Inr_iff)
  let ?c = "[(''decision_receipt_digest'', JStr d1), (''authority_receipt_digest'', JStr d2),
      (''approval_artifact_digest'', case ap of None \<Rightarrow> JNull | Some d \<Rightarrow> JStr d),
      (''state_snapshot_digest'', JStr d3), (''policy_bundle_digest'', JStr d4),
      (''obligations_digest'', JStr d5), (''at_time'', JStr t)]"
  have dist: "distinct (map fst ?c)" by simp
  have nb: "nonblank d1" "nonblank d2" "nonblank d3" "nonblank d4" "nonblank d5" "nonblank t"
    using wf b by (auto simp: wf_binding_iff intro: sha256_text_nonblank)
  have ap: "decode_approval (canon_obj ?c) = Inr ap"
    unfolding decode_approval_def jget_canon [OF dist] by (cases ap) simp_all
  have tf: "sidecar_text (canon_obj ?c) k = Inr s" if "jget ?c k = Some (JStr s)" "nonblank s" for k s
    unfolding sidecar_text_canon [OF dist] using that by (rule sidecar_text_field)
  have t1: "sidecar_text (canon_obj ?c) ''decision_receipt_digest'' = Inr d1"
    and t2: "sidecar_text (canon_obj ?c) ''authority_receipt_digest'' = Inr d2"
    and t3: "sidecar_text (canon_obj ?c) ''state_snapshot_digest'' = Inr d3"
    and t4: "sidecar_text (canon_obj ?c) ''policy_bundle_digest'' = Inr d4"
    and t5: "sidecar_text (canon_obj ?c) ''obligations_digest'' = Inr d5"
    and t6: "sidecar_text (canon_obj ?c) ''at_time'' = Inr t"
    by (rule tf; simp add: nb)+
  have "decode_binding (canon_obj ?c) (canon_obj d) p = Inr b"
    unfolding decode_binding_def ap t1 t2 t3 t4 t5 t6 rbind_simps by (rule recapture_binding [OF assms])
  then show ?thesis by (auto simp: encode_binding_def b)
qed

lemma decode_encoded_success:
  assumes "dr_witness r = JObj wt" and "dr_closure r = Some (JObj cl)" and "nonblank rid"
    and "nonblank (dr_dispatch_outcome r)" and "nonblank (dr_response_status r)"
    and "nonblank (dr_effect_state r)"
  shows "\<exists>resp. encode_success rid r = Inr resp \<and>
    decode_response (canon_obj resp) rid' =
      (if rid' \<noteq> rid then Inl DispatchTransportError
       else if dr_response_bytes r = [] then Inl SidecarProtocolError
       else Inr (r\<lparr>dr_witness := JObj (canon_obj wt), dr_closure := Some (JObj (canon_obj cl)),
                  dr_output := canon (dr_output r)\<rparr>))"
proof -
  let ?p = "[(''schema'', JStr response_schema), (''status'', JStr ''EXECUTED''),
      (''phase'', JStr ''CLOSED''), (''request_id'', JStr rid), (''witness'', JObj wt),
      (''closure'', JObj cl), (''dispatch_outcome'', JStr (dr_dispatch_outcome r)),
      (''response_status'', JStr (dr_response_status r)),
      (''response_bytes'', JStr (b64encode (dr_response_bytes r))),
      (''effect_state'', JStr (dr_effect_state r)), (''output'', dr_output r)]"
  have dist: "distinct (map fst ?p)" by simp
  have j: "jget (canon_obj ?p) k = map_option canon (jget ?p k)" for k by (rule jget_canon [OF dist])
  have t: "sidecar_text (canon_obj ?p) k = Inr s" if "jget ?p k = Some (JStr s)" "nonblank s" for k s
    unfolding sidecar_text_canon [OF dist] using that by (rule sidecar_text_field)
  have t1: "sidecar_text (canon_obj ?p) ''request_id'' = Inr rid"
    and t2: "sidecar_text (canon_obj ?p) ''status'' = Inr ''EXECUTED''"
    and t3: "sidecar_text (canon_obj ?p) ''phase'' = Inr ''CLOSED''"
    and t4: "sidecar_text (canon_obj ?p) ''dispatch_outcome'' = Inr (dr_dispatch_outcome r)"
    and t5: "sidecar_text (canon_obj ?p) ''response_status'' = Inr (dr_response_status r)"
    and t6: "sidecar_text (canon_obj ?p) ''effect_state'' = Inr (dr_effect_state r)"
    by (rule t; simp add: assms)+
  have "encode_success rid r = Inr ?p" by (simp add: encode_success_def assms(1,2))
  moreover have "decode_response (canon_obj ?p) rid' =
      (if rid' \<noteq> rid then Inl DispatchTransportError
       else if dr_response_bytes r = [] then Inl SidecarProtocolError
       else Inr (r\<lparr>dr_witness := JObj (canon_obj wt), dr_closure := Some (JObj (canon_obj cl)),
                  dr_output := canon (dr_output r)\<rparr>))"
    unfolding decode_response_def t1 t2 t3 t4 t5 t6 j
    by (simp add: canon_JObj del: canon.simps(7))
  ultimately show ?thesis by blast
qed

section \<open>Properties\<close>

text \<open>
  C10: the request codec loses nothing that the permit binds. What the agent encodes for a captured
  binding, sent as canonical JSON, is decoded by the sidecar to the same binding, byte for byte (the
  wire bytes and the peer identity included), and to the canonical form of the authorization and of
  the trust bundle.
\<close>

theorem request_roundtrip:
  assumes "capture_dispatch rid dispatch wire peer = Inr p"
    and "capture_authorization_binding rid act p d1 d2 ap d3 d4 d5 t = Inr b"
    and "nonblank wid" and "1 \<le> n"
  shows "\<exists>payload. encode_request (JObj au) (JObj tb) b wid obs n = Inr payload \<and>
    decode_request (canon_obj payload) = Inr \<lparr>se_authorization = canon_obj au,
      se_trust_bundle = canon_obj tb, se_binding = b, se_witness_id = wid, se_attempt = n\<rparr>"
proof -
  from assms(1) obtain d where d: "dispatch = JObj d" and pd: "pd_dispatch p = Inr (canon_obj d)"
    and rid: "pd_request_id p = rid"
    by (auto simp: capture_dispatch_Inr pd_dispatch_def restore_object_Inr)
  from assms(2) obtain a where a: "act = JObj a" and ea: "eb_action b = Inr (canon_obj a)"
    and ep: "eb_prepared_dispatch b = p"
    by (auto simp: capture_authorization_binding_def rbind_Inr_iff snapshot_object_Inr
        binding_post_init_Inr_iff eb_action_def restore_object_Inr)
  obtain cp where cp: "encode_prepared p (canon_obj d) = JObj cp" "decode_prepared (canon_obj cp) = Inr p"
    using decode_prepared_encoded assms(1) d by blast
  obtain cb where cb: "encode_binding b = JObj cb"
    "decode_binding (canon_obj cb) (canon_obj a) p = Inr b"
    using decode_binding_encoded assms(2) a rid by metis
  let ?w = "[(''witness_id'', JStr wid), (''attempt'', JInt n)]"
  let ?p = "[(''schema'', JStr request_schema), (''authorization'', JObj au), (''trust_bundle'', JObj tb),
      (''action'', JObj (canon_obj a)), (''prepared'', JObj cp), (''binding'', JObj cb),
      (''witness'', JObj ?w)]"
  have dist: "distinct (map fst ?p)" "distinct (map fst ?w)" by simp_all
  have w: "decode_attempt (canon_obj ?w) = Inr n"
    unfolding decode_attempt_def jget_canon [OF dist(2)] using assms(4) by simp
  have wid: "sidecar_text (canon_obj ?w) ''witness_id'' = Inr wid"
    unfolding sidecar_text_canon [OF dist(2)] using assms(3) by (intro sidecar_text_field) simp_all
  have j: "jget (canon_obj ?p) k = map_option canon (jget ?p k)" for k by (rule jget_canon [OF dist(1)])
  have "encode_request (JObj au) (JObj tb) b wid obs n = Inr ?p"
    by (simp add: encode_request_def Let_def ea ep pd cp cb)
  moreover have "decode_request (canon_obj ?p) = Inr \<lparr>se_authorization = canon_obj au,
      se_trust_bundle = canon_obj tb, se_binding = b, se_witness_id = wid, se_attempt = n\<rparr>"
    unfolding decode_request_def j using cp(2) cb(2) w wid by (simp add: canon_JObj del: canon.simps(7))
  ultimately show ?thesis by blast
qed

text \<open>
  C11: a closed dispatch with a non-empty response body survives the response codec: what the sidecar
  encodes as EXECUTED, sent as canonical JSON, the agent decodes to the same witness, closure, status,
  bytes and output, in canonical form. A response for another request is refused.
\<close>

theorem response_roundtrip:
  assumes "dr_witness r = JObj wt" and "dr_closure r = Some (JObj cl)" and "nonblank rid"
    and "nonblank (dr_dispatch_outcome r)" and "nonblank (dr_response_status r)"
    and "nonblank (dr_effect_state r)" and "dr_response_bytes r \<noteq> []"
  shows "\<exists>resp. encode_success rid r = Inr resp \<and>
    decode_response (canon_obj resp) rid' =
      (if rid' = rid
       then Inr (r\<lparr>dr_witness := JObj (canon_obj wt), dr_closure := Some (JObj (canon_obj cl)),
                  dr_output := canon (dr_output r)\<rparr>)
       else Inl DispatchTransportError)"
  using decode_encoded_success [OF assms(1-6), of rid'] assms(7) by auto

text \<open>
  C12: the response codec refuses a closed dispatch whose target answered with an empty body (a 204,
  for instance): the sidecar encodes it as EXECUTED, and the agent's decoder rejects the empty
  \<^verbatim>\<open>response_bytes\<close> with a protocol error.
\<close>

theorem empty_body_not_decodable:
  assumes "dr_witness r = JObj wt" and "dr_closure r = Some (JObj cl)" and "nonblank rid"
    and "nonblank (dr_dispatch_outcome r)" and "nonblank (dr_response_status r)"
    and "nonblank (dr_effect_state r)" and "dr_response_bytes r = []"
  shows "\<exists>resp. encode_success rid r = Inr resp \<and>
    decode_response (canon_obj resp) rid = Inl SidecarProtocolError"
  using decode_encoded_success [OF assms(1-6), of rid] assms(7) by auto

end
