(* ===== verification/Sidecar.thy ===== *)
theory Sidecar
  imports Sidecar_Protocol
begin

text \<open>
  \<^verbatim>\<open>cbrain/execution/sidecar.py\<close>: the dispatch service, the allow-listed HTTPS connector, the HTTP
  handler in front of the service, and the agent-side transport.

  The collaborators of the service (claimant, connector, credential provider, signer, closure writer,
  clock) are effects on a world \<open>'w\<close>. To say in which order they are called the service runs on that
  world together with a trace of the calls it made, which it appends to and never reads.
\<close>

section \<open>The service\<close>

record TargetResponse =
  tg_dispatch_outcome :: string
  tg_response_status :: string
  tg_response_bytes :: "bytes option"
  tg_effect_state :: string
  tg_output :: json

record 'w TargetChannel =
  tc_peer_identity_bytes :: bytes
  tc_send_exact :: "bytes \<Rightarrow> string \<Rightarrow> string \<Rightarrow> CredentialHeader \<Rightarrow> ('w, TargetResponse) eff"
  tc_close :: "('w, unit) eff"

type_synonym 'w closure_writer =
  "json \<Rightarrow> json \<Rightarrow> json \<Rightarrow> string \<Rightarrow> string \<Rightarrow> bytes \<Rightarrow> string \<Rightarrow> string \<Rightarrow> ('w, json) eff"

record 'w SidecarDispatchService =
  sv_claim :: "json \<Rightarrow> json option \<Rightarrow> ExecutionAuthorizationBinding \<Rightarrow> string option \<Rightarrow>
               ('w, VerifiedAuthorization) eff"
  sv_open :: "jobj \<Rightarrow> ('w, 'w TargetChannel) eff"
  sv_resolve :: "string \<Rightarrow> ('w, CredentialHeader) eff"
  sv_sign :: "'w witness_signer"
  sv_identity :: WitnessIdentity
  sv_seal :: "'w closure_writer"
  sv_clock :: "('w, string) eff"
  sv_pinned_trust_bundle :: jobj
  sv_pinned_trust_digest :: string

definition service_init :: "'w SidecarDispatchService \<Rightarrow> ('w SidecarDispatchService) res" where
  "service_init sv =
     rbind (ensure (wi_independent (sv_identity sv)) SidecarError) (\<lambda>_.
     rbind (ensure (sv_pinned_trust_bundle sv \<noteq> []) SidecarError) (\<lambda>_.
     rbind (trust_bundle_digest (sv_pinned_trust_bundle sv)) (\<lambda>digest.
     Inr (sv\<lparr>sv_pinned_trust_digest := digest\<rparr>))))"

text \<open>The calls that are traced. A claim is traced with whether it succeeded.\<close>

datatype sidecar_event =
    Resolved string
  | Opened jobj
  | Claim ExecutionAuthorizationBinding string bool
  | Sent bytes string string CredentialHeader
  | Signed
  | Sealed
  | Closed

definition logged ::
  "('a res \<Rightarrow> sidecar_event) \<Rightarrow> ('w, 'a) eff \<Rightarrow> ('w \<times> sidecar_event list, 'a) eff" where
  "logged ev m = (\<lambda>(w, tr). case m w of (r, w') \<Rightarrow> (r, (w', tr @ [ev r])))"

definition silent :: "('w, 'a) eff \<Rightarrow> ('w \<times> sidecar_event list, 'a) eff" where
  "silent m = (\<lambda>(w, tr). case m w of (r, w') \<Rightarrow> (r, (w', tr)))"

definition open_stage ::
  "'w SidecarDispatchService \<Rightarrow> SidecarEnvelope \<Rightarrow> jobj \<Rightarrow>
   ('w \<times> sidecar_event list, string \<times> string \<times> CredentialHeader \<times> 'w TargetChannel) eff" where
  "open_stage sv env dispatch =
     ebind (eret (trust_bundle_digest (se_trust_bundle env))) (\<lambda>digest.
     ebind (eret (ensure (digest = sv_pinned_trust_digest sv) SidecarError)) (\<lambda>_.
     ebind (eret (rbind (sidecar_text dispatch ''wire_content_type'') safe_header_value)) (\<lambda>ct.
     ebind (eret (rbind (sidecar_text dispatch ''wire_content_encoding'') safe_header_value)) (\<lambda>ce.
     ebind (eret (sidecar_text dispatch ''credential_audience'')) (\<lambda>audience.
     ebind (logged (\<lambda>_. Resolved audience) (sv_resolve sv audience)) (\<lambda>credential.
     ebind (logged (\<lambda>_. Opened dispatch) (sv_open sv dispatch)) (\<lambda>channel.
     eret (Inr (ct, ce, credential, channel)))))))))"

definition claim_stage ::
  "'w SidecarDispatchService \<Rightarrow> SidecarEnvelope \<Rightarrow> 'w TargetChannel \<Rightarrow>
   ('w \<times> sidecar_event list, string) eff" where
  "claim_stage sv env channel =
     ebind (eret (ensure (tc_peer_identity_bytes channel =
                    pd_peer_identity_bytes (eb_prepared_dispatch (se_binding env))) SidecarError)) (\<lambda>_.
     ebind (silent (sv_clock sv)) (\<lambda>observed_at.
     ebind (logged (\<lambda>r. Claim (se_binding env) observed_at (\<exists>va. r = Inr va))
              (sv_claim sv (JObj (se_authorization env)) (Some (JObj (sv_pinned_trust_bundle sv)))
                 (se_binding env) (Some observed_at))) (\<lambda>_.
     eret (Inr observed_at))))"

definition witness_stage ::
  "'w SidecarDispatchService \<Rightarrow> SidecarEnvelope \<Rightarrow> jobj \<Rightarrow> 'w TargetChannel \<Rightarrow> string \<Rightarrow> TargetResponse \<Rightarrow>
   ('w \<times> sidecar_event list, DispatchResult) eff" where
  "witness_stage sv env dispatch channel observed_at response =
     (let prepared = eb_prepared_dispatch (se_binding env) in
      ebind (eret (of_option SidecarProtocolError (tg_response_bytes response))) (\<lambda>response_bytes.
      ebind (eret (of_option KeyError (jget dispatch ''wire_content_type''))) (\<lambda>mct.
      ebind (eret (of_option KeyError (jget dispatch ''wire_content_encoding''))) (\<lambda>mce.
      let metadata =
        [(''dispatch_witness_id'', JStr (se_witness_id env)),
         (''observed_at'', JStr observed_at),
         (''attempt'', JInt (se_attempt env)),
         (''witness_component_id'', JStr (wi_witness_component_id (sv_identity sv))),
         (''wire_content_type'', mct),
         (''wire_content_encoding'', mce),
         (''signer_key_id'', JStr (wi_signer_key_id (sv_identity sv)))] in
      ebind (eret (eb_action (se_binding env))) (\<lambda>action.
      ebind (logged (\<lambda>_. Signed)
               (sv_sign sv metadata (JObj (se_authorization env)) (JObj (se_trust_bundle env))
                  (JObj action) dispatch (pd_wire_bytes prepared) (tc_peer_identity_bytes channel)))
        (\<lambda>signed.
      ebind (eret (required_mapping (Some signed))) (\<lambda>witness.
      ebind (eret (sidecar_text dispatch ''idempotency_key_digest'')) (\<lambda>idempotency.
      ebind (logged (\<lambda>_. Sealed)
               (sv_seal sv (JObj (se_authorization env)) (JObj witness) (JObj (se_trust_bundle env))
                  (tg_dispatch_outcome response) (tg_response_status response) response_bytes
                  (tg_effect_state response) idempotency)) (\<lambda>sealed.
      ebind (eret (required_mapping (Some sealed))) (\<lambda>closure.
      eret (Inr \<lparr>dr_witness = JObj witness, dr_dispatch_outcome = tg_dispatch_outcome response,
                 dr_response_status = tg_response_status response,
                 dr_response_bytes = response_bytes, dr_effect_state = tg_effect_state response,
                 dr_output = tg_output response, dr_closure = Some (JObj closure)\<rparr>)))))))))))"

definition send_stage ::
  "'w SidecarDispatchService \<Rightarrow> SidecarEnvelope \<Rightarrow> jobj \<Rightarrow> string \<Rightarrow> string \<Rightarrow> CredentialHeader \<Rightarrow>
   'w TargetChannel \<Rightarrow> string \<Rightarrow> ('w \<times> sidecar_event list, DispatchResult) eff" where
  "send_stage sv env dispatch ct ce credential channel observed_at =
     (let prepared = eb_prepared_dispatch (se_binding env) in
      ebind (logged (\<lambda>_. Sent (pd_wire_bytes prepared) ct ce credential)
               (tc_send_exact channel (pd_wire_bytes prepared) ct ce credential))
        (witness_stage sv env dispatch channel observed_at))"

text \<open>The \<^verbatim>\<open>finally\<close> clause: the channel is closed and what closing raises is dropped.\<close>

definition close_channel ::
  "'w TargetChannel \<Rightarrow> 'w \<times> sidecar_event list \<Rightarrow> 'w \<times> sidecar_event list" where
  "close_channel channel s = snd (logged (\<lambda>_. Closed) (tc_close channel) s)"

text \<open>
  \<^verbatim>\<open>_SidecarDispatchFailure\<close> with its reason and \<^verbatim>\<open>execution_possible\<close>; \<open>Escaped\<close> is an exception raised
  before the \<^verbatim>\<open>try\<close>.
\<close>

datatype dispatch_failure = Failure string bool | Escaped exn

definition dispatch_pinned ::
  "'w SidecarDispatchService \<Rightarrow> SidecarEnvelope \<Rightarrow> 'w \<times> sidecar_event list \<Rightarrow>
   (dispatch_failure + DispatchResult) \<times> ('w \<times> sidecar_event list)" where
  "dispatch_pinned sv env s =
     (case pd_dispatch (eb_prepared_dispatch (se_binding env)) of
        Inl e \<Rightarrow> (Inl (Escaped e), s)
      | Inr dispatch \<Rightarrow>
          (case open_stage sv env dispatch s of
             (Inl e, s1) \<Rightarrow> (Inl (Failure (''pre_dispatch_refused:'' @ exn_name e) False), s1)
           | (Inr (ct, ce, credential, channel), s1) \<Rightarrow>
               (case claim_stage sv env channel s1 of
                  (Inl e, s2) \<Rightarrow> (Inl (Failure (''pre_dispatch_refused:'' @ exn_name e) False),
                                  close_channel channel s2)
                | (Inr observed_at, s2) \<Rightarrow>
                    (case send_stage sv env dispatch ct ce credential channel observed_at s2 of
                       (Inl e, s3) \<Rightarrow> (Inl (Failure (''post_dispatch_unproven:'' @ exn_name e) True),
                                       close_channel channel s3)
                     | (Inr result, s3) \<Rightarrow> (Inr result, close_channel channel s3)))))"

definition refusal :: "string \<Rightarrow> string \<Rightarrow> string \<Rightarrow> string \<Rightarrow> jobj" where
  "refusal status phase request_id reason =
     [(''schema'', JStr response_schema), (''status'', JStr status), (''phase'', JStr phase),
      (''request_id'', JStr request_id), (''reason'', JStr reason)]"

definition handle ::
  "'w SidecarDispatchService \<Rightarrow> jobj \<Rightarrow> ('w \<times> sidecar_event list, jobj) eff" where
  "handle sv payload s =
     (let request_id = possible_request_id payload in
      case decode_request payload of
        Inl e \<Rightarrow> (Inr (refusal ''REFUSED'' ''PRE_DISPATCH'' request_id
                        (''malformed_request:'' @ exn_name e)), s)
      | Inr envelope \<Rightarrow>
          (case dispatch_pinned sv envelope s of
             (Inl (Escaped e), s') \<Rightarrow> (Inl e, s')
           | (Inl (Failure reason possible), s') \<Rightarrow>
               (Inr (refusal (if possible then ''INDETERMINATE'' else ''REFUSED'')
                       (if possible then ''POST_DISPATCH'' else ''PRE_DISPATCH'') request_id reason), s')
           | (Inr result, s') \<Rightarrow>
               (case rbind (encode_success (eb_request_id (se_binding envelope)) result) (\<lambda>response.
                     rbind (sidecar_canonical_json response) (\<lambda>_. Inr response)) of
                  Inl e \<Rightarrow> (Inr (refusal ''INDETERMINATE'' ''POST_DISPATCH'' request_id
                                  (''response_unavailable:'' @ exn_name e)), s')
                | Inr response \<Rightarrow> (Inr response, s'))))"

section \<open>The HTTPS connector\<close>

text \<open>\<open>connect\<close> is the TLS connection and the identity it observes; everything before it is here.\<close>

definition open_route ::
  "(string \<rightharpoonup> HTTPSRoute) \<Rightarrow> (HTTPSRoute \<Rightarrow> string \<Rightarrow> ('w, 'w TargetChannel) eff) \<Rightarrow> jobj \<Rightarrow>
   ('w, 'w TargetChannel) eff" where
  "open_route routes connect dispatch =
     ebind (eret (sidecar_text dispatch ''destination'')) (\<lambda>destination.
     ebind (eret (of_option SidecarError (routes destination))) (\<lambda>route.
     ebind (eret (ensure (hs_destination route = destination) SidecarError)) (\<lambda>_.
     ebind (eret (sidecar_text dispatch ''transport'')) (\<lambda>transport.
     ebind (eret (ensure (transport = ''https'') SidecarError)) (\<lambda>_.
     ebind (eret (sidecar_text dispatch ''operation'')) (\<lambda>operation.
     ebind (eret (ensure (operation \<in> set (hs_operations route)) SidecarError)) (\<lambda>_.
     ebind (eret (sidecar_text dispatch ''credential_audience'')) (\<lambda>audience.
     ebind (eret (ensure (audience = hs_credential_audience route) SidecarError)) (\<lambda>_.
     connect route operation)))))))))"

record HttpExchange =
  hx_method :: string
  hx_path :: string
  hx_headers :: "(string \<times> string) list"
  hx_body :: bytes

text \<open>
  \<open>exchange\<close> is \<^verbatim>\<open>http.client\<close>: it sends the request and returns the status and the body, which the
  code reads up to one byte past its limit; \<open>loads\<close> is \<^verbatim>\<open>json.loads\<close>.
\<close>

definition decode_target_output :: "(bytes \<Rightarrow> json res) \<Rightarrow> bytes \<Rightarrow> json res" where
  "decode_target_output loads response_bytes = (case loads response_bytes of
       Inr v \<Rightarrow> Inr v
     | Inl e \<Rightarrow> if e \<in> {External ''UnicodeDecodeError'', External ''JSONDecodeError''}
               then Inr (JObj [(''content_base64'', JStr (b64encode response_bytes))])
               else Inl e)"

definition send_exact_https ::
  "(HttpExchange \<Rightarrow> ('w, int \<times> bytes) eff) \<Rightarrow> (bytes \<Rightarrow> json res) \<Rightarrow> nat \<Rightarrow> string \<Rightarrow>
   bytes \<Rightarrow> string \<Rightarrow> string \<Rightarrow> CredentialHeader \<Rightarrow> ('w, TargetResponse) eff" where
  "send_exact_https exchange loads max_response_bytes operation wire_bytes ct ce credential =
     ebind (eret (parse_operation operation)) (\<lambda>(method, path).
     ebind (exchange \<lparr>hx_method = method, hx_path = path,
                      hx_headers = [(''Content-Type'', ct), (''Content-Encoding'', ce),
                        (''Content-Length'', digits (length wire_bytes)),
                        (ch_name credential, ch_value credential)],
                      hx_body = wire_bytes\<rparr>) (\<lambda>(status, body).
     let response_bytes = take (max_response_bytes + 1) body in
     ebind (eret (ensure (length response_bytes \<le> max_response_bytes) SidecarError)) (\<lambda>_.
     ebind (eret (decode_target_output loads response_bytes)) (\<lambda>output.
     eret (Inr \<lparr>tg_dispatch_outcome = ''ACKNOWLEDGED'', tg_response_status = show_int status,
                tg_response_bytes = Some response_bytes,
                tg_effect_state = (if 200 \<le> status \<and> status < 300 then ''CONFIRMED'' else ''UNKNOWN''),
                tg_output = output\<rparr>)))))"

section \<open>The HTTP handler\<close>

text \<open>
  \<^verbatim>\<open>do_POST\<close>: \<open>read_body n\<close> is what \<^verbatim>\<open>json.loads\<close> makes of the \<open>n\<close> bytes read. The answer is a status
  and, for 200, the response document; an exception that is not caught ends the connection.
\<close>

definition do_POST ::
  "'w SidecarDispatchService \<Rightarrow> string set \<Rightarrow> nat \<Rightarrow> peercert option res \<Rightarrow> string \<Rightarrow> string option \<Rightarrow>
   (nat \<Rightarrow> stored) \<Rightarrow> ('w \<times> sidecar_event list, nat \<times> jobj option) eff" where
  "do_POST sv allowed max_request_bytes connection path content_length_header read_body s =
     (if \<not> client_principal_allowed connection allowed then (Inr (403, None), s)
      else if path \<noteq> ''/v1/dispatch'' then (Inr (404, None), s)
      else (case content_length content_length_header of
        Inl e \<Rightarrow> (if e = SidecarProtocolError then (Inr (411, None), s) else (Inl e, s))
      | Inr n \<Rightarrow>
          (if n > max_request_bytes then (Inr (413, None), s)
          else (case read_body n of
            Doc (JObj payload) \<Rightarrow>
              (case handle sv payload s of
                 (Inl e, s') \<Rightarrow> (Inr (400, None), s')
               | (Inr response, s') \<Rightarrow>
                   (case sidecar_canonical_json response of
                      Inl e \<Rightarrow> (Inr (400, None), s')
                    | Inr _ \<Rightarrow> (Inr (200, Some response), s')))
          | _ \<Rightarrow> (Inr (400, None), s)))))"

section \<open>The agent-side transport\<close>

definition sidecar_dispatch ::
  "(jobj \<Rightarrow> ('w, jobj) eff) \<Rightarrow> DispatchRequest \<Rightarrow> ('w, DispatchResult) eff" where
  "sidecar_dispatch rpc rq =
     (let binding = rq_binding rq in
      ebind (eret (eb_action binding)) (\<lambda>bound_action.
      ebind (eret (as_dict (rq_action rq))) (\<lambda>action.
      ebind (eret (ensure (json_eq (JObj bound_action) (JObj action) \<and>
                           eb_prepared_dispatch binding = rq_prepared rq) HandlerNotInvoked)) (\<lambda>_.
      ebind (eret (encode_request (rq_authorization rq) (rq_trust_bundle rq) binding
                     (rq_witness_id rq) (rq_observed_at rq) (rq_attempt rq))) (\<lambda>payload.
      ebind (reraise DispatchTransportError (rpc payload)) (\<lambda>response.
      eret (decode_response response (eb_request_id binding))))))))"

definition sidecar_transport ::
  "(jobj \<Rightarrow> ('w, jobj) eff) \<Rightarrow> WitnessIdentity \<Rightarrow> ('w DispatchTransport) res" where
  "sidecar_transport rpc identity =
     rbind (ensure (wi_independent identity) DispatchTransportError) (\<lambda>_.
     Inr \<lparr>tr_identity = identity, tr_with_handler = False, tr_in_process = False,
          tr_dispatch = (\<lambda>rq. service (sidecar_dispatch rpc rq))\<rparr>)"

section \<open>Lemmas\<close>

fun is_send :: "sidecar_event \<Rightarrow> bool" where
  "is_send (Sent _ _ _ _) = True"
| "is_send _ = False"

definition unsent :: "sidecar_event list \<Rightarrow> bool" where
  "unsent tr = list_all (\<lambda>e. \<not> is_send e) tr"

lemma unsent_simps [simp]:
  "unsent []" "unsent (e # tr) \<longleftrightarrow> \<not> is_send e \<and> unsent tr" "unsent (tr @ tr') \<longleftrightarrow> unsent tr \<and> unsent tr'"
  by (simp_all add: unsent_def)

text \<open>
  \<open>quiet m\<close>: running \<open>m\<close> only appends to the trace, and no send. Every step of the service but one is
  quiet, and sequencing keeps it.
\<close>

definition quiet :: "('w \<times> sidecar_event list, 'a) eff \<Rightarrow> bool" where
  "quiet m = (\<forall>w tr r w' tr'. m (w, tr) = (r, (w', tr')) \<longrightarrow> (\<exists>ev. tr' = tr @ ev \<and> unsent ev))"

lemma quietD: "quiet m \<Longrightarrow> m (w, tr) = (r, (w', tr')) \<Longrightarrow> \<exists>ev. tr' = tr @ ev \<and> unsent ev"
  unfolding quiet_def by blast

lemma quiet_eret [intro, simp]: "quiet (eret r)"
  by (auto simp: quiet_def eret_def)

lemma quiet_silent [intro, simp]: "quiet (silent m)"
  by (auto simp: quiet_def silent_def split: prod.splits)

lemma quiet_logged [intro, simp]: "(\<And>r. \<not> is_send (ev r)) \<Longrightarrow> quiet (logged ev m)"
  by (auto simp: quiet_def logged_def split: prod.splits)

lemma quiet_ebind [intro]:
  assumes "quiet m" and "\<And>a. quiet (f a)"
  shows "quiet (ebind m f)"
proof (unfold quiet_def, intro allI impI)
  fix w tr r w' tr'
  assume run: "ebind m f (w, tr) = (r, (w', tr'))"
  obtain x w1 tr1 where m: "m (w, tr) = (x, (w1, tr1))" by (metis prod.exhaust)
  then obtain ev where ev: "tr1 = tr @ ev" "unsent ev" using quietD [OF assms(1)] by blast
  show "\<exists>ev. tr' = tr @ ev \<and> unsent ev"
  proof (cases x)
    case (Inl e)
    with run m ev show ?thesis by (auto simp: ebind_def)
  next
    case (Inr a)
    with run m have "f a (w1, tr1) = (r, (w', tr'))" by (simp add: ebind_def)
    from quietD [OF assms(2) this] ev show ?thesis by auto
  qed
qed

lemma quiet_open_stage: "quiet (open_stage sv env d)"
  unfolding open_stage_def by (intro quiet_ebind) auto

lemma quiet_claim_stage: "quiet (claim_stage sv env ch)"
  unfolding claim_stage_def by (intro quiet_ebind) auto

lemma quiet_witness_stage: "quiet (witness_stage sv env d ch t x)"
  unfolding witness_stage_def Let_def by (intro quiet_ebind) auto

lemma quiet_close: "close_channel ch (w, tr) = (w', tr') \<Longrightarrow> tr' = tr @ [Closed]"
  by (auto simp: close_channel_def logged_def split: prod.splits)

lemma ebind_logged:
  "ebind (logged ev m) f (w, tr) =
     (case m w of (Inl e, w1) \<Rightarrow> (Inl e, (w1, tr @ [ev (Inl e)]))
                | (Inr a, w1) \<Rightarrow> f a (w1, tr @ [ev (Inr a)]))"
  by (auto simp: ebind_def logged_def split: prod.splits sum.splits)

lemma claim_stage_Inr:
  assumes "claim_stage sv env ch (w, tr) = (Inr t, (w', tr'))"
  shows "tr' = tr @ [Claim (se_binding env) t True] \<and>
    tc_peer_identity_bytes ch = pd_peer_identity_bytes (eb_prepared_dispatch (se_binding env)) \<and>
    (\<exists>w1 va. sv_claim sv (JObj (se_authorization env)) (Some (JObj (sv_pinned_trust_bundle sv)))
       (se_binding env) (Some t) w1 = (Inr va, w'))"
  using assms unfolding claim_stage_def ebind_Inr eret_Inr silent_def logged_def ensure_Inr
  by (auto split: prod.splits)

text \<open>The one step that sends: first the send, with the bytes of the binding, then nothing more is sent.\<close>

lemma send_stage_trace:
  assumes "send_stage sv env d ct ce cr ch t (w, tr) = (r, (w', tr'))"
  shows "\<exists>ev. tr' = tr @ Sent (pd_wire_bytes (eb_prepared_dispatch (se_binding env))) ct ce cr # ev \<and>
    unsent ev"
proof -
  let ?p = "eb_prepared_dispatch (se_binding env)"
  let ?rest = "witness_stage sv env d ch t"
  have send: "send_stage sv env d ct ce cr ch t =
      ebind (logged (\<lambda>_. Sent (pd_wire_bytes ?p) ct ce cr) (tc_send_exact ch (pd_wire_bytes ?p) ct ce cr)) ?rest"
    by (simp add: send_stage_def Let_def)
  obtain x w1 where x: "tc_send_exact ch (pd_wire_bytes ?p) ct ce cr w = (x, w1)" by fastforce
  show ?thesis
  proof (cases x)
    case (Inl e)
    with assms x show ?thesis by (auto simp: send ebind_logged)
  next
    case (Inr a)
    with assms x have "?rest a (w1, tr @ [Sent (pd_wire_bytes ?p) ct ce cr]) = (r, (w', tr'))"
      by (simp add: send ebind_logged)
    from quietD [OF quiet_witness_stage this] show ?thesis by auto
  qed
qed

text \<open>
  \<open>sent_once sv env tr\<close>: exactly one send, of the bytes the binding prepared, directly after the claim
  of that binding was won, under the pinned trust bundle.
\<close>

definition sent_once :: "'w SidecarDispatchService \<Rightarrow> SidecarEnvelope \<Rightarrow> sidecar_event list \<Rightarrow> bool" where
  "sent_once sv env tr =
     (\<exists>before after t ct ce cr w1 w2 va.
        tr = before @ Claim (se_binding env) t True #
               Sent (pd_wire_bytes (eb_prepared_dispatch (se_binding env))) ct ce cr # after \<and>
        unsent before \<and> unsent after \<and>
        trust_bundle_digest (se_trust_bundle env) = Inr (sv_pinned_trust_digest sv) \<and>
        sv_claim sv (JObj (se_authorization env)) (Some (JObj (sv_pinned_trust_bundle sv)))
          (se_binding env) (Some t) w1 = (Inr va, w2))"

lemma open_stage_Inr:
  "open_stage sv env d s = (Inr x, s') \<Longrightarrow>
     trust_bundle_digest (se_trust_bundle env) = Inr (sv_pinned_trust_digest sv)"
  by (auto simp: open_stage_def ebind_Inr eret_Inr ensure_Inr)

lemma dispatch_pinned_trace:
  assumes "dispatch_pinned sv env (w, []) = (r, (w', tr))"
  shows "case r of
      Inl (Escaped e) \<Rightarrow> tr = [] \<and> pd_dispatch (eb_prepared_dispatch (se_binding env)) = Inl e
    | Inl (Failure reason possible) \<Rightarrow> (if possible then sent_once sv env tr else unsent tr)
    | Inr _ \<Rightarrow> sent_once sv env tr"
proof (cases "pd_dispatch (eb_prepared_dispatch (se_binding env))")
  case (Inl e)
  with assms show ?thesis by (auto simp: dispatch_pinned_def)
next
  case d: (Inr d)
  obtain x w1 tr1 where o: "open_stage sv env d (w, []) = (x, (w1, tr1))" by (metis prod.exhaust)
  have u1: "unsent tr1" using quietD [OF quiet_open_stage o] by auto
  show ?thesis
  proof (cases x)
    case (Inl e)
    with assms d o u1 show ?thesis by (auto simp: dispatch_pinned_def)
  next
    case x: (Inr y)
    obtain ct ce cr ch where y: "y = (ct, ce, cr, ch)" by (cases y) auto
    obtain z w2 tr2 where c: "claim_stage sv env ch (w1, tr1) = (z, (w2, tr2))" by (metis prod.exhaust)
    have u2: "unsent tr2" using quietD [OF quiet_claim_stage c] u1 by auto
    show ?thesis
    proof (cases z)
      case (Inl e)
      with assms d o x y c u2 show ?thesis
        by (auto simp: dispatch_pinned_def dest: quiet_close)
    next
      case z: (Inr t)
      obtain q w3 tr3 where s: "send_stage sv env d ct ce cr ch t (w2, tr2) = (q, (w3, tr3))"
        by (metis prod.exhaust)
      note cl = claim_stage_Inr [OF c [unfolded z]] and sd = send_stage_trace [OF s]
      have tr: "tr = tr3 @ [Closed]" and q: "case q of Inl e \<Rightarrow> \<exists>m. r = Inl (Failure m True) | Inr v \<Rightarrow> r = Inr v"
        using assms d o x y c z s
        by (auto simp: dispatch_pinned_def dest!: quiet_close split: sum.splits)
      have "sent_once sv env tr" unfolding sent_once_def tr
        using cl sd u1 open_stage_Inr [OF o [unfolded x]] by fastforce
      with q show ?thesis by (auto split: sum.splits)
    qed
  qed
qed

lemma refusal_fields [simp]:
  "jget (refusal st ph rid reason) ''status'' = Some (JStr st)"
  "jget (refusal st ph rid reason) ''phase'' = Some (JStr ph)"
  by (simp_all add: refusal_def)

lemma encode_success_status: "encode_success rid r = Inr resp \<Longrightarrow> jget resp ''status'' = Some (JStr ''EXECUTED'')"
  by (auto simp: encode_success_def rbind_Inr_iff)

lemma handle_trace:
  assumes "handle sv payload (w, []) = (Inr resp, (w', tr))"
  shows "(jget resp ''status'' = Some (JStr ''REFUSED'') \<longrightarrow> unsent tr) \<and>
    (\<not> unsent tr \<longrightarrow> (\<exists>env. decode_request payload = Inr env \<and> sent_once sv env tr)) \<and>
    (jget resp ''status'' = Some (JStr ''EXECUTED'') \<longrightarrow> \<not> unsent tr)"
proof (cases "decode_request payload")
  case (Inl e)
  with assms show ?thesis by (auto simp: handle_def Let_def)
next
  case d: (Inr env)
  obtain r s' where r: "dispatch_pinned sv env (w, []) = (r, s')" by (metis prod.exhaust)
  obtain w1 tr1 where s': "s' = (w1, tr1)" by (cases s')
  note t = dispatch_pinned_trace [OF r [unfolded s']]
  have so: "sent_once sv env tr1 \<Longrightarrow> \<not> unsent tr1" by (auto simp: sent_once_def)
  show ?thesis using assms d r s' t so
    by (auto simp: handle_def Let_def rbind_Inr_iff dest!: encode_success_status
        split: sum.splits dispatch_failure.splits if_splits)
qed

lemma decoded_binding:
  assumes "decode_request payload = Inr env"
  shows "wf_binding (se_binding env) \<and> wf_dispatch (eb_prepared_dispatch (se_binding env))"
proof -
  from assms obtain pv bv action p where p: "decode_prepared pv = Inr p"
    and b: "decode_binding bv action p = Inr (se_binding env)"
    unfolding decode_request_def rbind_Inr_iff by auto
  from b obtain r a d1 d2 ap d3 d4 d5 t where
    "capture_authorization_binding r a p d1 d2 ap d3 d4 d5 t = Inr (se_binding env)"
    unfolding decode_binding_def rbind_Inr_iff by blast
  then have "wf_binding (se_binding env) \<and> eb_prepared_dispatch (se_binding env) = p"
    by (auto simp: capture_authorization_binding_def rbind_Inr_iff binding_post_init_Inr_iff)
  with p show ?thesis by (auto simp: decode_prepared_def rbind_Inr_iff capture_dispatch_Inr)
qed

lemma handle_answers: "\<exists>resp s'. handle sv payload (w, []) = (Inr resp, s')"
proof (cases "decode_request payload")
  case (Inl e)
  then show ?thesis by (auto simp: handle_def Let_def)
next
  case d: (Inr env)
  obtain r w1 tr1 where r: "dispatch_pinned sv env (w, []) = (r, (w1, tr1))" by (metis prod.exhaust)
  have "\<exists>x. pd_dispatch (eb_prepared_dispatch (se_binding env)) = Inr x"
    using decoded_binding [OF d] by (auto simp: wf_dispatch_iff pd_dispatch_def restore_object_Inr)
  then have "r \<noteq> Inl (Escaped e)" for e using dispatch_pinned_trace [OF r] by auto
  then show ?thesis using d r
    by (auto simp: handle_def Let_def split: sum.splits dispatch_failure.splits)
qed

lemma sidecar_dispatch_refused:
  assumes "sidecar_dispatch rpc rq w = (Inl HandlerNotInvoked, w')"
  shows "w' = w \<or> (\<exists>payload resp. rpc payload w = (Inr resp, w') \<and>
    jget resp ''status'' = Some (JStr ''REFUSED''))"
proof -
  have dec: "decode_response resp rid = Inl HandlerNotInvoked \<Longrightarrow> jget resp ''status'' = Some (JStr ''REFUSED'')"
    for resp rid
    by (auto simp: decode_response_def rbind_Inl_iff ensure_Inl sidecar_text_def of_option_Inl
        of_option_Inr text_field_Some required_mapping_def unb64_def split: option.splits json.splits)
  have eI: "ebind m f w = (Inl e, w'') \<longleftrightarrow> m w = (Inl e, w'') \<or>
      (\<exists>a w1. m w = (Inr a, w1) \<and> f a w1 = (Inl e, w''))" for m f e w''
    and w :: 'w
    by (auto simp: ebind_def split: prod.splits sum.splits)
  have rI: "reraise DispatchTransportError m w = (Inl HandlerNotInvoked, w'') \<longleftrightarrow> False" for m w''
    and w :: 'w
    by (auto dest: reraise_Inl)
  have rR: "reraise DispatchTransportError m w = (Inr a, w'') \<longleftrightarrow> m w = (Inr a, w'')"
    for m :: "'w \<Rightarrow> jobj res \<times> 'w" and a w''
    and w :: 'w
    by (cases "m w") (auto simp: reraise_def rescue_Inr)
  show ?thesis using assms
    unfolding sidecar_dispatch_def Let_def eI eret_Inr rI rR by (auto dest: dec)
qed

text \<open>The agent-side transport never reaches the local handler, so it keeps the contract of refusals.\<close>

interpretation remote: pre_execution_refusals "\<lambda>rq. service (sidecar_dispatch rpc rq)" for rpc
  by unfold_locales (use handler_free_run [OF handler_free_service] in blast)

section \<open>Properties\<close>

text \<open>
  C13: the sidecar's egress discipline. It answers every request. It sends at most once, only the
  exact bytes that the decoded binding prepared, directly after the claim of that binding under the
  deployment's own trust bundle was won; an answer REFUSED means that nothing was sent, and an answer
  EXECUTED that it was.
\<close>

theorem sidecar_egress_discipline:
  "\<exists>resp w' tr. handle sv payload (w, []) = (Inr resp, (w', tr)) \<and>
    (unsent tr \<or> (\<exists>env. decode_request payload = Inr env \<and> sent_once sv env tr)) \<and>
    (jget resp ''status'' = Some (JStr ''REFUSED'') \<longrightarrow> unsent tr) \<and>
    (jget resp ''status'' = Some (JStr ''EXECUTED'') \<longrightarrow> \<not> unsent tr)"
proof -
  obtain resp w' tr where h: "handle sv payload (w, []) = (Inr resp, (w', tr))"
    using handle_answers by (metis prod.exhaust)
  from handle_trace [OF h] h show ?thesis by blast
qed

text \<open>
  C14: what the agent may retry, the sidecar did not send. If the transport over this service raises
  \<^verbatim>\<open>HandlerNotInvoked\<close>, the exception the gateway turns into a retryable failure, then the service's
  trace holds no send.
\<close>

theorem agent_refusal_nothing_sent:
  assumes "sidecar_dispatch (\<lambda>payload. handle sv (canon_obj payload)) rq (w, []) =
    (Inl HandlerNotInvoked, (w', tr))"
  shows "unsent tr"
  using sidecar_dispatch_refused [OF assms] handle_trace by fastforce

text \<open>
  C15: nothing reaches the service unless the client certificate carries an allow-listed principal, the
  path is the dispatch path and the declared length is within the limit: on any other request the
  world and the trace stay as they are.
\<close>

theorem http_front_door:
  assumes "do_POST sv allowed limit connection path header read_body s = (r, s')" and "s' \<noteq> s"
  shows "(\<exists>certificate. connection = Inr certificate \<and>
      principals_from_peercert certificate \<inter> allowed \<noteq> {}) \<and> path = ''/v1/dispatch'' \<and>
    (\<exists>n. content_length header = Inr n \<and> n \<le> limit)"
  using assms
  by (auto simp: do_POST_def client_principal_allowed_def not_less
      split: if_splits sum.splits stored.splits json.splits)

text \<open>
  The connector dials only what the operator listed: whenever a channel is opened, or the world
  changes at all, the destination has a route of that name, the transport is HTTPS, the operation is
  listed for it and the credential audience is the route's.
\<close>

theorem connector_allow_list:
  assumes "open_route routes connect dispatch w = (r, w')" and "(\<exists>channel. r = Inr channel) \<or> w' \<noteq> w"
  shows "\<exists>destination route operation. jget dispatch ''destination'' = Some (JStr destination) \<and>
    routes destination = Some route \<and> hs_destination route = destination \<and>
    jget dispatch ''transport'' = Some (JStr ''https'') \<and>
    jget dispatch ''operation'' = Some (JStr operation) \<and> operation \<in> set (hs_operations route) \<and>
    jget dispatch ''credential_audience'' = Some (JStr (hs_credential_audience route)) \<and>
    connect route operation w = (r, w')"
proof -
  have e: "ebind (eret x) f w = (case x of Inl e \<Rightarrow> (Inl e, w) | Inr a \<Rightarrow> f a w)" for x f and w :: 'a
    by (auto simp: ebind_def eret_def split: sum.splits)
  show ?thesis using assms unfolding open_route_def e
    by (auto simp: sidecar_text_def ensure_def of_option_Inr text_field_Some
        split: sum.splits if_splits)
qed

text \<open>
  C17: the channel transmits exactly the authorized bytes: one HTTP exchange with the method and path of
  the listed operation, the body equal to the wire bytes and the Content-Length equal to their number;
  the response it accepts is the whole body, within the configured limit.
\<close>

theorem exact_bytes_on_the_wire:
  assumes "send_exact_https exchange loads limit operation wire ct ce cr w = (Inr resp, w')"
  shows "\<exists>rq status body. exchange rq w = (Inr (status, body), w') \<and> hx_body rq = wire \<and>
    parse_operation operation = Inr (hx_method rq, hx_path rq) \<and>
    (''Content-Length'', digits (length wire)) \<in> set (hx_headers rq) \<and>
    (ch_name cr, ch_value cr) \<in> set (hx_headers rq) \<and>
    tg_response_bytes resp = Some body \<and> length body \<le> limit \<and>
    (tg_effect_state resp = ''CONFIRMED'' \<longleftrightarrow> 200 \<le> status \<and> status < 300)"
  using assms unfolding send_exact_https_def Let_def ebind_Inr eret_Inr
  by (fastforce simp: ensure_Inr ebind_Inr eret_Inr)

end
