(* ===== verification/Company_Risk.thy ===== *)
theory Company_Risk
  imports Governed_Runtime
begin

text \<open>
  \<^verbatim>\<open>cbrain/company/kinds.py\<close>, \<^verbatim>\<open>cbrain/company/risk.py\<close> and
  \<^verbatim>\<open>cbrain/evaluation/company_gateway.py\<close>: the risk table of the company agents and the gateway that
  maps validation and risk to a verdict. Argument validation is an argument of the gateway: what is
  proved holds for every validation.
\<close>

datatype CompanyAgentKind = GTM | OPERATIONS | LEGAL | ACCOUNTS | CODING | PROCUREMENT

datatype ToolRiskLevel = RISK_ALLOW | RISK_REVIEW | RISK_BLOCK

definition GTM_RISKS :: "(string \<times> ToolRiskLevel) list" where
  "GTM_RISKS = [(''search_crm'', RISK_ALLOW), (''research_account'', RISK_ALLOW),
     (''qualify_lead'', RISK_ALLOW), (''detect_duplicate_leads'', RISK_ALLOW),
     (''draft_outreach'', RISK_ALLOW), (''update_crm_record'', RISK_ALLOW),
     (''prepare_email'', RISK_REVIEW), (''send_email'', RISK_REVIEW),
     (''bulk_campaign'', RISK_BLOCK), (''delete_lead'', RISK_BLOCK)]"

definition OPERATIONS_RISKS :: "(string \<times> ToolRiskLevel) list" where
  "OPERATIONS_RISKS = [(''check_service_health'', RISK_ALLOW), (''search_runbooks'', RISK_ALLOW),
     (''triage_ticket'', RISK_ALLOW), (''assign_severity'', RISK_ALLOW),
     (''create_incident_draft'', RISK_ALLOW), (''prepare_escalation'', RISK_ALLOW),
     (''propose_restart'', RISK_REVIEW), (''propose_infra_change'', RISK_REVIEW),
     (''delete_data'', RISK_BLOCK)]"

definition LEGAL_RISKS :: "(string \<times> ToolRiskLevel) list" where
  "LEGAL_RISKS = [(''search_contracts'', RISK_ALLOW), (''extract_clause'', RISK_ALLOW),
     (''compare_contracts'', RISK_ALLOW), (''identify_deviations'', RISK_ALLOW),
     (''prepare_redline'', RISK_ALLOW), (''draft_legal_summary'', RISK_ALLOW),
     (''sign_contract'', RISK_BLOCK), (''file_document'', RISK_BLOCK),
     (''send_commitment'', RISK_REVIEW), (''provide_legal_advice'', RISK_BLOCK)]"

definition CODING_RISKS :: "(string \<times> ToolRiskLevel) list" where
  "CODING_RISKS = [(''search_repo'', RISK_ALLOW), (''read_file'', RISK_ALLOW),
     (''run_tests'', RISK_ALLOW), (''propose_patch'', RISK_REVIEW), (''apply_patch'', RISK_REVIEW),
     (''open_pull_request'', RISK_REVIEW), (''force_push'', RISK_BLOCK),
     (''write_secret'', RISK_BLOCK)]"

definition PROCUREMENT_RISKS :: "(string \<times> ToolRiskLevel) list" where
  "PROCUREMENT_RISKS = [(''lookup_vendor'', RISK_ALLOW), (''search_catalog'', RISK_ALLOW),
     (''list_registered_vendors'', RISK_ALLOW), (''list_open_requisitions'', RISK_ALLOW),
     (''send_rfq_email'', RISK_ALLOW), (''show_quotations'', RISK_ALLOW),
     (''create_purchase_requisition'', RISK_REVIEW), (''award_quote'', RISK_REVIEW),
     (''release_purchase_order'', RISK_REVIEW), (''change_vendor_bank'', RISK_BLOCK),
     (''post_erp_payment'', RISK_BLOCK)]"

definition ACCOUNTS_RISKS :: "(string \<times> ToolRiskLevel) list" where
  "ACCOUNTS_RISKS = [(''read_invoices'', RISK_ALLOW), (''extract_invoice_data'', RISK_ALLOW),
     (''reconcile_records'', RISK_ALLOW), (''detect_duplicate_invoices'', RISK_ALLOW),
     (''prepare_aging_report'', RISK_ALLOW), (''inspect_ledger'', RISK_ALLOW),
     (''prepare_payment'', RISK_REVIEW), (''prepare_refund'', RISK_REVIEW),
     (''execute_payment'', RISK_REVIEW), (''change_bank_details'', RISK_BLOCK),
     (''change_vendor'', RISK_BLOCK)]"

fun RISK_TABLE :: "CompanyAgentKind \<Rightarrow> (string \<times> ToolRiskLevel) list" where
  "RISK_TABLE GTM = GTM_RISKS"
| "RISK_TABLE OPERATIONS = OPERATIONS_RISKS"
| "RISK_TABLE LEGAL = LEGAL_RISKS"
| "RISK_TABLE ACCOUNTS = ACCOUNTS_RISKS"
| "RISK_TABLE CODING = CODING_RISKS"
| "RISK_TABLE PROCUREMENT = PROCUREMENT_RISKS"

definition risk_for_tool :: "CompanyAgentKind \<Rightarrow> string \<Rightarrow> ToolRiskLevel res" where
  "risk_for_tool kind tool_name = of_option ValueError (map_of (RISK_TABLE kind) tool_name)"

text \<open>
  \<^verbatim>\<open>CompanyAgentSpec.tool_risks\<close> as \<^verbatim>\<open>build_company_spec\<close> fills it: the risk of every permitted tool.
\<close>

record CompanyAgentSpec =
  sp_kind :: CompanyAgentKind
  sp_permitted_tools :: "string list"
  sp_tool_risks :: "(string \<times> ToolRiskLevel) list"

definition build_tool_risks :: "CompanyAgentKind \<Rightarrow> string list \<Rightarrow> (string \<times> ToolRiskLevel) list res" where
  "build_tool_risks kind permitted =
     rmapM (\<lambda>name. rbind (risk_for_tool kind name) (\<lambda>r. Inr (name, r))) permitted"

definition spec_post_init :: "CompanyAgentSpec \<Rightarrow> CompanyAgentSpec res" where
  "spec_post_init spec =
     rbind (ensure (set (map fst (sp_tool_risks spec)) \<subseteq> set (sp_permitted_tools spec)) ValueError) (\<lambda>_.
     rbind (ensure (set (sp_permitted_tools spec) \<subseteq> set (map fst (sp_tool_risks spec))) ValueError) (\<lambda>_.
     Inr spec))"

definition decision_for_tool :: "CompanyAgentSpec \<Rightarrow> string \<Rightarrow> ToolRiskLevel res" where
  "decision_for_tool spec tool_name = of_option ValueError (map_of (sp_tool_risks spec) tool_name)"

section \<open>The gateway\<close>

text \<open>The attributes of the gateway object, with the rest of the world.\<close>

record 'x gateway_world =
  gs_actions :: "ActionIntent list"
  gs_handler_calls :: "string list"
  gs_last_status :: "ExecutionStatus option"
  gs_rest :: 'x

text \<open>\<^verbatim>\<open>ArgumentValidationResult\<close>: whether it passed, and the reason.\<close>

type_synonym validation = "bool \<times> string option"

definition modify :: "('w \<Rightarrow> 'w) \<Rightarrow> ('w, unit) prog" where
  "modify f = Act (\<lambda>w. (f w, Done ()))"

definition record_status :: "GovernedExecution res \<Rightarrow> ('x gateway_world, GovernedExecution) prog" where
  "record_status r =
     pbind (of_res r) (\<lambda>execution.
     pbind (modify (gs_last_status_update (\<lambda>_. Some (ge_status execution)))) (\<lambda>_.
     Done execution))"

definition unexecuted :: "ActionIntent \<Rightarrow> ExecutionStatus \<Rightarrow> string \<Rightarrow> GovernedExecution res" where
  "unexecuted action status reason =
     execution_post_init
       \<lparr>ge_status = status, ge_request_id = ai_request_id action, ge_tool_executed = Some False,
        ge_reason = reason, ge_decision_id = None, ge_output = JNull, ge_retryable = False\<rparr>"

definition executed :: "ActionIntent \<Rightarrow> string \<Rightarrow> json \<Rightarrow> GovernedExecution res" where
  "executed action reason output =
     execution_post_init
       \<lparr>ge_status = EXECUTED, ge_request_id = ai_request_id action, ge_tool_executed = Some True,
        ge_reason = reason, ge_decision_id = None, ge_output = output, ge_retryable = False\<rparr>"

text \<open>\<open>invoke args\<close> calls the handler and lets its exception through.\<close>

definition invoke :: "json \<Rightarrow> ('w, json) prog" where
  "invoke args = Invoke args of_res"

text \<open>The state in which the action is judged: it has been appended to \<^verbatim>\<open>actions\<close>.\<close>

definition decided :: "ActionIntent \<Rightarrow> 'x gateway_world \<Rightarrow> 'x gateway_world" where
  "decided a w = w\<lparr>gs_actions := gs_actions w @ [a]\<rparr>"

definition company_decide_and_execute ::
  "CompanyAgentSpec \<Rightarrow> (ActionIntent \<Rightarrow> 'x gateway_world \<Rightarrow> validation res) \<Rightarrow> ActionIntent \<Rightarrow>
   ('x gateway_world, GovernedExecution) prog" where
  "company_decide_and_execute spec validate action =
     pbind (modify (decided action)) (\<lambda>_.
     pbind (service (\<lambda>w. (validate action w, w))) (\<lambda>(ok, reason).
     if \<not> ok
     then record_status (unexecuted action BLOCKED
            (case reason of Some r \<Rightarrow> if r = [] then ''blocked_by_validation'' else r
                          | None \<Rightarrow> ''blocked_by_validation''))
     else
       pbind (of_res (decision_for_tool spec (ai_tool_name action))) (\<lambda>risk.
       case risk of
         RISK_BLOCK \<Rightarrow> record_status (unexecuted action BLOCKED ''blocked_by_policy'')
       | RISK_REVIEW \<Rightarrow> record_status (unexecuted action REVIEW_REQUIRED ''review_required'')
       | RISK_ALLOW \<Rightarrow>
           pbind (modify (gs_handler_calls_update (\<lambda>l. l @ [ai_tool_name action]))) (\<lambda>_.
           pbind (of_res (ai_arguments action)) (\<lambda>arguments.
           pbind (invoke (JObj arguments)) (\<lambda>output.
           record_status (executed action ''allow'' output)))))))"

section \<open>Lemmas\<close>

lemma run_modify [simp]: "run_prog h (modify f) s = (Inr (), s\<lparr>world := f (world s)\<rparr>)"
  by (simp add: modify_def)

lemma run_invoke [simp]: "run_prog h (invoke a) s = invoke_once h a s"
  by (auto simp: invoke_def split: prod.splits)

lemma run_record_status:
  "run_prog h (record_status r) s = (r', s') \<Longrightarrow> r' = r \<and> entries s' = entries s \<and> calls s' = calls s \<and>
     gs_rest (world s') = gs_rest (world s)"
  by (cases r) (auto simp: record_status_def run_pbind)

lemma unexecuted_Inr:
  "unexecuted a st reason = Inr g \<Longrightarrow> ge_status g = st \<and> ge_request_id g = ai_request_id a \<and> wf_execution g"
  by (auto simp: unexecuted_def execution_post_init_Inr_iff)

lemma executed_Inr:
  "executed a reason out = Inr g \<Longrightarrow> ge_status g = EXECUTED \<and> ge_request_id g = ai_request_id a \<and>
     wf_execution g \<and> ge_output g = out"
  by (auto simp: executed_def execution_post_init_Inr_iff)

lemma build_tool_risks_Inr:
  assumes "build_tool_risks kind permitted = Inr rs"
  shows "map_of rs t = (if t \<in> set permitted then map_of (RISK_TABLE kind) t else None)"
  using assms
proof (induction permitted arbitrary: rs)
  case (Cons x xs)
  then obtain r rs' where r: "risk_for_tool kind x = Inr r" and rs: "rs = (x, r) # rs'"
    and rs': "build_tool_risks kind xs = Inr rs'"
    by (auto simp: build_tool_risks_def rbind_Inr_iff)
  from Cons.IH [OF rs'] r rs show ?case by (auto simp: risk_for_tool_def of_option_Inr)
qed (simp add: build_tool_risks_def)

lemma decided_rest [simp]: "gs_rest (decided a w) = gs_rest w"
  by (simp add: decided_def)

text \<open>The three ways the gateway can go once validation passed.\<close>

lemma invoke_once_entries: "invoke_once h a s = (r, s') \<Longrightarrow> entries s' = Suc (entries s)"
  by (auto simp: invoke_once_def Let_def split: if_splits prod.splits)

lemma company_run:
  assumes "run_prog h (company_decide_and_execute spec validate a) s = (r, s')"
  shows "(entries s' = entries s \<and> calls s' = calls s \<and> gs_rest (world s') = gs_rest (world s) \<and>
      (\<forall>g. r = Inr g \<longrightarrow> wf_execution g \<and> ge_request_id g = ai_request_id a \<and>
         (ge_status g = BLOCKED \<or>
          (ge_status g = REVIEW_REQUIRED \<and> decision_for_tool spec (ai_tool_name a) = Inr RISK_REVIEW \<and>
           (\<exists>reason. validate a (decided a (world s)) = Inr (True, reason)))))) \<or>
    (decision_for_tool spec (ai_tool_name a) = Inr RISK_ALLOW \<and>
     (\<exists>reason. validate a (decided a (world s)) = Inr (True, reason)) \<and>
     entries s' = Suc (entries s) \<and>
     (\<forall>g. r = Inr g \<longrightarrow> wf_execution g \<and> ge_request_id g = ai_request_id a \<and> ge_status g = EXECUTED))"
proof (cases "validate a (decided a (world s))")
  case (Inl e)
  with assms show ?thesis
    by (auto simp: company_decide_and_execute_def run_pbind run_service)
next
  case v: (Inr x)
  obtain ok reason where x: "x = (ok, reason)" by (cases x)
  let ?s = "s\<lparr>world := decided a (world s)\<rparr>"
  note unfold = company_decide_and_execute_def run_pbind run_service
  show ?thesis
  proof (cases ok)
    case False
    with v x assms show ?thesis
      by (auto simp: unfold dest!: run_record_status dest: unexecuted_Inr)
  next
    case ok: True
    show ?thesis
    proof (cases "decision_for_tool spec (ai_tool_name a)")
      case (Inl e)
      with v x ok assms show ?thesis by (auto simp: unfold)
    next
      case d: (Inr risk)
      show ?thesis
      proof (cases risk)
        case RISK_ALLOW
        show ?thesis
        proof (cases "ai_arguments a")
          case (Inl e)
          with v x ok d RISK_ALLOW assms show ?thesis by (auto simp: unfold)
        next
          case (Inr args)
          obtain q s1 where i: "invoke_once h (JObj args)
              (?s\<lparr>world := gs_handler_calls_update (\<lambda>l. l @ [ai_tool_name a]) (world ?s)\<rparr>) = (q, s1)"
            by (metis prod.exhaust)
          with invoke_once_entries [OF i] v x ok d RISK_ALLOW Inr assms show ?thesis
            by (cases q) (auto simp: unfold dest!: run_record_status dest: executed_Inr)
        qed
      next
        case RISK_REVIEW
        with v x ok d assms show ?thesis
          by (auto simp: unfold dest!: run_record_status dest: unexecuted_Inr)
      next
        case RISK_BLOCK
        with v x ok d assms show ?thesis
          by (auto simp: unfold dest!: run_record_status dest: unexecuted_Inr)
      qed
    qed
  qed
qed

section \<open>Properties\<close>

text \<open>
  C18: the company gateway calls the tool only if the agent kind's own table classifies it ALLOW, the
  tool is permitted to this agent, and argument validation passed on the state of the decision. A tool
  classified REVIEW or BLOCK, an unknown tool and a rejected argument never reach the handler, even
  when an exception is raised.
\<close>

theorem company_tool_runs_only_if_allowed:
  assumes "build_tool_risks (sp_kind spec) (sp_permitted_tools spec) = Inr (sp_tool_risks spec)"
    and "run_prog h (company_decide_and_execute spec validate a) s = (r, s')"
    and "entries s' \<noteq> entries s"
  shows "risk_for_tool (sp_kind spec) (ai_tool_name a) = Inr RISK_ALLOW \<and>
    ai_tool_name a \<in> set (sp_permitted_tools spec) \<and>
    (\<exists>reason. validate a (decided a (world s)) = Inr (True, reason)) \<and>
    entries s' = Suc (entries s) \<and> (\<forall>g. r = Inr g \<longrightarrow> ge_status g = EXECUTED)"
  using company_run [OF assms(2)] assms(3) build_tool_risks_Inr [OF assms(1), of "ai_tool_name a"]
  by (auto simp: decision_for_tool_def risk_for_tool_def of_option_Inr split: if_splits)

end
