(* ===== verification/Approval.thy ===== *)
theory Approval
  imports Company_Risk Consumption Py_Decimal Complex_Main
begin

text \<open>
  \<^verbatim>\<open>cbrain/company/approval.py\<close>: the approval inbox (park, approve, consume once, freeze) and the
  gateway that lets a REVIEW tool run on one consumed approval.

  The lock makes every method atomic, so that concurrent callers are a sequence of operations,
  \<open>inbox_step\<close> over \<open>inbox_op\<close>. Times are finite floats, which are rationals; their rounded sum is the
  argument \<open>fadd\<close>. The checks of \<^verbatim>\<open>isinstance(..., ApprovalRole)\<close> are the types of the model.
\<close>

datatype ApprovalRole = CONTROLLER | COUNSEL | CODE_REVIEWER | BUYER_LEAD

record ApprovalPrincipal =
  ap_actor_id :: string
  ap_role :: ApprovalRole

definition principal_post_init :: "ApprovalPrincipal \<Rightarrow> ApprovalPrincipal res" where
  "principal_post_init p = rbind (ensure (nonblank (ap_actor_id p)) ApprovalInboxError) (\<lambda>_. Inr p)"

record PendingApproval =
  pa_request_id :: string
  pa_intent_digest :: string
  pa_required_role :: ApprovalRole

record ApprovalRecord =
  ar_request_id :: string
  ar_actor_id :: string
  ar_actor_role :: ApprovalRole
  ar_intent_digest :: string
  ar_approved_at :: rat
  ar_expires_at :: rat
  ar_consumed :: bool

record ApprovalInbox =
  ib_allowed_approvers :: "ApprovalRole \<rightharpoonup> string set"
  ib_max_ttl_seconds :: rat
  ib_pending :: "string \<rightharpoonup> PendingApproval"
  ib_approvals :: "string \<rightharpoonup> ApprovalRecord"
  ib_frozen_reason :: "string option"

definition rat_of_dec :: "int \<times> int \<Rightarrow> rat" where
  "rat_of_dec d = (case d of (m, e) \<Rightarrow>
     if 0 \<le> e then of_int (m * 10 ^ nat e) else Fract m (10 ^ nat (- e)))"

text \<open>\<^verbatim>\<open>float(value)\<close> raises \<^verbatim>\<open>OverflowError\<close> on an integer that no float holds.\<close>

definition require_finite_seconds :: "json \<Rightarrow> rat res" where
  "require_finite_seconds value = (case value of
       JInt i \<Rightarrow> rbind (ensure (\<not> float_overflows i) (External ''OverflowError'')) (\<lambda>_. Inr (of_int i))
     | JFloat (Finite t) \<Rightarrow> (case parse_dec t of Some d \<Rightarrow> Inr (rat_of_dec d) | None \<Rightarrow> Inl ApprovalInboxError)
     | _ \<Rightarrow> Inl ApprovalInboxError)"

definition inbox_init :: "(ApprovalRole \<times> string list) list \<Rightarrow> json \<Rightarrow> ApprovalInbox res" where
  "inbox_init allowed_approvers max_ttl_seconds =
     rbind (require_finite_seconds max_ttl_seconds) (\<lambda>ttl.
     rbind (ensure (ttl > 0) ApprovalInboxError) (\<lambda>_.
     rbind (ensure (list_all (\<lambda>(role, actors).
              card (set (filter nonblank actors)) = length actors) allowed_approvers)
              ApprovalInboxError) (\<lambda>_.
     Inr \<lparr>ib_allowed_approvers = map_of (map (map_prod id set) allowed_approvers),
          ib_max_ttl_seconds = ttl, ib_pending = Map.empty, ib_approvals = Map.empty,
          ib_frozen_reason = None\<rparr>)))"

definition frozen :: "ApprovalInbox \<Rightarrow> bool" where
  "frozen ib = (ib_frozen_reason ib \<noteq> None)"

definition freeze :: "string \<Rightarrow> ApprovalInbox \<Rightarrow> unit res \<times> ApprovalInbox" where
  "freeze reason ib =
     (if \<not> nonblank reason then (Inl ApprovalInboxError, ib)
      else (Inr (), ib\<lparr>ib_frozen_reason := Some reason\<rparr>))"

definition park :: "string \<Rightarrow> string \<Rightarrow> ApprovalRole \<Rightarrow> ApprovalInbox \<Rightarrow> unit res \<times> ApprovalInbox" where
  "park request_id digest required_role ib =
     (if \<not> nonblank digest then (Inl ApprovalInboxError, ib)
      else if frozen ib then (Inl ApprovalInboxError, ib)
      else let pending = \<lparr>pa_request_id = request_id, pa_intent_digest = digest,
                          pa_required_role = required_role\<rparr> in
        case ib_pending ib request_id of
          Some existing \<Rightarrow>
            if existing \<noteq> pending then (Inl ApprovalInboxError, ib)
            else (Inr (), ib\<lparr>ib_pending := (ib_pending ib)(request_id \<mapsto> pending)\<rparr>)
        | None \<Rightarrow> (Inr (), ib\<lparr>ib_pending := (ib_pending ib)(request_id \<mapsto> pending)\<rparr>))"

definition approve ::
  "(rat \<Rightarrow> rat \<Rightarrow> rat) \<Rightarrow> string \<Rightarrow> ApprovalPrincipal \<Rightarrow> json \<Rightarrow> rat \<Rightarrow> ApprovalInbox \<Rightarrow>
   ApprovalRecord res \<times> ApprovalInbox" where
  "approve fadd request_id approver ttl_seconds now ib =
     (case
        rbind (ensure (nonblank request_id) ApprovalInboxError) (\<lambda>_.
        rbind (require_finite_seconds ttl_seconds) (\<lambda>ttl.
        rbind (ensure (ttl > 0) ApprovalInboxError) (\<lambda>_.
        rbind (ensure (ttl \<le> ib_max_ttl_seconds ib) ApprovalInboxError) (\<lambda>_.
        rbind (ensure (\<not> frozen ib) ApprovalInboxError) (\<lambda>_.
        rbind (of_option ApprovalInboxError (ib_pending ib request_id)) (\<lambda>pending.
        rbind (ensure (ap_role approver = pa_required_role pending) ApprovalInboxError) (\<lambda>_.
        rbind (ensure (case ib_allowed_approvers ib (ap_role approver) of
                         Some allowed \<Rightarrow> ap_actor_id approver \<in> allowed | None \<Rightarrow> False)
                 ApprovalInboxError) (\<lambda>_.
        rbind (ensure (ib_approvals ib request_id = None) ApprovalInboxError) (\<lambda>_.
        Inr \<lparr>ar_request_id = request_id, ar_actor_id = ap_actor_id approver,
             ar_actor_role = ap_role approver, ar_intent_digest = pa_intent_digest pending,
             ar_approved_at = now, ar_expires_at = fadd now ttl, ar_consumed = False\<rparr>)))))))))
      of Inl e \<Rightarrow> (Inl e, ib)
       | Inr record \<Rightarrow> (Inr record, ib\<lparr>ib_approvals := (ib_approvals ib)(request_id \<mapsto> record)\<rparr>))"

definition consume_if_approved ::
  "string \<Rightarrow> string \<Rightarrow> ApprovalRole \<Rightarrow> rat \<Rightarrow> ApprovalInbox \<Rightarrow> bool \<times> ApprovalInbox" where
  "consume_if_approved request_id digest required_role now ib =
     (if frozen ib then (False, ib)
      else case (ib_pending ib request_id, ib_approvals ib request_id) of
        (Some pending, Some record) \<Rightarrow>
          if ar_consumed record then (False, ib)
          else if pa_required_role pending \<noteq> required_role then (False, ib)
          else if pa_intent_digest pending \<noteq> digest \<or> ar_intent_digest record \<noteq> digest then (False, ib)
          else if pa_required_role pending \<noteq> ar_actor_role record then (False, ib)
          else if now \<ge> ar_expires_at record then (False, ib)
          else (True, ib\<lparr>ib_approvals :=
                  (ib_approvals ib)(request_id \<mapsto> record\<lparr>ar_consumed := True\<rparr>)\<rparr>)
      | _ \<Rightarrow> (False, ib))"

definition record_for :: "string \<Rightarrow> ApprovalInbox \<Rightarrow> ApprovalRecord option" where
  "record_for request_id ib = ib_approvals ib request_id"

section \<open>Operations of concurrent callers\<close>

datatype inbox_op =
    Freeze string
  | Park string string ApprovalRole
  | Approve string ApprovalPrincipal json
  | Consume string string ApprovalRole

fun op_request :: "inbox_op \<Rightarrow> string option" where
  "op_request (Freeze _) = None"
| "op_request (Park r _ _) = Some r"
| "op_request (Approve r _ _) = Some r"
| "op_request (Consume r _ _) = Some r"

text \<open>One atomic operation at a reading of the clock; \<open>Inr True\<close> is a consumption.\<close>

fun inbox_step ::
  "(rat \<Rightarrow> rat \<Rightarrow> rat) \<Rightarrow> rat \<Rightarrow> inbox_op \<Rightarrow> ApprovalInbox \<Rightarrow> bool res \<times> ApprovalInbox" where
  "inbox_step fadd now (Freeze reason) ib = map_prod (\<lambda>r. rbind r (\<lambda>_. Inr False)) id (freeze reason ib)"
| "inbox_step fadd now (Park r d role) ib = map_prod (\<lambda>r. rbind r (\<lambda>_. Inr False)) id (park r d role ib)"
| "inbox_step fadd now (Approve r p ttl) ib =
     map_prod (\<lambda>r. rbind r (\<lambda>_. Inr False)) id (approve fadd r p ttl now ib)"
| "inbox_step fadd now (Consume r d role) ib = map_prod Inr id (consume_if_approved r d role now ib)"

text \<open>
  The invariant: every record belongs to a parked action with the same digest and the role it
  requires, and was given by an actor the deployment lists for that role.
\<close>

definition record_ok :: "ApprovalInbox \<Rightarrow> string \<Rightarrow> ApprovalRecord \<Rightarrow> bool" where
  "record_ok ib rid r =
     (ar_request_id r = rid \<and>
      (\<exists>p. ib_pending ib rid = Some p \<and> pa_intent_digest p = ar_intent_digest r \<and>
         pa_required_role p = ar_actor_role r) \<and>
      (\<exists>allowed. ib_allowed_approvers ib (ar_actor_role r) = Some allowed \<and> ar_actor_id r \<in> allowed))"

definition inbox_inv :: "ApprovalInbox \<Rightarrow> bool" where
  "inbox_inv ib = (\<forall>rid r. ib_approvals ib rid = Some r \<longrightarrow> record_ok ib rid r)"

definition spent :: "string \<Rightarrow> ApprovalInbox \<Rightarrow> bool" where
  "spent rid ib = (\<exists>r. ib_approvals ib rid = Some r \<and> ar_consumed r)"

definition op_spent :: "inbox_op \<Rightarrow> ApprovalInbox \<Rightarrow> bool" where
  "op_spent op ib = (case op_request op of None \<Rightarrow> False | Some rid \<Rightarrow> spent rid ib)"

definition same_request :: "inbox_op \<Rightarrow> inbox_op \<Rightarrow> bool" where
  "same_request op op' = (op_request op \<noteq> None \<and> op_request op = op_request op')"

section \<open>The gateway\<close>

record 'y approval_rest =
  as_inbox :: ApprovalInbox
  as_handler_calls :: "string list"
  as_rest :: 'y

type_synonym 'y approval_world = "('y approval_rest) gateway_world"

abbreviation inbox_of :: "'y approval_world \<Rightarrow> ApprovalInbox" where
  "inbox_of w \<equiv> as_inbox (gs_rest w)"

definition inbox_act ::
  "('y approval_world \<Rightarrow> ApprovalInbox \<Rightarrow> 'a res \<times> ApprovalInbox) \<Rightarrow> ('y approval_world, 'a) prog" where
  "inbox_act f = service (\<lambda>w. case f w (inbox_of w) of (r, ib) \<Rightarrow>
     (r, w\<lparr>gs_rest := (gs_rest w)\<lparr>as_inbox := ib\<rparr>\<rparr>))"

definition log_call :: "string \<Rightarrow> 'y approval_world \<Rightarrow> 'y approval_world" where
  "log_call tool w = w\<lparr>gs_handler_calls := gs_handler_calls w @ [tool],
     gs_rest := (gs_rest w)\<lparr>as_handler_calls := as_handler_calls (gs_rest w) @ [tool]\<rparr>\<rparr>"

text \<open>The part of \<^verbatim>\<open>decide_and_execute\<close> after the inner gateway asked for a review.\<close>

definition review ::
  "('y approval_world \<Rightarrow> rat) \<Rightarrow> (ActionIntent \<Rightarrow> ApprovalRole option res) \<Rightarrow> string \<Rightarrow>
   GovernedExecution \<Rightarrow> ActionIntent \<Rightarrow> ('y approval_world, GovernedExecution) prog" where
  "review clock required_role_for digest first action =
     pbind (of_res (required_role_for action)) (\<lambda>required. case required of
       None \<Rightarrow> record_status (unexecuted action CONTROL_FAILURE ''approval_role_not_configured'')
     | Some required_role \<Rightarrow>
         pbind (inbox_act (\<lambda>w ib. map_prod Inr id
                  (consume_if_approved (ai_request_id action) digest required_role (clock w) ib))) (\<lambda>won.
         if won then
           pbind (of_res (ai_arguments action)) (\<lambda>arguments.
           pbind (invoke (JObj arguments)) (\<lambda>output.
           pbind (modify (log_call (ai_tool_name action))) (\<lambda>_.
           record_status (executed action ''approved_review'' output))))
         else
           pbind (inbox_act (\<lambda>w ib. (Inr (record_for (ai_request_id action) ib), ib))) (\<lambda>record.
           case record of
             Some r \<Rightarrow>
               if ar_consumed r
               then record_status (unexecuted action BLOCKED ''approval_already_consumed'')
               else record_status (unexecuted action CONTROL_FAILURE ''approval_role_mismatch'')
           | None \<Rightarrow>
               pbind (inbox_act (\<lambda>w. park (ai_request_id action) digest required_role)) (\<lambda>_.
               Done first))))"

definition bounded_decide_and_execute ::
  "CompanyAgentSpec \<Rightarrow> (ActionIntent \<Rightarrow> 'y approval_world \<Rightarrow> validation res) \<Rightarrow>
   ('y approval_world \<Rightarrow> rat) \<Rightarrow> (ActionIntent \<Rightarrow> string res) \<Rightarrow>
   (ActionIntent \<Rightarrow> ApprovalRole option res) \<Rightarrow> ActionIntent \<Rightarrow>
   ('y approval_world, GovernedExecution) prog" where
  "bounded_decide_and_execute spec validate clock digest_for required_role_for action =
     pbind (inbox_act (\<lambda>w ib. (Inr (ib_frozen_reason ib), ib))) (\<lambda>frozen_reason.
     case frozen_reason of
       Some reason \<Rightarrow> record_status (unexecuted action CONTROL_FAILURE (''inbox_frozen:'' @ reason))
     | None \<Rightarrow>
         pbind (of_res (digest_for action)) (\<lambda>digest.
         pbind (company_decide_and_execute spec validate action) (\<lambda>first.
         if ge_status first \<noteq> REVIEW_REQUIRED then Done first
         else review clock required_role_for digest first action)))"

section \<open>Lemmas\<close>

lemma freeze_fields: "freeze x ib = (r, ib') \<Longrightarrow> ib_approvals ib' = ib_approvals ib \<and>
    ib_pending ib' = ib_pending ib \<and> ib_allowed_approvers ib' = ib_allowed_approvers ib"
  by (auto simp: freeze_def split: if_splits)

lemma park_fields: "park x d role ib = (r, ib') \<Longrightarrow> ib_approvals ib' = ib_approvals ib \<and>
    ib_pending ib \<subseteq>\<^sub>m ib_pending ib' \<and> ib_allowed_approvers ib' = ib_allowed_approvers ib"
  by (auto simp: park_def Let_def map_le_def dom_def split: if_splits option.splits)

lemma approve_Inl: "approve fadd rid p ttl now ib = (Inl e, ib') \<Longrightarrow> ib' = ib"
  by (auto simp: approve_def split: sum.splits)

lemma approve_Inr:
  assumes "approve fadd rid p ttl now ib = (Inr rec, ib')"
  shows "ib' = ib\<lparr>ib_approvals := (ib_approvals ib)(rid \<mapsto> rec)\<rparr> \<and> ib_approvals ib rid = None \<and>
    \<not> frozen ib \<and> ar_request_id rec = rid \<and> \<not> ar_consumed rec \<and>
    ar_actor_id rec = ap_actor_id p \<and> ar_actor_role rec = ap_role p \<and>
    (\<exists>q. ib_pending ib rid = Some q \<and> pa_intent_digest q = ar_intent_digest rec \<and>
       pa_required_role q = ap_role p) \<and>
    (\<exists>allowed. ib_allowed_approvers ib (ap_role p) = Some allowed \<and> ap_actor_id p \<in> allowed)"
  using assms
  by (auto simp: approve_def rbind_Inr_iff ensure_Inr of_option_Inr split: sum.splits option.splits)

lemma consume_True:
  "consume_if_approved rid d role now ib = (True, ib') \<longleftrightarrow>
     (\<exists>p rec. \<not> frozen ib \<and> ib_pending ib rid = Some p \<and> ib_approvals ib rid = Some rec \<and>
        \<not> ar_consumed rec \<and> pa_required_role p = role \<and> ar_actor_role rec = role \<and>
        pa_intent_digest p = d \<and> ar_intent_digest rec = d \<and> now < ar_expires_at rec \<and>
        ib' = ib\<lparr>ib_approvals := (ib_approvals ib)(rid \<mapsto> rec\<lparr>ar_consumed := True\<rparr>)\<rparr>)"
  by (auto simp: consume_if_approved_def not_le split: option.splits if_splits)

lemma consume_False: "consume_if_approved rid d role now ib = (False, ib') \<Longrightarrow> ib' = ib"
  by (auto simp: consume_if_approved_def split: option.splits if_splits)

lemma step_True:
  "inbox_step fadd now op ib = (Inr True, ib') \<Longrightarrow>
     \<exists>r d role. op = Consume r d role \<and> consume_if_approved r d role now ib = (True, ib')"
  by (cases op) (auto simp: rbind_Inr_iff map_prod_def split: prod.splits)

text \<open>Every operation leaves each record alone, adds one where there was none, or spends one.\<close>

lemma step_approvals:
  assumes "inbox_step fadd now op ib = (r, ib')" and "spent rid ib"
  shows "spent rid ib'"
proof (cases op)
  case (Freeze x)
  with assms show ?thesis by (cases "freeze x ib") (auto simp: spent_def dest: freeze_fields)
next
  case (Park x d role)
  with assms show ?thesis by (cases "park x d role ib") (auto simp: spent_def dest: park_fields)
next
  case (Approve x p ttl)
  obtain q ib1 where q: "approve fadd x p ttl now ib = (q, ib1)" by fastforce
  with assms Approve show ?thesis
    by (cases q) (auto simp: spent_def dest!: approve_Inl approve_Inr)
next
  case (Consume x d role)
  obtain q ib1 where q: "consume_if_approved x d role now ib = (q, ib1)" by fastforce
  with assms Consume show ?thesis
    by (cases q) (auto simp: spent_def consume_True dest!: consume_False)
qed

lemma step_inv:
  assumes "inbox_inv ib" and "inbox_step fadd now op ib = (r, ib')"
  shows "inbox_inv ib'"
proof (cases op)
  case (Freeze x)
  with assms show ?thesis
    by (cases "freeze x ib") (auto simp: inbox_inv_def record_ok_def dest!: freeze_fields)
next
  case (Park x d role)
  obtain q ib1 where q: "park x d role ib = (q, ib1)" by fastforce
  with assms(2) Park have ib': "ib' = ib1" by simp
  have keep: "ib_pending ib y = Some p \<Longrightarrow> ib_pending ib' y = Some p" for y p
    using park_fields [OF q] ib' unfolding map_le_def by (metis domI)
  show ?thesis using assms(1) park_fields [OF q] ib' keep
    by (auto simp: inbox_inv_def record_ok_def) blast
next
  case (Approve x p ttl)
  obtain q ib1 where q: "approve fadd x p ttl now ib = (q, ib1)" by fastforce
  with assms Approve show ?thesis
    by (cases q) (auto simp: inbox_inv_def record_ok_def dest!: approve_Inl approve_Inr split: if_splits)
next
  case (Consume x d role)
  obtain q ib1 where q: "consume_if_approved x d role now ib = (q, ib1)" by fastforce
  with assms Consume show ?thesis
    by (cases q) (auto simp: inbox_inv_def record_ok_def consume_True dest!: consume_False split: if_splits,
        metis)
qed

interpretation inbox: single_use_claim "inbox_step fadd" op_spent same_request inbox_inv for fadd
proof unfold_locales
  fix s f u r s' v
  show "inbox_inv s'" if "inbox_inv s" "inbox_step fadd f u s = (r, s')" using that by (rule step_inv)
  show "\<not> op_spent u s" if "inbox_step fadd f u s = (Inr True, s')"
    using step_True [OF that] by (auto simp: op_spent_def spent_def consume_True)
  show "op_spent v s'" if "inbox_step fadd f u s = (Inr True, s')" "same_request v u"
    using step_True [OF that(1)] that(2)
    by (auto simp: op_spent_def spent_def consume_True same_request_def)
  show "op_spent v s'" if "inbox_step fadd f u s = (r, s')" "op_spent v s"
    using step_approvals [OF that(1)] that(2) by (auto simp: op_spent_def split: option.splits)
qed

text \<open>A frozen inbox stays frozen and keeps every record.\<close>

lemma frozen_step:
  assumes "frozen ib" and "inbox_step fadd now op ib = (r, ib')"
  shows "frozen ib' \<and> ib_approvals ib' = ib_approvals ib \<and> r \<noteq> Inr True"
proof -
  have "frozen ib' \<and> ib_approvals ib' = ib_approvals ib"
  proof (cases op)
    case (Approve x p ttl)
    obtain q ib1 where q: "approve fadd x p ttl now ib = (q, ib1)" by fastforce
    with assms Approve show ?thesis by (cases q) (auto dest!: approve_Inl approve_Inr)
  qed (use assms in \<open>auto simp: freeze_def park_def consume_if_approved_def frozen_def split: if_splits\<close>)
  moreover have "r \<noteq> Inr True" using assms step_True by (fastforce simp: consume_True)
  ultimately show ?thesis by blast
qed

lemma frozen_run:
  "frozen ib \<Longrightarrow> frozen (snd (run_claims (inbox_step fadd) ops ib)) \<and>
     ib_approvals (snd (run_claims (inbox_step fadd) ops ib)) = ib_approvals ib \<and>
     wins (\<lambda>_. True) (fst (run_claims (inbox_step fadd) ops ib)) = 0"
proof (induction ops arbitrary: ib)
  case (Cons c ops)
  obtain now op where c: "c = (now, op)" by fastforce
  obtain r ib' where s: "inbox_step fadd now op ib = (r, ib')" by fastforce
  from frozen_step [OF Cons.prems s] Cons.IH [of ib'] show ?case
    by (auto simp: c s wins_def split: prod.splits)
qed (simp add: wins_def)

lemma inbox_init_inv: "inbox_init allowed ttl = Inr ib \<Longrightarrow> inbox_inv ib \<and> \<not> frozen ib"
  by (auto simp: inbox_init_def rbind_Inr_iff inbox_inv_def frozen_def)

lemma run_inbox_act:
  "run_prog h (inbox_act f) s =
     (case f (world s) (inbox_of (world s)) of (r, ib) \<Rightarrow>
        (r, s\<lparr>world := (world s)\<lparr>gs_rest := (gs_rest (world s))\<lparr>as_inbox := ib\<rparr>\<rparr>\<rparr>))"
  by (auto simp: inbox_act_def run_service split: prod.splits)

text \<open>A review enters the handler only on a consumption it has just won.\<close>

lemma review_run:
  assumes "run_prog h (review clock role_for digest first a) s = (r, s')" and "entries s' \<noteq> entries s"
  shows "\<exists>role ib'. role_for a = Inr (Some role) \<and> entries s' = Suc (entries s) \<and>
    consume_if_approved (ai_request_id a) digest role (clock (world s)) (inbox_of (world s)) = (True, ib')"
proof (cases "role_for a")
  case (Inl e)
  with assms show ?thesis by (auto simp: review_def run_pbind)
next
  case ra: (Inr required)
  show ?thesis
  proof (cases required)
    case None
    with ra assms show ?thesis by (auto simp: review_def run_pbind dest!: run_record_status)
  next
    case req: (Some role)
    obtain won ib' where c: "consume_if_approved (ai_request_id a) digest role (clock (world s))
        (inbox_of (world s)) = (won, ib')" by fastforce
    show ?thesis
    proof (cases won)
      case True
      with assms ra req c have "entries s' = Suc (entries s)"
        by (auto simp: review_def run_pbind run_inbox_act dest!: run_record_status invoke_once_entries
            split: sum.splits prod.splits)
      with True ra req c show ?thesis by auto
    next
      case False
      with assms ra req c show ?thesis
        by (auto simp: review_def run_pbind run_inbox_act dest!: run_record_status
            split: sum.splits prod.splits option.splits if_splits)
    qed
  qed
qed

section \<open>Properties\<close>

text \<open>
  C19: in any interleaving of parks, approvals, consumptions and freezes on an inbox, at any readings of
  the clock, the approval of one request is consumed at most once.
\<close>

theorem approval_consumed_at_most_once:
  assumes "inbox_init allowed ttl = Inr ib"
  shows "wins (\<lambda>op. op_request op = Some rid) (fst (run_claims (inbox_step fadd) ops ib)) \<le> 1 \<and>
    inbox_inv (snd (run_claims (inbox_step fadd) ops ib))"
proof (intro conjI)
  show "wins (\<lambda>op. op_request op = Some rid) (fst (run_claims (inbox_step fadd) ops ib)) \<le> 1"
    by (rule inbox.at_most_one_win) (simp add: same_request_def)
  show "inbox_inv (snd (run_claims (inbox_step fadd) ops ib))"
    using inbox_init_inv [OF assms] by (intro inbox.run_claims_inv) simp
qed

text \<open>
  C20: a consumption that succeeds, after whatever operations, is backed by a recorded approval of the
  same request for the same intent digest, given by an actor whom the deployment's directory lists for
  the role the parked action requires, not expired at the time of use; the inbox was not frozen.
\<close>

theorem consumption_is_backed:
  assumes "inbox_init allowed ttl = Inr ib0"
    and "ib = snd (run_claims (inbox_step fadd) ops ib0)"
    and "consume_if_approved rid digest role now ib = (True, ib')"
  shows "\<exists>r actors. record_for rid ib = Some r \<and> \<not> ar_consumed r \<and> ar_request_id r = rid \<and>
    ar_intent_digest r = digest \<and> ar_actor_role r = role \<and> now < ar_expires_at r \<and>
    ib_allowed_approvers ib role = Some actors \<and> ar_actor_id r \<in> actors \<and>
    \<not> frozen ib \<and> record_for rid ib' = Some (r\<lparr>ar_consumed := True\<rparr>)"
proof -
  have inv: "inbox_inv ib" unfolding assms(2)
    using inbox_init_inv [OF assms(1)] by (intro inbox.run_claims_inv) simp
  from assms(3) obtain r where r: "ib_approvals ib rid = Some r"
    and rest: "\<not> frozen ib" "\<not> ar_consumed r" "ar_actor_role r = role" "ar_intent_digest r = digest"
      "now < ar_expires_at r"
      "ib' = ib\<lparr>ib_approvals := (ib_approvals ib)(rid \<mapsto> r\<lparr>ar_consumed := True\<rparr>)\<rparr>"
    unfolding consume_True by blast
  from inv r have "record_ok ib rid r" by (simp add: inbox_inv_def)
  with r rest show ?thesis by (auto simp: record_ok_def record_for_def)
qed

text \<open>
  Freezing is final. After a freeze, no sequence of operations consumes an approval, records a new
  one, changes one, or thaws the inbox.
\<close>

theorem freeze_is_final:
  assumes "freeze reason ib = (Inr (), ib')"
  shows "frozen (snd (run_claims (inbox_step fadd) ops ib')) \<and>
    ib_approvals (snd (run_claims (inbox_step fadd) ops ib')) = ib_approvals ib \<and>
    wins (\<lambda>_. True) (fst (run_claims (inbox_step fadd) ops ib')) = 0"
  using assms frozen_run [of ib' fadd ops]
  by (auto simp: freeze_def frozen_def split: if_splits)


end
