(* ===== verification/Witnesses.thy ===== *)
theory Witnesses
  imports Planner Sidecar Approval
begin

text \<open>
  Concrete inputs: one payment intent, its plan, permit and evidence, a gateway and a sidecar around
  them, and an approval inbox. Each witness applies a property at such an input, with its hypotheses
  evaluated there.
\<close>

section \<open>One request\<close>

definition hash0 :: string where
  "hash0 = ''sha256:0000000000000000000000000000000000000000000000000000000000000000''"

definition pay_arguments :: jobj where
  "pay_arguments = [(''amount'', JInt 5)]"

definition pay_action :: ActionIntent where
  "pay_action = \<lparr>ai_request_id = ''r1'', ai_idempotency_key = ''k1'', ai_agent_id = ''agent'',
     ai_framework = ''hermes'', ai_tool_name = ''pay'', ai_capability = ''payments.send'',
     ai_timestamp = JInt 7, ai_arguments_json = Doc (JObj pay_arguments), ai_context_json = Doc (JObj []),
     ai_evidence_json = Doc (JObj [])\<rparr>"

definition pay_document :: jobj where
  "pay_document = [(''subject_principal'', JStr ''org''), (''subject_key_id'', JStr ''agent''),
     (''action'', JStr ''payments.send''), (''resource'', JStr ''bank''),
     (''parameters'', JObj pay_arguments)]"

definition pay_dispatch :: jobj where
  "pay_dispatch = [(''transport'', JStr ''https''), (''destination'', JStr ''bank''),
     (''operation'', JStr ''POST /pay''), (''wire_content_type'', JStr ''application/json''),
     (''wire_content_encoding'', JStr ''identity''), (''tool_id'', JStr ''pay''),
     (''tool_schema_digest'', JStr hash0), (''tool_artifact_digest'', JStr hash0),
     (''credential_audience'', JStr ''bank''), (''idempotency_key_digest'', JStr hash0),
     (''retry_policy_digest'', JStr hash0), (''serialization'', JStr ''pv-json-parameters/0.1'')]"

definition pay_prepared :: PreparedDispatch where
  "pay_prepared = \<lparr>pd_request_id = ''r1'', pd_dispatch_json = Doc (JObj (canon_obj pay_dispatch)),
     pd_wire_bytes = [123, 125], pd_peer_identity_bytes = [1]\<rparr>"

definition pay_plan :: PlannedDispatch where
  "pay_plan = \<lparr>pl_action = JObj pay_document, pl_prepared = pay_prepared\<rparr>"

definition pay_binding :: ExecutionAuthorizationBinding where
  "pay_binding = \<lparr>eb_request_id = ''r1'', eb_prepared_dispatch = pay_prepared,
     eb_action_json = Doc (JObj (canon_obj pay_document)),
     eb_decision_receipt_digest = hash0, eb_authority_receipt_digest = hash0,
     eb_approval_artifact_digest = None, eb_state_snapshot_digest = hash0,
     eb_policy_bundle_digest = hash0, eb_obligations_digest = hash0, eb_at_time = ''t0''\<rparr>"

definition pay_record :: jobj where
  "pay_record = [(''protocol_version'', JStr ''drp/0.2''), (''action_digest'', JStr hash0),
     (''dispatch_context_digest'', JStr hash0), (''decision_id'', JStr ''d1''),
     (''record_hash'', JStr hash0), (''agent_id'', JStr ''agent''),
     (''capability'', JStr ''payments.send'')]"

definition pay_decision :: PrivateVaultDecision where
  "pay_decision = \<lparr>dc_verdict = ALLOW, dc_triggered_by = ''policy'', dc_reason = ''ok'',
     dc_request_id = ''r1'', dc_record_json = Doc (JObj pay_record)\<rparr>"

definition pay_issued :: IssuedAuthorization where
  "pay_issued = \<lparr>is_authorization = JObj [(''execution_authorization_id'', JStr ''x1''),
       (''organisation_id'', JStr ''org''), (''request_id'', JStr ''r1'')],
     is_trust_bundle = JObj [(''root'', JStr ''k'')],
     is_binding_digests = [(''decision_receipt_digest'', JStr hash0),
       (''authority_receipt_digest'', JStr hash0), (''state_snapshot_digest'', JStr hash0),
       (''policy_bundle_digest'', JStr hash0), (''obligations_digest'', JStr hash0),
       (''at_time'', JStr ''t0'')]\<rparr>"

definition ok_report :: report where
  "ok_report = \<lparr>rp_ok = Some (JBool True), rp_evidence_state = Some (JStr ''verified''),
     rp_decision_conformance = Some (JStr ''conformant''), rp_reason_code = None,
     rp_accountable_principal = Some (JStr ''org'')\<rparr>"

definition ok_dna :: AgentDNA where
  "ok_dna = \<lparr>verify_execution_authorization = (\<lambda>_ _ _. Inr ok_report),
     verify_dispatch_witness = (\<lambda>_ _ _ _. Inr ok_report),
     verify_closure_chain = (\<lambda>_ _ _ _ _. Inr ok_report),
     execution_authorization_digest = (\<lambda>_. Inr (JStr hash0))\<rparr>"

text \<open>The world is the table of authorization uses.\<close>

definition table_store :: "uses_table ConsumptionStore" where
  "table_store = \<lparr>cs_is_consumed = is_consumed NoFault, cs_claim_once = claim_once NoFault\<rparr>"

definition remote_identity :: WitnessIdentity where
  "remote_identity = \<lparr>wi_witness_component_id = ''w'', wi_signer_key_id = ''s'', wi_independent = True\<rparr>"

definition local_identity :: WitnessIdentity where
  "local_identity = remote_identity\<lparr>wi_independent := False\<rparr>"

definition closed_result :: DispatchResult where
  "closed_result = \<lparr>dr_witness = JObj [], dr_dispatch_outcome = ''ACKNOWLEDGED'',
     dr_response_status = ''200'', dr_response_bytes = [123, 125], dr_effect_state = ''CONFIRMED'',
     dr_output = JObj [], dr_closure = Some (JObj [])\<rparr>"

definition remote_transport :: "uses_table DispatchTransport" where
  "remote_transport = \<lparr>tr_identity = remote_identity, tr_with_handler = False, tr_in_process = False,
     tr_dispatch = (\<lambda>_. Done closed_result)\<rparr>"

definition pay_gateway :: "uses_table DispatchTransport \<Rightarrow> uses_table ExecutionGateway" where
  "pay_gateway transport = \<lparr>xg_decide = (\<lambda>_ _ w. (Inr pay_decision, w)),
     xg_plan = (\<lambda>_ w. (Inr pay_plan, w)), xg_issue = (\<lambda>_ _ _ w. (Inr pay_issued, w)),
     xg_store = table_store, xg_dna = ok_dna, xg_transport = transport,
     xg_clock = (\<lambda>w. (Inr ''t1'', w)), xg_witness_id = (\<lambda>_ w. (Inr ''w1'', w))\<rparr>"

definition echo_handler :: "'w handler" where
  "echo_handler a w = (Inr a, w)"

definition pay_execution :: GovernedExecution where
  "pay_execution = \<lparr>ge_status = EXECUTED, ge_request_id = ''r1'', ge_tool_executed = Some True,
     ge_reason = ''execution_closed'', ge_decision_id = Some ''d1'', ge_output = JObj [],
     ge_retryable = False\<rparr>"

section \<open>Evaluations\<close>

lemma pay_action_wf: "wf_action pay_action"
  by code_simp

lemma pay_gateway_executes:
  "execute (execution_gateway (pay_gateway remote_transport)) pay_action echo_handler [] =
     (Inr pay_execution, \<lparr>entries = 0, calls = [], world = []\<rparr>)"
  by code_simp

section \<open>The runtime, the store and the decision\<close>

definition direct_gateway :: "unit PrivateVaultGateway" where
  "direct_gateway = \<lparr>gw_independent_execution = None,
     gw_decide_and_execute = (\<lambda>a. Invoke (JObj pay_arguments) (\<lambda>_. Done (Execution pay_execution)))\<rparr>"

lemma direct_gateway_constructed: "constructed (gw_decide_and_execute direct_gateway pay_action)"
proof -
  have "wf_execution pay_execution" by code_simp
  then show ?thesis by (simp add: constructed_def direct_gateway_def)
qed

theorem execute_handler_discipline_witness:
  "\<exists>g. fst (execute direct_gateway pay_action echo_handler ()) = Inr g \<and> wf_execution g \<and>
    ge_request_id g = ai_request_id pay_action \<and>
    length (calls (snd (execute direct_gateway pay_action echo_handler ()))) \<le> 1"
  using execute_handler_discipline [OF pay_action_wf direct_gateway_constructed, of echo_handler "()"]
  by blast

definition pay_use :: AuthorizationUse where
  "pay_use = \<lparr>au_organisation_id = ''org'', au_execution_authorization_id = ''x1'',
     au_authorization_digest = hash0, au_request_id = ''r1'', au_claimed_at = ''t1''\<rparr>"

theorem authorization_claimed_at_most_once_witness:
  "table_inv [] \<and>
   wins (same_key pay_use) (fst (run_claims claim_once [(NoFault, pay_use), (CommitFails True, pay_use)] [])) \<le> 1"
proof -
  have "table_inv []" by code_simp
  with authorization_claimed_at_most_once [OF this] show ?thesis by blast
qed

definition pay_response :: HttpJsonResponse where
  "pay_response = \<lparr>hr_status_code = 200, hr_body = JObj [(''decision'', JStr ''allow''),
     (''request_id'', JStr ''r1''), (''triggered_by'', JStr ''policy''), (''reason'', JStr ''ok''),
     (''record'', JObj pay_record)]\<rparr>"

definition pay_decision_binding :: DecisionBinding where
  "pay_decision_binding = \<lparr>bd_execution_action_json = Doc (JObj (canon_obj pay_document)),
     bd_dispatch_context_json = Doc (JObj [(''adapter'', JStr ''https''), (''destination'', JStr ''bank''),
       (''operation'', JStr ''POST /pay''), (''serialization'', JStr ''pv-json-parameters/0.1''),
       (''transport'', JStr ''https''), (''wire_content_type'', JStr ''application/json'')])\<rparr>"

lemma pay_decides:
  "fst (decide (\<lambda>_ _ w. (Inr pay_response, w)) pay_action (Some pay_decision_binding) ()) =
     Inr (pay_decision\<lparr>dc_record_json := Doc (JObj (canon_obj pay_record))\<rparr>)"
  by code_simp


lemma pay_binds: "capture_binding pay_action (JObj pay_document) pay_dispatch = Inr pay_decision_binding"
  by code_simp

theorem binding_binds_intent_witness:
  "\<exists>d p args. JObj pay_document = JObj d \<and> jkeys d = set execution_action_fields \<and>
    jget d ''parameters'' = Some (JObj p) \<and> ai_arguments pay_action = Inr args \<and>
    json_eq (JObj p) (JObj args)"
  using binding_binds_intent [OF pay_binds] by blast

section \<open>The claim and the gateway\<close>

lemma pay_claims:
  "\<exists>va. verify_and_claim ok_dna table_store (is_authorization pay_issued)
     (Some (is_trust_bundle pay_issued)) pay_binding (Some ''t1'') [] = (Inr va, [pay_use])"
proof -
  have "isl (fst (verify_and_claim ok_dna table_store (is_authorization pay_issued)
      (Some (is_trust_bundle pay_issued)) pay_binding (Some ''t1'') [])) = False"
    and "snd (verify_and_claim ok_dna table_store (is_authorization pay_issued)
      (Some (is_trust_bundle pay_issued)) pay_binding (Some ''t1'') []) = [pay_use]"
    by code_simp+
  then show ?thesis by (metis prod.collapse sum.collapse(2))
qed


lemma pay_gateway_fields [simp]:
  "xg_plan (pay_gateway tr) a w = (Inr pay_plan, w)" "xg_issue (pay_gateway tr) a dc p w = (Inr pay_issued, w)"
  "xg_decide (pay_gateway tr) a bd w = (Inr pay_decision, w)" "xg_dna (pay_gateway tr) = ok_dna"
  "xg_transport (pay_gateway tr) = tr"
  by (simp_all add: pay_gateway_def)


definition sign_anything :: "'w witness_signer" where
  "sign_anything _ _ _ _ _ _ _ w = (Inr (JObj []), w)"

definition local_transport :: "uses_table DispatchTransport" where
  "local_transport = \<lparr>tr_identity = local_identity, tr_with_handler = True, tr_in_process = True,
     tr_dispatch = in_process_dispatch sign_anything (\<lambda>_. Inr [1]) local_identity\<rparr>"

lemma local_transport_made:
  "in_process_transport sign_anything (\<lambda>_. Inr [1]) local_identity = Inr (xg_transport (pay_gateway local_transport))"
  by (simp add: in_process_transport_Inr local_transport_def local_identity_def)

definition open_execution :: GovernedExecution where
  "open_execution = \<lparr>ge_status = INDETERMINATE, ge_request_id = ''r1'', ge_tool_executed = None,
     ge_reason = ''closure_unproven:ExecutionGatewayError'', ge_decision_id = Some ''d1'',
     ge_output = JNull, ge_retryable = False\<rparr>"

lemma local_gateway_runs:
  "run_prog echo_handler (decide_and_execute (pay_gateway local_transport) pay_action) (start []) =
     (Inr (Execution open_execution), \<lparr>entries = 1, calls = [JObj pay_arguments], world = [pay_use]\<rparr>)"
  by code_simp

theorem in_process_never_executed_witness:
  "ge_status open_execution \<noteq> EXECUTED \<and> (ge_status open_execution = INDETERMINATE \<longleftrightarrow>
     calls \<lparr>entries = 1, calls = [JObj pay_arguments], world = [pay_use]\<rparr> \<noteq> [])"
  by (rule in_process_never_executed [OF local_transport_made local_gateway_runs])

section \<open>The planner\<close>

definition pay_route :: ToolRoute where
  "pay_route = \<lparr>rt_tool_id = ''pay'', rt_capability = ''payments.send'', rt_destination = ''bank'',
     rt_operation = ''POST /pay'', rt_credential_audience = ''bank'', rt_peer_identity = ''spki:1'',
     rt_allowed_parameters = [''amount''], rt_required_parameters = [''amount''],
     rt_transport = ''https'', rt_wire_content_type = ''application/json'',
     rt_wire_content_encoding = ''identity'', rt_tool_schema_digest = hash0,
     rt_tool_artifact_digest = [], rt_retry_policy_digest = []\<rparr>"

definition pay_planner :: HttpDispatchPlanner where
  "pay_planner = \<lparr>hp_routes = [''pay'' \<mapsto> pay_route], hp_subject_principal = ''org'',
     hp_subject_key_id = ''agent''\<rparr>"

definition planned_prepared :: PreparedDispatch where
  "planned_prepared = \<lparr>pd_request_id = ''r1'',
     pd_dispatch_json = Doc (JObj (canon_obj (plan_dispatch_document pay_action pay_route))),
     pd_wire_bytes = encode_utf8 (dumps (JObj pay_arguments)),
     pd_peer_identity_bytes = encode_utf8 ''spki:1''\<rparr>"

lemma hash0_sha [simp]: "sha256_text hash0"
  by code_simp

lemma planned_prepared_wf: "wf_dispatch planned_prepared"
proof -
  let ?d = "plan_dispatch_document pay_action pay_route"
  have "distinct (map fst ?d)" by (simp add: plan_dispatch_document_def)
  moreover have "validate_dispatch ?d = Inr ()"
    unfolding validate_dispatch_Inr
    by (auto simp: plan_dispatch_document_def pay_route_def pay_action_def jkeys_def text_fields_def
        digest_fields_def required_dispatch_fields_def or_digest_def text_field_def digest_field_def)
  ultimately show ?thesis by (auto simp: wf_dispatch_iff planned_prepared_def dumps_def pay_arguments_def)
qed

lemma pay_planned:
  "plan pay_planner pay_action = Inr \<lparr>pl_action = JObj pay_document, pl_prepared = planned_prepared\<rparr>"
proof -
  have f: "filter_arguments pay_action pay_route = Inr pay_arguments" by code_simp
  have v: "valid_json (JObj pay_arguments)" by code_simp
  have "valid_json (JObj (plan_dispatch_document pay_action pay_route))"
    by (simp add: plan_dispatch_document_def or_digest_def)
  then have "capture_dispatch ''r1'' (JObj (plan_dispatch_document pay_action pay_route))
      (encode_utf8 (dumps (JObj pay_arguments))) (encode_utf8 ''spki:1'') = Inr planned_prepared"
    using planned_prepared_wf unfolding capture_dispatch_Inr by (auto simp: planned_prepared_def)
  with f v show ?thesis
    by (simp add: plan_def canonical_bytes_def pay_planner_def del: valid_json.simps)
      (simp add: pay_action_def pay_route_def pay_document_def)
qed

theorem plan_sound_witness:
  "\<exists>route args f. hp_routes pay_planner (ai_tool_name pay_action) = Some route \<and>
    ai_arguments pay_action = Inr args \<and>
    f = filter (\<lambda>kv. fst kv \<in> set (rt_allowed_parameters route)) args \<and>
    pd_wire_bytes planned_prepared = encode_utf8 (dumps (JObj f))"
  using plan_sound [OF pay_planned] by auto

end
