(* ===== verification/Witnesses_Boundary.thy ===== *)
theory Witnesses_Boundary
  imports Witnesses
begin

text \<open>Witnesses of the sidecar boundary, the approval inbox and the company gateway.\<close>

section \<open>The lossless plan\<close>

lemma rmapM_cong: "(\<And>x. x \<in> set xs \<Longrightarrow> f x = g x) \<Longrightarrow> rmapM f xs = rmapM g xs"
  by (induction xs) simp_all

lemma dispatch_context_cong:
  assumes "\<And>k. k \<in> set dispatch_context_fields \<Longrightarrow> jget d k = jget e k"
  shows "dispatch_context_from_dispatch d = dispatch_context_from_dispatch e"
proof -
  have t: "jget d ''transport'' = jget e ''transport''" "jget d ''adapter'' = jget e ''adapter''"
    by (rule assms, simp add: dispatch_context_fields_def)+
  show ?thesis unfolding dispatch_context_from_dispatch_def Let_def t
    by (intro arg_cong2 [where f = rbind] rmapM_cong refl) (simp add: assms)
qed

lemma planned_binds:
  "capture_binding pay_action (JObj pay_document)
     (canon_obj (plan_dispatch_document pay_action pay_route)) = Inr pay_decision_binding"
proof -
  let ?d = "plan_dispatch_document pay_action pay_route"
  have "distinct (map fst ?d)" by (simp add: plan_dispatch_document_def)
  then have "jget (canon_obj ?d) k = jget pay_dispatch k" if "k \<in> set dispatch_context_fields" for k
    using that by (auto simp: jget_canon dispatch_context_fields_def plan_dispatch_document_def
        pay_route_def pay_dispatch_def)
  from dispatch_context_cong [OF this] pay_binds show ?thesis unfolding capture_binding_def by simp
qed

theorem bound_plan_is_lossless_witness:
  "\<exists>route args. hp_routes pay_planner (ai_tool_name pay_action) = Some route \<and>
    ai_arguments pay_action = Inr args \<and> jkeys args \<subseteq> set (rt_allowed_parameters route) \<and>
    pd_wire_bytes planned_prepared = encode_utf8 (dumps (JObj args))"
proof -
  have "pd_dispatch planned_prepared = Inr (canon_obj (plan_dispatch_document pay_action pay_route))"
    by (simp add: pd_dispatch_def planned_prepared_def restore_object_def)
  from bound_plan_is_lossless [OF pay_planned, unfolded PlannedDispatch.simps, OF this planned_binds]
  show ?thesis by auto
qed

section \<open>The codecs\<close>

lemma pay_prepared_captured: "capture_dispatch ''r1'' (JObj pay_dispatch) [123, 125] [1] = Inr pay_prepared"
  by code_simp

lemma pay_binding_captured:
  "capture_authorization_binding ''r1'' (JObj pay_document) pay_prepared hash0 hash0 None hash0 hash0
     hash0 ''t0'' = Inr pay_binding"
  by code_simp

definition pay_authorization :: jobj where
  "pay_authorization = [(''execution_authorization_id'', JStr ''x1''), (''organisation_id'', JStr ''org''),
     (''request_id'', JStr ''r1'')]"

definition pay_trust :: jobj where
  "pay_trust = [(''root'', JStr ''k'')]"

definition pay_envelope :: SidecarEnvelope where
  "pay_envelope = \<lparr>se_authorization = canon_obj pay_authorization, se_trust_bundle = canon_obj pay_trust,
     se_binding = pay_binding, se_witness_id = ''w1'', se_attempt = 1\<rparr>"

theorem request_roundtrip_witness:
  "nonblank ''w1'' \<and> (\<exists>payload. encode_request (JObj pay_authorization) (JObj pay_trust) pay_binding ''w1'' ''t1'' 1
      = Inr payload \<and> decode_request (canon_obj payload) = Inr pay_envelope)"
proof -
  have "nonblank ''w1''" by simp
  with request_roundtrip [OF pay_prepared_captured pay_binding_captured this, of 1 pay_authorization pay_trust "''t1''"]
  show ?thesis by (simp add: pay_envelope_def)
qed

theorem response_roundtrip_witness:
  "\<exists>resp. encode_success ''r1'' closed_result = Inr resp \<and>
     decode_response (canon_obj resp) ''r1'' = Inr closed_result"
  using response_roundtrip [of closed_result "[]" "[]" "''r1''" "''r1''"]
  by (simp add: closed_result_def canon_obj_def)

theorem empty_body_not_decodable_witness:
  "\<exists>resp. encode_success ''r1'' (closed_result\<lparr>dr_response_bytes := []\<rparr>) = Inr resp \<and>
     decode_response (canon_obj resp) ''r1'' = Inl SidecarProtocolError"
  by (rule empty_body_not_decodable [where wt = "[]" and cl = "[]"]) (simp_all add: closed_result_def)

section \<open>The service\<close>

definition ok_channel :: "unit TargetChannel" where
  "ok_channel = \<lparr>tc_peer_identity_bytes = [1],
     tc_send_exact = (\<lambda>_ _ _ _ w. (Inr \<lparr>tg_dispatch_outcome = ''ACKNOWLEDGED'',
        tg_response_status = ''200'', tg_response_bytes = Some [123, 125],
        tg_effect_state = ''CONFIRMED'', tg_output = JObj []\<rparr>, w)),
     tc_close = (\<lambda>w. (Inr (), w))\<rparr>"

definition some_verified :: VerifiedAuthorization where
  "some_verified = \<lparr>va_binding = pay_binding,
     va_evidence = \<lparr>ve_stage = ''authorization'', ve_accountable_principal = None, ve_reason_code = ''ACCEPTED''\<rparr>,
     va_authorization_json = Doc (JObj []), va_trust_bundle_json = Doc (JObj [])\<rparr>"

definition bank_key :: CredentialHeader where
  "bank_key = \<lparr>ch_name = ''Authorization'', ch_value = ''Bearer k''\<rparr>"

definition pay_service :: "unit SidecarDispatchService" where
  "pay_service = \<lparr>sv_claim = (\<lambda>_ _ _ _ w. (Inr some_verified, w)), sv_open = (\<lambda>_ w. (Inr ok_channel, w)),
     sv_resolve = (\<lambda>_ w. (Inr bank_key, w)), sv_sign = sign_anything, sv_identity = remote_identity,
     sv_seal = (\<lambda>_ _ _ _ _ _ _ _ w. (Inr (JObj []), w)), sv_clock = (\<lambda>w. (Inr ''t1'', w)),
     sv_pinned_trust_bundle = pay_trust,
     sv_pinned_trust_digest = digest_text (encode_utf8 (dumps (JObj (canon_obj pay_trust))))\<rparr>"

definition pay_payload :: jobj where
  "pay_payload = [(''schema'', JStr request_schema), (''authorization'', JObj pay_authorization),
     (''trust_bundle'', JObj pay_trust), (''action'', JObj (canon_obj pay_document)),
     (''prepared'', encode_prepared pay_prepared (canon_obj pay_dispatch)),
     (''binding'', encode_binding pay_binding),
     (''witness'', JObj [(''witness_id'', JStr ''w1''), (''attempt'', JInt 1)])]"

lemma pay_payload_decodes: "decode_request (canon_obj pay_payload) = Inr pay_envelope"
  by code_simp

lemma pay_trust_digest:
  "trust_bundle_digest (canon_obj pay_trust) = Inr (sv_pinned_trust_digest pay_service)"
proof -
  have "valid_json (JObj (canon_obj pay_trust))" by code_simp
  then show ?thesis by (simp add: trust_bundle_digest_def sidecar_canonical_json_def pay_service_def
        del: valid_json.simps)
qed

lemma pay_dispatch_restored: "pd_dispatch pay_prepared = Inr (canon_obj pay_dispatch)"
  by (simp add: pd_dispatch_def pay_prepared_def restore_object_def)

lemma pay_texts:
  "sidecar_text (canon_obj pay_dispatch) ''wire_content_type'' = Inr ''application/json''"
  "sidecar_text (canon_obj pay_dispatch) ''wire_content_encoding'' = Inr ''identity''"
  "sidecar_text (canon_obj pay_dispatch) ''credential_audience'' = Inr ''bank''"
  "sidecar_text (canon_obj pay_dispatch) ''idempotency_key_digest'' = Inr hash0"
  "safe_header_value ''application/json'' = Inr ''application/json''"
  "safe_header_value ''identity'' = Inr ''identity''"
  by code_simp+

lemma pay_opens:
  "open_stage pay_service pay_envelope (canon_obj pay_dispatch) ((), []) =
     (Inr (''application/json'', ''identity'', bank_key, ok_channel),
      ((), [Resolved ''bank'', Opened (canon_obj pay_dispatch)]))"
proof -
  have e: "se_trust_bundle pay_envelope = canon_obj pay_trust" by (simp add: pay_envelope_def)
  have "sv_resolve pay_service x () = (Inr bank_key, ())" "sv_open pay_service d () = (Inr ok_channel, ())"
    for x d by (simp_all add: pay_service_def)
  then show ?thesis
    by (simp add: open_stage_def ebind_def eret_def logged_def e pay_trust_digest pay_texts)
qed

lemma pay_claimed:
  "claim_stage pay_service pay_envelope ok_channel ((), tr) =
     (Inr ''t1'', ((), tr @ [Claim pay_binding ''t1'' True]))"
  by (simp add: claim_stage_def ebind_def eret_def logged_def silent_def pay_service_def pay_envelope_def
      ok_channel_def pay_binding_def pay_prepared_def)

lemma pay_sent:
  "send_stage pay_service pay_envelope (canon_obj pay_dispatch) ct ce cr ok_channel t ((), tr) =
     (Inr closed_result, ((), tr @ [Sent [123, 125] ct ce cr, Signed, Sealed]))"
proof -
  have j: "jget (canon_obj pay_dispatch) ''wire_content_type'' = Some (JStr ''application/json'')"
    "jget (canon_obj pay_dispatch) ''wire_content_encoding'' = Some (JStr ''identity'')"
    by code_simp+
  have a: "eb_action pay_binding = Inr (canon_obj pay_document)"
    by (simp add: eb_action_def pay_binding_def restore_object_def)
  have b: "se_binding pay_envelope = pay_binding" "eb_prepared_dispatch pay_binding = pay_prepared"
    "pd_wire_bytes pay_prepared = [123, 125]"
    by (simp_all add: pay_envelope_def pay_binding_def pay_prepared_def)
  have s: "tc_send_exact ok_channel x ct ce cr () = (Inr \<lparr>tg_dispatch_outcome = ''ACKNOWLEDGED'',
        tg_response_status = ''200'', tg_response_bytes = Some [123, 125],
        tg_effect_state = ''CONFIRMED'', tg_output = JObj []\<rparr>, ())" for x
    by (simp add: ok_channel_def)
  have k: "sv_sign pay_service m x y z d1 w p () = (Inr (JObj []), ())"
    "sv_seal pay_service x y z s1 s2 bs s3 s4 () = (Inr (JObj []), ())" for m x y z d1 w p s1 s2 bs s3 s4
    by (simp_all add: pay_service_def sign_anything_def)
  show ?thesis
    by (simp add: send_stage_def witness_stage_def Let_def ebind_def eret_def logged_def j a b s k
        pay_texts closed_result_def)
qed

lemma pay_dispatched:
  "dispatch_pinned pay_service pay_envelope ((), []) =
     (Inr closed_result, ((), [Resolved ''bank'', Opened (canon_obj pay_dispatch), Claim pay_binding ''t1'' True,
        Sent [123, 125] ''application/json'' ''identity'' bank_key, Signed, Sealed, Closed]))"
proof -
  have b: "eb_prepared_dispatch (se_binding pay_envelope) = pay_prepared"
    by (simp add: pay_envelope_def pay_binding_def)
  have c: "close_channel ok_channel ((), tr) = ((), tr @ [Closed])" for tr
    by (simp add: close_channel_def logged_def ok_channel_def)
  show ?thesis
    by (simp add: dispatch_pinned_def b c pay_dispatch_restored pay_opens pay_claimed pay_sent)
qed

lemma pay_handled:
  "\<exists>resp tr. handle pay_service (canon_obj pay_payload) ((), []) = (Inr resp, ((), tr)) \<and> tr \<noteq> [] \<and>
     jget resp ''status'' = Some (JStr ''EXECUTED'')"
proof -
  have r: "eb_request_id (se_binding pay_envelope) = ''r1''" by (simp add: pay_envelope_def pay_binding_def)
  obtain resp where resp: "encode_success ''r1'' closed_result = Inr resp" and "valid_json (JObj resp)"
    by (simp add: encode_success_def closed_result_def)
  then show ?thesis using encode_success_status [OF resp]
    by (simp add: handle_def Let_def pay_payload_decodes pay_dispatched r sidecar_canonical_json_def
        del: valid_json.simps)
qed

theorem sidecar_egress_discipline_witness:
  "\<exists>tr. \<not> unsent tr \<and> (\<exists>env. decode_request (canon_obj pay_payload) = Inr env \<and> sent_once pay_service env tr)"
  using sidecar_egress_discipline [of pay_service "canon_obj pay_payload" "()"] pay_handled by auto

definition deny_service :: "unit SidecarDispatchService" where
  "deny_service = pay_service\<lparr>sv_resolve := (\<lambda>_ w. (Inl SidecarError, w))\<rparr>"

definition pay_request :: DispatchRequest where
  "pay_request = \<lparr>rq_authorization = JObj pay_authorization, rq_trust_bundle = JObj pay_trust,
     rq_action = JObj pay_document, rq_prepared = pay_prepared, rq_witness_id = ''w1'',
     rq_observed_at = ''t1'', rq_attempt = 1, rq_binding = pay_binding\<rparr>"

lemma deny_handled:
  "handle deny_service (canon_obj pay_payload) ((), []) =
     (Inr (refusal ''REFUSED'' ''PRE_DISPATCH'' ''r1'' ''pre_dispatch_refused:SidecarError''),
      ((), [Resolved ''bank'']))"
proof -
  have b: "eb_prepared_dispatch (se_binding pay_envelope) = pay_prepared"
    and e: "se_trust_bundle pay_envelope = canon_obj pay_trust"
    by (simp_all add: pay_envelope_def pay_binding_def)
  have d: "sv_pinned_trust_digest deny_service = sv_pinned_trust_digest pay_service"
    and r: "sv_resolve deny_service x () = (Inl SidecarError, ())" for x
    by (simp_all add: deny_service_def)
  have "open_stage deny_service pay_envelope (canon_obj pay_dispatch) ((), []) =
      (Inl SidecarError, ((), [Resolved ''bank'']))"
    by (simp add: open_stage_def ebind_def eret_def logged_def e d r pay_trust_digest pay_texts)
  moreover have "possible_request_id (canon_obj pay_payload) = ''r1''" by code_simp
  ultimately show ?thesis
    by (simp add: handle_def Let_def pay_payload_decodes dispatch_pinned_def b pay_dispatch_restored)
qed

lemma deny_dispatched:
  "sidecar_dispatch (\<lambda>payload. handle deny_service (canon_obj payload)) pay_request ((), []) =
     (Inl HandlerNotInvoked, ((), [Resolved ''bank'']))"
proof -
  have a: "eb_action pay_binding = Inr (canon_obj pay_document)"
    by (simp add: eb_action_def pay_binding_def restore_object_def)
  have j: "json_eq (JObj (canon_obj pay_document)) (JObj pay_document)" by code_simp
  have p: "eb_prepared_dispatch pay_binding = pay_prepared" "eb_request_id pay_binding = ''r1''"
    by (simp_all add: pay_binding_def)
  have c: "encode_request (JObj pay_authorization) (JObj pay_trust) pay_binding ''w1'' ''t1'' 1 = Inr pay_payload"
    by (simp add: encode_request_def Let_def a p pay_dispatch_restored pay_payload_def)
  have d: "decode_response (refusal ''REFUSED'' ''PRE_DISPATCH'' ''r1'' ''pre_dispatch_refused:SidecarError'') ''r1''
      = Inl HandlerNotInvoked" by code_simp
  show ?thesis
    by (simp add: sidecar_dispatch_def Let_def ebind_def eret_def pay_request_def a j p c d deny_handled
        reraise_def del: json_eq.simps)
qed

theorem agent_refusal_nothing_sent_witness: "unsent [Resolved ''bank'']"
  by (rule agent_refusal_nothing_sent [OF deny_dispatched])

definition client_certificate :: "peercert option res" where
  "client_certificate = Inr (Some [(''subject'', CTuple [CTuple [CTuple [CStr ''commonName'', CStr ''agent'']]])])"

lemma pay_posted:
  "\<exists>r tr. do_POST pay_service {''agent''} 100 client_certificate ''/v1/dispatch'' (Some ''50'')
     (\<lambda>_. Doc (JObj (canon_obj pay_payload))) ((), []) = (r, ((), tr)) \<and> ((), tr) \<noteq> ((), [])"
proof -
  have c: "client_principal_allowed client_certificate {''agent''}" by code_simp
  have l: "content_length (Some ''50'') = Inr 50" by code_simp
  obtain resp tr where "handle pay_service (canon_obj pay_payload) ((), []) = (Inr resp, ((), tr))" "tr \<noteq> []"
    using pay_handled by blast
  then show ?thesis by (cases "sidecar_canonical_json resp") (auto simp: do_POST_def c l)
qed

theorem http_front_door_witness:
  "(\<exists>certificate. client_certificate = Inr certificate \<and>
      principals_from_peercert certificate \<inter> {''agent''} \<noteq> {}) \<and>
    (\<exists>n. content_length (Some ''50'') = Inr n \<and> n \<le> 100)"
proof -
  obtain r tr where "do_POST pay_service {''agent''} 100 client_certificate ''/v1/dispatch'' (Some ''50'')
     (\<lambda>_. Doc (JObj (canon_obj pay_payload))) ((), []) = (r, ((), tr))" "((), tr) \<noteq> ((), [])"
    using pay_posted by blast
  from http_front_door [OF this] show ?thesis by blast
qed

definition bank_route :: HTTPSRoute where
  "bank_route = \<lparr>hs_destination = ''bank'', hs_host = ''bank.example'', hs_port = 443,
     hs_operations = [''POST /pay''], hs_credential_audience = ''bank''\<rparr>"

lemma bank_opened: "open_route [''bank'' \<mapsto> bank_route] (\<lambda>_ _ w. (Inr ok_channel, w)) pay_dispatch () = (Inr ok_channel, ())"
  by (simp add: open_route_def ebind_def eret_def sidecar_text_def text_field_def pay_dispatch_def bank_route_def)

theorem connector_allow_list_witness:
  "\<exists>destination route operation. jget pay_dispatch ''destination'' = Some (JStr destination) \<and>
    [''bank'' \<mapsto> bank_route] destination = Some route \<and> hs_destination route = destination \<and>
    jget pay_dispatch ''operation'' = Some (JStr operation) \<and> operation \<in> set (hs_operations route)"
  using connector_allow_list [OF bank_opened] by blast

definition bank_answer :: TargetResponse where
  "bank_answer = \<lparr>tg_dispatch_outcome = ''ACKNOWLEDGED'', tg_response_status = ''201'',
     tg_response_bytes = Some [123, 125], tg_effect_state = ''CONFIRMED'', tg_output = JNull\<rparr>"

lemma bank_exchanged:
  "send_exact_https (\<lambda>_ w. (Inr (201, [123, 125]), w)) (\<lambda>_. Inr JNull) 10 ''POST /pay'' [123, 125]
     ''application/json'' ''identity'' bank_key () = (Inr bank_answer, ())"
  by code_simp

theorem exact_bytes_on_the_wire_witness:
  "\<exists>rq :: HttpExchange. hx_body rq = [123, 125] \<and>
    (''Content-Length'', digits (length ([123, 125] :: bytes))) \<in> set (hx_headers rq) \<and>
    (\<exists>body. tg_response_bytes bank_answer = Some body \<and> length body \<le> 10)"
proof -
  obtain rq :: HttpExchange and body where "hx_body rq = [123, 125]"
    "(''Content-Length'', digits (length ([123, 125] :: bytes))) \<in> set (hx_headers rq)"
    "tg_response_bytes bank_answer = Some body" "length body \<le> 10"
    using exact_bytes_on_the_wire [OF bank_exchanged] by (elim exE conjE)
  then show ?thesis by auto
qed

section \<open>The company gateway and the inbox\<close>

definition accounts_spec :: CompanyAgentSpec where
  "accounts_spec = \<lparr>sp_kind = ACCOUNTS, sp_permitted_tools = [''read_invoices'', ''execute_payment''],
     sp_tool_risks = [(''read_invoices'', RISK_ALLOW), (''execute_payment'', RISK_REVIEW)]\<rparr>"

definition read_action :: ActionIntent where
  "read_action = pay_action\<lparr>ai_tool_name := ''read_invoices''\<rparr>"

definition payment_action :: ActionIntent where
  "payment_action = pay_action\<lparr>ai_tool_name := ''execute_payment''\<rparr>"

definition empty_world :: "'x \<Rightarrow> 'x gateway_world" where
  "empty_world x = \<lparr>gs_actions = [], gs_handler_calls = [], gs_last_status = None, gs_rest = x\<rparr>"

lemma accounts_risks: "build_tool_risks (sp_kind accounts_spec) (sp_permitted_tools accounts_spec) =
    Inr (sp_tool_risks accounts_spec)"
  by code_simp

lemma read_enters:
  "entries (snd (run_prog echo_handler (company_decide_and_execute accounts_spec (\<lambda>_ _. Inr (True, None))
     read_action) (start (empty_world ())))) = 1"
  by code_simp

theorem company_tool_runs_only_if_allowed_witness:
  "risk_for_tool (sp_kind accounts_spec) (ai_tool_name read_action) = Inr RISK_ALLOW \<and>
    ai_tool_name read_action \<in> set (sp_permitted_tools accounts_spec)"
proof -
  obtain r s' where run: "run_prog echo_handler (company_decide_and_execute accounts_spec
      (\<lambda>_ _. Inr (True, None)) read_action) (start (empty_world ())) = (r, s')" by (metis prod.exhaust)
  have "entries s' \<noteq> entries (start (empty_world ()))" using read_enters run by simp
  from company_tool_runs_only_if_allowed [OF accounts_risks run this] show ?thesis by blast
qed

definition alice :: ApprovalPrincipal where
  "alice = \<lparr>ap_actor_id = ''alice'', ap_role = CONTROLLER\<rparr>"

definition desk :: ApprovalInbox where
  "desk = \<lparr>ib_allowed_approvers = [CONTROLLER \<mapsto> {''alice''}], ib_max_ttl_seconds = 3600,
     ib_pending = Map.empty, ib_approvals = Map.empty, ib_frozen_reason = None\<rparr>"

lemma desk_made: "inbox_init [(CONTROLLER, [''alice''])] (JInt 3600) = Inr desk"
proof -
  have f: "\<not> float_overflows 3600" and c: "card (set (filter nonblank [''alice''])) = length [''alice'']"
    by code_simp+
  show ?thesis unfolding inbox_init_def require_finite_seconds_def desk_def
    by (simp add: f c del: filter.simps set_filter)
qed

definition desk_ops :: "(rat \<times> inbox_op) list" where
  "desk_ops = [(1, Park ''r1'' ''d'' CONTROLLER), (2, Approve ''r1'' alice (JInt 60))]"

definition approved_desk :: ApprovalInbox where
  "approved_desk = snd (run_claims (inbox_step (+)) desk_ops desk)"

lemma desk_consumes: "fst (consume_if_approved ''r1'' ''d'' CONTROLLER 3 approved_desk)"
  by code_simp

theorem approval_consumed_at_most_once_witness:
  "wins (\<lambda>op. op_request op = Some ''r1'') (fst (run_claims (inbox_step (+))
     (desk_ops @ [(3, Consume ''r1'' ''d'' CONTROLLER), (4, Consume ''r1'' ''d'' CONTROLLER)]) desk)) \<le> 1"
  using approval_consumed_at_most_once [OF desk_made] by blast

theorem consumption_is_backed_witness:
  "\<exists>r actors. record_for ''r1'' approved_desk = Some r \<and> ar_actor_role r = CONTROLLER \<and>
    ib_allowed_approvers approved_desk CONTROLLER = Some actors \<and> ar_actor_id r \<in> actors"
proof -
  obtain ib' where "consume_if_approved ''r1'' ''d'' CONTROLLER 3 approved_desk = (True, ib')"
    using desk_consumes by (metis prod.collapse)
  from consumption_is_backed [OF desk_made approved_desk_def this] show ?thesis by blast
qed

theorem freeze_is_final_witness:
  "wins (\<lambda>_. True) (fst (run_claims (inbox_step (+)) [(3, Consume ''r1'' ''d'' CONTROLLER)]
     (snd (freeze ''incident'' approved_desk)))) = 0"
proof -
  have "freeze ''incident'' approved_desk = (Inr (), snd (freeze ''incident'' approved_desk))"
    by (simp add: freeze_def)
  from freeze_is_final [OF this] show ?thesis by blast
qed

lemma payment_enters:
  "entries (snd (run_prog echo_handler (bounded_decide_and_execute accounts_spec (\<lambda>_ _. Inr (True, None))
     (\<lambda>_. 3) (\<lambda>_. Inr ''d'') (\<lambda>_. Inr (Some CONTROLLER)) payment_action)
     (start (empty_world \<lparr>as_inbox = approved_desk, as_handler_calls = [], as_rest = ()\<rparr>)))) = 1"
  by code_simp


end
