(* ===== verification/Simulator_Contracts.thy ===== *)
theory Simulator_Contracts
  imports Py_Decimal Py_Hash Contracts
begin

text \<open>
  \<^verbatim>\<open>cbrain/simulators/contracts.py\<close>: receipts, request digests and the shared checks of the target
  simulators, and the \<^verbatim>\<open>execute\<close> skeleton that every simulator repeats around its own \<^verbatim>\<open>_apply\<close>.

  The locale \<open>idempotent_target\<close> is the contract between the skeleton and an \<^verbatim>\<open>_apply\<close>: a failing
  operation changes nothing, a read changes nothing, and the invariant is kept.
\<close>

section \<open>Checks and documents\<close>

definition sim_text :: "json option \<Rightarrow> string res" where
  "sim_text v = (case v of
       Some (JStr s) \<Rightarrow> if nonblank s then Inr s else Inl SimulatorContractError
     | _ \<Rightarrow> Inl SimulatorContractError)"

definition sim_required_text :: "string \<Rightarrow> string res" where
  "sim_required_text s = sim_text (Some (JStr s))"

definition exact_fields :: "jobj \<Rightarrow> string list \<Rightarrow> unit res" where
  "exact_fields value expected = ensure (jkeys value = set expected) SimulatorContractError"

text \<open>\<^verbatim>\<open>canonical_object\<close> as the document its bytes decode to.\<close>

definition canonical_object :: "json \<Rightarrow> stored res" where
  "canonical_object v = (case v of
       JObj d \<Rightarrow> rbind (ensure (valid_json v) SimulatorContractError) (\<lambda>_. Inr (Doc (canon v)))
     | _ \<Rightarrow> Inl SimulatorContractError)"

definition sim_restore_object :: "stored \<Rightarrow> jobj res" where
  "sim_restore_object v = (case v of
       Doc (JObj d) \<Rightarrow> Inr d
     | Undecodable e \<Rightarrow>
         if e \<in> {External ''UnicodeDecodeError'', External ''JSONDecodeError''}
         then Inl SimulatorContractError else Inl e
     | NotBytes \<Rightarrow> Inl TypeError
     | Doc _ \<Rightarrow> Inl SimulatorContractError)"

definition request_document :: "string \<Rightarrow> string \<Rightarrow> string \<Rightarrow> jobj \<Rightarrow> jobj" where
  "request_document capability request_id idempotency_key arguments =
     [(''capability'', JStr capability), (''request_id'', JStr request_id),
      (''idempotency_key'', JStr idempotency_key), (''arguments'', JObj arguments)]"

definition capture_request :: "string \<Rightarrow> string \<Rightarrow> string \<Rightarrow> json \<Rightarrow> (jobj \<times> string) res" where
  "capture_request capability request_id idempotency_key arguments =
     rbind (rmapM sim_required_text [capability, request_id, idempotency_key]) (\<lambda>_.
     rbind (canonical_object arguments) (\<lambda>arguments_json.
     rbind (sim_restore_object arguments_json) (\<lambda>snapshot.
     let request = JObj (request_document capability request_id idempotency_key snapshot) in
     rbind (canonical_object request) (\<lambda>_.
     Inr (snapshot, digest_text (encode_utf8 (dumps request)))))))"

definition effect_identifier :: "string \<Rightarrow> string \<Rightarrow> string \<Rightarrow> string \<Rightarrow> string" where
  "effect_identifier domain capability idempotency_key request_digest =
     ''effect-'' @ sha256_hexdigest
       (encode_utf8 (join [CHR 0x00] [domain, capability, idempotency_key, request_digest]))"

section \<open>Receipts\<close>

record EffectReceipt =
  er_domain :: string
  er_capability :: string
  er_request_id :: string
  er_idempotency_key :: string
  er_effect_id :: string
  er_state_version :: int
  er_mutated :: bool
  er_result_json :: stored

definition receipt_post_init :: "EffectReceipt \<Rightarrow> EffectReceipt res" where
  "receipt_post_init r =
     rbind (rmapM sim_required_text
       [er_domain r, er_capability r, er_request_id r, er_idempotency_key r, er_effect_id r]) (\<lambda>_.
     rbind (ensure (0 \<le> er_state_version r) SimulatorContractError) (\<lambda>_.
     rbind (ensure (er_result_json r \<noteq> NotBytes) SimulatorContractError) (\<lambda>_.
     rbind (sim_restore_object (er_result_json r)) (\<lambda>_.
     Inr r))))"

definition capture_receipt ::
  "string \<Rightarrow> string \<Rightarrow> string \<Rightarrow> string \<Rightarrow> string \<Rightarrow> int \<Rightarrow> bool \<Rightarrow> json \<Rightarrow> EffectReceipt res" where
  "capture_receipt domain capability request_id idempotency_key effect_id state_version mutated result =
     rbind (canonical_object result) (\<lambda>result_json.
     receipt_post_init
       \<lparr>er_domain = domain, er_capability = capability, er_request_id = request_id,
        er_idempotency_key = idempotency_key, er_effect_id = effect_id,
        er_state_version = state_version, er_mutated = mutated, er_result_json = result_json\<rparr>)"

definition er_result :: "EffectReceipt \<Rightarrow> jobj res" where
  "er_result r = sim_restore_object (er_result_json r)"

definition receipt_payload :: "EffectReceipt \<Rightarrow> jobj res" where
  "receipt_payload r =
     rbind (er_result r) (\<lambda>result.
     Inr [(''schema'', JStr ''cbrain-simulator-effect/v1''),
          (''domain'', JStr (er_domain r)),
          (''capability'', JStr (er_capability r)),
          (''request_id'', JStr (er_request_id r)),
          (''idempotency_key'', JStr (er_idempotency_key r)),
          (''effect_id'', JStr (er_effect_id r)),
          (''state_version'', JInt (er_state_version r)),
          (''mutated'', JBool (er_mutated r)),
          (''result'', JObj result)])"

record StoredEffect =
  sf_request_digest :: string
  sf_receipt :: EffectReceipt

section \<open>The execute skeleton\<close>

record 's target =
  tt_state :: 's
  tt_version :: int
  tt_effects :: "string \<rightharpoonup> StoredEffect"

type_synonym 's apply_fun = "string \<Rightarrow> jobj \<Rightarrow> 's \<Rightarrow> (json \<times> bool) res \<times> 's"

text \<open>
  The body under the lock: a stored effect answers, else \<^verbatim>\<open>_apply\<close> runs, the version moves if it
  mutated, and the receipt is stored. What \<^verbatim>\<open>_apply\<close> changed before it raised stays changed.
\<close>

definition execute_locked ::
  "string \<Rightarrow> 's apply_fun \<Rightarrow> string \<Rightarrow> string \<Rightarrow> string \<Rightarrow> jobj \<Rightarrow> string \<Rightarrow> 's target \<Rightarrow>
   EffectReceipt res \<times> 's target" where
  "execute_locked domain apply_op capability request_id idempotency_key captured request_digest t =
     (case tt_effects t idempotency_key of
        Some stored \<Rightarrow>
          if sf_request_digest stored \<noteq> request_digest then (Inl SimulatorConflict, t)
          else (Inr (sf_receipt stored), t)
      | None \<Rightarrow>
          (case apply_op capability captured (tt_state t) of
             (Inl e, s') \<Rightarrow> (Inl e, t\<lparr>tt_state := s'\<rparr>)
           | (Inr (result, mutated), s') \<Rightarrow>
               (let t' = t\<lparr>tt_state := s',
                           tt_version := (if mutated then tt_version t + 1 else tt_version t)\<rparr> in
                case capture_receipt domain capability request_id idempotency_key
                       (effect_identifier domain capability idempotency_key request_digest)
                       (tt_version t') mutated result of
                  Inl e \<Rightarrow> (Inl e, t')
                | Inr receipt \<Rightarrow>
                    (Inr receipt, t'\<lparr>tt_effects := (tt_effects t)(idempotency_key \<mapsto>
                       \<lparr>sf_request_digest = request_digest, sf_receipt = receipt\<rparr>)\<rparr>))))"

definition execute_target ::
  "string \<Rightarrow> string list \<Rightarrow> 's apply_fun \<Rightarrow> string \<Rightarrow> string \<Rightarrow> string \<Rightarrow> json \<Rightarrow> 's target \<Rightarrow>
   EffectReceipt res \<times> 's target" where
  "execute_target domain capabilities apply_op capability request_id idempotency_key arguments t =
     (if capability \<notin> set capabilities then (Inl SimulatorContractError, t)
      else case capture_request capability request_id idempotency_key arguments of
        Inl e \<Rightarrow> (Inl e, t)
      | Inr (captured, request_digest) \<Rightarrow>
          execute_locked domain apply_op capability request_id idempotency_key captured request_digest t)"

text \<open>\<^verbatim>\<open>f"{n:04d}"\<close>.\<close>

definition pad4 :: "nat \<Rightarrow> string" where
  "pad4 n = replicate (4 - length (digits n)) (CHR ''0'') @ digits n"

text \<open>What an operation returned, with the flag that \<^verbatim>\<open>_apply\<close> adds to it.\<close>

definition flagged :: "bool \<Rightarrow> json res \<times> 's \<Rightarrow> (json \<times> bool) res \<times> 's" where
  "flagged mutated x = map_prod (\<lambda>r. rbind r (\<lambda>v. Inr (v, mutated))) id x"

section \<open>Lemmas\<close>

lemma flagged_Inr: "flagged m x = (Inr (v, m'), s') \<longleftrightarrow> x = (Inr v, s') \<and> m' = m"
  by (cases x) (auto simp: flagged_def rbind_Inr_iff)

lemma flagged_Inl: "flagged m x = (Inl e, s') \<longleftrightarrow> x = (Inl e, s')"
  by (cases x) (auto simp: flagged_def rbind_Inl_iff)

lemma sim_required_text_Inr: "sim_required_text s = Inr x \<longleftrightarrow> nonblank s \<and> x = s"
  by (auto simp: sim_required_text_def sim_text_def)

lemma sim_text_Inr: "sim_text v = Inr s \<longleftrightarrow> v = Some (JStr s) \<and> nonblank s"
  by (auto simp: sim_text_def split: option.splits json.splits)

lemma canonical_object_Inr:
  "canonical_object v = Inr s \<longleftrightarrow> (\<exists>d. v = JObj d \<and> valid_json v \<and> s = Doc (JObj (canon_obj d)))"
  by (auto simp: canonical_object_def rbind_Inr_iff ensure_Inr canon_JObj simp del: canon.simps valid_json.simps
      split: json.splits)

lemma sim_restore_Inr: "sim_restore_object s = Inr d \<longleftrightarrow> s = Doc (JObj d)"
  by (auto simp: sim_restore_object_def split: stored.splits json.splits if_splits)

lemma capture_request_Inr:
  "capture_request cap rid key args = Inr (c, dg) \<Longrightarrow>
     nonblank cap \<and> nonblank rid \<and> nonblank key \<and> (\<exists>d. args = JObj d \<and> valid_json args \<and> c = canon_obj d) \<and>
     dg = digest_text (encode_utf8 (dumps (JObj (request_document cap rid key c))))"
  by (auto simp: capture_request_def rbind_Inr_iff sim_required_text_Inr canonical_object_Inr
      sim_restore_Inr Let_def)

lemma receipt_post_init_Inr:
  "receipt_post_init r = Inr r' \<longleftrightarrow> r' = r \<and> nonblank (er_domain r) \<and> nonblank (er_capability r) \<and>
     nonblank (er_request_id r) \<and> nonblank (er_idempotency_key r) \<and> nonblank (er_effect_id r) \<and>
     0 \<le> er_state_version r \<and> (\<exists>d. er_result_json r = Doc (JObj d))"
  by (auto simp: receipt_post_init_def rbind_Inr_iff sim_required_text_Inr ensure_Inr sim_restore_Inr)

lemma effect_identifier_nonblank: "nonblank (effect_identifier d c k r)"
  by (simp add: effect_identifier_def)

lemma capture_receipt_ok:
  assumes "nonblank domain" "nonblank cap" "nonblank rid" "nonblank key" "nonblank eid" "0 \<le> v"
    and "valid_json (JObj result)"
  shows "\<exists>r. capture_receipt domain cap rid key eid v m (JObj result) = Inr r"
  using assms by (auto simp: capture_receipt_def rbind_Inr_iff canonical_object_Inr receipt_post_init_Inr
      simp del: valid_json.simps)

section \<open>Numbered keys\<close>

text \<open>
  Targets number what they create: the \<open>n\<close>-th key ends with \<open>n\<close>. As nothing is ever removed, a new number is a new
  key.
\<close>

definition numbered_keys :: "string list \<Rightarrow> bool" where
  "numbered_keys ks = (\<forall>i<length ks. \<exists>p. ks ! i = p @ ''-'' @ pad4 (Suc i))"

definition numbered :: "(string \<times> 'a) list \<Rightarrow> bool" where
  "numbered kvs = numbered_keys (map fst kvs)"

lemma pad4_digits: "list_all is_digit (pad4 n)"
  by (simp add: pad4_def list_all_iff is_digit_def) (use digits_are_digits in \<open>auto simp: list_all_iff is_digit_def\<close>)

lemma leading_zeros: "nat_of_digits (replicate k (CHR ''0'') @ s) = nat_of_digits s"
  by (induction k) (simp_all add: nat_of_digits_def digit_val_def)

lemma pad4_inject: "pad4 m = pad4 n \<longleftrightarrow> m = n"
proof
  assume "pad4 m = pad4 n"
  from arg_cong [OF this, of nat_of_digits] show "m = n" by (simp add: pad4_def leading_zeros)
qed simp

lemma last_number:
  assumes "p @ ''-'' @ pad4 m = q @ ''-'' @ pad4 n"
  shows "m = n"
proof -
  have tw: "takeWhile is_digit (rev (r @ ''-'' @ pad4 k)) = rev (pad4 k)" for r k
  proof -
    have "\<forall>c\<in>set (rev (pad4 k)). is_digit c" using pad4_digits [of k] by (simp add: list_all_iff)
    moreover have "\<not> is_digit (CHR ''-'')" by (simp add: is_digit_def)
    ultimately show ?thesis using takeWhile_append2 [of "rev (pad4 k)" is_digit "CHR ''-'' # rev r"] by simp
  qed
  from tw [of p m] tw [of q n] have "rev (pad4 m) = rev (pad4 n)" unfolding assms by (rule trans [OF sym])
  then show ?thesis by (simp add: pad4_inject)
qed

lemma numbered_fresh:
  assumes "numbered kvs"
  shows "map_of kvs (p @ ''-'' @ pad4 (Suc (length kvs))) = None"
proof (rule ccontr)
  let ?k = "p @ ''-'' @ pad4 (Suc (length kvs))"
  assume "map_of kvs ?k \<noteq> None"
  then have "?k \<in> set (map fst kvs)" by (simp add: map_of_eq_None_iff)
  then obtain i where i: "i < length kvs" "map fst kvs ! i = ?k" by (metis in_set_conv_nth length_map)
  with assms obtain q where "q @ ''-'' @ pad4 (Suc i) = ?k" unfolding numbered_def numbered_keys_def by (metis length_map)
  with i(1) last_number show False by blast
qed

lemma numbered_update_old: "numbered kvs \<Longrightarrow> map_of kvs k \<noteq> None \<Longrightarrow> numbered (AList.update k v kvs)"
  by (simp add: numbered_def update_keys map_of_eq_None_iff)

lemma numbered_update_new:
  assumes "numbered kvs" and "k = p @ ''-'' @ pad4 (Suc (length kvs))"
  shows "numbered (AList.update k v kvs)"
proof -
  have "k \<notin> set (map fst kvs)" using numbered_fresh [OF assms(1), of p] assms(2) by (simp add: map_of_eq_None_iff)
  then have "map fst (AList.update k v kvs) = map fst kvs @ [k]" by (simp add: update_keys)
  with assms show ?thesis by (auto simp: numbered_def numbered_keys_def nth_append less_Suc_eq)
qed

lemma numbered_Nil [simp]: "numbered []"
  by (simp add: numbered_def numbered_keys_def)

section \<open>The contract of a target\<close>

record request =
  rr_capability :: string
  rr_request_id :: string
  rr_idempotency_key :: string
  rr_arguments :: json

definition submit ::
  "string \<Rightarrow> string list \<Rightarrow> 's apply_fun \<Rightarrow> request \<Rightarrow> 's target \<Rightarrow> EffectReceipt res \<times> 's target" where
  "submit domain capabilities apply_op rq =
     execute_target domain capabilities apply_op (rr_capability rq) (rr_request_id rq)
       (rr_idempotency_key rq) (rr_arguments rq)"

fun submit_all ::
  "string \<Rightarrow> string list \<Rightarrow> 's apply_fun \<Rightarrow> request list \<Rightarrow> 's target \<Rightarrow> 's target" where
  "submit_all domain capabilities apply_op [] t = t"
| "submit_all domain capabilities apply_op (rq # rqs) t =
     submit_all domain capabilities apply_op rqs (snd (submit domain capabilities apply_op rq t))"

text \<open>Where a request that is not stored leaves the state, and the effects under other keys.\<close>

lemma submit_state:
  assumes "rr_capability rq \<in> set capabilities" and "tt_effects t (rr_idempotency_key rq) = None"
    and "capture_request (rr_capability rq) (rr_request_id rq) (rr_idempotency_key rq) (rr_arguments rq) = Inr (c, dg)"
  shows "tt_state (snd (submit domain capabilities apply_op rq t)) = snd (apply_op (rr_capability rq) c (tt_state t))"
  using assms
  by (auto simp: submit_def execute_target_def execute_locked_def Let_def split: prod.splits sum.splits)

lemma submit_other_key:
  "k \<noteq> rr_idempotency_key rq \<Longrightarrow> tt_effects (snd (submit domain capabilities apply_op rq t)) k = tt_effects t k"
  by (auto simp: submit_def execute_target_def execute_locked_def Let_def split: prod.splits sum.splits option.splits)

locale idempotent_target =
  fixes domain :: string and capabilities :: "string list" and apply_op :: "'s apply_fun"
    and inv :: "'s \<Rightarrow> bool"
  assumes domain_text: "nonblank domain"
    and apply_error: "inv s \<Longrightarrow> apply_op c a s = (Inl e, s') \<Longrightarrow> s' = s"
    and apply_read: "inv s \<Longrightarrow> apply_op c a s = (Inr (r, False), s') \<Longrightarrow> s' = s"
    and apply_inv: "inv s \<Longrightarrow> apply_op c a s = (Inr x, s') \<Longrightarrow> inv s'"
    and apply_result: "inv s \<Longrightarrow> apply_op c a s = (Inr (r, m), s') \<Longrightarrow> \<exists>d. r = JObj d \<and> valid_json r"
begin

definition target_inv :: "'s target \<Rightarrow> bool" where
  "target_inv t = (inv (tt_state t) \<and> 0 \<le> tt_version t)"

text \<open>What an accepted request did: it was stored before, or it was applied now, once.\<close>

lemma submit_Inr:
  assumes "target_inv t" and "submit domain capabilities apply_op rq t = (Inr receipt, t')"
  shows "(t' = t \<and> (\<exists>st. tt_effects t (rr_idempotency_key rq) = Some st \<and> sf_receipt st = receipt)) \<or>
    (tt_effects t (rr_idempotency_key rq) = None \<and>
     (\<exists>captured result mutated dg. capture_request (rr_capability rq) (rr_request_id rq)
          (rr_idempotency_key rq) (rr_arguments rq) = Inr (captured, dg) \<and>
        apply_op (rr_capability rq) captured (tt_state t) = (Inr (result, mutated), tt_state t') \<and>
        tt_version t' = (if mutated then tt_version t + 1 else tt_version t) \<and>
        tt_effects t' = (tt_effects t)(rr_idempotency_key rq \<mapsto>
          \<lparr>sf_request_digest = dg, sf_receipt = receipt\<rparr>) \<and>
        er_mutated receipt = mutated \<and> er_state_version receipt = tt_version t'))"
  using assms(2)
  by (auto simp: submit_def execute_target_def execute_locked_def Let_def capture_receipt_def
      rbind_Inr_iff receipt_post_init_Inr split: if_splits sum.splits prod.splits option.splits)

text \<open>A refused request leaves no trace.\<close>

lemma submit_Inl:
  assumes "target_inv t" and "submit domain capabilities apply_op rq t = (Inl e, t')"
  shows "t' = t"
proof (cases "capture_request (rr_capability rq) (rr_request_id rq) (rr_idempotency_key rq) (rr_arguments rq)")
  case (Inl x)
  with assms(2) show ?thesis
    by (auto simp: submit_def execute_target_def split: if_splits)
next
  case (Inr y)
  obtain c dg where y: "y = (c, dg)" by (cases y)
  note cr = capture_request_Inr [OF Inr [unfolded y]]
  show ?thesis
  proof (cases "apply_op (rr_capability rq) c (tt_state t)")
    case (Pair r s')
    show ?thesis
    proof (cases r)
      case (Inl x)
      with Pair assms(1) have "s' = tt_state t" using apply_error by (auto simp: target_inv_def)
      with Inl Pair Inr y assms(2) show ?thesis
        by (auto simp: submit_def execute_target_def execute_locked_def split: if_splits option.splits)
    next
      case (Inr z)
      obtain res m where z: "z = (res, m)" by (cases z)
      from apply_result assms(1) Pair Inr z obtain d where d: "res = JObj d" "valid_json (JObj d)"
        unfolding target_inv_def by blast
      have "\<exists>rc. capture_receipt domain (rr_capability rq) (rr_request_id rq) (rr_idempotency_key rq)
          (effect_identifier domain (rr_capability rq) (rr_idempotency_key rq) dg)
          (if m then tt_version t + 1 else tt_version t) m (JObj d) = Inr rc"
        by (rule capture_receipt_ok) (use cr d assms(1) domain_text effect_identifier_nonblank
            in \<open>auto simp: target_inv_def simp del: valid_json.simps\<close>)
      with d z Inr Pair \<open>capture_request _ _ _ _ = _\<close> y assms(2) show ?thesis
        by (auto simp: submit_def execute_target_def execute_locked_def Let_def
            split: if_splits option.splits)
    qed
  qed
qed

lemma submit_inv: "target_inv t \<Longrightarrow> target_inv (snd (submit domain capabilities apply_op rq t))"
proof (cases "submit domain capabilities apply_op rq t")
  case (Pair r t')
  assume i: "target_inv t"
  show ?thesis
  proof (cases r)
    case (Inl e)
    with Pair submit_Inl [OF i, of rq e t'] i show ?thesis by simp
  next
    case (Inr receipt)
    with submit_Inr [OF i, of rq receipt t'] Pair i show ?thesis
      by (fastforce simp: target_inv_def dest: apply_inv)
  qed
qed

lemma submit_effects:
  assumes "target_inv t" and "tt_effects t k = Some e"
  shows "tt_effects (snd (submit domain capabilities apply_op rq t)) k = Some e"
proof (cases "submit domain capabilities apply_op rq t")
  case (Pair r t')
  show ?thesis
  proof (cases r)
    case (Inl x)
    with Pair submit_Inl [OF assms(1), of rq x t'] assms(2) show ?thesis by simp
  next
    case (Inr receipt)
    with submit_Inr [OF assms(1), of rq receipt t'] Pair assms(2) show ?thesis by fastforce
  qed
qed

lemma submit_all_inv: "target_inv t \<Longrightarrow> target_inv (submit_all domain capabilities apply_op rqs t)"
  by (induction rqs arbitrary: t) (simp_all add: submit_inv)

lemma submit_all_effects:
  "target_inv t \<Longrightarrow> tt_effects t k = Some e \<Longrightarrow>
     tt_effects (submit_all domain capabilities apply_op rqs t) k = Some e"
  by (induction rqs arbitrary: t) (simp_all add: submit_effects submit_inv)

text \<open>An accepted request is stored under its key, and a stored request is answered without effect.\<close>

lemma accepted_stored:
  assumes "submit domain capabilities apply_op rq t = (Inr receipt, t')"
  obtains c dg where "rr_capability rq \<in> set capabilities"
    "capture_request (rr_capability rq) (rr_request_id rq) (rr_idempotency_key rq) (rr_arguments rq) = Inr (c, dg)"
    "tt_effects t' (rr_idempotency_key rq) = Some \<lparr>sf_request_digest = dg, sf_receipt = receipt\<rparr>"
proof -
  from assms obtain c dg where cr: "rr_capability rq \<in> set capabilities"
    "capture_request (rr_capability rq) (rr_request_id rq) (rr_idempotency_key rq) (rr_arguments rq) = Inr (c, dg)"
    and l: "execute_locked domain apply_op (rr_capability rq) (rr_request_id rq) (rr_idempotency_key rq) c dg t
      = (Inr receipt, t')"
    by (auto simp: submit_def execute_target_def split: if_splits sum.splits prod.splits)
  from l have "tt_effects t' (rr_idempotency_key rq) = Some \<lparr>sf_request_digest = dg, sf_receipt = receipt\<rparr>"
    by (auto simp: execute_locked_def Let_def split: option.splits if_splits sum.splits prod.splits)
  with cr that show thesis by blast
qed

lemma stored_answers:
  assumes "rr_capability rq \<in> set capabilities"
    "capture_request (rr_capability rq) (rr_request_id rq) (rr_idempotency_key rq) (rr_arguments rq) = Inr (c, dg)"
    "tt_effects t (rr_idempotency_key rq) = Some \<lparr>sf_request_digest = dg, sf_receipt = receipt\<rparr>"
  shows "submit domain capabilities apply_op rq t = (Inr receipt, t)"
  using assms by (simp add: submit_def execute_target_def execute_locked_def)

text \<open>
  Once a request was accepted, whatever else is submitted, submitting it again gives the same receipt
  and changes nothing.
\<close>

lemma replay:
  assumes "target_inv t" and "submit domain capabilities apply_op rq t = (Inr receipt, t')"
    and "t'' = submit_all domain capabilities apply_op rqs t'"
  shows "submit domain capabilities apply_op rq t'' = (Inr receipt, t'')"
proof (rule accepted_stored [OF assms(2)])
  fix c dg
  assume cr: "rr_capability rq \<in> set capabilities"
    "capture_request (rr_capability rq) (rr_request_id rq) (rr_idempotency_key rq) (rr_arguments rq) = Inr (c, dg)"
    and st: "tt_effects t' (rr_idempotency_key rq) = Some \<lparr>sf_request_digest = dg, sf_receipt = receipt\<rparr>"
  have "target_inv t'" using submit_inv [OF assms(1), of rq] assms(2) by simp
  with st show "submit domain capabilities apply_op rq t'' = (Inr receipt, t'')"
    by (intro stored_answers [OF cr]) (simp add: assms(3) submit_all_effects)
qed

end

section \<open>Targets with a clock and an operator\<close>

text \<open>
  Some targets read a clock, and some have operations that are no requests. A step of a target is a request at a
  reading of its clock, or an operation of its operator.
\<close>

datatype ('c, 'o) target_step = Request 'c request | Operate 'o

fun run_steps ::
  "string \<Rightarrow> string list \<Rightarrow> ('c \<Rightarrow> 's apply_fun) \<Rightarrow> ('o \<Rightarrow> 's target \<Rightarrow> 's target) \<Rightarrow>
   ('c, 'o) target_step list \<Rightarrow> 's target \<Rightarrow> 's target" where
  "run_steps domain capabilities apply_op operate [] t = t"
| "run_steps domain capabilities apply_op operate (Request now rq # steps) t =
     run_steps domain capabilities apply_op operate steps (snd (submit domain capabilities (apply_op now) rq t))"
| "run_steps domain capabilities apply_op operate (Operate act # steps) t =
     run_steps domain capabilities apply_op operate steps (operate act t)"

text \<open>
  What idempotency means for a target in state \<open>t\<close>: whatever happened before and whatever the clock shows, a request
  that is accepted gets the same receipt, and has no further effect, whenever it is sent again; a request that is
  refused has no effect.
\<close>

definition answers_again ::
  "string \<Rightarrow> string list \<Rightarrow> ('c \<Rightarrow> 's apply_fun) \<Rightarrow> ('o \<Rightarrow> 's target \<Rightarrow> 's target) \<Rightarrow> 's target \<Rightarrow> bool" where
  "answers_again domain capabilities apply_op operate t =
     (let run = run_steps domain capabilities apply_op operate;
          send = (\<lambda>now. submit domain capabilities (apply_op now)) in
      \<forall>before now rq r t'. send now rq (run before t) = (r, t') \<longrightarrow>
        (case r of
           Inr receipt \<Rightarrow> \<forall>others now'. send now' rq (run others t') = (Inr receipt, run others t')
         | Inl e \<Rightarrow> t' = run before t))"

locale stepped_target =
  fixes domain :: string and capabilities :: "string list" and apply_op :: "'c \<Rightarrow> 's apply_fun"
    and inv :: "'s \<Rightarrow> bool" and operate :: "'o \<Rightarrow> 's target \<Rightarrow> 's target"
  assumes each: "idempotent_target domain (apply_op now) inv"
    and operate_inv: "inv (tt_state t) \<Longrightarrow> 0 \<le> tt_version t \<Longrightarrow>
      inv (tt_state (operate act t)) \<and> 0 \<le> tt_version (operate act t)"
    and operate_effects: "tt_effects (operate act t) = tt_effects t"
begin

definition steady :: "'s target \<Rightarrow> bool" where
  "steady t = (inv (tt_state t) \<and> 0 \<le> tt_version t)"

lemma steady_iff: "idempotent_target.target_inv inv t = steady t"
  unfolding steady_def by (rule idempotent_target.target_inv_def [OF each])

lemmas at_reading = idempotent_target.submit_inv [OF each, unfolded steady_iff]
  idempotent_target.submit_Inl [OF each, unfolded steady_iff]
  idempotent_target.submit_effects [OF each, unfolded steady_iff]

lemma step_steady: "steady t \<Longrightarrow> steady (operate act t)"
  using operate_inv by (simp add: steady_def)

lemma run_steady: "steady t \<Longrightarrow> steady (run_steps domain capabilities apply_op operate steps t)"
proof (induction steps arbitrary: t)
  case (Cons st steps)
  then show ?case by (cases st) (simp_all add: at_reading step_steady)
qed simp

lemma run_effects:
  "steady t \<Longrightarrow> tt_effects t k = Some e \<Longrightarrow>
     tt_effects (run_steps domain capabilities apply_op operate steps t) k = Some e"
proof (induction steps arbitrary: t)
  case (Cons st steps)
  then show ?case by (cases st) (simp_all add: at_reading step_steady operate_effects)
qed simp

lemma idempotent:
  assumes "steady t"
  shows "answers_again domain capabilities apply_op operate t"
  unfolding answers_again_def Let_def
proof (intro allI impI)
  let ?run = "run_steps domain capabilities apply_op operate"
  fix before now rq r t'
  assume s: "submit domain capabilities (apply_op now) rq (?run before t) = (r, t')"
  have b: "steady (?run before t)" using assms by (rule run_steady)
  show "case r of Inr receipt \<Rightarrow> \<forall>others now'. submit domain capabilities (apply_op now') rq (?run others t') =
      (Inr receipt, ?run others t') | Inl e \<Rightarrow> t' = ?run before t"
  proof (cases r)
    case (Inl e)
    with s b at_reading(2) show ?thesis by simp
  next
    case (Inr receipt)
    have t': "steady t'" using at_reading(1) [OF b, of capabilities now rq] s by simp
    have "submit domain capabilities (apply_op now') rq (?run others t') = (Inr receipt, ?run others t')" for others now'
      by (rule idempotent_target.accepted_stored [OF each s [unfolded Inr]],
        rule idempotent_target.stored_answers [OF each]) (auto intro: run_effects [OF t'])
    with Inr show ?thesis by simp
  qed
qed

text \<open>A relation between states that every applied request and every operation keeps, every run keeps.\<close>

lemma run_keeps:
  assumes "\<And>x. inv x \<Longrightarrow> R x x" and "\<And>x y z. R x y \<Longrightarrow> R y z \<Longrightarrow> R x z"
    and "\<And>now c a x y v. inv x \<Longrightarrow> apply_op now c a x = (Inr v, y) \<Longrightarrow> R x y"
    and "\<And>act t. inv (tt_state t) \<Longrightarrow> R (tt_state t) (tt_state (operate act t))"
    and "steady t"
  shows "R (tt_state t) (tt_state (run_steps domain capabilities apply_op operate steps t))"
  using assms(5)
proof (induction steps arbitrary: t)
  case Nil
  then show ?case using assms(1) by (simp add: steady_def)
next
  case (Cons st steps)
  have i: "inv (tt_state t)" using Cons.prems by (simp add: steady_def)
  show ?case
  proof (cases st)
    case (Operate act)
    with Cons i assms(2,4) step_steady show ?thesis by fastforce
  next
    case (Request now rq)
    obtain r t1 where s: "submit domain capabilities (apply_op now) rq t = (r, t1)" by fastforce
    have "R (tt_state t) (tt_state t1)"
    proof (cases r)
      case (Inl e)
      with s at_reading(2) Cons.prems have "t1 = t" by simp
      with assms(1) i show ?thesis by simp
    next
      case (Inr receipt)
      have "idempotent_target.target_inv inv t" using Cons.prems by (simp add: steady_iff)
      from idempotent_target.submit_Inr [OF each this s [unfolded Inr]] i assms(1,3) show ?thesis by auto
    qed
    moreover have "steady t1" using at_reading(1) [OF Cons.prems, of capabilities now rq] s by simp
    ultimately show ?thesis using Cons.IH [of t1] assms(2) Request s by fastforce
  qed
qed

end

end
