(* ===== verification/Ledger.thy ===== *)
theory Ledger
  imports Simulator_Contracts
begin

text \<open>
  \<^verbatim>\<open>cbrain/simulators/ledger.py\<close>: the finance ledger behind governed payments. Amounts are integers of
  hundredths: \<^verbatim>\<open>_positive_money\<close> quantizes to two places, and \<^verbatim>\<open>Decimal.quantize\<close> raises once the
  coefficient needs more than the 28 digits of the default context. Accounts of the model hold such
  amounts; arithmetic on them is exact.
\<close>

definition money_bound :: int where
  "money_bound = 10 ^ 28"

text \<open>\<^verbatim>\<open>Decimal(str(value))\<close>: blanks around the text and underscores in it are ignored.\<close>

definition decimal_of :: "json \<Rightarrow> (int \<times> int) option" where
  "decimal_of value = (case value of
       JStr s \<Rightarrow> parse_dec (filter (\<lambda>c. c \<noteq> CHR ''_'') (py_strip s))
     | JInt i \<Rightarrow> parse_dec (show_int i)
     | JFloat (Finite t) \<Rightarrow> parse_dec t
     | _ \<Rightarrow> None)"

text \<open>
  An exponent beyond the limits of \<^verbatim>\<open>Decimal\<close> is refused by the constructor; an amount of more than 28
  digits by \<^verbatim>\<open>quantize\<close>, outside the \<^verbatim>\<open>try\<close>.
\<close>

definition positive_money :: "json \<Rightarrow> int res" where
  "positive_money value =
     rbind (of_option SimulatorContractError (decimal_of value)) (\<lambda>(m, e).
     rbind (ensure (m > 0 \<and> -2 \<le> e \<and> e + int (length (digits (nat m))) \<le> 10 ^ 18)
              SimulatorContractError) (\<lambda>_.
     if 26 < e then Inl (External ''InvalidOperation'')
     else let cents = m * 10 ^ nat (e + 2) in
       if money_bound \<le> cents then Inl (External ''InvalidOperation'') else Inr cents))"

definition two_digits :: "int \<Rightarrow> string" where
  "two_digits n = [char_of (48 + nat (n div 10)), char_of (48 + nat (n mod 10))]"

definition money_text :: "int \<Rightarrow> string res" where
  "money_text cents =
     rbind (ensure (\<bar>cents\<bar> < money_bound) (External ''InvalidOperation'')) (\<lambda>_.
     Inr ((if cents < 0 then ''-'' else []) @ digits (nat (\<bar>cents\<bar> div 100)) @ ''.'' @
          two_digits (\<bar>cents\<bar> mod 100)))"

section \<open>State\<close>

record LedgerAccount =
  la_account_id :: string
  la_currency :: string
  la_balance :: int
  la_transfer_limit :: int

definition account_post_init :: "LedgerAccount \<Rightarrow> LedgerAccount res" where
  "account_post_init a =
     rbind (sim_required_text (la_account_id a)) (\<lambda>_.
     rbind (sim_required_text (la_currency a)) (\<lambda>_.
     rbind (ensure (0 \<le> la_balance a \<and> 0 < la_transfer_limit a) SimulatorContractError) (\<lambda>_.
     Inr a)))"

definition account_payload :: "LedgerAccount \<Rightarrow> jobj res" where
  "account_payload a =
     rbind (money_text (la_balance a)) (\<lambda>balance.
     rbind (money_text (la_transfer_limit a)) (\<lambda>limit.
     Inr [(''account_id'', JStr (la_account_id a)), (''currency'', JStr (la_currency a)),
          (''balance'', JStr balance), (''transfer_limit'', JStr limit)]))"

record Beneficiary =
  bf_beneficiary_id :: string
  bf_name :: string
  bf_destination_account_ref :: string

definition beneficiary_post_init :: "Beneficiary \<Rightarrow> Beneficiary res" where
  "beneficiary_post_init b =
     rbind (rmapM sim_required_text
       [bf_beneficiary_id b, bf_name b, bf_destination_account_ref b]) (\<lambda>_. Inr b)"

definition beneficiary_payload :: "Beneficiary \<Rightarrow> jobj" where
  "beneficiary_payload b =
     [(''beneficiary_id'', JStr (bf_beneficiary_id b)), (''name'', JStr (bf_name b)),
      (''destination_account_ref'', JStr (bf_destination_account_ref b))]"

record LedgerState =
  ls_accounts :: "(string \<times> LedgerAccount) list"
  ls_beneficiaries :: "(string \<times> Beneficiary) list"
  ls_transfers :: "jobj list"

fun add_accounts ::
  "LedgerAccount list \<Rightarrow> (string \<times> LedgerAccount) list \<Rightarrow> (string \<times> LedgerAccount) list res" where
  "add_accounts [] acc = Inr acc"
| "add_accounts (a # rest) acc =
     (if map_of acc (la_account_id a) \<noteq> None then Inl SimulatorConflict
      else add_accounts rest (AList.update (la_account_id a) a acc))"

fun add_beneficiaries ::
  "Beneficiary list \<Rightarrow> (string \<times> Beneficiary) list \<Rightarrow> (string \<times> Beneficiary) list res" where
  "add_beneficiaries [] acc = Inr acc"
| "add_beneficiaries (b # rest) acc =
     (if map_of acc (bf_beneficiary_id b) \<noteq> None then Inl SimulatorConflict
      else add_beneficiaries rest (AList.update (bf_beneficiary_id b) b acc))"

definition ledger_init ::
  "LedgerAccount list \<Rightarrow> Beneficiary list \<Rightarrow> (LedgerState target) res" where
  "ledger_init accounts beneficiaries =
     rbind (add_accounts accounts []) (\<lambda>acc.
     rbind (add_beneficiaries beneficiaries []) (\<lambda>ben.
     Inr \<lparr>tt_state = \<lparr>ls_accounts = acc, ls_beneficiaries = ben, ls_transfers = []\<rparr>,
          tt_version = 0, tt_effects = Map.empty\<rparr>))"

definition ledger_snapshot :: "LedgerState target \<Rightarrow> jobj res" where
  "ledger_snapshot t =
     (let s = tt_state t in
      rbind (rmapM (\<lambda>kv. account_payload (snd kv)) (sort_key fst (ls_accounts s))) (\<lambda>accounts.
      rbind (canonical_object (JObj
         [(''domain'', JStr ''payments''), (''state_version'', JInt (tt_version t)),
          (''accounts'', JList (map JObj accounts)),
          (''beneficiaries'', JList (map (\<lambda>kv. JObj (beneficiary_payload (snd kv)))
             (sort_key fst (ls_beneficiaries s)))),
          (''transfers'', JList (map JObj (ls_transfers s)))])) sim_restore_object))"

section \<open>Operations\<close>

definition required_account :: "LedgerState \<Rightarrow> string \<Rightarrow> LedgerAccount res" where
  "required_account s account_id = of_option SimulatorNotFound (map_of (ls_accounts s) account_id)"

definition account_from :: "LedgerState \<Rightarrow> jobj \<Rightarrow> LedgerAccount res" where
  "account_from s arguments =
     rbind (exact_fields arguments [''account_id'']) (\<lambda>_.
     rbind (sim_text (jget arguments ''account_id'')) (required_account s))"

definition require_currency :: "LedgerAccount \<Rightarrow> json option \<Rightarrow> unit res" where
  "require_currency account value =
     rbind (sim_text value) (\<lambda>currency.
     ensure (currency = la_currency account) SimulatorBusinessError)"

definition balance_op :: "jobj \<Rightarrow> LedgerState \<Rightarrow> json res" where
  "balance_op arguments s =
     rbind (account_from s arguments) (\<lambda>account.
     rbind (money_text (la_balance account)) (\<lambda>text.
     Inr (JObj [(''account_id'', JStr (la_account_id account)),
                (''currency'', JStr (la_currency account)), (''balance'', JStr text)])))"

definition limit_op :: "jobj \<Rightarrow> LedgerState \<Rightarrow> json res" where
  "limit_op arguments s =
     rbind (account_from s arguments) (\<lambda>account.
     rbind (money_text (la_transfer_limit account)) (\<lambda>text.
     Inr (JObj [(''account_id'', JStr (la_account_id account)),
                (''currency'', JStr (la_currency account)), (''transfer_limit'', JStr text)])))"

definition set_account :: "LedgerAccount \<Rightarrow> LedgerState \<Rightarrow> LedgerState" where
  "set_account a s = s\<lparr>ls_accounts := AList.update (la_account_id a) a (ls_accounts s)\<rparr>"

definition modify_limit_checks :: "jobj \<Rightarrow> LedgerState \<Rightarrow> (LedgerAccount \<times> LedgerAccount) res" where
  "modify_limit_checks arguments s =
     rbind (exact_fields arguments [''account_id'', ''currency'', ''new_limit'']) (\<lambda>_.
     rbind (sim_text (jget arguments ''account_id'')) (\<lambda>account_id.
     rbind (required_account s account_id) (\<lambda>account.
     rbind (require_currency account (jget arguments ''currency'')) (\<lambda>_.
     rbind (of_option KeyError (jget arguments ''new_limit'')) (\<lambda>value.
     rbind (positive_money value) (\<lambda>new_limit.
     rbind (account_post_init (account\<lparr>la_transfer_limit := new_limit\<rparr>)) (\<lambda>updated.
     Inr (account, updated))))))))"

definition modify_limit_op :: "jobj \<Rightarrow> LedgerState \<Rightarrow> json res \<times> LedgerState" where
  "modify_limit_op arguments s = (case modify_limit_checks arguments s of
       Inl e \<Rightarrow> (Inl e, s)
     | Inr (account, updated) \<Rightarrow>
         (rbind (money_text (la_transfer_limit account)) (\<lambda>previous.
          rbind (money_text (la_transfer_limit updated)) (\<lambda>new_limit.
          Inr (JObj [(''account_id'', JStr (la_account_id account)),
                     (''currency'', JStr (la_currency account)),
                     (''previous_limit'', JStr previous), (''new_limit'', JStr new_limit)]))),
          set_account updated s))"

definition add_beneficiary_op :: "jobj \<Rightarrow> LedgerState \<Rightarrow> json res \<times> LedgerState" where
  "add_beneficiary_op arguments s =
     (case
        rbind (exact_fields arguments [''beneficiary_id'', ''name'', ''destination_account_ref'']) (\<lambda>_.
        rbind (sim_text (jget arguments ''beneficiary_id'')) (\<lambda>bid.
        rbind (sim_text (jget arguments ''name'')) (\<lambda>name.
        rbind (sim_text (jget arguments ''destination_account_ref'')) (\<lambda>ref.
        rbind (beneficiary_post_init \<lparr>bf_beneficiary_id = bid, bf_name = name,
                 bf_destination_account_ref = ref\<rparr>) (\<lambda>b.
        rbind (ensure (map_of (ls_beneficiaries s) bid = None) SimulatorConflict) (\<lambda>_.
        Inr b))))))
      of Inl e \<Rightarrow> (Inl e, s)
       | Inr b \<Rightarrow> (Inr (JObj (beneficiary_payload b @ [(''status'', JStr ''ACTIVE'')])),
                    s\<lparr>ls_beneficiaries := AList.update (bf_beneficiary_id b) b (ls_beneficiaries s)\<rparr>))"

definition transfer_checks ::
  "jobj \<Rightarrow> LedgerState \<Rightarrow> (string \<times> int \<times> LedgerAccount \<times> LedgerAccount) res" where
  "transfer_checks arguments s =
     rbind (exact_fields arguments [''account_id'', ''beneficiary_id'', ''amount'', ''currency'']) (\<lambda>_.
     rbind (sim_text (jget arguments ''account_id'')) (\<lambda>account_id.
     rbind (required_account s account_id) (\<lambda>account.
     rbind (require_currency account (jget arguments ''currency'')) (\<lambda>_.
     rbind (sim_text (jget arguments ''beneficiary_id'')) (\<lambda>beneficiary_id.
     rbind (ensure (map_of (ls_beneficiaries s) beneficiary_id \<noteq> None) SimulatorNotFound) (\<lambda>_.
     rbind (of_option KeyError (jget arguments ''amount'')) (\<lambda>value.
     rbind (positive_money value) (\<lambda>amount.
     rbind (ensure (amount \<le> la_transfer_limit account) SimulatorBusinessError) (\<lambda>_.
     rbind (ensure (amount \<le> la_balance account) SimulatorBusinessError) (\<lambda>_.
     rbind (account_post_init (account\<lparr>la_balance := la_balance account - amount\<rparr>)) (\<lambda>updated.
     Inr (beneficiary_id, amount, account, updated))))))))))))"

definition transfer_document :: "nat \<Rightarrow> LedgerAccount \<Rightarrow> string \<Rightarrow> string \<Rightarrow> jobj" where
  "transfer_document n account beneficiary_id amount_text =
     [(''transfer_id'', JStr (''transfer-'' @ digits (n + 1))),
      (''account_id'', JStr (la_account_id account)), (''beneficiary_id'', JStr beneficiary_id),
      (''amount'', JStr amount_text), (''currency'', JStr (la_currency account)),
      (''status'', JStr ''SETTLED'')]"

definition transfer_op :: "jobj \<Rightarrow> LedgerState \<Rightarrow> json res \<times> LedgerState" where
  "transfer_op arguments s = (case transfer_checks arguments s of
       Inl e \<Rightarrow> (Inl e, s)
     | Inr (beneficiary_id, amount, account, updated) \<Rightarrow>
         (let s1 = set_account updated s in
          case money_text amount of
            Inl e \<Rightarrow> (Inl e, s1)
          | Inr amount_text \<Rightarrow>
              (let transfer = transfer_document (length (ls_transfers s)) account beneficiary_id amount_text;
                   s2 = s1\<lparr>ls_transfers := ls_transfers s @ [transfer]\<rparr> in
               (rbind (money_text (la_balance updated)) (\<lambda>remaining.
                Inr (JObj (transfer @ [(''remaining_balance'', JStr remaining)]))), s2))))"

definition payment_capabilities :: "string list" where
  "payment_capabilities = [''payments.balance.read'', ''payments.limit.read'', ''payments.limit.modify'',
     ''payments.beneficiary.add'', ''payments.transfer.initiate'']"

definition ledger_apply :: "LedgerState apply_fun" where
  "ledger_apply capability arguments s =
     (if capability = ''payments.balance.read'' then flagged False (balance_op arguments s, s)
      else if capability = ''payments.limit.read'' then flagged False (limit_op arguments s, s)
      else if capability = ''payments.limit.modify'' then flagged True (modify_limit_op arguments s)
      else if capability = ''payments.beneficiary.add'' then flagged True (add_beneficiary_op arguments s)
      else if capability = ''payments.transfer.initiate'' then flagged True (transfer_op arguments s)
      else (Inl SimulatorContractError, s))"

definition ledger_submit :: "request \<Rightarrow> LedgerState target \<Rightarrow> EffectReceipt res \<times> LedgerState target" where
  "ledger_submit = submit ''payments'' payment_capabilities ledger_apply"

section \<open>Money\<close>

lemma money_text_ok: "\<bar>c\<bar> < money_bound \<Longrightarrow> \<exists>s. money_text c = Inr s"
  by (simp add: money_text_def)

lemma positive_money_Inr: "positive_money v = Inr c \<Longrightarrow> 0 < c \<and> c < money_bound"
  by (auto simp: positive_money_def rbind_Inr_iff of_option_Inr ensure_Inr Let_def not_le split: if_splits)

lemma is_digit_facts:
  "is_digit c \<Longrightarrow> c \<noteq> CHR ''_'' \<and> c \<noteq> CHR ''-'' \<and> c \<noteq> CHR ''+'' \<and> c \<noteq> CHR ''e'' \<and> c \<noteq> CHR ''E'' \<and>
     c \<noteq> CHR ''.'' \<and> \<not> py_isspace c"
  by (auto simp: is_digit_def py_isspace_def)

text \<open>A text of digits, a point and two digits reads as the number it shows.\<close>

lemma decimal_of_money:
  assumes "list_all is_digit ip" "ip \<noteq> []" "is_digit a" "is_digit b"
  shows "decimal_of (JStr (ip @ ''.'' @ [a, b])) = Some (int (nat_of_digits (ip @ [a, b])), -2)"
proof -
  let ?t = "ip @ ''.'' @ [a, b]"
  have dig: "\<And>c. c \<in> set ip \<Longrightarrow> is_digit c" using assms(1) by (auto simp: list_all_iff)
  note facts = is_digit_facts [OF assms(3)] is_digit_facts [OF assms(4)]
  obtain c0 r0 where ip: "ip = c0 # r0" using assms(2) by (cases ip) auto
  have c0: "is_digit c0" using dig ip by simp
  have strip: "py_strip ?t = ?t"
    using is_digit_facts [OF c0] facts by (simp add: py_strip_def ip)
  have filt: "filter (\<lambda>c. c \<noteq> CHR ''_'') ?t = ?t"
    using facts dig is_digit_facts by (auto simp: filter_id_conv)
  have sign: "split_sign ?t = (1, ?t)" using is_digit_facts [OF c0] by (simp add: split_sign_def ip)
  have noe: "\<forall>c\<in>set ?t. \<not> (c = CHR ''e'' \<or> c = CHR ''E'')"
    using facts dig is_digit_facts by auto
  have ex: "split_at (\<lambda>c. c = CHR ''e'' \<or> c = CHR ''E'') ?t = (?t, None)"
  proof -
    have "takeWhile (\<lambda>c. \<not> (c = CHR ''e'' \<or> c = CHR ''E'')) ?t = ?t"
      and "dropWhile (\<lambda>c. \<not> (c = CHR ''e'' \<or> c = CHR ''E'')) ?t = []"
      using noe by (simp_all only: takeWhile_eq_all_conv dropWhile_eq_Nil_conv)
    then show ?thesis by (simp add: split_at_def)
  qed
  have "\<forall>c\<in>set ip. c \<noteq> CHR ''.''" using dig is_digit_facts by auto
  then have pt: "split_at (\<lambda>c. c = CHR ''.'') ?t = (ip, Some [a, b])"
    by (simp add: split_at_def takeWhile_append2 dropWhile_append2)
  show ?thesis
    unfolding decimal_of_def json.case strip filt parse_dec_def sign ex pt prod.case option.case Let_def
    using assms by (simp add: parse_exp_def)
qed

lemma positive_money_text:
  assumes "0 < c" "c < money_bound" "money_text c = Inr t"
  shows "positive_money (JStr t) = Inr c"
proof -
  let ?q = "nat (c div 100)" and ?r = "nat (c mod 100)"
  have t: "t = digits ?q @ ''.'' @ [char_of (48 + ?r div 10), char_of (48 + ?r mod 10)]"
    using assms by (simp add: money_text_def two_digits_def nat_div_distrib nat_mod_distrib)
  have r: "?r div 10 < 10" "?r mod 10 < 10" by auto
  have "nat_of_digits (digits ?q @ [char_of (48 + ?r div 10), char_of (48 + ?r mod 10)]) =
      nat_of_digits ((digits ?q @ [char_of (48 + ?r div 10)]) @ [char_of (48 + ?r mod 10)])" by simp
  also have "\<dots> = ?q * 100 + ?r"
    unfolding nat_of_digits_append digit_val_char [OF r(1)] digit_val_char [OF r(2)] by simp
  finally have v: "int (nat_of_digits (digits ?q @ [char_of (48 + ?r div 10), char_of (48 + ?r mod 10)])) = c"
    using assms(1) by (simp add: pos_imp_zdiv_nonneg_iff)
  have d: "decimal_of (JStr t) = Some (c, -2)"
    unfolding t using decimal_of_money [of "digits ?q" "char_of (48 + ?r div 10)" "char_of (48 + ?r mod 10)"]
      is_digit_char [OF r(1)] is_digit_char [OF r(2)] v by simp
  have "nat c < 10 ^ 28" using assms(1,2) by (simp add: money_bound_def)
  then have "length (digits (nat c)) \<le> 28" by (rule length_digits) simp
  then show ?thesis using assms(1,2) by (simp add: positive_money_def d Let_def)
qed

section \<open>The invariant\<close>

definition account_ok :: "string \<Rightarrow> LedgerAccount \<Rightarrow> bool" where
  "account_ok k a = (la_account_id a = k \<and> nonblank k \<and> nonblank (la_currency a) \<and>
     0 \<le> la_balance a \<and> la_balance a < money_bound \<and>
     0 < la_transfer_limit a \<and> la_transfer_limit a < money_bound)"

definition ledger_inv :: "LedgerState \<Rightarrow> bool" where
  "ledger_inv s = (\<forall>k a. map_of (ls_accounts s) k = Some a \<longrightarrow> account_ok k a)"

definition balance_of :: "LedgerState \<Rightarrow> string \<Rightarrow> int" where
  "balance_of s k = (case map_of (ls_accounts s) k of None \<Rightarrow> 0 | Some a \<Rightarrow> la_balance a)"

text \<open>What a recorded transfer took from an account, read back from its text.\<close>

definition transfer_out :: "string \<Rightarrow> jobj \<Rightarrow> int" where
  "transfer_out k tr = (if jget tr ''account_id'' = Some (JStr k)
     then (case jget tr ''amount'' of
             Some v \<Rightarrow> (case positive_money v of Inr c \<Rightarrow> c | Inl _ \<Rightarrow> 0)
           | None \<Rightarrow> 0)
     else 0)"

definition outflow :: "LedgerState \<Rightarrow> string \<Rightarrow> int" where
  "outflow s k = sum_list (map (transfer_out k) (ls_transfers s))"

lemma account_post_init_Inr:
  "account_post_init a = Inr b \<longleftrightarrow> b = a \<and> nonblank (la_account_id a) \<and> nonblank (la_currency a) \<and>
     0 \<le> la_balance a \<and> 0 < la_transfer_limit a"
  by (auto simp: account_post_init_def rbind_Inr_iff sim_required_text_Inr ensure_Inr)

lemma modify_limit_checks_Inr:
  assumes "ledger_inv s" and "modify_limit_checks args s = Inr (a, b)"
  shows "\<exists>k l. map_of (ls_accounts s) k = Some a \<and> account_ok k a \<and> b = a\<lparr>la_transfer_limit := l\<rparr> \<and>
    account_ok k b"
  using assms
  by (auto simp: modify_limit_checks_def rbind_Inr_iff required_account_def of_option_Inr
      account_post_init_Inr ledger_inv_def account_ok_def dest!: positive_money_Inr)

lemma transfer_checks_Inr:
  assumes "ledger_inv s" and "transfer_checks args s = Inr (ben, amount, a, b)"
  shows "\<exists>k. map_of (ls_accounts s) k = Some a \<and> account_ok k a \<and> 0 < amount \<and> amount < money_bound \<and>
    amount \<le> la_transfer_limit a \<and> amount \<le> la_balance a \<and>
    b = a\<lparr>la_balance := la_balance a - amount\<rparr> \<and> account_ok k b \<and>
    map_of (ls_beneficiaries s) ben \<noteq> None"
proof -
  from assms(2) obtain k v where k: "map_of (ls_accounts s) k = Some a" "positive_money v = Inr amount"
    "amount \<le> la_transfer_limit a" "amount \<le> la_balance a"
    "b = a\<lparr>la_balance := la_balance a - amount\<rparr>" "map_of (ls_beneficiaries s) ben \<noteq> None"
    by (auto simp: transfer_checks_def rbind_Inr_iff required_account_def of_option_Inr ensure_Inr
        account_post_init_Inr)
  have a: "account_ok k a" using assms(1) k(1) by (simp add: ledger_inv_def)
  have "account_ok k b" using a k(4,5) positive_money_Inr [OF k(2)] by (auto simp: account_ok_def)
  with a k positive_money_Inr [OF k(2)] show ?thesis by blast
qed

lemma set_account_lookup:
  "map_of (ls_accounts (set_account a s)) k =
     (if k = la_account_id a then Some a else map_of (ls_accounts s) k)"
  by (simp add: set_account_def update_conv')

lemma set_account_transfers [simp]: "ls_transfers (set_account a s) = ls_transfers s"
  by (simp add: set_account_def)

lemma set_account_inv: "ledger_inv s \<Longrightarrow> account_ok k a \<Longrightarrow> ledger_inv (set_account a s)"
  by (auto simp: ledger_inv_def set_account_lookup account_ok_def)

text \<open>A transfer that was accepted, in one step.\<close>

definition settled ::
  "LedgerState \<Rightarrow> LedgerState \<Rightarrow> LedgerAccount \<Rightarrow> string \<Rightarrow> int \<Rightarrow> string \<Rightarrow> bool" where
  "settled s s' a ben amount txt' =
     (s' = (set_account (a\<lparr>la_balance := la_balance a - amount\<rparr>) s)
        \<lparr>ls_transfers := ls_transfers s @ [transfer_document (length (ls_transfers s)) a ben txt']\<rparr>)"

lemma transfer_op_cases:
  assumes "ledger_inv s" and "transfer_op args s = (r, s')"
  obtains (refused) e where "r = Inl e" "s' = s"
  | (settled) k a ben amount t rem where "map_of (ls_accounts s) k = Some a" "account_ok k a"
      "0 < amount" "amount \<le> la_transfer_limit a" "amount \<le> la_balance a"
      "amount < money_bound" "money_text amount = Inr t" "settled s s' a ben amount t"
      "map_of (ls_beneficiaries s) ben \<noteq> None"
      "r = Inr (JObj (transfer_document (length (ls_transfers s)) a ben t @ [(''remaining_balance'', JStr rem)]))"
proof (cases "transfer_checks args s")
  case (Inl e)
  with assms(2) show thesis by (intro refused) (auto simp: transfer_op_def)
next
  case (Inr x)
  obtain ben amount a b where x: "x = (ben, amount, a, b)" by (cases x) auto
  from transfer_checks_Inr [OF assms(1) Inr [unfolded x]] obtain k where
    k: "map_of (ls_accounts s) k = Some a" "account_ok k a" "0 < amount" "amount < money_bound"
      "amount \<le> la_transfer_limit a" "amount \<le> la_balance a"
      "b = a\<lparr>la_balance := la_balance a - amount\<rparr>" "account_ok k b" "map_of (ls_beneficiaries s) ben \<noteq> None"
    by blast
  obtain t where t: "money_text amount = Inr t" using money_text_ok [of amount] k by auto
  obtain rem where rem: "money_text (la_balance b) = Inr rem"
    using money_text_ok [of "la_balance b"] k(8) by (auto simp: account_ok_def)
  have "r = Inr (JObj (transfer_document (length (ls_transfers s)) a ben t @ [(''remaining_balance'', JStr rem)]))"
    and "settled s s' a ben amount t"
    using assms(2) Inr x t rem k(7) by (simp_all add: transfer_op_def Let_def settled_def)
  with k t show thesis by (intro settled) auto
qed

lemma settled_inv:
  assumes "ledger_inv s" "map_of (ls_accounts s) k = Some a" "account_ok k a" "0 < amount"
    "amount \<le> la_balance a" "settled s s' a ben amount t"
  shows "ledger_inv s'"
proof -
  have "account_ok k (a\<lparr>la_balance := la_balance a - amount\<rparr>)" using assms by (auto simp: account_ok_def)
  from set_account_inv [OF assms(1) this] assms(6) show ?thesis
    by (simp add: settled_def ledger_inv_def)
qed

text \<open>The other two mutations, likewise.\<close>

lemma modify_limit_op_cases:
  assumes "ledger_inv s" and "modify_limit_op args s = (r, s')"
  obtains (refused) e where "r = Inl e" "s' = s"
  | (changed) k a l p n where "map_of (ls_accounts s) k = Some a" "account_ok k (a\<lparr>la_transfer_limit := l\<rparr>)"
      "s' = set_account (a\<lparr>la_transfer_limit := l\<rparr>) s"
      "r = Inr (JObj [(''account_id'', JStr (la_account_id a)), (''currency'', JStr (la_currency a)),
                     (''previous_limit'', JStr p), (''new_limit'', JStr n)])"
proof (cases "modify_limit_checks args s")
  case (Inl e)
  with assms(2) show thesis by (intro refused) (auto simp: modify_limit_op_def)
next
  case (Inr x)
  obtain a b where x: "x = (a, b)" by (cases x)
  from modify_limit_checks_Inr [OF assms(1) Inr [unfolded x]] obtain k l where
    k: "map_of (ls_accounts s) k = Some a" "account_ok k a" "b = a\<lparr>la_transfer_limit := l\<rparr>" "account_ok k b"
    by blast
  obtain p n where "money_text (la_transfer_limit a) = Inr p" "money_text (la_transfer_limit b) = Inr n"
    using money_text_ok [of "la_transfer_limit a"] money_text_ok [of "la_transfer_limit b"] k
    by (auto simp: account_ok_def)
  with Inr x assms(2) k show thesis by (intro changed [of k a l p n]) (simp_all add: modify_limit_op_def)
qed

lemma add_beneficiary_op_cases:
  assumes "add_beneficiary_op args s = (r, s')"
  shows "(\<exists>e. r = Inl e \<and> s' = s) \<or>
    (\<exists>b. r = Inr (JObj (beneficiary_payload b @ [(''status'', JStr ''ACTIVE'')])) \<and>
       map_of (ls_beneficiaries s) (bf_beneficiary_id b) = None \<and>
       s' = s\<lparr>ls_beneficiaries := AList.update (bf_beneficiary_id b) b (ls_beneficiaries s)\<rparr>)"
  using assms
  by (auto simp: add_beneficiary_op_def rbind_Inr_iff ensure_Inr beneficiary_post_init_def
      split: sum.splits)

lemma ledger_apply_error:
  assumes "ledger_inv s" "ledger_apply c a s = (Inl e, s')" shows "s' = s"
  using assms(2)
  by (auto simp: ledger_apply_def flagged_Inl split: if_splits dest: add_beneficiary_op_cases
      elim: modify_limit_op_cases [OF assms(1)] transfer_op_cases [OF assms(1)])

lemma ledger_apply_read: "ledger_apply c a s = (Inr (r, False), s') \<Longrightarrow> s' = s"
  by (auto simp: ledger_apply_def flagged_Inr split: if_splits)

lemma beneficiary_inv [simp]:
  "ledger_inv (s\<lparr>ls_beneficiaries := x\<rparr>) = ledger_inv s"
  by (simp add: ledger_inv_def)

lemma ledger_apply_inv:
  assumes i: "ledger_inv s" and "ledger_apply c a s = (Inr x, s')" shows "ledger_inv s'"
proof -
  obtain v m where x: "x = (v, m)" by (cases x)
  have tr: "ledger_inv s'" if "transfer_op a s = (Inr v, s')"
    using that by (rule transfer_op_cases [OF i]) (auto intro: settled_inv [OF i])
  have ml: "ledger_inv s'" if "modify_limit_op a s = (Inr v, s')"
    using that by (rule modify_limit_op_cases [OF i]) (auto intro: set_account_inv [OF i])
  have ab: "ledger_inv s'" if "add_beneficiary_op a s = (Inr v, s')"
    using add_beneficiary_op_cases [OF that] i by auto
  show ?thesis using assms(2) i tr ml ab unfolding x
    by (auto simp: ledger_apply_def flagged_Inr split: if_splits)
qed

lemma ledger_apply_result:
  assumes i: "ledger_inv s" and "ledger_apply c a s = (Inr (r, m), s')"
  shows "\<exists>d. r = JObj d \<and> valid_json r"
proof -
  have tr: ?thesis if "transfer_op a s = (Inr r, s')"
    using that by (rule transfer_op_cases [OF i]) (auto simp: transfer_document_def)
  have ml: ?thesis if "modify_limit_op a s = (Inr r, s')"
    using that by (rule modify_limit_op_cases [OF i]) auto
  have ab: ?thesis if "add_beneficiary_op a s = (Inr r, s')"
    using add_beneficiary_op_cases [OF that] by (auto simp: beneficiary_payload_def)
  show ?thesis using assms(2) tr ml ab
    by (auto simp: ledger_apply_def flagged_Inr balance_op_def limit_op_def rbind_Inr_iff split: if_splits)
qed

interpretation ledger: idempotent_target "''payments''" payment_capabilities ledger_apply ledger_inv
  by unfold_locales
    (auto dest: ledger_apply_error ledger_apply_read ledger_apply_inv ledger_apply_result)

text \<open>Money is conserved: what leaves a balance is in the record of transfers.\<close>

lemma settled_conserves:
  assumes "map_of (ls_accounts s) k = Some a" "account_ok k a" "0 < amount" "amount < money_bound"
    "money_text amount = Inr t" "settled s s' a ben amount t"
  shows "balance_of s' x + outflow s' x = balance_of s x + outflow s x"
proof -
  have id: "la_account_id a = k" using assms(2) by (simp add: account_ok_def)
  have out: "transfer_out x (transfer_document n a ben t) = (if x = k then amount else 0)" for n
    using positive_money_text [OF assms(3-5)] by (auto simp: transfer_out_def transfer_document_def jget_def id)
  show ?thesis using assms(1,6) id
    by (auto simp: settled_def balance_of_def outflow_def set_account_lookup out)
qed

lemma ledger_apply_conserves:
  assumes i: "ledger_inv s" and "ledger_apply c a s = (r, s')"
  shows "balance_of s' x + outflow s' x = balance_of s x + outflow s x"
proof -
  have tr: ?thesis if "transfer_op a s = (q, s')" for q
    using that by (rule transfer_op_cases [OF i]) (auto intro: settled_conserves)
  have ml: ?thesis if "modify_limit_op a s = (q, s')" for q
    using that
  proof (rule modify_limit_op_cases [OF i])
    fix k b l p n
    assume "map_of (ls_accounts s) k = Some b" "account_ok k (b\<lparr>la_transfer_limit := l\<rparr>)"
      "s' = set_account (b\<lparr>la_transfer_limit := l\<rparr>) s"
    then show ?thesis
      by (auto simp: balance_of_def outflow_def set_account_lookup account_ok_def)
  qed auto
  have ab: ?thesis if "add_beneficiary_op a s = (q, s')" for q
    using add_beneficiary_op_cases [OF that] by (auto simp: balance_of_def outflow_def)
  show ?thesis using assms(2) tr ml ab
    by (cases r) (auto simp: ledger_apply_def flagged_def map_prod_def split: if_splits prod.splits)
qed

lemma submit_conserves:
  assumes "ledger.target_inv t"
  shows "balance_of (tt_state (snd (ledger_submit rq t))) x + outflow (tt_state (snd (ledger_submit rq t))) x =
    balance_of (tt_state t) x + outflow (tt_state t) x"
proof (cases "ledger_submit rq t")
  case (Pair r t')
  note p = Pair [unfolded ledger_submit_def]
  show ?thesis
  proof (cases r)
    case (Inl e)
    with ledger.submit_Inl [OF assms, of rq e t'] p Pair show ?thesis by simp
  next
    case (Inr receipt)
    with ledger.submit_Inr [OF assms, of rq receipt t'] p Pair assms show ?thesis
      by (auto simp: ledger.target_inv_def intro: ledger_apply_conserves)
  qed
qed

fun ledger_run :: "request list \<Rightarrow> LedgerState target \<Rightarrow> LedgerState target" where
  "ledger_run [] t = t"
| "ledger_run (rq # rqs) t = ledger_run rqs (snd (ledger_submit rq t))"

lemma ledger_run_eq: "ledger_run rqs t = submit_all ''payments'' payment_capabilities ledger_apply rqs t"
  by (induction rqs arbitrary: t) (simp_all add: ledger_submit_def)

lemma run_conserves:
  "ledger.target_inv t \<Longrightarrow>
     balance_of (tt_state (ledger_run rqs t)) x + outflow (tt_state (ledger_run rqs t)) x =
     balance_of (tt_state t) x + outflow (tt_state t) x"
proof (induction rqs arbitrary: t)
  case (Cons rq rqs)
  have "ledger.target_inv (snd (ledger_submit rq t))"
    using ledger.submit_inv [OF Cons.prems] by (simp add: ledger_submit_def)
  from Cons.IH [OF this] submit_conserves [OF Cons.prems, of rq x] show ?case by simp
qed simp

lemma add_accounts_lookup:
  "add_accounts as acc = Inr acc' \<Longrightarrow> map_of acc' k = Some a \<Longrightarrow>
     map_of acc k = Some a \<or> (a \<in> set as \<and> la_account_id a = k)"
  by (induction as acc rule: add_accounts.induct)
    (auto simp: update_conv' split: if_splits)

lemma ledger_init_inv:
  assumes "ledger_init as bs = Inr t" and "\<forall>a\<in>set as. account_ok (la_account_id a) a"
  shows "ledger.target_inv t \<and> outflow (tt_state t) x = 0"
proof -
  obtain acc ben where acc: "add_accounts as [] = Inr acc"
    and t: "t = \<lparr>tt_state = \<lparr>ls_accounts = acc, ls_beneficiaries = ben, ls_transfers = []\<rparr>,
          tt_version = 0, tt_effects = Map.empty\<rparr>"
    using assms(1) by (auto simp: ledger_init_def rbind_Inr_iff)
  have "account_ok k a" if "map_of acc k = Some a" for k a
    using add_accounts_lookup [OF acc that] assms(2) by auto
  then show ?thesis by (auto simp: t ledger.target_inv_def ledger_inv_def outflow_def)
qed

section \<open>Properties\<close>

text \<open>
  The ledger is idempotent. Once a request was accepted, then, after any other requests, the same
  request under the same idempotency key returns the same receipt, and the ledger stays as it is: no
  second transfer. A request that is refused changes nothing at all.
\<close>

theorem ledger_idempotent:
  assumes "ledger_init as bs = Inr t0" and "\<forall>a\<in>set as. account_ok (la_account_id a) a"
    and "t = ledger_run before t0" and "ledger_submit rq t = (r, t')"
  shows "case r of
      Inr receipt \<Rightarrow> ledger_submit rq (ledger_run others t') = (Inr receipt, ledger_run others t')
    | Inl e \<Rightarrow> t' = t"
proof -
  have i: "ledger.target_inv t" unfolding assms(3) ledger_run_eq
    using ledger_init_inv [OF assms(1,2)] by (intro ledger.submit_all_inv) simp
  show ?thesis
  proof (cases r)
    case (Inl e)
    with ledger.submit_Inl [OF i] assms(4) show ?thesis by (simp add: ledger_submit_def)
  next
    case (Inr receipt)
    with assms(4) ledger.replay [OF i, of rq receipt t' _ others] show ?thesis
      by (simp add: ledger_submit_def ledger_run_eq)
  qed
qed

text \<open>
  C24: money is conserved. From any initial accounts, after any requests, every balance is non-negative
  and, with what the recorded transfers took out of that account, is its initial balance; a transfer
  never takes more than the balance.
\<close>

theorem ledger_conserves_money:
  assumes "ledger_init as bs = Inr t0" and "\<forall>a\<in>set as. account_ok (la_account_id a) a"
  shows "0 \<le> balance_of (tt_state (ledger_run rqs t0)) x \<and>
    balance_of (tt_state (ledger_run rqs t0)) x + outflow (tt_state (ledger_run rqs t0)) x =
      balance_of (tt_state t0) x"
proof -
  note i = ledger_init_inv [OF assms, of x]
  then have "ledger.target_inv (ledger_run rqs t0)" unfolding ledger_run_eq by (intro ledger.submit_all_inv) simp
  then have "0 \<le> balance_of (tt_state (ledger_run rqs t0)) x"
    by (auto simp: ledger.target_inv_def ledger_inv_def balance_of_def account_ok_def split: option.splits)
  with run_conserves [of t0 rqs x] i show ?thesis by simp
qed

text \<open>
  Amounts survive their text. What the ledger prints for an amount, a request may send back, and it
  is read as the same number of hundredths.
\<close>

theorem money_text_roundtrip:
  assumes "0 < c" and "c < money_bound"
  shows "\<exists>t. money_text c = Inr t \<and> positive_money (JStr t) = Inr c"
proof -
  from assms obtain t where "money_text c = Inr t" using money_text_ok [of c] by auto
  with positive_money_text [OF assms this] show ?thesis by blast
qed

text \<open>An amount of more than 28 digits raises the decimal module's own exception.\<close>

lemma huge_amount_raises: "positive_money (JStr ''1e40'') = Inl (External ''InvalidOperation'')"
  by code_simp

end
