(* ===== verification/Durable_Record.thy ===== *)
theory Durable_Record
  imports Contracts Py_Hash Py_Decimal
begin

text \<open>
  \<^verbatim>\<open>cbrain/agent/durable.py\<close> and the enumerations of \<^verbatim>\<open>cbrain/agent/contracts.py\<close>: the durable run
  record, its JSON form and the validation of what is read back, and the run results derived from it.

  Messages and events are kept as the JSON objects the record stores. A stored number that is an
  integer is read as a float; the model prints it as Python's \<^verbatim>\<open>repr\<close> does below \<open>2 ^ 53\<close>.
\<close>

datatype DurableRunState =
    DS_RUNNING | DS_TOOL_PREPARED | DS_TOOL_IN_FLIGHT | DS_TOOL_COMPLETED
  | DS_RECOVERY_REQUIRED | DS_COMPLETED | DS_FAILED | DS_CANCELLED

fun durable_value :: "DurableRunState \<Rightarrow> string" where
  "durable_value DS_RUNNING = ''RUNNING''"
| "durable_value DS_TOOL_PREPARED = ''TOOL_PREPARED''"
| "durable_value DS_TOOL_IN_FLIGHT = ''TOOL_IN_FLIGHT''"
| "durable_value DS_TOOL_COMPLETED = ''TOOL_COMPLETED''"
| "durable_value DS_RECOVERY_REQUIRED = ''RECOVERY_REQUIRED''"
| "durable_value DS_COMPLETED = ''COMPLETED''"
| "durable_value DS_FAILED = ''FAILED''"
| "durable_value DS_CANCELLED = ''CANCELLED''"

definition all_durable_states :: "DurableRunState list" where
  "all_durable_states = [DS_RUNNING, DS_TOOL_PREPARED, DS_TOOL_IN_FLIGHT, DS_TOOL_COMPLETED,
     DS_RECOVERY_REQUIRED, DS_COMPLETED, DS_FAILED, DS_CANCELLED]"

definition durable_of_text :: "string \<Rightarrow> DurableRunState option" where
  "durable_of_text s = find (\<lambda>d. durable_value d = s) all_durable_states"

datatype RunStatus =
    RS_COMPLETED | RS_REJECTED | RS_INVALID_MODEL_RESPONSE | RS_MODEL_FAILURE | RS_TOOL_FAILURE
  | RS_LIMIT_REACHED | RS_TIMED_OUT | RS_CANCELLED | RS_RECOVERY_REQUIRED | RS_EXECUTION_IN_FLIGHT

fun run_status_value :: "RunStatus \<Rightarrow> string" where
  "run_status_value RS_COMPLETED = ''completed''"
| "run_status_value RS_REJECTED = ''rejected''"
| "run_status_value RS_INVALID_MODEL_RESPONSE = ''invalid_model_response''"
| "run_status_value RS_MODEL_FAILURE = ''model_failure''"
| "run_status_value RS_TOOL_FAILURE = ''tool_failure''"
| "run_status_value RS_LIMIT_REACHED = ''limit_reached''"
| "run_status_value RS_TIMED_OUT = ''timed_out''"
| "run_status_value RS_CANCELLED = ''cancelled''"
| "run_status_value RS_RECOVERY_REQUIRED = ''recovery_required''"
| "run_status_value RS_EXECUTION_IN_FLIGHT = ''execution_in_flight''"

definition all_run_statuses :: "RunStatus list" where
  "all_run_statuses = [RS_COMPLETED, RS_REJECTED, RS_INVALID_MODEL_RESPONSE, RS_MODEL_FAILURE,
     RS_TOOL_FAILURE, RS_LIMIT_REACHED, RS_TIMED_OUT, RS_CANCELLED, RS_RECOVERY_REQUIRED,
     RS_EXECUTION_IN_FLIGHT]"

definition run_status_of_text :: "string \<Rightarrow> RunStatus option" where
  "run_status_of_text s = find (\<lambda>d. run_status_value d = s) all_run_statuses"

definition terminal_durable :: "DurableRunState \<Rightarrow> bool" where
  "terminal_durable d = (d \<in> {DS_COMPLETED, DS_FAILED, DS_CANCELLED, DS_RECOVERY_REQUIRED})"

definition pending_tool_state :: "DurableRunState \<Rightarrow> bool" where
  "pending_tool_state d = (d \<in> {DS_TOOL_PREPARED, DS_TOOL_IN_FLIGHT, DS_TOOL_COMPLETED})"

definition store_schema_version :: int where
  "store_schema_version = 2"

record StoredRunRecord =
  sr_schema_version :: int
  sr_version :: int
  sr_run_id :: string
  sr_durable_state :: DurableRunState
  sr_profile_fingerprint :: string
  sr_task :: string
  sr_run_metadata :: jobj
  sr_started_at_utc :: pyfloat
  sr_expires_at_utc :: pyfloat
  sr_next_step :: int
  sr_tool_calls :: int
  sr_model_turns :: int
  sr_messages :: "jobj list"
  sr_events :: "jobj list"
  sr_pending_request_id :: "string option"
  sr_pending_idempotency_key :: "string option"
  sr_pending_action :: "jobj option"
  sr_pending_tool_call_id :: "string option"
  sr_pending_tool_name :: "string option"
  sr_pending_execution_status :: "string option"
  sr_pending_execution_output :: json
  sr_pending_execution_reason :: "string option"
  sr_terminal_status :: "RunStatus option"
  sr_final_text :: "string option"
  sr_terminal_metadata :: "jobj option"

section \<open>Writing\<close>

definition opt_str_json :: "string option \<Rightarrow> json" where
  "opt_str_json s = (case s of None \<Rightarrow> JNull | Some t \<Rightarrow> JStr t)"

definition opt_obj_json :: "jobj option \<Rightarrow> json" where
  "opt_obj_json d = (case d of None \<Rightarrow> JNull | Some m \<Rightarrow> JObj m)"

definition record_payload :: "StoredRunRecord \<Rightarrow> jobj" where
  "record_payload r =
     [(''schema_version'', JInt (sr_schema_version r)),
      (''version'', JInt (sr_version r)),
      (''run_id'', JStr (sr_run_id r)),
      (''durable_state'', JStr (durable_value (sr_durable_state r))),
      (''profile_fingerprint'', JStr (sr_profile_fingerprint r)),
      (''task'', JStr (sr_task r)),
      (''run_metadata'', JObj (sr_run_metadata r)),
      (''started_at_utc'', JFloat (sr_started_at_utc r)),
      (''expires_at_utc'', JFloat (sr_expires_at_utc r)),
      (''next_step'', JInt (sr_next_step r)),
      (''tool_calls'', JInt (sr_tool_calls r)),
      (''model_turns'', JInt (sr_model_turns r)),
      (''messages'', JList (map JObj (sr_messages r))),
      (''events'', JList (map JObj (sr_events r))),
      (''pending_request_id'', opt_str_json (sr_pending_request_id r)),
      (''pending_idempotency_key'', opt_str_json (sr_pending_idempotency_key r)),
      (''pending_action'', opt_obj_json (sr_pending_action r)),
      (''pending_tool_call_id'', opt_str_json (sr_pending_tool_call_id r)),
      (''pending_tool_name'', opt_str_json (sr_pending_tool_name r)),
      (''pending_execution_status'', opt_str_json (sr_pending_execution_status r)),
      (''pending_execution_output'', sr_pending_execution_output r),
      (''pending_execution_reason'', opt_str_json (sr_pending_execution_reason r)),
      (''terminal_status'', opt_str_json (map_option run_status_value (sr_terminal_status r))),
      (''final_text'', opt_str_json (sr_final_text r)),
      (''terminal_metadata'', opt_obj_json (sr_terminal_metadata r))]"

text \<open>\<^verbatim>\<open>json.dumps\<close> with its defaults raises only on a value that is no JSON value.\<close>

primrec dumpable :: "json \<Rightarrow> bool" where
  "dumpable JNull = True"
| "dumpable (JBool _) = True"
| "dumpable (JInt _) = True"
| "dumpable (JFloat _) = True"
| "dumpable (JStr _) = True"
| "dumpable (JList xs) = list_all id (map dumpable xs)"
| "dumpable (JObj kvs) = list_all snd (map (map_prod id dumpable) kvs)"
| "dumpable (JOpaque _) = False"

definition to_json :: "StoredRunRecord \<Rightarrow> stored res" where
  "to_json r =
     rbind (ensure (dumpable (JObj (record_payload r))) TypeError) (\<lambda>_.
     Inr (Doc (canon (JObj (record_payload r)))))"

section \<open>Reading\<close>

definition rs_text :: "json option \<Rightarrow> string res" where
  "rs_text v = (case v of
       Some (JStr s) \<Rightarrow> if nonblank s then Inr s else Inl RunStoreError
     | _ \<Rightarrow> Inl RunStoreError)"

definition optional_str :: "json option \<Rightarrow> string option res" where
  "optional_str v = (case v of
       None \<Rightarrow> Inr None
     | Some JNull \<Rightarrow> Inr None
     | Some (JStr s) \<Rightarrow> if nonblank s then Inr (Some s) else Inl RunStoreError
     | _ \<Rightarrow> Inl RunStoreError)"

definition finite_number :: "json option \<Rightarrow> pyfloat res" where
  "finite_number v = (case v of
       Some (JInt i) \<Rightarrow>
         rbind (ensure (\<not> float_overflows i) (External ''OverflowError'')) (\<lambda>_.
         Inr (Finite (show_int i @ ''.0'')))
     | Some (JFloat (Finite t)) \<Rightarrow> Inr (Finite t)
     | _ \<Rightarrow> Inl RunStoreError)"

definition non_negative_int :: "int \<Rightarrow> json option \<Rightarrow> int res" where
  "non_negative_int minimum v = (case v of
       Some (JInt i) \<Rightarrow> if i < minimum then Inl RunStoreError else Inr i
     | _ \<Rightarrow> Inl RunStoreError)"

definition dict_list :: "json list \<Rightarrow> jobj list res" where
  "dict_list xs = rmapM (\<lambda>x. case x of JObj d \<Rightarrow> Inr d | _ \<Rightarrow> Inl RunStoreError) xs"

definition rs_dict :: "json option \<Rightarrow> jobj res" where
  "rs_dict v = (case v of Some (JObj d) \<Rightarrow> Inr d | _ \<Rightarrow> Inl RunStoreError)"

definition rs_opt_dict :: "json option \<Rightarrow> jobj option res" where
  "rs_opt_dict v = (case v of
       None \<Rightarrow> Inr None
     | Some JNull \<Rightarrow> Inr None
     | Some (JObj d) \<Rightarrow> Inr (Some d)
     | _ \<Rightarrow> Inl RunStoreError)"

definition rs_durable_state :: "json option \<Rightarrow> DurableRunState res" where
  "rs_durable_state v = (case v of
       Some (JStr s) \<Rightarrow> of_option RunStoreError (durable_of_text s)
     | _ \<Rightarrow> Inl RunStoreError)"

definition rs_terminal_status :: "json option \<Rightarrow> RunStatus option res" where
  "rs_terminal_status v = (case v of
       None \<Rightarrow> Inr None
     | Some JNull \<Rightarrow> Inr None
     | Some (JStr s) \<Rightarrow> rbind (of_option RunStoreError (run_status_of_text s)) (\<lambda>x. Inr (Some x))
     | _ \<Rightarrow> Inl RunStoreError)"

definition rs_lists :: "json option \<Rightarrow> json option \<Rightarrow> (jobj list \<times> jobj list) res" where
  "rs_lists m e = (case (m, e) of
       (Some (JList ms), Some (JList es)) \<Rightarrow>
         rbind (dict_list ms) (\<lambda>ms'. rbind (dict_list es) (\<lambda>es'. Inr (ms', es')))
     | _ \<Rightarrow> Inl RunStoreError)"

definition validate_state_fields :: "StoredRunRecord \<Rightarrow> unit res" where
  "validate_state_fields r =
     (if terminal_durable (sr_durable_state r)
      then ensure (sr_terminal_status r \<noteq> None) RunStoreError
      else
        rbind (ensure (sr_terminal_status r = None) RunStoreError) (\<lambda>_.
        rbind (ensure (pending_tool_state (sr_durable_state r) \<longrightarrow>
                 sr_pending_request_id r \<noteq> None \<and> sr_pending_idempotency_key r \<noteq> None \<and>
                 sr_pending_action r \<noteq> None \<and> sr_pending_tool_call_id r \<noteq> None \<and>
                 sr_pending_tool_name r \<noteq> None) RunStoreError) (\<lambda>_.
        ensure (\<not> (sr_durable_state r = DS_TOOL_COMPLETED \<and> sr_pending_execution_status r = None))
          RunStoreError)))"

definition from_mapping :: "jobj \<Rightarrow> StoredRunRecord res" where
  "from_mapping p =
     rbind (ensure (case jget p ''schema_version'' of
              Some v \<Rightarrow> json_eq v (JInt store_schema_version) | None \<Rightarrow> False) RunStoreError) (\<lambda>_.
     rbind (non_negative_int 0 (jget p ''version'')) (\<lambda>version.
     rbind (rs_text (jget p ''run_id'')) (\<lambda>run_id.
     rbind (rs_durable_state (jget p ''durable_state'')) (\<lambda>state.
     rbind (rs_text (jget p ''profile_fingerprint'')) (\<lambda>fingerprint.
     rbind (rs_text (jget p ''task'')) (\<lambda>task.
     rbind (rs_dict (jget p ''run_metadata'')) (\<lambda>run_metadata.
     rbind (finite_number (jget p ''started_at_utc'')) (\<lambda>started.
     rbind (finite_number (jget p ''expires_at_utc'')) (\<lambda>expires.
     rbind (non_negative_int 1 (jget p ''next_step'')) (\<lambda>next_step.
     rbind (non_negative_int 0 (jget p ''tool_calls'')) (\<lambda>tool_calls.
     rbind (non_negative_int 0 (jget p ''model_turns'')) (\<lambda>model_turns.
     rbind (rs_lists (jget p ''messages'') (jget p ''events'')) (\<lambda>(messages, events).
     rbind (rs_terminal_status (jget p ''terminal_status'')) (\<lambda>terminal_status.
     rbind (rs_opt_dict (jget p ''terminal_metadata'')) (\<lambda>terminal_metadata.
     rbind (rs_opt_dict (jget p ''pending_action'')) (\<lambda>pending_action.
     rbind (optional_str (jget p ''final_text'')) (\<lambda>final_text.
     rbind (optional_str (jget p ''pending_request_id'')) (\<lambda>pending_request_id.
     rbind (optional_str (jget p ''pending_idempotency_key'')) (\<lambda>pending_key.
     rbind (optional_str (jget p ''pending_tool_call_id'')) (\<lambda>pending_call.
     rbind (optional_str (jget p ''pending_tool_name'')) (\<lambda>pending_name.
     rbind (optional_str (jget p ''pending_execution_status'')) (\<lambda>pending_status.
     rbind (optional_str (jget p ''pending_execution_reason'')) (\<lambda>pending_reason.
     let record = \<lparr>sr_schema_version = store_schema_version, sr_version = version, sr_run_id = run_id,
       sr_durable_state = state, sr_profile_fingerprint = fingerprint, sr_task = task,
       sr_run_metadata = run_metadata, sr_started_at_utc = started, sr_expires_at_utc = expires,
       sr_next_step = next_step, sr_tool_calls = tool_calls, sr_model_turns = model_turns,
       sr_messages = messages, sr_events = events, sr_pending_request_id = pending_request_id,
       sr_pending_idempotency_key = pending_key, sr_pending_action = pending_action,
       sr_pending_tool_call_id = pending_call, sr_pending_tool_name = pending_name,
       sr_pending_execution_status = pending_status,
       sr_pending_execution_output = (case jget p ''pending_execution_output'' of
          None \<Rightarrow> JNull | Some v \<Rightarrow> v),
       sr_pending_execution_reason = pending_reason, sr_terminal_status = terminal_status,
       sr_final_text = final_text, sr_terminal_metadata = terminal_metadata\<rparr> in
     rbind (validate_state_fields record) (\<lambda>_. Inr record))))))))))))))))))))))))"

text \<open>Only \<^verbatim>\<open>JSONDecodeError\<close> is turned into the store's own error.\<close>

definition from_json :: "stored \<Rightarrow> StoredRunRecord res" where
  "from_json raw = (case raw of
       Doc (JObj d) \<Rightarrow> from_mapping d
     | Doc _ \<Rightarrow> Inl RunStoreError
     | Undecodable e \<Rightarrow> if e = External ''JSONDecodeError'' then Inl RunStoreError else Inl e
     | NotBytes \<Rightarrow> Inl TypeError)"

definition validate_record_columns :: "StoredRunRecord \<Rightarrow> int \<Rightarrow> int \<Rightarrow> string \<Rightarrow> unit res" where
  "validate_record_columns r schema_version version durable_state =
     rbind (ensure (sr_schema_version r = schema_version) RunStoreError) (\<lambda>_.
     rbind (ensure (sr_version r = version) RunStoreError) (\<lambda>_.
     ensure (durable_value (sr_durable_state r) = durable_state) RunStoreError))"

section \<open>Round trip\<close>

text \<open>\<open>canon_record\<close> sorts the keys of every document the record holds.\<close>

definition canon_record :: "StoredRunRecord \<Rightarrow> StoredRunRecord" where
  "canon_record r = r\<lparr>sr_run_metadata := canon_obj (sr_run_metadata r),
     sr_messages := map canon_obj (sr_messages r), sr_events := map canon_obj (sr_events r),
     sr_pending_action := map_option canon_obj (sr_pending_action r),
     sr_pending_execution_output := canon (sr_pending_execution_output r),
     sr_terminal_metadata := map_option canon_obj (sr_terminal_metadata r)\<rparr>"

definition opt_nonblank :: "string option \<Rightarrow> bool" where
  "opt_nonblank s = (case s of None \<Rightarrow> True | Some t \<Rightarrow> nonblank t)"

definition is_finite :: "pyfloat \<Rightarrow> bool" where
  "is_finite f = (case f of Finite _ \<Rightarrow> True | _ \<Rightarrow> False)"

text \<open>What a record must satisfy to be read back.\<close>

definition storable :: "StoredRunRecord \<Rightarrow> bool" where
  "storable r =
     (sr_schema_version r = store_schema_version \<and> 0 \<le> sr_version r \<and> nonblank (sr_run_id r) \<and>
      nonblank (sr_profile_fingerprint r) \<and> nonblank (sr_task r) \<and>
      is_finite (sr_started_at_utc r) \<and> is_finite (sr_expires_at_utc r) \<and>
      1 \<le> sr_next_step r \<and> 0 \<le> sr_tool_calls r \<and> 0 \<le> sr_model_turns r \<and>
      list_all opt_nonblank [sr_pending_request_id r, sr_pending_idempotency_key r,
        sr_pending_tool_call_id r, sr_pending_tool_name r, sr_pending_execution_status r,
        sr_pending_execution_reason r, sr_final_text r] \<and>
      validate_state_fields r = Inr ())"

lemma durable_of_value [simp]: "durable_of_text (durable_value d) = Some d"
  by (cases d) (simp_all add: durable_of_text_def all_durable_states_def)

lemma run_status_of_value [simp]: "run_status_of_text (run_status_value d) = Some d"
  by (cases d) (simp_all add: run_status_of_text_def all_run_statuses_def)

lemma optional_str_json [simp]: "opt_nonblank s \<Longrightarrow> optional_str (Some (opt_str_json s)) = Inr s"
  by (cases s) (simp_all add: optional_str_def opt_str_json_def opt_nonblank_def)

lemma canon_opt_str [simp]: "canon (opt_str_json s) = opt_str_json s"
  by (cases s) (simp_all add: opt_str_json_def)

lemma rs_opt_dict_json [simp]:
  "rs_opt_dict (Some (canon (opt_obj_json d))) = Inr (map_option canon_obj d)"
  by (cases d) (simp_all add: rs_opt_dict_def opt_obj_json_def canon_JObj del: canon.simps(7))

lemma rs_terminal_json [simp]:
  "rs_terminal_status (Some (opt_str_json (map_option run_status_value s))) = Inr s"
  by (cases s) (simp_all add: rs_terminal_status_def opt_str_json_def)

lemma rs_durable_json [simp]: "rs_durable_state (Some (JStr (durable_value d))) = Inr d"
  by (simp add: rs_durable_state_def)

lemma dict_list_JObj [simp]: "dict_list (map JObj ds) = Inr ds"
  by (induction ds) (simp_all add: dict_list_def)

lemma canon_map_JObj: "map canon (map JObj ds) = map JObj (map canon_obj ds)"
  by (simp add: canon_JObj del: canon.simps(7))

lemma rs_lists_json [simp]:
  "rs_lists (Some (JList (map JObj ms))) (Some (JList (map JObj es))) = Inr (ms, es)"
  by (simp add: rs_lists_def del: list.map_comp map_map)

lemma finite_number_json [simp]: "is_finite f \<Longrightarrow> finite_number (Some (JFloat f)) = Inr f"
  by (cases f) (simp_all add: finite_number_def is_finite_def)

lemma validate_canon [simp]: "validate_state_fields (canon_record r) = validate_state_fields r"
  by (simp add: validate_state_fields_def canon_record_def)

lemma validate_state_fields_Inr [res_simps]:
  "validate_state_fields r = Inr u \<longleftrightarrow>
     (if terminal_durable (sr_durable_state r) then sr_terminal_status r \<noteq> None
      else sr_terminal_status r = None \<and>
        (pending_tool_state (sr_durable_state r) \<longrightarrow>
           sr_pending_request_id r \<noteq> None \<and> sr_pending_idempotency_key r \<noteq> None \<and>
           sr_pending_action r \<noteq> None \<and> sr_pending_tool_call_id r \<noteq> None \<and>
           sr_pending_tool_name r \<noteq> None) \<and>
        (sr_durable_state r = DS_TOOL_COMPLETED \<longrightarrow> sr_pending_execution_status r \<noteq> None))"
  by (auto simp: validate_state_fields_def res_simps)

lemma dumpable_JObj: "dumpable (JObj d) \<longleftrightarrow> (\<forall>kv\<in>set d. dumpable (snd kv))"
  by (auto simp: list_all_iff)

lemma dumpable_canon [simp]: "dumpable (canon j) = dumpable j"
proof (induction j)
  case (JObj d)
  then have IH: "dumpable (canon (snd kv)) = dumpable (snd kv)" if "kv \<in> set d" for kv
    using that by (metis snds.intros)
  show ?case
    unfolding canon_JObj dumpable_JObj set_canon_obj by (auto simp: IH)
qed (auto simp: list_all_iff)

text \<open>Only the documents of a record decide whether it can be written.\<close>

lemma dumpable_opt_str [simp]: "dumpable (opt_str_json s)"
  by (cases s) (simp_all add: opt_str_json_def)

lemma dumpable_payload:
  "dumpable (JObj (record_payload r)) \<longleftrightarrow>
     dumpable (JObj (sr_run_metadata r)) \<and> (\<forall>m\<in>set (sr_messages r). dumpable (JObj m)) \<and>
     (\<forall>e\<in>set (sr_events r). dumpable (JObj e)) \<and> dumpable (opt_obj_json (sr_pending_action r)) \<and>
     dumpable (sr_pending_execution_output r) \<and> dumpable (opt_obj_json (sr_terminal_metadata r))"
  by (simp add: record_payload_def list_all_iff)

text \<open>Every field of the payload after a trip through canonical JSON.\<close>

lemma payload_keys: "distinct (map fst (record_payload r))"
  by (simp add: record_payload_def)

lemmas payload_get = jget_canon [OF payload_keys]

lemma payload_scalars:
  "jget (canon_obj (record_payload r)) ''schema_version'' = Some (JInt (sr_schema_version r))"
  "jget (canon_obj (record_payload r)) ''version'' = Some (JInt (sr_version r))"
  "jget (canon_obj (record_payload r)) ''run_id'' = Some (JStr (sr_run_id r))"
  "jget (canon_obj (record_payload r)) ''durable_state'' = Some (JStr (durable_value (sr_durable_state r)))"
  "jget (canon_obj (record_payload r)) ''profile_fingerprint'' = Some (JStr (sr_profile_fingerprint r))"
  "jget (canon_obj (record_payload r)) ''task'' = Some (JStr (sr_task r))"
  "jget (canon_obj (record_payload r)) ''started_at_utc'' = Some (JFloat (sr_started_at_utc r))"
  "jget (canon_obj (record_payload r)) ''expires_at_utc'' = Some (JFloat (sr_expires_at_utc r))"
  "jget (canon_obj (record_payload r)) ''next_step'' = Some (JInt (sr_next_step r))"
  "jget (canon_obj (record_payload r)) ''tool_calls'' = Some (JInt (sr_tool_calls r))"
  "jget (canon_obj (record_payload r)) ''model_turns'' = Some (JInt (sr_model_turns r))"
  unfolding payload_get by (simp_all add: record_payload_def)

lemma payload_texts:
  "jget (canon_obj (record_payload r)) ''pending_request_id'' = Some (opt_str_json (sr_pending_request_id r))"
  "jget (canon_obj (record_payload r)) ''pending_idempotency_key'' = Some (opt_str_json (sr_pending_idempotency_key r))"
  "jget (canon_obj (record_payload r)) ''pending_tool_call_id'' = Some (opt_str_json (sr_pending_tool_call_id r))"
  "jget (canon_obj (record_payload r)) ''pending_tool_name'' = Some (opt_str_json (sr_pending_tool_name r))"
  "jget (canon_obj (record_payload r)) ''pending_execution_status'' = Some (opt_str_json (sr_pending_execution_status r))"
  "jget (canon_obj (record_payload r)) ''pending_execution_reason'' = Some (opt_str_json (sr_pending_execution_reason r))"
  "jget (canon_obj (record_payload r)) ''final_text'' = Some (opt_str_json (sr_final_text r))"
  "jget (canon_obj (record_payload r)) ''terminal_status'' =
     Some (opt_str_json (map_option run_status_value (sr_terminal_status r)))"
  unfolding payload_get by (simp_all add: record_payload_def)

lemma payload_documents:
  "jget (canon_obj (record_payload r)) ''run_metadata'' = Some (JObj (canon_obj (sr_run_metadata r)))"
  "jget (canon_obj (record_payload r)) ''messages'' = Some (JList (map JObj (map canon_obj (sr_messages r))))"
  "jget (canon_obj (record_payload r)) ''events'' = Some (JList (map JObj (map canon_obj (sr_events r))))"
  "jget (canon_obj (record_payload r)) ''pending_action'' = Some (canon (opt_obj_json (sr_pending_action r)))"
  "jget (canon_obj (record_payload r)) ''terminal_metadata'' = Some (canon (opt_obj_json (sr_terminal_metadata r)))"
  "jget (canon_obj (record_payload r)) ''pending_execution_output'' = Some (canon (sr_pending_execution_output r))"
  unfolding payload_get by (simp_all add: record_payload_def canon_JObj del: canon.simps(7))

lemma canon_record_fields:
  assumes "sr_schema_version r = store_schema_version"
  shows "\<lparr>sr_schema_version = store_schema_version, sr_version = sr_version r, sr_run_id = sr_run_id r,
     sr_durable_state = sr_durable_state r, sr_profile_fingerprint = sr_profile_fingerprint r,
     sr_task = sr_task r, sr_run_metadata = canon_obj (sr_run_metadata r),
     sr_started_at_utc = sr_started_at_utc r, sr_expires_at_utc = sr_expires_at_utc r,
     sr_next_step = sr_next_step r, sr_tool_calls = sr_tool_calls r, sr_model_turns = sr_model_turns r,
     sr_messages = map canon_obj (sr_messages r), sr_events = map canon_obj (sr_events r),
     sr_pending_request_id = sr_pending_request_id r,
     sr_pending_idempotency_key = sr_pending_idempotency_key r,
     sr_pending_action = map_option canon_obj (sr_pending_action r),
     sr_pending_tool_call_id = sr_pending_tool_call_id r, sr_pending_tool_name = sr_pending_tool_name r,
     sr_pending_execution_status = sr_pending_execution_status r,
     sr_pending_execution_output = canon (sr_pending_execution_output r),
     sr_pending_execution_reason = sr_pending_execution_reason r,
     sr_terminal_status = sr_terminal_status r, sr_final_text = sr_final_text r,
     sr_terminal_metadata = map_option canon_obj (sr_terminal_metadata r)\<rparr> = canon_record r"
  using assms by (cases r) (simp add: canon_record_def)

lemma from_mapping_payload:
  assumes "storable r"
  shows "from_mapping (canon_obj (record_payload r)) = Inr (canon_record r)"
proof -
  have s: "json_eq (JInt (sr_schema_version r)) (JInt store_schema_version)"
    using assms by (simp add: storable_def scalar_eq_def)
  have o: "opt_nonblank (sr_pending_request_id r)" "opt_nonblank (sr_pending_idempotency_key r)"
    "opt_nonblank (sr_pending_tool_call_id r)" "opt_nonblank (sr_pending_tool_name r)"
    "opt_nonblank (sr_pending_execution_status r)" "opt_nonblank (sr_pending_execution_reason r)"
    "opt_nonblank (sr_final_text r)" "is_finite (sr_started_at_utc r)" "is_finite (sr_expires_at_utc r)"
    using assms by (simp_all add: storable_def)
  have n: "non_negative_int 0 (Some (JInt (sr_version r))) = Inr (sr_version r)"
    "non_negative_int 1 (Some (JInt (sr_next_step r))) = Inr (sr_next_step r)"
    "non_negative_int 0 (Some (JInt (sr_tool_calls r))) = Inr (sr_tool_calls r)"
    "non_negative_int 0 (Some (JInt (sr_model_turns r))) = Inr (sr_model_turns r)"
    "rs_text (Some (JStr (sr_run_id r))) = Inr (sr_run_id r)"
    "rs_text (Some (JStr (sr_profile_fingerprint r))) = Inr (sr_profile_fingerprint r)"
    "rs_text (Some (JStr (sr_task r))) = Inr (sr_task r)"
    "rs_dict (Some (JObj d)) = Inr d" for d
    using assms by (simp_all add: storable_def non_negative_int_def rs_text_def rs_dict_def)
  have v: "validate_state_fields r = Inr ()" "sr_schema_version r = store_schema_version"
    using assms by (simp_all add: storable_def)
  show ?thesis
    unfolding from_mapping_def payload_scalars payload_texts payload_documents option.case
    by (simp add: s o n Let_def canon_record_fields [OF v(2)] v(1) del: json_eq.simps map_map list.map_comp)
qed

text \<open>C26: a run record that satisfies the store's own rules (\<open>storable\<close>) and holds JSON documents only
is written by \<^verbatim>\<open>to_json\<close> without an error, and \<^verbatim>\<open>from_json\<close> on that text returns the same record, with
the keys of its documents in sorted order.\<close>

theorem record_json_roundtrip:
  assumes "storable r" and "dumpable (JObj (record_payload r))"
  shows "\<exists>raw. to_json r = Inr raw \<and> from_json raw = Inr (canon_record r)"
  using assms by (simp add: to_json_def from_json_def from_mapping_payload canon_JObj del: canon.simps(7) dumpable.simps)

section \<open>Events and results\<close>

datatype RunEventKind =
    RUN_STARTED | MODEL_TURN | MODEL_RESPONSE | TOOL_REQUESTED | TOOL_COMPLETED
  | TOOL_REJECTED | RUN_COMPLETED | RUN_FAILED

fun event_kind_value :: "RunEventKind \<Rightarrow> string" where
  "event_kind_value RUN_STARTED = ''run_started''"
| "event_kind_value MODEL_TURN = ''model_turn''"
| "event_kind_value MODEL_RESPONSE = ''model_response''"
| "event_kind_value TOOL_REQUESTED = ''tool_requested''"
| "event_kind_value TOOL_COMPLETED = ''tool_completed''"
| "event_kind_value TOOL_REJECTED = ''tool_rejected''"
| "event_kind_value RUN_COMPLETED = ''run_completed''"
| "event_kind_value RUN_FAILED = ''run_failed''"

definition all_event_kinds :: "RunEventKind list" where
  "all_event_kinds = [RUN_STARTED, MODEL_TURN, MODEL_RESPONSE, TOOL_REQUESTED, TOOL_COMPLETED,
     TOOL_REJECTED, RUN_COMPLETED, RUN_FAILED]"

definition event_kind_of_text :: "string \<Rightarrow> RunEventKind option" where
  "event_kind_of_text s = find (\<lambda>d. event_kind_value d = s) all_event_kinds"

record RunEvent =
  re_kind :: RunEventKind
  re_step :: int
  re_timestamp :: pyfloat
  re_detail :: jobj

record RunResult =
  rr_run_id :: string
  rr_status :: RunStatus
  rr_final_text :: "string option"
  rr_tool_calls :: int
  rr_model_turns :: int
  rr_events :: "RunEvent list"
  rr_metadata :: jobj

definition request_ids :: "RunResult \<Rightarrow> string list" where
  "request_ids r = List.map_filter (\<lambda>e. case jget (re_detail e) ''request_id'' of
       Some (JStr s) \<Rightarrow> if s \<noteq> [] then Some s else None
     | _ \<Rightarrow> None) (rr_events r)"

definition serialize_event :: "RunEvent \<Rightarrow> jobj" where
  "serialize_event e =
     [(''kind'', JStr (event_kind_value (re_kind e))), (''step'', JInt (re_step e)),
      (''timestamp'', JFloat (re_timestamp e)), (''detail'', JObj (re_detail e))]"

definition deserialize_event :: "jobj \<Rightarrow> RunEvent res" where
  "deserialize_event p =
     rbind (case jget p ''kind'' of Some (JStr s) \<Rightarrow> Inr s | _ \<Rightarrow> Inl RunStoreError) (\<lambda>kind.
     rbind (non_negative_int 0 (jget p ''step'')) (\<lambda>step.
     rbind (finite_number (jget p ''timestamp'')) (\<lambda>timestamp.
     rbind (rs_dict (jget p ''detail'')) (\<lambda>detail.
     rbind (of_option RunStoreError (event_kind_of_text kind)) (\<lambda>event_kind.
     Inr \<lparr>re_kind = event_kind, re_step = step, re_timestamp = timestamp, re_detail = detail\<rparr>)))))"

definition record_to_run_result :: "StoredRunRecord \<Rightarrow> RunResult res" where
  "record_to_run_result r =
     rbind (of_option RunStoreError (sr_terminal_status r)) (\<lambda>status.
     rbind (rmapM deserialize_event (sr_events r)) (\<lambda>events.
     Inr \<lparr>rr_run_id = sr_run_id r, rr_status = status, rr_final_text = sr_final_text r,
          rr_tool_calls = sr_tool_calls r, rr_model_turns = sr_model_turns r, rr_events = events,
          rr_metadata = (case sr_terminal_metadata r of
             Some m \<Rightarrow> if m = [] then sr_run_metadata r else m
           | None \<Rightarrow> sr_run_metadata r)\<rparr>))"

definition in_flight_reason :: string where
  "in_flight_reason = ''tool execution is in flight or its outcome is unknown''"

definition in_flight_run_result :: "StoredRunRecord \<Rightarrow> string \<Rightarrow> RunResult res" where
  "in_flight_run_result r reason =
     rbind (rmapM deserialize_event (sr_events r)) (\<lambda>events.
     Inr \<lparr>rr_run_id = sr_run_id r, rr_status = RS_EXECUTION_IN_FLIGHT, rr_final_text = None,
          rr_tool_calls = sr_tool_calls r, rr_model_turns = sr_model_turns r, rr_events = events,
          rr_metadata = jset ''reason'' (JStr reason) (sr_run_metadata r)\<rparr>)"

definition observe_loaded_run :: "StoredRunRecord \<Rightarrow> RunResult res" where
  "observe_loaded_run r =
     (if terminal_durable (sr_durable_state r) then record_to_run_result r
      else if sr_durable_state r = DS_TOOL_IN_FLIGHT then in_flight_run_result r in_flight_reason
      else Inl RunStoreError)"

lemma event_kind_of_value [simp]: "event_kind_of_text (event_kind_value d) = Some d"
  by (cases d) (simp_all add: event_kind_of_text_def all_event_kinds_def)

text \<open>An event survives the store: its fields, with the keys of its detail sorted.\<close>

lemma event_roundtrip:
  assumes "0 \<le> re_step e" and "is_finite (re_timestamp e)"
  shows "deserialize_event (canon_obj (serialize_event e)) = Inr (e\<lparr>re_detail := canon_obj (re_detail e)\<rparr>)"
proof -
  have k: "distinct (map fst (serialize_event e))" by (simp add: serialize_event_def)
  show ?thesis
    unfolding deserialize_event_def jget_canon [OF k]
    using assms
    by (cases e) (simp add: serialize_event_def non_negative_int_def rs_dict_def canon_JObj
        del: canon.simps(7))
qed

lemma events_roundtrip:
  assumes "\<forall>e\<in>set es. 0 \<le> re_step e \<and> is_finite (re_timestamp e)"
  shows "rmapM deserialize_event (map canon_obj (map serialize_event es)) =
           Inr (map (\<lambda>e. e\<lparr>re_detail := canon_obj (re_detail e)\<rparr>) es)"
  using assms by (induction es) (simp_all add: event_roundtrip)

lemma record_to_run_result_Inr:
  "record_to_run_result r = Inr x \<Longrightarrow>
     sr_terminal_status r = Some (rr_status x) \<and> rr_run_id x = sr_run_id r \<and> rr_final_text x = sr_final_text r"
  by (auto simp: record_to_run_result_def res_simps)

lemma in_flight_run_result_Inr:
  "in_flight_run_result r m = Inr x \<Longrightarrow> rr_status x = RS_EXECUTION_IN_FLIGHT \<and> rr_run_id x = sr_run_id r \<and> rr_final_text x = None"
  by (auto simp: in_flight_run_result_def res_simps)

end
