(* ===== verification/Run_Store.thy ===== *)
theory Run_Store
  imports Durable_Record Consumption
begin

text \<open>
  \<^verbatim>\<open>cbrain/agent/store_memory.py\<close> and \<^verbatim>\<open>cbrain/agent/store_sqlite.py\<close>: the two implementations of the
  \<^verbatim>\<open>RunStore\<close> protocol, with optimistic versions and the claim that moves a run from
  \<open>TOOL_PREPARED\<close> to \<open>TOOL_IN_FLIGHT\<close>.

  The memory store is a map of records; its lock makes each operation atomic. The SQLite store is a
  map of rows; its column \<open>record_json\<close> is what \<^verbatim>\<open>json.loads\<close> makes of it (\<open>NotBytes\<close>: the column
  holds no text). An operation takes a \<open>sqlite_fault\<close>: the database may refuse the first statement of
  the call, or the commit. Integers bound to a statement must fit 64 bits.

  The locale \<open>versioned_store\<close> is the contract of the protocol: an operation that succeeds at version
  \<open>v\<close> leaves the run at \<open>v + 1\<close>, and nothing else moves a version. It gives \<open>single_use_claim\<close>.
\<close>

section \<open>Operations and their answers\<close>

datatype run_op =
    OpCreate StoredRunRecord
  | OpLoad string
  | OpSave StoredRunRecord int
  | OpClaim string int

datatype run_out =
    OutUnit "unit res"
  | OutRecord "StoredRunRecord res"
  | OutClaim "StoredRunRecord option res"

text \<open>The version of a run that an operation asks to advance, and whether it was told that it did.\<close>

fun claim_target :: "run_op \<Rightarrow> (string \<times> int) option" where
  "claim_target (OpSave r v) = Some (sr_run_id r, v)"
| "claim_target (OpClaim k v) = Some (k, v)"
| "claim_target _ = None"

fun advanced :: "run_out \<Rightarrow> bool" where
  "advanced (OutRecord (Inr _)) = True"
| "advanced (OutClaim (Inr (Some _))) = True"
| "advanced _ = False"

section \<open>The memory store\<close>

type_synonym memory_store = "string \<rightharpoonup> StoredRunRecord"

definition mem_create :: "StoredRunRecord \<Rightarrow> memory_store \<Rightarrow> unit res \<times> memory_store" where
  "mem_create record s =
     (if s (sr_run_id record) \<noteq> None then (Inl RunStoreError, s)
      else (Inr (), s(sr_run_id record \<mapsto> record)))"

definition mem_load :: "string \<Rightarrow> memory_store \<Rightarrow> StoredRunRecord res" where
  "mem_load run_id s = of_option RunStoreError (s run_id)"

definition mem_save :: "StoredRunRecord \<Rightarrow> int \<Rightarrow> memory_store \<Rightarrow> StoredRunRecord res \<times> memory_store" where
  "mem_save record expected s = (case s (sr_run_id record) of
       None \<Rightarrow> (Inl RunStoreError, s)
     | Some current \<Rightarrow>
         if sr_version current \<noteq> expected then (Inl RunStoreError, s)
         else let updated = record\<lparr>sr_version := expected + 1\<rparr> in
           (Inr updated, s(sr_run_id record \<mapsto> updated)))"

definition mem_claim_tool_dispatch ::
  "string \<Rightarrow> int \<Rightarrow> memory_store \<Rightarrow> StoredRunRecord option res \<times> memory_store" where
  "mem_claim_tool_dispatch run_id expected s = (case s run_id of
       None \<Rightarrow> (Inl RunStoreError, s)
     | Some current \<Rightarrow>
         if sr_version current \<noteq> expected \<or> sr_durable_state current \<noteq> DS_TOOL_PREPARED
         then (Inr None, s)
         else let updated = current\<lparr>sr_version := expected + 1, sr_durable_state := DS_TOOL_IN_FLIGHT\<rparr> in
           (Inr (Some updated), s(run_id \<mapsto> updated)))"

fun mem_step :: "run_op \<Rightarrow> memory_store \<Rightarrow> run_out \<times> memory_store" where
  "mem_step (OpCreate r) s = map_prod OutUnit id (mem_create r s)"
| "mem_step (OpLoad k) s = (OutRecord (mem_load k s), s)"
| "mem_step (OpSave r v) s = map_prod OutRecord id (mem_save r v s)"
| "mem_step (OpClaim k v) s = map_prod OutClaim id (mem_claim_tool_dispatch k v s)"

definition mem_version :: "string \<Rightarrow> memory_store \<Rightarrow> int option" where
  "mem_version k s = map_option sr_version (s k)"

section \<open>The SQLite store\<close>

record run_row =
  rw_schema_version :: int
  rw_version :: int
  rw_durable_state :: string
  rw_record_json :: stored

type_synonym run_table = "string \<rightharpoonup> run_row"

datatype sqlite_fault = SqlOk | SqlRefused | SqlCommitFails

text \<open>Binding a Python int to a statement.\<close>

definition bind_int :: "int \<Rightarrow> int res" where
  "bind_int i = (if - (2 ^ 63) \<le> i \<and> i < 2 ^ 63 then Inr i else Inl (External ''OverflowError''))"

text \<open>The parameters that a record supplies to INSERT and UPDATE; \<^verbatim>\<open>to_json\<close> runs before binding.\<close>

definition bind_row :: "StoredRunRecord \<Rightarrow> run_row res" where
  "bind_row r =
     rbind (to_json r) (\<lambda>raw.
     rbind (bind_int (sr_schema_version r)) (\<lambda>sv.
     rbind (bind_int (sr_version r)) (\<lambda>v.
     Inr \<lparr>rw_schema_version = sv, rw_version = v,
          rw_durable_state = durable_value (sr_durable_state r), rw_record_json = raw\<rparr>)))"

definition sqlite_create :: "sqlite_fault \<Rightarrow> StoredRunRecord \<Rightarrow> run_table \<Rightarrow> unit res \<times> run_table" where
  "sqlite_create fault record s = (case bind_row record of
       Inl e \<Rightarrow> (Inl e, s)
     | Inr row \<Rightarrow>
         if fault \<noteq> SqlOk then (Inl OperationalError, s)
         else if s (sr_run_id record) \<noteq> None then (Inl RunStoreError, s)
         else (Inr (), s(sr_run_id record \<mapsto> row)))"

definition read_row :: "run_row \<Rightarrow> StoredRunRecord res" where
  "read_row row =
     rbind (from_json (rw_record_json row)) (\<lambda>record.
     rbind (validate_record_columns record (rw_schema_version row) (rw_version row)
       (rw_durable_state row)) (\<lambda>_. Inr record))"

definition sqlite_load :: "sqlite_fault \<Rightarrow> string \<Rightarrow> run_table \<Rightarrow> StoredRunRecord res" where
  "sqlite_load fault run_id s =
     (if fault = SqlRefused then Inl OperationalError
      else case s run_id of
        None \<Rightarrow> Inl RunStoreError
      | Some row \<Rightarrow> if rw_record_json row = NotBytes then Inl RunStoreError else read_row row)"

text \<open>The conditional UPDATE of both writers: the number of rows it changed, and the table.\<close>

definition update_sql :: "string \<Rightarrow> int \<Rightarrow> run_row \<Rightarrow> run_table \<Rightarrow> nat \<times> run_table" where
  "update_sql run_id expected row s = (case s run_id of
       Some old \<Rightarrow> if rw_version old = expected then (1, s(run_id \<mapsto> row)) else (0, s)
     | None \<Rightarrow> (0, s))"

definition sqlite_save ::
  "sqlite_fault \<Rightarrow> StoredRunRecord \<Rightarrow> int \<Rightarrow> run_table \<Rightarrow> StoredRunRecord res \<times> run_table" where
  "sqlite_save fault record expected s =
     (let updated = record\<lparr>sr_version := expected + 1\<rparr> in
      case rbind (bind_row updated) (\<lambda>row. rbind (bind_int expected) (\<lambda>_. Inr row)) of
        Inl e \<Rightarrow> (Inl e, s)
      | Inr row \<Rightarrow>
          if fault \<noteq> SqlOk then (Inl OperationalError, s)
          else (case update_sql (sr_run_id updated) expected row s of
            (n, s') \<Rightarrow> if n \<noteq> 1 then (Inl RunStoreError, s') else (Inr updated, s')))"

text \<open>
  \<^verbatim>\<open>claim_tool_dispatch\<close>. Whatever raises inside the transaction is rolled back and raised again. The
  branch for a column that holds no text rolls back before it raises, so that the ROLLBACK of the
  handler finds no transaction and its own \<^verbatim>\<open>OperationalError\<close> is what the caller sees.
\<close>

definition sqlite_claim_tool_dispatch ::
  "sqlite_fault \<Rightarrow> string \<Rightarrow> int \<Rightarrow> run_table \<Rightarrow> StoredRunRecord option res \<times> run_table" where
  "sqlite_claim_tool_dispatch fault run_id expected s =
     (if fault = SqlRefused then (Inl OperationalError, s)
      else case s run_id of
        None \<Rightarrow> (Inl RunStoreError, s)
      | Some row \<Rightarrow>
          if rw_version row \<noteq> expected \<or> rw_durable_state row \<noteq> durable_value DS_TOOL_PREPARED
          then (Inr None, s)
          else if rw_record_json row = NotBytes then (Inl OperationalError, s)
          else (case read_row row of
            Inl e \<Rightarrow> (Inl e, s)
          | Inr record \<Rightarrow>
              (let updated = record\<lparr>sr_version := expected + 1, sr_durable_state := DS_TOOL_IN_FLIGHT\<rparr> in
               case rbind (bind_row updated) (\<lambda>row. rbind (bind_int expected) (\<lambda>_. Inr row)) of
                 Inl e \<Rightarrow> (Inl e, s)
               | Inr row' \<Rightarrow> (case update_sql run_id expected row' s of
                   (n, s') \<Rightarrow>
                     if n \<noteq> 1 then (Inr None, s)
                     else if fault = SqlCommitFails then (Inl OperationalError, s)
                     else (Inr (Some updated), s')))))"

fun sqlite_step :: "sqlite_fault \<Rightarrow> run_op \<Rightarrow> run_table \<Rightarrow> run_out \<times> run_table" where
  "sqlite_step f (OpCreate r) s = map_prod OutUnit id (sqlite_create f r s)"
| "sqlite_step f (OpLoad k) s = (OutRecord (sqlite_load f k s), s)"
| "sqlite_step f (OpSave r v) s = map_prod OutRecord id (sqlite_save f r v s)"
| "sqlite_step f (OpClaim k v) s = map_prod OutClaim id (sqlite_claim_tool_dispatch f k v s)"

definition row_version :: "string \<Rightarrow> run_table \<Rightarrow> int option" where
  "row_version k s = map_option rw_version (s k)"

section \<open>The contract of a versioned store\<close>

text \<open>An operation seen as a claim on the version it names.\<close>

definition advance_claim :: "('f \<Rightarrow> run_op \<Rightarrow> 's \<Rightarrow> run_out \<times> 's) \<Rightarrow> 'f \<Rightarrow> run_op \<Rightarrow> 's \<Rightarrow> bool res \<times> 's" where
  "advance_claim step f u s = (case step f u s of
     (out, s') \<Rightarrow> (Inr (claim_target u \<noteq> None \<and> advanced out), s'))"

definition version_passed :: "(string \<Rightarrow> 's \<Rightarrow> int option) \<Rightarrow> run_op \<Rightarrow> 's \<Rightarrow> bool" where
  "version_passed version_of u s = (case claim_target u of
       None \<Rightarrow> False
     | Some (k, v) \<Rightarrow> (case version_of k s of None \<Rightarrow> False | Some w \<Rightarrow> v < w))"

definition same_target :: "run_op \<Rightarrow> run_op \<Rightarrow> bool" where
  "same_target a b = (claim_target a = claim_target b \<and> claim_target a \<noteq> None)"

locale versioned_store =
  fixes step :: "'f \<Rightarrow> run_op \<Rightarrow> 's \<Rightarrow> run_out \<times> 's"
    and version_of :: "string \<Rightarrow> 's \<Rightarrow> int option"
  assumes advances: "step f u s = (out, s') \<Longrightarrow> claim_target u = Some (k, v) \<Longrightarrow> advanced out \<Longrightarrow>
      version_of k s = Some v \<and> version_of k s' = Some (v + 1)"
    and keeps: "step f u s = (out, s') \<Longrightarrow> version_of k s = Some w \<Longrightarrow>
      version_of k s' = Some w \<or> version_of k s' = Some (w + 1) \<and> claim_target u = Some (k, w) \<and> advanced out"
begin

lemma versions_grow:
  assumes "step f u s = (out, s')" and "version_of k s = Some w"
  shows "\<exists>w'. version_of k s' = Some w' \<and> w \<le> w'"
  using keeps [OF assms] by auto

end

sublocale versioned_store \<subseteq> single_use_claim "advance_claim step" "version_passed version_of" same_target "\<lambda>_. True"
proof unfold_locales
  fix f u v s s' r
  show "\<not> version_passed version_of u s" if "advance_claim step f u s = (Inr True, s')"
    using that by (auto simp: advance_claim_def version_passed_def dest: advances split: prod.splits)
  show "version_passed version_of v s'" if "advance_claim step f u s = (Inr True, s')" "same_target v u"
    using that by (auto simp: advance_claim_def version_passed_def same_target_def dest: advances split: prod.splits)
  show "version_passed version_of v s'" if c: "advance_claim step f u s = (r, s')" "version_passed version_of v s"
  proof -
    obtain out where o: "step f u s = (out, s')" using c(1) by (auto simp: advance_claim_def split: prod.splits)
    obtain k n w where w: "claim_target v = Some (k, n)" "version_of k s = Some w" "n < w"
      using c(2) by (auto simp: version_passed_def split: option.splits)
    from versions_grow [OF o w(2)] w show ?thesis by (auto simp: version_passed_def)
  qed
qed simp

section \<open>Both stores keep the contract\<close>

lemma mem_save_Inr:
  "mem_save r v s = (Inr r', s') \<Longrightarrow>
     mem_version (sr_run_id r) s = Some v \<and> r' = r\<lparr>sr_version := v + 1\<rparr> \<and> s' = s(sr_run_id r \<mapsto> r')"
  by (auto simp: mem_save_def mem_version_def Let_def split: option.splits if_splits)

lemma mem_claim_Inr:
  "mem_claim_tool_dispatch k v s = (Inr (Some r'), s') \<Longrightarrow>
     \<exists>r. s k = Some r \<and> sr_version r = v \<and> sr_durable_state r = DS_TOOL_PREPARED \<and>
       r' = r\<lparr>sr_version := v + 1, sr_durable_state := DS_TOOL_IN_FLIGHT\<rparr> \<and> s' = s(k \<mapsto> r')"
  by (auto simp: mem_claim_tool_dispatch_def Let_def split: option.splits if_splits)

lemma mem_step_other:
  "mem_step u s = (out, s') \<Longrightarrow> \<not> (claim_target u \<noteq> None \<and> advanced out) \<Longrightarrow>
     s' = s \<or> (\<exists>r. u = OpCreate r \<and> s (sr_run_id r) = None \<and> s' = s(sr_run_id r \<mapsto> r))"
  by (cases u) (auto simp: mem_create_def mem_save_def mem_claim_tool_dispatch_def Let_def split: option.splits if_splits)

lemma mem_step_advanced:
  assumes "mem_step u s = (out, s')" and "claim_target u = Some (k, v)" and "advanced out"
  shows "mem_version k s = Some v \<and> (\<exists>r'. sr_version r' = v + 1 \<and> s' = s(k \<mapsto> r'))"
proof (cases u)
  case (OpSave r w)
  with assms obtain r' where "mem_save r v s = (Inr r', s')" "sr_run_id r = k"
    by (auto simp: map_prod_def split: prod.splits elim!: advanced.elims)
  from mem_save_Inr [OF this(1)] this(2) show ?thesis by (intro conjI exI [of _ r']) auto
next
  case (OpClaim j w)
  with assms obtain r' where "mem_claim_tool_dispatch k v s = (Inr (Some r'), s')"
    by (auto simp: map_prod_def split: prod.splits elim!: advanced.elims)
  from mem_claim_Inr [OF this] show ?thesis by (intro conjI exI [of _ r']) (auto simp: mem_version_def)
qed (use assms in simp_all)

interpretation mem: versioned_store "\<lambda>_ :: unit. mem_step" mem_version
proof unfold_locales
  fix u s out s' k v w
  assume st: "mem_step u s = (out, s')"
  show "mem_version k s = Some v \<and> mem_version k s' = Some (v + 1)"
    if "claim_target u = Some (k, v)" "advanced out"
    using mem_step_advanced [OF st that] by (auto simp: mem_version_def)
  show "mem_version k s' = Some w \<or> mem_version k s' = Some (w + 1) \<and> claim_target u = Some (k, w) \<and> advanced out"
    if w: "mem_version k s = Some w"
  proof (cases "claim_target u \<noteq> None \<and> advanced out")
    case True
    then obtain j v where j: "claim_target u = Some (j, v)" by auto
    from mem_step_advanced [OF st j] True w j show ?thesis by (cases "k = j") (auto simp: mem_version_def)
  next
    case False
    from mem_step_other [OF st False] w show ?thesis by (auto simp: mem_version_def split: if_splits)
  qed
qed

lemma bind_row_Inr:
  "bind_row r = Inr row \<Longrightarrow> rw_version row = sr_version r \<and> rw_schema_version row = sr_schema_version r \<and>
     rw_durable_state row = durable_value (sr_durable_state r)"
  by (auto simp: bind_row_def bind_int_def res_simps split: if_splits)

lemma update_sql_1:
  "update_sql k v row s = (Suc 0, s') \<Longrightarrow> row_version k s = Some v \<and> s' = s(k \<mapsto> row)"
  by (auto simp: update_sql_def row_version_def split: option.splits if_splits)

lemma update_sql_0: "update_sql k v row s = (n, s') \<Longrightarrow> n \<noteq> 1 \<Longrightarrow> s' = s"
  by (auto simp: update_sql_def split: option.splits if_splits)

lemma sqlite_save_cases:
  assumes "sqlite_save f r v s = (x, s')"
  shows "(\<exists>e. x = Inl e) \<and> s' = s \<or>
    (\<exists>row. x = Inr (r\<lparr>sr_version := v + 1\<rparr>) \<and> bind_row (r\<lparr>sr_version := v + 1\<rparr>) = Inr row \<and>
       row_version (sr_run_id r) s = Some v \<and> s' = s(sr_run_id r \<mapsto> row))"
  using assms
  by (auto simp: sqlite_save_def Let_def res_simps split: sum.splits if_splits prod.splits
      dest: update_sql_1 update_sql_0)

lemma sqlite_claim_cases:
  assumes "sqlite_claim_tool_dispatch f k v s = (x, s')"
  shows "x \<noteq> Inr None \<and> (\<exists>e. x = Inl e) \<and> s' = s \<or> x = Inr None \<and> s' = s \<or>
    (\<exists>old record row. let updated = record\<lparr>sr_version := v + 1, sr_durable_state := DS_TOOL_IN_FLIGHT\<rparr> in
       x = Inr (Some updated) \<and> s k = Some old \<and> rw_version old = v \<and>
       rw_durable_state old = durable_value DS_TOOL_PREPARED \<and> read_row old = Inr record \<and>
       bind_row updated = Inr row \<and> s' = s(k \<mapsto> row))"
  using assms
  by (auto simp: sqlite_claim_tool_dispatch_def Let_def res_simps split: option.splits sum.splits if_splits prod.splits
      dest: update_sql_1 update_sql_0)

lemma sqlite_step_other:
  assumes "sqlite_step f u s = (out, s')" and "\<not> (claim_target u \<noteq> None \<and> advanced out)"
  shows "s' = s \<or> (\<exists>r row. u = OpCreate r \<and> s (sr_run_id r) = None \<and> s' = s(sr_run_id r \<mapsto> row))"
proof (cases u)
  case (OpCreate r)
  with assms show ?thesis by (auto simp: sqlite_create_def split: sum.splits if_splits)
next
  case (OpSave r v)
  with assms sqlite_save_cases [of f r v s] show ?thesis by (cases "sqlite_save f r v s") fastforce
next
  case (OpClaim k v)
  with assms sqlite_claim_cases [of f k v s] show ?thesis
    by (cases "sqlite_claim_tool_dispatch f k v s") (fastforce simp: Let_def)
qed (use assms in simp)

lemma sqlite_step_advanced:
  assumes "sqlite_step f u s = (out, s')" and "claim_target u = Some (k, v)" and "advanced out"
  shows "row_version k s = Some v \<and> (\<exists>row. rw_version row = v + 1 \<and> s' = s(k \<mapsto> row))"
proof (cases u)
  case (OpSave r w)
  with assms obtain r' where "sqlite_save f r v s = (Inr r', s')" "sr_run_id r = k"
    by (auto simp: map_prod_def split: prod.splits elim!: advanced.elims)
  with sqlite_save_cases [of f r v s] show ?thesis by (auto dest!: bind_row_Inr)
next
  case (OpClaim j w)
  with assms obtain r' where "sqlite_claim_tool_dispatch f k v s = (Inr (Some r'), s')"
    by (auto simp: map_prod_def split: prod.splits elim!: advanced.elims)
  from sqlite_claim_cases [OF this] show ?thesis
    by (auto simp: Let_def row_version_def dest!: bind_row_Inr)
qed (use assms in simp_all)

interpretation sqlite: versioned_store sqlite_step row_version
proof unfold_locales
  fix f u s out s' k v w
  assume st: "sqlite_step f u s = (out, s')"
  show "row_version k s = Some v \<and> row_version k s' = Some (v + 1)"
    if "claim_target u = Some (k, v)" "advanced out"
    using sqlite_step_advanced [OF st that] by (auto simp: row_version_def)
  show "row_version k s' = Some w \<or> row_version k s' = Some (w + 1) \<and> claim_target u = Some (k, w) \<and> advanced out"
    if w: "row_version k s = Some w"
  proof (cases "claim_target u \<noteq> None \<and> advanced out")
    case True
    then obtain j v where j: "claim_target u = Some (j, v)" by auto
    from sqlite_step_advanced [OF st j] True w j show ?thesis by (cases "k = j") (auto simp: row_version_def)
  next
    case False
    from sqlite_step_other [OF st False] w show ?thesis by (auto simp: row_version_def split: if_splits)
  qed
qed

section \<open>Refinement\<close>

text \<open>The row that holds a record, and the tables that hold exactly the records of a memory store.\<close>

definition row_of :: "StoredRunRecord \<Rightarrow> run_row" where
  "row_of r = \<lparr>rw_schema_version = sr_schema_version r, rw_version = sr_version r,
     rw_durable_state = durable_value (sr_durable_state r),
     rw_record_json = Doc (JObj (canon_obj (record_payload r)))\<rparr>"

definition keepable :: "StoredRunRecord \<Rightarrow> bool" where
  "keepable r = (storable r \<and> dumpable (JObj (record_payload r)))"

definition represents :: "run_table \<Rightarrow> memory_store \<Rightarrow> bool" where
  "represents t m = ((\<forall>k. t k = map_option row_of (m k)) \<and>
     (\<forall>k r. m k = Some r \<longrightarrow> keepable r \<and> sr_run_id r = k))"

text \<open>The operations the agent loop issues: records that satisfy the rules, versions below 64 bits.\<close>

fun op_ok :: "run_op \<Rightarrow> bool" where
  "op_ok (OpCreate r) = (keepable r \<and> sr_version r < 2 ^ 63)"
| "op_ok (OpLoad k) = True"
| "op_ok (OpSave r v) = (keepable (r\<lparr>sr_version := 0\<rparr>) \<and> 0 \<le> v \<and> v < 2 ^ 63 - 1)"
| "op_ok (OpClaim k v) = (v < 2 ^ 63 - 1)"

fun canon_out :: "run_out \<Rightarrow> run_out" where
  "canon_out (OutRecord (Inr r)) = OutRecord (Inr (canon_record r))"
| "canon_out (OutClaim (Inr (Some r))) = OutClaim (Inr (Some (canon_record r)))"
| "canon_out x = x"

fun run_ops :: "(run_op \<Rightarrow> 's \<Rightarrow> run_out \<times> 's) \<Rightarrow> run_op list \<Rightarrow> 's \<Rightarrow> run_out list \<times> 's" where
  "run_ops step [] s = ([], s)"
| "run_ops step (u # us) s = (case step u s of (out, s') \<Rightarrow>
     (case run_ops step us s' of (outs, s'') \<Rightarrow> (out # outs, s'')))"

lemma canon_payload: "canon_obj (record_payload (canon_record r)) = canon_obj (record_payload r)"
  unfolding canon_obj_def record_payload_def
  by (simp add: canon_record_def opt_obj_json_def canon_JObj del: canon.simps(7) split: option.splits)

lemma bind_row_keepable:
  assumes "keepable r" and "sr_version r < 2 ^ 63"
  shows "bind_row r = Inr (row_of r)"
  using assms
  by (simp add: bind_row_def to_json_def keepable_def row_of_def bind_int_def storable_def store_schema_version_def
      canon_JObj del: canon.simps(7) dumpable.simps)

lemma bind_row_canon: "bind_row (canon_record r) = bind_row r"
proof -
  have "dumpable (JObj (record_payload (canon_record r))) = dumpable (JObj (record_payload r))"
    using dumpable_canon [of "JObj (record_payload (canon_record r))"]
      dumpable_canon [of "JObj (record_payload r)"] by (simp only: canon_JObj canon_payload)
  then have "to_json (canon_record r) = to_json r"
    by (simp only: to_json_def canon_JObj canon_payload)
  then show ?thesis by (simp add: bind_row_def) (simp add: canon_record_def)
qed

lemma read_row_of: "keepable r \<Longrightarrow> read_row (row_of r) = Inr (canon_record r)"
  by (simp add: read_row_def row_of_def keepable_def from_json_def from_mapping_payload validate_record_columns_def
      canon_record_def)

lemma keepable_version:
  "keepable (r\<lparr>sr_version := 0\<rparr>) \<Longrightarrow> 0 \<le> v \<Longrightarrow> keepable (r\<lparr>sr_version := v\<rparr>)"
  by (auto simp: keepable_def storable_def dumpable_payload res_simps simp del: dumpable.simps)

lemma keepable_claimed:
  "keepable r \<Longrightarrow> sr_durable_state r = DS_TOOL_PREPARED \<Longrightarrow> sr_version r = v \<Longrightarrow>
     keepable (r\<lparr>sr_version := v + 1, sr_durable_state := DS_TOOL_IN_FLIGHT\<rparr>)"
  by (auto simp: keepable_def storable_def dumpable_payload res_simps terminal_durable_def
      pending_tool_state_def simp del: dumpable.simps)

text \<open>The row a claim writes is that of the memory store's record: the record it read back is canonical.\<close>

lemma claimed_row:
  assumes "keepable r" and "sr_durable_state r = DS_TOOL_PREPARED" and "sr_version r < 2 ^ 63 - 1"
  shows "bind_row ((canon_record r)\<lparr>sr_version := sr_version r + 1, sr_durable_state := DS_TOOL_IN_FLIGHT\<rparr>) =
    Inr (row_of (r\<lparr>sr_version := sr_version r + 1, sr_durable_state := DS_TOOL_IN_FLIGHT\<rparr>))"
proof -
  let ?u = "r\<lparr>sr_version := sr_version r + 1, sr_durable_state := DS_TOOL_IN_FLIGHT\<rparr>"
  have c: "(canon_record r)\<lparr>sr_version := sr_version r + 1, sr_durable_state := DS_TOOL_IN_FLIGHT\<rparr> = canon_record ?u"
    by (simp add: canon_record_def)
  have "bind_row ?u = Inr (row_of ?u)"
    using keepable_claimed [OF assms(1,2) refl] assms(3) by (intro bind_row_keepable) simp_all
  moreover have "bind_row (canon_record ?u) = bind_row ?u" by (rule bind_row_canon)
  ultimately show ?thesis by (simp only: c)
qed

lemma representsD:
  assumes "represents t m"
  shows "t k = map_option row_of (m k)" and "m k = Some r \<Longrightarrow> keepable r" and "m k = Some r \<Longrightarrow> sr_run_id r = k"
  using assms by (simp_all add: represents_def)

lemma represents_upd:
  "represents t m \<Longrightarrow> keepable r \<Longrightarrow> sr_run_id r = k \<Longrightarrow> represents (t(k \<mapsto> row_of r)) (m(k \<mapsto> r))"
  by (auto simp: represents_def)

lemma row_of_fields [simp]:
  "rw_version (row_of r) = sr_version r" "rw_durable_state (row_of r) = durable_value (sr_durable_state r)"
  "rw_record_json (row_of r) \<noteq> NotBytes"
  by (simp_all add: row_of_def)

lemma durable_value_inj [simp]: "durable_value d = durable_value d' \<longleftrightarrow> d = d'"
  using durable_of_value by (metis option.inject)

lemma create_refines:
  assumes "represents t m" and "op_ok (OpCreate r)"
  shows "fst (sqlite_create SqlOk r t) = fst (mem_create r m) \<and>
    represents (snd (sqlite_create SqlOk r t)) (snd (mem_create r m))"
  using assms representsD(1) [OF assms(1), of "sr_run_id r"] represents_upd [OF assms(1)]
  by (auto simp: sqlite_create_def mem_create_def bind_row_keepable)

lemma load_refines:
  assumes "represents t m"
  shows "sqlite_load SqlOk k t = map_sum id canon_record (mem_load k m)"
  using representsD [OF assms, of k]
  by (cases "m k") (simp_all add: sqlite_load_def mem_load_def read_row_of)

lemma save_refines:
  assumes "represents t m" and "op_ok (OpSave r v)"
  shows "fst (sqlite_save SqlOk r v t) = fst (mem_save r v m) \<and>
    represents (snd (sqlite_save SqlOk r v t)) (snd (mem_save r v m))"
proof -
  let ?u = "r\<lparr>sr_version := v + 1\<rparr>"
  have k: "keepable ?u" using assms(2) by (auto intro: keepable_version)
  then have "bind_row ?u = Inr (row_of ?u)" using assms(2) by (intro bind_row_keepable) simp_all
  moreover have "bind_int v = Inr v" using assms(2) by (simp add: bind_int_def)
  ultimately show ?thesis
    using representsD(1) [OF assms(1), of "sr_run_id r"] represents_upd [OF assms(1) k] assms(1)
    by (cases "m (sr_run_id r)") (simp_all add: sqlite_save_def mem_save_def update_sql_def Let_def)
qed

lemma canon_claimed:
  "canon_record ((canon_record r)\<lparr>sr_version := v, sr_durable_state := d\<rparr>) =
     canon_record (r\<lparr>sr_version := v, sr_durable_state := d\<rparr>)"
  by (simp add: canon_record_def comp_def option.map_comp)

lemma claim_refines:
  assumes "represents t m" and "op_ok (OpClaim k v)"
  shows "canon_out (OutClaim (fst (sqlite_claim_tool_dispatch SqlOk k v t))) =
      canon_out (OutClaim (fst (mem_claim_tool_dispatch k v m))) \<and>
    represents (snd (sqlite_claim_tool_dispatch SqlOk k v t)) (snd (mem_claim_tool_dispatch k v m))"
proof (cases "m k")
  case None
  with representsD(1) [OF assms(1), of k] assms(1) show ?thesis
    by (simp add: sqlite_claim_tool_dispatch_def mem_claim_tool_dispatch_def)
next
  case (Some r)
  note t = representsD(1) [OF assms(1), of k, unfolded Some, simplified]
  note r = representsD(2,3) [OF assms(1) Some]
  let ?u = "r\<lparr>sr_version := sr_version r + 1, sr_durable_state := DS_TOOL_IN_FLIGHT\<rparr>"
  show ?thesis
  proof (cases "sr_version r = v \<and> sr_durable_state r = DS_TOOL_PREPARED")
    case True
    then have v: "sr_version r = v" and p: "sr_durable_state r = DS_TOOL_PREPARED" by auto
    have b: "bind_int v = Inr v" using r(1) assms(2) v by (auto simp: bind_int_def keepable_def storable_def)
    have row: "bind_row ((canon_record r)\<lparr>sr_version := v + 1, sr_durable_state := DS_TOOL_IN_FLIGHT\<rparr>) = Inr (row_of ?u)"
      using claimed_row [OF r(1) p] assms(2) v by simp
    have rep: "represents (t(k \<mapsto> row_of ?u)) (m(k \<mapsto> ?u))"
      using represents_upd [OF assms(1) keepable_claimed [OF r(1) p refl]] r(2) by simp
    show ?thesis
      using rep Some t v p
      by (simp add: sqlite_claim_tool_dispatch_def mem_claim_tool_dispatch_def read_row_of [OF r(1)] row b
          update_sql_def Let_def canon_claimed)
  next
    case False
    with Some t assms(1) show ?thesis
      by (auto simp: sqlite_claim_tool_dispatch_def mem_claim_tool_dispatch_def simp del: durable_value.simps)
  qed
qed

lemma step_refines:
  assumes "represents t m" and "op_ok u"
  shows "canon_out (fst (sqlite_step SqlOk u t)) = canon_out (fst (mem_step u m)) \<and>
    represents (snd (sqlite_step SqlOk u t)) (snd (mem_step u m))"
proof (cases u)
  case (OpCreate r)
  with create_refines [OF assms(1)] assms(2) show ?thesis by simp
next
  case (OpLoad k)
  have "canon_record (canon_record r) = canon_record r" for r
    by (simp add: canon_record_def comp_def option.map_comp)
  with OpLoad load_refines [OF assms(1), of k] assms(1) show ?thesis
    by (cases "mem_load k m") simp_all
next
  case (OpSave r v)
  with save_refines [OF assms(1)] assms(2) show ?thesis by simp
next
  case (OpClaim k v)
  with claim_refines [OF assms(1)] assms(2) show ?thesis by simp
qed

section \<open>Properties\<close>

text \<open>
  C27: optimistic versions are single-use. In any sequence of operations on either store, by any
  workers, and whatever SQLite does to them, at most one save or dispatch claim that names version
  \<open>v\<close> of run \<open>k\<close> succeeds.
\<close>

theorem run_version_advances_at_most_once:
  shows "wins (\<lambda>u. claim_target u = Some (k, v)) (fst (run_claims (advance_claim sqlite_step) us t)) \<le> 1 \<and>
    wins (\<lambda>u. claim_target u = Some (k, v)) (fst (run_claims (advance_claim (\<lambda>_ :: unit. mem_step)) vs m)) \<le> 1"
proof
  show "wins (\<lambda>u. claim_target u = Some (k, v)) (fst (run_claims (advance_claim sqlite_step) us t)) \<le> 1"
    by (rule sqlite.at_most_one_win) (simp add: same_target_def)
  show "wins (\<lambda>u. claim_target u = Some (k, v)) (fst (run_claims (advance_claim (\<lambda>_ :: unit. mem_step)) vs m)) \<le> 1"
    by (rule mem.at_most_one_win) (simp add: same_target_def)
qed

text \<open>
  A dispatch claim on the SQLite store has two outcomes only. Either it returns a record, and
  then the row was at the expected version in \<open>TOOL_PREPARED\<close>, is now at the next version in
  \<open>TOOL_IN_FLIGHT\<close>, and no other row changed; or it returns nothing or raises, and the table is as it was.
\<close>

theorem dispatch_claim_outcomes:
  shows "case sqlite_claim_tool_dispatch f k v t of
      (Inr (Some r), t') \<Rightarrow>
        (\<exists>old row. t k = Some old \<and> rw_version old = v \<and> rw_durable_state old = ''TOOL_PREPARED'' \<and>
          t' = t(k \<mapsto> row) \<and> rw_version row = v + 1 \<and> rw_durable_state row = ''TOOL_IN_FLIGHT'' \<and>
          sr_version r = v + 1 \<and> sr_durable_state r = DS_TOOL_IN_FLIGHT)
    | (_, t') \<Rightarrow> t' = t"
proof -
  obtain x t' where c: "sqlite_claim_tool_dispatch f k v t = (x, t')" by fastforce
  show ?thesis
    using sqlite_claim_cases [OF c] c by (auto simp: Let_def split: sum.splits option.splits dest!: bind_row_Inr)
qed

text \<open>
  C29: the SQLite store implements the memory store. Started on a table that represents a memory
  store and given the same operations (on records that satisfy the store's rules, with versions that
  fit 64 bits), it gives the same answers, up to the order of keys in the documents, and ends in a
  table that represents the memory store's state.
\<close>

theorem sqlite_refines_memory:
  assumes "represents t m" and "list_all op_ok us"
  shows "map canon_out (fst (run_ops (sqlite_step SqlOk) us t)) = map canon_out (fst (run_ops mem_step us m)) \<and>
    represents (snd (run_ops (sqlite_step SqlOk) us t)) (snd (run_ops mem_step us m))"
  using assms
proof (induction us arbitrary: t m)
  case (Cons u us)
  then have "op_ok u" "list_all op_ok us" by simp_all
  with step_refines [OF Cons.prems(1)] Cons.IH show ?case by (simp add: split_def)
qed simp

end
