(* ===== verification/Witnesses_State.thy ===== *)
theory Witnesses_State
  imports Ledger Run_Store
begin

text \<open>Witnesses of the stateful targets and of the durable run stores, on one small ledger and one run.\<close>

section \<open>The ledger\<close>

definition acme :: LedgerAccount where
  "acme = \<lparr>la_account_id = ''acc'', la_currency = ''EUR'', la_balance = 10000, la_transfer_limit = 5000\<rparr>"

definition supplier :: Beneficiary where
  "supplier = \<lparr>bf_beneficiary_id = ''b1'', bf_name = ''Supplier'', bf_destination_account_ref = ''ref''\<rparr>"

definition pay_request :: request where
  "pay_request = \<lparr>rr_capability = ''payments.transfer.initiate'', rr_request_id = ''r1'', rr_idempotency_key = ''k1'',
     rr_arguments = JObj [(''account_id'', JStr ''acc''), (''beneficiary_id'', JStr ''b1''),
       (''amount'', JStr ''12.50''), (''currency'', JStr ''EUR'')]\<rparr>"

definition acme_ledger :: "LedgerState target" where
  "acme_ledger = \<lparr>tt_state = \<lparr>ls_accounts = [(''acc'', acme)], ls_beneficiaries = [(''b1'', supplier)],
     ls_transfers = []\<rparr>, tt_version = 0, tt_effects = Map.empty\<rparr>"

lemma acme_init: "ledger_init [acme] [supplier] = Inr acme_ledger"
  by (simp add: ledger_init_def acme_def supplier_def acme_ledger_def)

lemma acme_ok: "\<forall>a\<in>set [acme]. account_ok (la_account_id a) a"
  by (simp add: account_ok_def acme_def money_bound_def)

theorem ledger_idempotent_witness:
  "case fst (ledger_submit pay_request (ledger_run [] acme_ledger)) of
      Inr receipt \<Rightarrow> ledger_submit pay_request (ledger_run [] (snd (ledger_submit pay_request (ledger_run [] acme_ledger)))) =
        (Inr receipt, ledger_run [] (snd (ledger_submit pay_request (ledger_run [] acme_ledger))))
    | Inl e \<Rightarrow> snd (ledger_submit pay_request (ledger_run [] acme_ledger)) = ledger_run [] acme_ledger"
  using ledger_idempotent [OF acme_init acme_ok refl surjective_pairing, where before = "[]" and rq = pay_request and others = "[]"] .

theorem ledger_conserves_money_witness:
  "balance_of (tt_state (ledger_run [pay_request] acme_ledger)) ''acc'' +
     outflow (tt_state (ledger_run [pay_request] acme_ledger)) ''acc'' = 10000"
  using ledger_conserves_money [OF acme_init acme_ok, of "[pay_request]" "''acc''"]
  by (simp add: balance_of_def [of "tt_state acme_ledger"]) (simp add: acme_ledger_def acme_def)

theorem money_text_roundtrip_witness:
  "\<exists>t. money_text 1250 = Inr t \<and> positive_money (JStr t) = Inr 1250"
  by (rule money_text_roundtrip) (simp_all add: money_bound_def)

section \<open>The run store\<close>

definition prepared_run :: StoredRunRecord where
  "prepared_run = \<lparr>sr_schema_version = 2, sr_version = 3, sr_run_id = ''run'', sr_durable_state = DS_TOOL_PREPARED,
     sr_profile_fingerprint = ''fp'', sr_task = ''pay'', sr_run_metadata = [(''z'', JInt 1), (''a'', JNull)],
     sr_started_at_utc = Finite ''1.0'', sr_expires_at_utc = Finite ''61.0'', sr_next_step = 2,
     sr_tool_calls = 0, sr_model_turns = 1, sr_messages = [], sr_events = [],
     sr_pending_request_id = Some ''r1'', sr_pending_idempotency_key = Some ''k1'', sr_pending_action = Some [],
     sr_pending_tool_call_id = Some ''c1'', sr_pending_tool_name = Some ''pay'', sr_pending_execution_status = None,
     sr_pending_execution_output = JNull, sr_pending_execution_reason = None, sr_terminal_status = None,
     sr_final_text = None, sr_terminal_metadata = None\<rparr>"

lemma prepared_run_keepable: "storable prepared_run" "dumpable (JObj (record_payload prepared_run))"
  by code_simp+

theorem record_json_roundtrip_witness:
  "\<exists>raw. to_json prepared_run = Inr raw \<and> from_json raw = Inr (canon_record prepared_run)"
  by (rule record_json_roundtrip [OF prepared_run_keepable])

theorem sqlite_refines_memory_witness:
  "map canon_out (fst (run_ops (sqlite_step SqlOk) [OpCreate prepared_run, OpClaim ''run'' 3, OpLoad ''run''] Map.empty)) =
   map canon_out (fst (run_ops mem_step [OpCreate prepared_run, OpClaim ''run'' 3, OpLoad ''run''] Map.empty))"
proof -
  have "represents Map.empty Map.empty" by (simp add: represents_def)
  moreover have "list_all op_ok [OpCreate prepared_run, OpClaim ''run'' 3, OpLoad ''run'']"
    using prepared_run_keepable by (simp add: keepable_def) (simp add: prepared_run_def)
  ultimately show ?thesis by (rule sqlite_refines_memory [THEN conjunct1])
qed

end
