(* ===== verification/Messages.thy ===== *)
theory Messages
  imports Durable_Record
begin

text \<open>
  \<^verbatim>\<open>cbrain/models/contracts.py\<close> and \<^verbatim>\<open>cbrain/models/continuation.py\<close>: the neutral messages of a conversation, tool
  calls and the provider turn they came from, and the rule of a well-formed history; and the part of
  \<^verbatim>\<open>cbrain/agent/durable.py\<close> that writes and reads messages.

  A tool call and a continuation are made by \<^verbatim>\<open>capture\<close> only; their byte snapshots are kept as the canonical
  document. \<open>loads\<close> is \<^verbatim>\<open>json.loads\<close> on text that a provider sent.
\<close>

section \<open>Credential-shaped names\<close>

definition SENSITIVE_COMPONENTS :: "string list" where
  "SENSITIVE_COMPONENTS = [''api_key'', ''apikey'', ''auth'', ''authorization'', ''bearer'', ''credential'',
     ''credentials'', ''password'', ''private_key'', ''secret'', ''token'']"

definition is_upper :: "char \<Rightarrow> bool" where
  "is_upper c = (CHR ''A'' \<le> c \<and> c \<le> CHR ''Z'')"

definition is_lower_alnum :: "char \<Rightarrow> bool" where
  "is_lower_alnum c = ((CHR ''a'' \<le> c \<and> c \<le> CHR ''z'') \<or> (CHR ''0'' \<le> c \<and> c \<le> CHR ''9''))"

text \<open>An underscore between a lower-case letter or digit and the capital that follows it.\<close>

fun snake_case :: "string \<Rightarrow> string" where
  "snake_case (a # b # cs) =
     (if is_lower_alnum a \<and> is_upper b then a # CHR ''_'' # snake_case (b # cs)
      else a # snake_case (b # cs))"
| "snake_case cs = cs"

text \<open>
  \<^verbatim>\<open>str.casefold\<close> as far as it gives letters of ASCII: capitals, and the sharp s. Every other folded
  character is outside \<^verbatim>\<open>[a-z0-9]\<close> before and after.
\<close>

definition casefold_char :: "char \<Rightarrow> string" where
  "casefold_char c =
     (if is_upper c then [char_of ((of_char c :: nat) + 32)]
      else if c = CHR 0xDF then ''ss'' else [c])"

fun collapse :: "bool \<Rightarrow> string \<Rightarrow> string" where
  "collapse gap [] = []"
| "collapse gap (c # cs) =
     (if is_lower_alnum c then c # collapse False cs
      else if gap then collapse True cs else CHR ''_'' # collapse True cs)"

definition strip_underscores :: "string \<Rightarrow> string" where
  "strip_underscores s = rev (dropWhile (\<lambda>c. c = CHR ''_'') (rev (dropWhile (\<lambda>c. c = CHR ''_'') s)))"

fun split_underscores :: "string \<Rightarrow> string list" where
  "split_underscores [] = [[]]"
| "split_underscores (c # cs) =
     (if c = CHR ''_'' then [] # split_underscores cs
      else case split_underscores cs of [] \<Rightarrow> [[c]] | w # ws \<Rightarrow> (c # w) # ws)"

definition normalized_components :: "string \<Rightarrow> string list" where
  "normalized_components value =
     (let normalized = strip_underscores (collapse False (concat (map casefold_char (snake_case value)))) in
      normalized # (if normalized = [] then [] else split_underscores normalized))"

definition is_sensitive_name :: "string \<Rightarrow> bool" where
  "is_sensitive_name value = list_ex (\<lambda>c. c \<in> set SENSITIVE_COMPONENTS) (normalized_components value)"

text \<open>\<^verbatim>\<open>_reject_sensitive_keys\<close> passes.\<close>

primrec no_sensitive_keys :: "json \<Rightarrow> bool" where
  "no_sensitive_keys JNull = True"
| "no_sensitive_keys (JBool _) = True"
| "no_sensitive_keys (JInt _) = True"
| "no_sensitive_keys (JFloat _) = True"
| "no_sensitive_keys (JStr _) = True"
| "no_sensitive_keys (JList xs) = list_all id (map no_sensitive_keys xs)"
| "no_sensitive_keys (JObj kvs) =
     list_all (\<lambda>(k, ok). \<not> is_sensitive_name k \<and> ok) (map (map_prod id no_sensitive_keys) kvs)"
| "no_sensitive_keys (JOpaque _) = True"

section \<open>Checks\<close>

definition model_text :: "json option \<Rightarrow> string res" where
  "model_text v = (case v of
       Some (JStr s) \<Rightarrow> if nonblank s then Inr s else Inl ModelContractError
     | _ \<Rightarrow> Inl ModelContractError)"

definition tool_name_char :: "char \<Rightarrow> bool" where
  "tool_name_char c = (is_upper c \<or> is_lower_alnum c \<or> c = CHR ''_'' \<or> c = CHR ''-'')"

definition tool_name :: "json option \<Rightarrow> string res" where
  "tool_name v =
     rbind (model_text v) (\<lambda>text.
     rbind (ensure (1 \<le> length text \<and> length text \<le> 64 \<and> list_all tool_name_char text)
       ModelContractError) (\<lambda>_. Inr text))"

definition model_canonical_object :: "json \<Rightarrow> jobj res" where
  "model_canonical_object value = (case value of
       JObj d \<Rightarrow> rbind (ensure (valid_json value) ModelContractError) (\<lambda>_. Inr (canon_obj d))
     | _ \<Rightarrow> Inl ModelContractError)"

definition response_mapping :: "json option \<Rightarrow> jobj res" where
  "response_mapping v = (case v of Some (JObj d) \<Rightarrow> Inr d | _ \<Rightarrow> Inl ModelResponseError)"

definition response_list :: "json option \<Rightarrow> json list res" where
  "response_list v = (case v of Some (JList xs) \<Rightarrow> Inr xs | _ \<Rightarrow> Inl ModelResponseError)"

definition response_text :: "json option \<Rightarrow> string res" where
  "response_text v = (case v of
       Some (JStr s) \<Rightarrow> if nonblank s then Inr s else Inl ModelResponseError
     | _ \<Rightarrow> Inl ModelResponseError)"

section \<open>Tool calls and continuations\<close>

record ProviderContinuation =
  pc_provider :: string
  pc_model :: string
  pc_wire_format :: string
  pc_message :: jobj

record ToolCall =
  tc_call_id :: string
  tc_name :: string
  tc_arguments :: jobj
  tc_continuation :: "ProviderContinuation option"

definition capture_continuation :: "string \<Rightarrow> string \<Rightarrow> string \<Rightarrow> json \<Rightarrow> ProviderContinuation res" where
  "capture_continuation provider model wire_format message =
     rbind (model_canonical_object message) (\<lambda>payload.
     rbind (model_text (Some (JStr provider))) (\<lambda>_.
     rbind (model_text (Some (JStr model))) (\<lambda>_.
     rbind (ensure (wire_format \<in> {''chat_completions'', ''anthropic'', ''google''}) ModelContractError) (\<lambda>_.
     rbind (ensure (length (encode_utf8 (dumps (JObj payload))) \<le> 262144) ModelContractError) (\<lambda>_.
     Inr \<lparr>pc_provider = provider, pc_model = model, pc_wire_format = wire_format, pc_message = payload\<rparr>)))))"

text \<open>\<^verbatim>\<open>ProviderContinuation.for_route\<close>.\<close>

definition for_route :: "ProviderContinuation \<Rightarrow> string \<Rightarrow> string \<Rightarrow> string \<Rightarrow> jobj res" where
  "for_route pc provider model wire_format =
     rbind (ensure ((pc_provider pc, pc_model pc, pc_wire_format pc) = (provider, model, wire_format))
       ModelContractError) (\<lambda>_. Inr (pc_message pc))"

text \<open>\<^verbatim>\<open>parse_arguments\<close>: text is decoded first; what it holds must pass as the arguments of a tool call.\<close>

definition checked_arguments :: "json \<Rightarrow> jobj res" where
  "checked_arguments v =
     rbind (response_mapping (Some v)) (\<lambda>d.
     rbind (ensure (valid_json v \<and> no_sensitive_keys (JObj (canon_obj d))) ModelResponseError) (\<lambda>_.
     Inr (canon_obj d)))"

definition parse_arguments :: "(string \<Rightarrow> json res) \<Rightarrow> json option \<Rightarrow> jobj res" where
  "parse_arguments loads v = (case v of
       None \<Rightarrow> Inl ModelResponseError
     | Some (JStr s) \<Rightarrow> (case loads s of
           Inl e \<Rightarrow> if e = External ''JSONDecodeError'' then Inl ModelResponseError else Inl e
         | Inr decoded \<Rightarrow> checked_arguments decoded)
     | Some decoded \<Rightarrow> checked_arguments decoded)"

definition only_keys :: "jobj \<Rightarrow> string list \<Rightarrow> unit res" where
  "only_keys d allowed = ensure (jkeys d \<subseteq> set allowed) ModelContractError"

definition one_call :: "json list \<Rightarrow> jobj res" where
  "one_call xs = (case xs of [x] \<Rightarrow> response_mapping (Some x) | _ \<Rightarrow> Inl ModelContractError)"

definition assistant_text :: "json option \<Rightarrow> unit res" where
  "assistant_text v = (case v of Some (JStr _) \<Rightarrow> Inr () | _ \<Rightarrow> Inl ModelContractError)"

definition optional_text :: "json option \<Rightarrow> unit res" where
  "optional_text v = (case v of
       None \<Rightarrow> Inr () | Some JNull \<Rightarrow> Inr () | Some (JStr _) \<Rightarrow> Inr () | _ \<Rightarrow> Inl ModelContractError)"

text \<open>What a provider turn says of the call: its wire id (if it has one), its name and its arguments.\<close>

type_synonym wire_call = "string option \<times> json option \<times> jobj"

definition chat_completions_call :: "(string \<Rightarrow> json res) \<Rightarrow> jobj \<Rightarrow> wire_call res" where
  "chat_completions_call loads message =
     rbind (only_keys message [''role'', ''content'', ''tool_calls'', ''reasoning_content'']) (\<lambda>_.
     rbind (optional_text (jget message ''content'')) (\<lambda>_.
     rbind (optional_text (jget message ''reasoning_content'')) (\<lambda>_.
     rbind (response_list (jget message ''tool_calls'')) (\<lambda>calls.
     rbind (one_call calls) (\<lambda>block.
     rbind (only_keys block [''id'', ''type'', ''function'']) (\<lambda>_.
     rbind (ensure (jget block ''type'' = Some (JStr ''function'')) ModelContractError) (\<lambda>_.
     rbind (response_mapping (jget block ''function'')) (\<lambda>function.
     rbind (only_keys function [''name'', ''arguments'']) (\<lambda>_.
     rbind (response_text (jget block ''id'')) (\<lambda>wire_id.
     rbind (parse_arguments loads (jget function ''arguments'')) (\<lambda>arguments.
     Inr (Some wire_id, jget function ''name'', arguments))))))))))))"

text \<open>A block of an Anthropic turn: a tool use, or content that is only checked.\<close>

definition anthropic_block :: "json \<Rightarrow> jobj list res" where
  "anthropic_block raw =
     rbind (response_mapping (Some raw)) (\<lambda>block.
     let kind = jget block ''type'' in
     if kind = Some (JStr ''tool_use'')
     then rbind (only_keys block [''type'', ''id'', ''name'', ''input'']) (\<lambda>_. Inr [block])
     else if kind = Some (JStr ''text'')
     then rbind (only_keys block [''type'', ''text'', ''citations'']) (\<lambda>_.
          rbind (assistant_text (jget block ''text'')) (\<lambda>_. Inr []))
     else if kind = Some (JStr ''thinking'')
     then rbind (only_keys block [''type'', ''thinking'', ''signature'']) (\<lambda>_.
          rbind (assistant_text (jget block ''thinking'')) (\<lambda>_.
          rbind (response_text (jget block ''signature'')) (\<lambda>_. Inr [])))
     else if kind = Some (JStr ''redacted_thinking'')
     then rbind (only_keys block [''type'', ''data'']) (\<lambda>_.
          rbind (response_text (jget block ''data'')) (\<lambda>_. Inr []))
     else Inl ModelContractError)"

definition anthropic_call :: "(string \<Rightarrow> json res) \<Rightarrow> jobj \<Rightarrow> wire_call res" where
  "anthropic_call loads message =
     rbind (only_keys message [''role'', ''content'']) (\<lambda>_.
     rbind (response_list (jget message ''content'')) (\<lambda>blocks.
     rbind (rmapM anthropic_block blocks) (\<lambda>found.
     rbind (one_call (map JObj (concat found))) (\<lambda>block.
     rbind (response_text (jget block ''id'')) (\<lambda>wire_id.
     rbind (parse_arguments loads (jget block ''input'')) (\<lambda>arguments.
     Inr (Some wire_id, jget block ''name'', arguments)))))))"

definition google_part :: "json \<Rightarrow> jobj list res" where
  "google_part raw =
     rbind (response_mapping (Some raw)) (\<lambda>part.
     rbind (only_keys part [''functionCall'', ''text'', ''thought'', ''thoughtSignature'']) (\<lambda>_.
     rbind (if jget part ''thoughtSignature'' = None then Inr []
            else response_text (jget part ''thoughtSignature'')) (\<lambda>_.
     rbind (ensure (case jget part ''thought'' of None \<Rightarrow> True | Some (JBool _) \<Rightarrow> True | _ \<Rightarrow> False)
              ModelContractError) (\<lambda>_.
     if jget part ''functionCall'' \<noteq> None \<and> jget part ''text'' = None
     then rbind (response_mapping (jget part ''functionCall'')) (\<lambda>function. Inr [function])
     else if jget part ''text'' \<noteq> None \<and> jget part ''functionCall'' = None
     then rbind (assistant_text (jget part ''text'')) (\<lambda>_. Inr [])
     else Inl ModelContractError))))"

definition google_call :: "(string \<Rightarrow> json res) \<Rightarrow> jobj \<Rightarrow> wire_call res" where
  "google_call loads message =
     rbind (only_keys message [''role'', ''parts'']) (\<lambda>_.
     rbind (response_list (jget message ''parts'')) (\<lambda>parts.
     rbind (rmapM google_part parts) (\<lambda>found.
     rbind (one_call (map JObj (concat found))) (\<lambda>function.
     rbind (only_keys function [''id'', ''name'', ''args'']) (\<lambda>_.
     rbind (case jget function ''id'' of
              None \<Rightarrow> Inr None
            | Some v \<Rightarrow> rbind (response_text (Some v)) (\<lambda>s. Inr (Some s))) (\<lambda>wire_id.
     rbind (parse_arguments loads (case jget function ''args'' of None \<Rightarrow> Some (JObj []) | v \<Rightarrow> v))
       (\<lambda>arguments.
     Inr (wire_id, jget function ''name'', arguments))))))))"

definition validate_continuation_call ::
  "(string \<Rightarrow> json res) \<Rightarrow> ProviderContinuation \<Rightarrow> string \<Rightarrow> string \<Rightarrow> jobj \<Rightarrow> unit res" where
  "validate_continuation_call loads turn call_id name arguments =
     (let message = pc_message turn in
      rbind (ensure (jget message ''role'' =
               Some (JStr (if pc_wire_format turn = ''google'' then ''model'' else ''assistant'')))
               ModelContractError) (\<lambda>_.
      rbind (if pc_wire_format turn = ''chat_completions'' then chat_completions_call loads message
             else if pc_wire_format turn = ''anthropic'' then anthropic_call loads message
             else google_call loads message) (\<lambda>(wire_id, wire_name, wire_arguments).
      rbind (ensure ((case wire_id of None \<Rightarrow> True | Some w \<Rightarrow> w = call_id) \<and> wire_name = Some (JStr name))
               ModelContractError) (\<lambda>_.
      rbind (model_canonical_object (JObj wire_arguments)) (\<lambda>a.
      rbind (model_canonical_object (JObj arguments)) (\<lambda>b.
      ensure (dumps (JObj a) = dumps (JObj b)) ModelContractError))))))"

definition capture_tool_call ::
  "(string \<Rightarrow> json res) \<Rightarrow> string \<Rightarrow> string \<Rightarrow> json \<Rightarrow> ProviderContinuation option \<Rightarrow> ToolCall res" where
  "capture_tool_call loads call_id name arguments continuation =
     rbind (model_canonical_object arguments) (\<lambda>args.
     rbind (model_text (Some (JStr call_id))) (\<lambda>_.
     rbind (tool_name (Some (JStr name))) (\<lambda>_.
     rbind (ensure (no_sensitive_keys (JObj args)) ModelContractError) (\<lambda>_.
     rbind (case continuation of
              None \<Rightarrow> Inr ()
            | Some turn \<Rightarrow> validate_continuation_call loads turn call_id name args) (\<lambda>_.
     Inr \<lparr>tc_call_id = call_id, tc_name = name, tc_arguments = args, tc_continuation = continuation\<rparr>)))))"

section \<open>Messages and histories\<close>

datatype MessageRole = ROLE_SYSTEM | ROLE_USER | ROLE_ASSISTANT | ROLE_TOOL

fun role_value :: "MessageRole \<Rightarrow> string" where
  "role_value ROLE_SYSTEM = ''system''"
| "role_value ROLE_USER = ''user''"
| "role_value ROLE_ASSISTANT = ''assistant''"
| "role_value ROLE_TOOL = ''tool''"

definition role_of_text :: "string \<Rightarrow> MessageRole option" where
  "role_of_text s = find (\<lambda>r. role_value r = s) [ROLE_SYSTEM, ROLE_USER, ROLE_ASSISTANT, ROLE_TOOL]"

record Message =
  ms_role :: MessageRole
  ms_content :: string
  ms_tool_call_id :: "string option"
  ms_tool_name :: "string option"
  ms_tool_call :: "ToolCall option"

text \<open>The constructor; \<open>JNull\<close> stands for \<^verbatim>\<open>None\<close> in the two optional fields.\<close>

definition make_message ::
  "MessageRole \<Rightarrow> string \<Rightarrow> json \<Rightarrow> json \<Rightarrow> ToolCall option \<Rightarrow> Message res" where
  "make_message role content tool_call_id name tool_call =
     rbind (case tool_call of
              Some _ \<Rightarrow> rbind (ensure (role = ROLE_ASSISTANT) ModelContractError) (\<lambda>_.
                         ensure (content = []) ModelContractError)
            | None \<Rightarrow> rbind (model_text (Some (JStr content))) (\<lambda>_. Inr ())) (\<lambda>_.
     rbind (if role = ROLE_TOOL
            then rbind (model_text (Some tool_call_id)) (\<lambda>i.
                 rbind (tool_name (Some name)) (\<lambda>n. Inr (Some i, Some n)))
            else rbind (ensure (tool_call_id = JNull \<and> name = JNull) ModelContractError) (\<lambda>_.
                 Inr (None, None))) (\<lambda>(i, n).
     Inr \<lparr>ms_role = role, ms_content = content, ms_tool_call_id = i, ms_tool_name = n,
          ms_tool_call = tool_call\<rparr>))"

definition as_message :: "ToolCall \<Rightarrow> Message" where
  "as_message call = \<lparr>ms_role = ROLE_ASSISTANT, ms_content = [], ms_tool_call_id = None,
     ms_tool_name = None, ms_tool_call = Some call\<rparr>"

text \<open>The loop of \<^verbatim>\<open>validate_history\<close>, with the pending call and the ids seen so far.\<close>

fun history_loop :: "ToolCall option \<Rightarrow> string set \<Rightarrow> Message list \<Rightarrow> (ToolCall option) res" where
  "history_loop pending seen [] = Inr pending"
| "history_loop pending seen (m # ms) =
     (if ms_role m = ROLE_TOOL
      then (case pending of
              None \<Rightarrow> Inl ModelContractError
            | Some call \<Rightarrow>
                if (ms_tool_call_id m, ms_tool_name m) \<noteq> (Some (tc_call_id call), Some (tc_name call))
                then Inl ModelContractError
                else history_loop None seen ms)
      else if pending \<noteq> None then Inl ModelContractError
      else (case ms_tool_call m of
              None \<Rightarrow> history_loop None seen ms
            | Some call \<Rightarrow>
                if tc_call_id call \<in> seen then Inl ModelContractError
                else history_loop (Some call) (insert (tc_call_id call) seen) ms))"

definition validate_history :: "Message list \<Rightarrow> bool \<Rightarrow> unit res" where
  "validate_history messages allow_pending =
     rbind (history_loop None {} messages) (\<lambda>pending.
     ensure (pending = None \<or> allow_pending) ModelContractError)"

section \<open>Messages in the store\<close>

definition serialize_call :: "ToolCall \<Rightarrow> jobj" where
  "serialize_call call =
     [(''call_id'', JStr (tc_call_id call)), (''name'', JStr (tc_name call)),
      (''arguments'', JObj (tc_arguments call))] @
     (case tc_continuation call of
        None \<Rightarrow> []
      | Some turn \<Rightarrow> [(''continuation'', JObj
          [(''provider'', JStr (pc_provider turn)), (''model'', JStr (pc_model turn)),
           (''wire_format'', JStr (pc_wire_format turn)), (''message'', JObj (pc_message turn))])])"

definition serialize_message :: "Message \<Rightarrow> jobj" where
  "serialize_message m =
     [(''role'', JStr (role_value (ms_role m))), (''content'', JStr (ms_content m)),
      (''tool_call_id'', opt_str_json (ms_tool_call_id m)), (''tool_name'', opt_str_json (ms_tool_name m))] @
     (case ms_tool_call m of None \<Rightarrow> [] | Some call \<Rightarrow> [(''tool_call'', JObj (serialize_call call))])"

definition is_model_error :: "exn \<Rightarrow> bool" where
  "is_model_error e = (e \<in> {ModelError, ModelContractError, ModelCredentialError, ModelTransportError,
     ModelResponseError})"

definition or_null :: "json option \<Rightarrow> json" where
  "or_null v = (case v of None \<Rightarrow> JNull | Some x \<Rightarrow> x)"

definition deserialize_continuation :: "json \<Rightarrow> (ProviderContinuation option) res" where
  "deserialize_continuation v = (case v of
       JNull \<Rightarrow> Inr None
     | JObj turn \<Rightarrow> (case jget turn ''message'' of
           Some (JObj message) \<Rightarrow>
             rbind (rs_text (jget turn ''provider'')) (\<lambda>provider.
             rbind (rs_text (jget turn ''model'')) (\<lambda>model.
             rbind (rs_text (jget turn ''wire_format'')) (\<lambda>wire_format.
             rbind (capture_continuation provider model wire_format (JObj message)) (\<lambda>c. Inr (Some c)))))
         | _ \<Rightarrow> Inl RunStoreError)
     | _ \<Rightarrow> Inl RunStoreError)"

definition deserialize_call :: "(string \<Rightarrow> json res) \<Rightarrow> json \<Rightarrow> (ToolCall option) res" where
  "deserialize_call loads v = (case v of
       JNull \<Rightarrow> Inr None
     | JObj raw \<Rightarrow> (case jget raw ''arguments'' of
           Some (JObj arguments) \<Rightarrow>
             rbind (deserialize_continuation (or_null (jget raw ''continuation''))) (\<lambda>continuation.
             rbind (rs_text (jget raw ''call_id'')) (\<lambda>call_id.
             rbind (rs_text (jget raw ''name'')) (\<lambda>name.
             rbind (capture_tool_call loads call_id name (JObj arguments) continuation) (\<lambda>c. Inr (Some c)))))
         | _ \<Rightarrow> Inl RunStoreError)
     | _ \<Rightarrow> Inl RunStoreError)"

definition deserialize_message :: "(string \<Rightarrow> json res) \<Rightarrow> jobj \<Rightarrow> Message res" where
  "deserialize_message loads p = (case (jget p ''role'', jget p ''content'') of
       (Some (JStr role), Some (JStr content)) \<Rightarrow>
         rbind (of_option RunStoreError (role_of_text role)) (\<lambda>message_role.
         case rbind (deserialize_call loads (or_null (jget p ''tool_call''))) (\<lambda>tool_call.
              make_message message_role content (or_null (jget p ''tool_call_id''))
                (or_null (jget p ''tool_name'')) tool_call) of
           Inl e \<Rightarrow> Inl (if is_model_error e then RunStoreError else e)
         | Inr m \<Rightarrow> Inr m)
     | _ \<Rightarrow> Inl RunStoreError)"

section \<open>Objects that can exist\<close>

definition wf_continuation :: "ProviderContinuation \<Rightarrow> bool" where
  "wf_continuation c = (capture_continuation (pc_provider c) (pc_model c) (pc_wire_format c) (JObj (pc_message c)) = Inr c)"

definition wf_call :: "(string \<Rightarrow> json res) \<Rightarrow> ToolCall \<Rightarrow> bool" where
  "wf_call loads c =
     (capture_tool_call loads (tc_call_id c) (tc_name c) (JObj (tc_arguments c)) (tc_continuation c) = Inr c \<and>
      (case tc_continuation c of None \<Rightarrow> True | Some turn \<Rightarrow> wf_continuation turn))"

definition wf_message :: "(string \<Rightarrow> json res) \<Rightarrow> Message \<Rightarrow> bool" where
  "wf_message loads m =
     (make_message (ms_role m) (ms_content m) (opt_str_json (ms_tool_call_id m))
        (opt_str_json (ms_tool_name m)) (ms_tool_call m) = Inr m \<and>
      (case ms_tool_call m of None \<Rightarrow> True | Some c \<Rightarrow> wf_call loads c))"

lemma role_of_value [simp]: "role_of_text (role_value r) = Some r"
  by (cases r) (simp_all add: role_of_text_def)

lemma model_text_Inr [res_simps]: "model_text v = Inr s \<longleftrightarrow> v = Some (JStr s) \<and> nonblank s"
  by (auto simp: model_text_def split: option.splits json.splits)

lemma model_canonical_object_Inr [res_simps]:
  "model_canonical_object v = Inr d \<longleftrightarrow> (\<exists>e. v = JObj e \<and> valid_json v \<and> d = canon_obj e)"
  by (auto simp: model_canonical_object_def res_simps split: json.splits)

lemma valid_canon_obj [simp]: "valid_json (JObj (canon_obj d)) = valid_json (JObj d)"
  using valid_json_canon [of "JObj d"] by (simp only: canon_JObj)

text \<open>What \<^verbatim>\<open>capture\<close> makes is an object that can exist, and it is canonical.\<close>

lemma capture_continuation_wf:
  "capture_continuation p m w v = Inr c \<Longrightarrow> wf_continuation c \<and> canon_obj (pc_message c) = pc_message c"
  by (auto simp: capture_continuation_def wf_continuation_def res_simps simp del: valid_json.simps)

lemma wf_continuation_canon: "wf_continuation c \<Longrightarrow> canon_obj (pc_message c) = pc_message c"
  using capture_continuation_wf wf_continuation_def by blast

lemma capture_call_wf:
  assumes "capture_tool_call loads i n v cont = Inr c"
    and "case cont of None \<Rightarrow> True | Some turn \<Rightarrow> wf_continuation turn"
  shows "wf_call loads c \<and> canon_obj (tc_arguments c) = tc_arguments c"
  using assms
  by (cases cont) (auto simp: capture_tool_call_def wf_call_def res_simps simp del: valid_json.simps no_sensitive_keys.simps)

lemma wf_call_canon: "wf_call loads c \<Longrightarrow> canon_obj (tc_arguments c) = tc_arguments c"
  using capture_call_wf wf_call_def by blast

section \<open>Round trip through the store\<close>

lemma jget_append [simp]: "jget (d @ e) k = (case jget d k of None \<Rightarrow> jget e k | Some v \<Rightarrow> Some v)"
  by (auto simp: jget_def map_add_def split: option.splits)

lemma continuation_roundtrip:
  assumes "wf_continuation c"
  shows "deserialize_continuation (canon (JObj [(''provider'', JStr (pc_provider c)), (''model'', JStr (pc_model c)),
     (''wire_format'', JStr (pc_wire_format c)), (''message'', JObj (pc_message c))])) = Inr (Some c)"
proof -
  let ?d = "[(''provider'', JStr (pc_provider c)), (''model'', JStr (pc_model c)),
     (''wire_format'', JStr (pc_wire_format c)), (''message'', JObj (pc_message c))]"
  have k: "distinct (map fst ?d)" by simp
  have t: "nonblank (pc_provider c)" "nonblank (pc_model c)"
    "pc_wire_format c \<in> {''chat_completions'', ''anthropic'', ''google''}"
    using assms by (auto simp: wf_continuation_def capture_continuation_def res_simps)
  then have w: "nonblank (pc_wire_format c)" by auto
  have cn: "canon (JObj (pc_message c)) = JObj (pc_message c)"
    using wf_continuation_canon [OF assms] by (simp only: canon_JObj)
  have cap: "capture_continuation (pc_provider c) (pc_model c) (pc_wire_format c) (JObj (pc_message c)) = Inr c"
    using assms by (simp add: wf_continuation_def)
  show ?thesis
    unfolding canon_JObj deserialize_continuation_def json.case jget_canon [OF k]
    using t w by (simp add: rs_text_def cn cap del: canon.simps(7))
qed

lemma call_keys: "distinct (map fst (serialize_call c))"
  by (auto simp: serialize_call_def split: option.splits)

lemma call_roundtrip:
  assumes "wf_call loads c"
  shows "deserialize_call loads (canon (JObj (serialize_call c))) = Inr (Some c)"
proof -
  have t: "nonblank (tc_call_id c)" "nonblank (tc_name c)"
    using assms by (auto simp: wf_call_def capture_tool_call_def tool_name_def res_simps)
  have a: "canon (JObj (tc_arguments c)) = JObj (tc_arguments c)"
    using wf_call_canon [OF assms] by (simp only: canon_JObj)
  have cap: "capture_tool_call loads (tc_call_id c) (tc_name c) (JObj (tc_arguments c)) (tc_continuation c) = Inr c"
    using assms by (simp add: wf_call_def)
  have j: "jget (canon_obj (serialize_call c)) ''arguments'' = Some (JObj (tc_arguments c))"
    "jget (canon_obj (serialize_call c)) ''call_id'' = Some (JStr (tc_call_id c))"
    "jget (canon_obj (serialize_call c)) ''name'' = Some (JStr (tc_name c))"
    unfolding jget_canon [OF call_keys] by (simp_all add: serialize_call_def a del: canon.simps(7))
  have "deserialize_continuation (or_null (jget (canon_obj (serialize_call c)) ''continuation'')) = Inr (tc_continuation c)"
  proof (cases "tc_continuation c")
    case None
    then show ?thesis unfolding jget_canon [OF call_keys]
      by (simp add: serialize_call_def or_null_def deserialize_continuation_def)
  next
    case (Some turn)
    with assms have "wf_continuation turn" by (simp add: wf_call_def)
    from continuation_roundtrip [OF this] Some show ?thesis unfolding jget_canon [OF call_keys]
      by (simp add: serialize_call_def or_null_def del: canon.simps(7))
  qed
  with t cap show ?thesis
    unfolding canon_JObj deserialize_call_def json.case j by (simp add: rs_text_def)
qed

lemma message_keys: "distinct (map fst (serialize_message m))"
  by (auto simp: serialize_message_def split: option.splits)

text \<open>
  C35: a message survives the store: what \<^verbatim>\<open>serialize_message\<close> writes, canonical JSON carries and
  \<^verbatim>\<open>deserialize_message\<close> reads back is the same message, tool call and provider turn included.
\<close>

theorem message_roundtrip:
  assumes "wf_message loads m"
  shows "deserialize_message loads (canon_obj (serialize_message m)) = Inr m"
proof -
  have mk: "make_message (ms_role m) (ms_content m) (opt_str_json (ms_tool_call_id m))
      (opt_str_json (ms_tool_name m)) (ms_tool_call m) = Inr m"
    using assms by (simp add: wf_message_def)
  have j: "jget (canon_obj (serialize_message m)) ''role'' = Some (JStr (role_value (ms_role m)))"
    "jget (canon_obj (serialize_message m)) ''content'' = Some (JStr (ms_content m))"
    "jget (canon_obj (serialize_message m)) ''tool_call_id'' = Some (opt_str_json (ms_tool_call_id m))"
    "jget (canon_obj (serialize_message m)) ''tool_name'' = Some (opt_str_json (ms_tool_name m))"
    unfolding jget_canon [OF message_keys] by (simp_all add: serialize_message_def)
  have "deserialize_call loads (or_null (jget (canon_obj (serialize_message m)) ''tool_call'')) = Inr (ms_tool_call m)"
  proof (cases "ms_tool_call m")
    case None
    then show ?thesis unfolding jget_canon [OF message_keys]
      by (simp add: serialize_message_def or_null_def deserialize_call_def)
  next
    case (Some c)
    with assms have "wf_call loads c" by (simp add: wf_message_def)
    from call_roundtrip [OF this] Some show ?thesis unfolding jget_canon [OF message_keys]
      by (simp add: serialize_message_def or_null_def del: canon.simps(7))
  qed
  then show ?thesis
    unfolding deserialize_message_def j by (simp add: mk or_null_def)
qed

section \<open>Histories\<close>

text \<open>What a valid history is, without the loop: every call is answered at once by its own result, and ids are fresh.\<close>

lemma history_loop_append:
  "history_loop p seen (ms @ ns) =
     rbind (history_loop p seen ms) (\<lambda>q. history_loop q (seen \<union> {tc_call_id c |c m. m \<in> set ms \<and> ms_role m \<noteq> ROLE_TOOL \<and> ms_tool_call m = Some c}) ns)"
proof (induction p seen ms rule: history_loop.induct)
  case (2 pending seen m ms)
  have s: "{tc_call_id c |c x. x \<in> set (m # ms) \<and> ms_role x \<noteq> ROLE_TOOL \<and> ms_tool_call x = Some c} =
    (if ms_role m = ROLE_TOOL then {} else tc_call_id ` set_option (ms_tool_call m)) \<union>
    {tc_call_id c |c x. x \<in> set ms \<and> ms_role x \<noteq> ROLE_TOOL \<and> ms_tool_call x = Some c}"
    by (cases "ms_tool_call m") auto
  from 2 show ?case unfolding s by (auto split: option.splits)
qed simp

lemma validate_history_Inr:
  "validate_history ms b = Inr u \<longleftrightarrow> (\<exists>p. history_loop None {} ms = Inr p \<and> (p = None \<or> b))"
  by (auto simp: validate_history_def res_simps)

text \<open>The call a message leaves open, and which message may come next.\<close>

definition call_of :: "Message \<Rightarrow> ToolCall option" where
  "call_of m = (if ms_role m = ROLE_TOOL then None else ms_tool_call m)"

definition may_follow :: "ToolCall option \<Rightarrow> Message \<Rightarrow> bool" where
  "may_follow pending m = (case pending of
       None \<Rightarrow> ms_role m \<noteq> ROLE_TOOL
     | Some c \<Rightarrow> ms_role m = ROLE_TOOL \<and> ms_tool_call_id m = Some (tc_call_id c) \<and> ms_tool_name m = Some (tc_name c))"

definition call_ids :: "Message list \<Rightarrow> string list" where
  "call_ids ms = map tc_call_id (List.map_filter call_of ms)"

lemma call_ids_simps [simp]:
  "call_ids [] = []"
  "call_ids (m # ms) = (case call_of m of None \<Rightarrow> call_ids ms | Some c \<Rightarrow> tc_call_id c # call_ids ms)"
  by (auto simp: call_ids_def map_filter_simps split: option.split)

definition open_before :: "ToolCall option \<Rightarrow> Message list \<Rightarrow> nat \<Rightarrow> ToolCall option" where
  "open_before p ms i = (case i of 0 \<Rightarrow> p | Suc j \<Rightarrow> call_of (ms ! j))"

lemma open_before_Suc: "open_before p (m # ms) (Suc i) = open_before (call_of m) ms i"
  by (cases i) (simp_all add: open_before_def)

lemma history_loop_iff:
  "history_loop p seen ms = Inr q \<longleftrightarrow>
     (\<forall>i<length ms. may_follow (open_before p ms i) (ms ! i)) \<and> distinct (call_ids ms) \<and>
     set (call_ids ms) \<inter> seen = {} \<and> q = open_before p ms (length ms)"
proof (induction p seen ms rule: history_loop.induct)
  case (1 p seen)
  then show ?case by (auto simp: open_before_def)
next
  case (2 pending seen m ms)
  have head: "(\<forall>i<length (m # ms). may_follow (open_before pending (m # ms) i) ((m # ms) ! i)) \<longleftrightarrow>
      may_follow pending m \<and> (\<forall>i<length ms. may_follow (open_before (call_of m) ms i) (ms ! i))"
    by (simp add: All_less_Suc2 open_before_Suc) (simp add: open_before_def)
  have last: "open_before pending (m # ms) (length (m # ms)) = open_before (call_of m) ms (length ms)"
    by (simp add: open_before_Suc)
  show ?case
    unfolding head last using 2
    by (auto simp: may_follow_def call_of_def split: option.splits)
qed

text \<open>
  C36: \<^verbatim>\<open>validate_history\<close> accepts exactly the histories in which every tool call is answered by the very next
  message, with the call's id and name, no other message has the tool role, no call id occurs twice, and,
  unless a pending call is allowed, the last call is answered; every other history is a
  \<^verbatim>\<open>ModelContractError\<close>.
\<close>

theorem validate_history_iff:
  "validate_history ms allow_pending =
     (if (\<forall>i<length ms. may_follow (if i = 0 then None else call_of (ms ! (i - 1))) (ms ! i)) \<and>
         distinct (call_ids ms) \<and> (allow_pending \<or> ms = [] \<or> call_of (last ms) = None)
      then Inr () else Inl ModelContractError)"
proof -
  have o: "open_before None ms i = (if i = 0 then None else call_of (ms ! (i - 1)))" for i
    by (cases i) (simp_all add: open_before_def)
  have e: "history_loop p seen ms = Inl e \<Longrightarrow> e = ModelContractError" for p seen e
    by (induction p seen ms rule: history_loop.induct) (auto split: if_splits option.splits)
  define ok where "ok = ((\<forall>i<length ms. may_follow (if i = 0 then None else call_of (ms ! (i - 1))) (ms ! i)) \<and>
    distinct (call_ids ms))"
  have iff: "history_loop None {} ms = Inr q \<longleftrightarrow> ok \<and> q = (if ms = [] then None else call_of (last ms))" for q
    unfolding history_loop_iff o ok_def by (auto simp: last_conv_nth)
  have "validate_history ms allow_pending =
      (if ok \<and> (allow_pending \<or> ms = [] \<or> call_of (last ms) = None) then Inr () else Inl ModelContractError)"
  proof (cases "history_loop None {} ms")
    case (Inl x)
    with iff [of "if ms = [] then None else call_of (last ms)"] have "\<not> ok" by simp
    with Inl e [OF Inl] show ?thesis by (simp add: validate_history_def rbind_def)
  next
    case (Inr q)
    with iff [of q] have "ok" and "q = (if ms = [] then None else call_of (last ms))" by simp_all
    with Inr show ?thesis by (simp add: validate_history_def rbind_def ensure_def)
  qed
  then show ?thesis by (simp only: ok_def conj_assoc)
qed

end
