(* ===== verification/Agent_Profile.thy ===== *)
theory Agent_Profile
  imports Messages
begin

text \<open>
  \<^verbatim>\<open>cbrain/agent/limits.py\<close>, \<^verbatim>\<open>cbrain/agent/profile.py\<close>, \<^verbatim>\<open>cbrain/agent/tools.py\<close>, the tool definitions and completion
  requests of \<^verbatim>\<open>cbrain/models/contracts.py\<close>, and the profile fingerprint of \<^verbatim>\<open>cbrain/agent/durable.py\<close>.

  A float is its \<^verbatim>\<open>repr\<close>; two finite floats compare as the decimal numbers their texts show, because
  \<^verbatim>\<open>repr\<close> is monotone. A frozenset of names is a list read as a set.
\<close>

section \<open>Floats and the default rendering\<close>

definition dec_less :: "int \<times> int \<Rightarrow> int \<times> int \<Rightarrow> bool" where
  "dec_less x y = (let m = min (snd x) (snd y) in dec_scale x m < dec_scale y m)"

definition float_less :: "pyfloat \<Rightarrow> pyfloat \<Rightarrow> bool" where
  "float_less x y = (case (x, y) of
       (Finite s, Finite t) \<Rightarrow> (case (parse_dec s, parse_dec t) of
           (Some a, Some b) \<Rightarrow> dec_less a b
         | _ \<Rightarrow> False)
     | (NegInf, Finite _) \<Rightarrow> True
     | (NegInf, PosInf) \<Rightarrow> True
     | (Finite _, PosInf) \<Rightarrow> True
     | _ \<Rightarrow> False)"

text \<open>\<^verbatim>\<open>x >= y\<close> on floats that are no NaN.\<close>

definition float_ge :: "pyfloat \<Rightarrow> pyfloat \<Rightarrow> bool" where
  "float_ge x y = (x \<noteq> NaN \<and> y \<noteq> NaN \<and> \<not> float_less x y)"

text \<open>\<^verbatim>\<open>json.dumps\<close> with \<^verbatim>\<open>ensure_ascii\<close>: every character outside the printable ASCII range is escaped.\<close>

definition esc_ascii :: "char \<Rightarrow> string" where
  "esc_ascii c = (let n = of_char c :: nat in
     if 127 \<le> n then char_of (92::nat) # ''u00'' @ [hex_digit (n div 16), hex_digit (n mod 16)]
     else esc_char c)"

definition quote_ascii :: "string \<Rightarrow> string" where
  "quote_ascii s = CHR 0x22 # concat (map esc_ascii s) @ [CHR 0x22]"

text \<open>
  \<open>render_ascii isep ksep dflt\<close>: the separators of items and keys, and what the \<^verbatim>\<open>default\<close> argument
  makes of a value outside JSON.
\<close>

primrec render_ascii :: "string \<Rightarrow> string \<Rightarrow> (string \<Rightarrow> string res) \<Rightarrow> json \<Rightarrow> string res" where
  "render_ascii isep ksep dflt JNull = Inr ''null''"
| "render_ascii isep ksep dflt (JBool b) = Inr (if b then ''true'' else ''false'')"
| "render_ascii isep ksep dflt (JInt i) = Inr (show_int i)"
| "render_ascii isep ksep dflt (JFloat f) = Inr (show_float f)"
| "render_ascii isep ksep dflt (JStr s) = Inr (quote_ascii s)"
| "render_ascii isep ksep dflt (JList xs) =
     rbind (rmapM id (map (render_ascii isep ksep dflt) xs)) (\<lambda>ts. Inr (''['' @ join isep ts @ '']''))"
| "render_ascii isep ksep dflt (JObj kvs) =
     rbind (rmapM (\<lambda>(k, t). rbind t (\<lambda>s. Inr (quote_ascii k @ ksep @ s)))
       (map (map_prod id (render_ascii isep ksep dflt)) kvs)) (\<lambda>ts. Inr (''{'' @ join isep ts @ ''}''))"
| "render_ascii isep ksep dflt (JOpaque c) = dflt c"

section \<open>Limits and profiles\<close>

record RunLimits =
  rl_max_task_chars :: int
  rl_max_model_text_chars :: int
  rl_max_observation_chars :: int
  rl_max_context_messages :: int
  rl_max_output_tokens :: int

definition limits_post_init :: "RunLimits \<Rightarrow> RunLimits res" where
  "limits_post_init l =
     rbind (ensure (list_all (\<lambda>v. 1 \<le> v) [rl_max_task_chars l, rl_max_model_text_chars l,
       rl_max_observation_chars l, rl_max_context_messages l, rl_max_output_tokens l]) ValueError) (\<lambda>_.
     Inr l)"

definition default_limits :: RunLimits where
  "default_limits = \<lparr>rl_max_task_chars = 16384, rl_max_model_text_chars = 16384,
     rl_max_observation_chars = 16384, rl_max_context_messages = 32, rl_max_output_tokens = 1024\<rparr>"

definition finite_positive_seconds :: "json \<Rightarrow> pyfloat res" where
  "finite_positive_seconds value = (case value of
       JInt i \<Rightarrow>
         rbind (ensure (\<not> float_overflows i) (External ''OverflowError'')) (\<lambda>_.
         rbind (ensure (0 < i) ValueError) (\<lambda>_. Inr (Finite (show_int i @ ''.0''))))
     | JFloat (Finite t) \<Rightarrow>
         rbind (ensure (float_less (Finite ''0.0'') (Finite t)) ValueError) (\<lambda>_. Inr (Finite t))
     | _ \<Rightarrow> Inl ValueError)"

record AgentProfile =
  ap_agent_id :: string
  ap_instructions :: string
  ap_model_route :: string
  ap_permitted_tools :: "string list"
  ap_max_model_turns :: int
  ap_max_tool_calls :: int
  ap_timeout_seconds :: pyfloat
  ap_limits :: RunLimits
  ap_knowledge_required_for_tools :: bool

definition profile_post_init :: "AgentProfile \<Rightarrow> AgentProfile res" where
  "profile_post_init p =
     rbind (ensure (nonblank (ap_agent_id p)) ValueError) (\<lambda>_.
     rbind (ensure (nonblank (ap_instructions p)) ValueError) (\<lambda>_.
     rbind (ensure (nonblank (ap_model_route p)) ValueError) (\<lambda>_.
     rbind (ensure (list_all nonblank (ap_permitted_tools p)) ValueError) (\<lambda>_.
     rbind (ensure (1 \<le> ap_max_model_turns p) ValueError) (\<lambda>_.
     rbind (ensure (0 \<le> ap_max_tool_calls p) ValueError) (\<lambda>_.
     rbind (finite_positive_seconds (JFloat (ap_timeout_seconds p))) (\<lambda>seconds.
     Inr (p\<lparr>ap_timeout_seconds := seconds\<rparr>))))))))"

definition sorted_names :: "string list \<Rightarrow> string list" where
  "sorted_names names = sort (remdups names)"

definition fingerprint_payload :: "AgentProfile \<Rightarrow> jobj" where
  "fingerprint_payload p =
     [(''agent_id'', JStr (ap_agent_id p)), (''instructions'', JStr (ap_instructions p)),
      (''model_route'', JStr (ap_model_route p)),
      (''permitted_tools'', JList (map JStr (sorted_names (ap_permitted_tools p)))),
      (''max_model_turns'', JInt (ap_max_model_turns p)), (''max_tool_calls'', JInt (ap_max_tool_calls p)),
      (''timeout_seconds'', JFloat (ap_timeout_seconds p)),
      (''knowledge_required_for_tools'', JBool (ap_knowledge_required_for_tools p)),
      (''limits'', JObj
        [(''max_context_messages'', JInt (rl_max_context_messages (ap_limits p))),
         (''max_model_text_chars'', JInt (rl_max_model_text_chars (ap_limits p))),
         (''max_observation_chars'', JInt (rl_max_observation_chars (ap_limits p))),
         (''max_output_tokens'', JInt (rl_max_output_tokens (ap_limits p))),
         (''max_task_chars'', JInt (rl_max_task_chars (ap_limits p)))])]"

definition profile_fingerprint :: "AgentProfile \<Rightarrow> string" where
  "profile_fingerprint p =
     (case render_ascii '','' '':'' (\<lambda>_. Inl TypeError) (canon (JObj (fingerprint_payload p))) of
        Inr text \<Rightarrow> sha256_hexdigest (encode_utf8 text)
      | Inl _ \<Rightarrow> [])"

section \<open>Tools\<close>

record GovernedTool =
  gt_name :: string
  gt_capability :: string
  gt_description :: string
  gt_input_schema :: jobj

definition tool_post_init :: "GovernedTool \<Rightarrow> GovernedTool res" where
  "tool_post_init t =
     rbind (ensure (nonblank (gt_name t)) ToolRegistryError) (\<lambda>_.
     rbind (ensure (nonblank (gt_capability t)) ToolRegistryError) (\<lambda>_.
     rbind (ensure (nonblank (gt_description t)) ToolRegistryError) (\<lambda>_.
     Inr t)))"

definition no_sensitive_properties :: "json option \<Rightarrow> bool" where
  "no_sensitive_properties v = (case v of
       None \<Rightarrow> True
     | Some JNull \<Rightarrow> True
     | Some (JObj d) \<Rightarrow> list_all (\<lambda>kv. \<not> is_sensitive_name (fst kv)) d
     | _ \<Rightarrow> False)"

definition no_sensitive_required :: "json option \<Rightarrow> bool" where
  "no_sensitive_required v = (case v of
       None \<Rightarrow> True
     | Some JNull \<Rightarrow> True
     | Some (JList xs) \<Rightarrow> list_all (\<lambda>x. case x of JStr s \<Rightarrow> \<not> is_sensitive_name s | _ \<Rightarrow> False) xs
     | _ \<Rightarrow> False)"

text \<open>\<^verbatim>\<open>_reject_sensitive_schema\<close> passes.\<close>

primrec schema_ok :: "json \<Rightarrow> bool" where
  "schema_ok JNull = True"
| "schema_ok (JBool _) = True"
| "schema_ok (JInt _) = True"
| "schema_ok (JFloat _) = True"
| "schema_ok (JStr _) = True"
| "schema_ok (JList xs) = list_all id (map schema_ok xs)"
| "schema_ok (JObj kvs) =
     (no_sensitive_properties (jget kvs ''properties'') \<and> no_sensitive_required (jget kvs ''required'') \<and>
      list_all snd (map (map_prod id schema_ok) kvs))"
| "schema_ok (JOpaque _) = True"

record ToolDefinition =
  td_name :: string
  td_description :: string
  td_input_schema :: jobj

definition to_definition :: "GovernedTool \<Rightarrow> ToolDefinition res" where
  "to_definition t =
     rbind (model_canonical_object (JObj (gt_input_schema t))) (\<lambda>schema.
     rbind (tool_name (Some (JStr (gt_name t)))) (\<lambda>_.
     rbind (model_text (Some (JStr (gt_description t)))) (\<lambda>_.
     rbind (ensure (jget schema ''type'' = Some (JStr ''object'')) ModelContractError) (\<lambda>_.
     rbind (ensure (schema_ok (JObj schema)) ModelContractError) (\<lambda>_.
     Inr \<lparr>td_name = gt_name t, td_description = gt_description t, td_input_schema = schema\<rparr>)))))"

type_synonym ToolRegistry = "GovernedTool list"

definition registry_init :: "GovernedTool list \<Rightarrow> ToolRegistry res" where
  "registry_init tools = rbind (ensure (distinct (map gt_name tools)) ToolRegistryError) (\<lambda>_. Inr tools)"

definition registry_get :: "ToolRegistry \<Rightarrow> string \<Rightarrow> GovernedTool res" where
  "registry_get tools name = of_option ToolRegistryError (find (\<lambda>t. gt_name t = name) tools)"

definition registry_contains :: "ToolRegistry \<Rightarrow> string \<Rightarrow> bool" where
  "registry_contains tools name = (name \<in> set (map gt_name tools))"

definition definitions_for :: "ToolRegistry \<Rightarrow> string list \<Rightarrow> ToolDefinition list res" where
  "definitions_for tools permitted =
     rbind (ensure (set permitted \<subseteq> set (map gt_name tools)) ToolRegistryError) (\<lambda>_.
     rmapM (\<lambda>name. rbind (registry_get tools name) to_definition) (sorted_names permitted))"

section \<open>Completion requests\<close>

record CompletionRequest =
  cr_messages :: "Message list"
  cr_tools :: "ToolDefinition list"
  cr_max_output_tokens :: int

definition request_post_init :: "CompletionRequest \<Rightarrow> CompletionRequest res" where
  "request_post_init r =
     rbind (ensure (cr_messages r \<noteq> []) ModelContractError) (\<lambda>_.
     rbind (validate_history (cr_messages r) False) (\<lambda>_.
     rbind (ensure (distinct (map td_name (cr_tools r))) ModelContractError) (\<lambda>_.
     rbind (ensure (1 \<le> cr_max_output_tokens r) ModelContractError) (\<lambda>_.
     Inr r))))"

datatype ModelOutput = OutText string | OutCall ToolCall | OutOther

text \<open>\<^verbatim>\<open>TextOutput\<close> requires text, so an \<open>OutText\<close> that a router returns is not blank.\<close>

definition wf_output :: "(string \<Rightarrow> json res) \<Rightarrow> ModelOutput \<Rightarrow> bool" where
  "wf_output loads out = (case out of
       OutText t \<Rightarrow> nonblank t
     | OutCall c \<Rightarrow> wf_call loads c
     | OutOther \<Rightarrow> True)"

lemma registry_get_name:
  "registry_get tools n = Inr t \<Longrightarrow> gt_name t = n \<and> t \<in> set tools"
  by (auto simp: registry_get_def of_option_Inr find_Some_iff)

lemma definitions_for_Inr:
  assumes "definitions_for tools permitted = Inr defs"
  shows "map td_name defs = sorted_names permitted" and "set permitted \<subseteq> set (map gt_name tools)"
proof -
  have "list_all2 (\<lambda>n d. rbind (registry_get tools n) to_definition = Inr d) (sorted_names permitted) defs"
    using assms by (auto simp: definitions_for_def res_simps rmapM_Inr_iff)
  then show "map td_name defs = sorted_names permitted"
    by (induction rule: list_all2_induct) (auto simp: res_simps to_definition_def dest!: registry_get_name)
  show "set permitted \<subseteq> set (map gt_name tools)" using assms by (simp add: definitions_for_def res_simps)
qed

lemma distinct_definitions: "definitions_for tools permitted = Inr defs \<Longrightarrow> distinct (map td_name defs)"
  using definitions_for_Inr(1) by (simp add: sorted_names_def)

text \<open>
  Only whole names and single words are compared: a name that ends in \<open>api_key\<close> after another word passes.
\<close>

lemma compound_key_not_sensitive: "\<not> is_sensitive_name ''stripe_api_key''" "is_sensitive_name ''apiKey''"
  by code_simp+

end
