(* ===== verification/Durable_Loop.thy ===== *)
theory Durable_Loop
  imports Run_Store Agent_Profile
begin

text \<open>
  \<^verbatim>\<open>cbrain/agent/durable_loop.py\<close>: the checkpoints of a durable run, how a stored run is resumed, and how the
  pending action, call and result are restored from it.

  Effects run over a world with a trace: every call of the run store, of the model router and of the
  governed runtime is appended to it with its outcome. The world is arbitrary, and so are the clocks and the
  store that act on it; whatever other workers do to the store happens inside their calls. A \<open>ToolRun\<close> says
  which stored version of which run it was dispatched for, if any, and how often the handler ran. \<open>float_ops\<close> is the
  addition and subtraction of floats.
\<close>

section \<open>Traced effects\<close>

datatype agent_event =
    StoreCall run_op run_out
  | ModelCall CompletionRequest
  | ToolRun "(string \<times> int) option" ActionIntent nat

type_synonym ('w, 'a) act = "('w \<times> agent_event list, 'a) eff"

definition noted :: "('a res \<Rightarrow> agent_event) \<Rightarrow> ('w, 'a) eff \<Rightarrow> ('w, 'a) act" where
  "noted ev m = (\<lambda>(w, tr). case m w of (r, w') \<Rightarrow> (r, (w', tr @ [ev r])))"

definition unnoted :: "('w, 'a) eff \<Rightarrow> ('w, 'a) act" where
  "unnoted m = (\<lambda>(w, tr). case m w of (r, w') \<Rightarrow> (r, (w', tr)))"

text \<open>\<open>on_error p e m\<close> is \<^verbatim>\<open>except\<close> for the exceptions of \<open>p\<close>, which raises \<open>e\<close>.\<close>

definition on_error :: "(exn \<Rightarrow> bool) \<Rightarrow> exn \<Rightarrow> 'a res \<Rightarrow> 'a res" where
  "on_error p e m = (case m of Inl x \<Rightarrow> Inl (if p x then e else x) | Inr a \<Rightarrow> Inr a)"

record 'w RunStore =
  so_create :: "StoredRunRecord \<Rightarrow> ('w, unit) eff"
  so_load :: "string \<Rightarrow> ('w, StoredRunRecord) eff"
  so_save :: "StoredRunRecord \<Rightarrow> int \<Rightarrow> ('w, StoredRunRecord) eff"
  so_claim :: "string \<Rightarrow> int \<Rightarrow> ('w, StoredRunRecord option) eff"

definition store_create :: "'w RunStore \<Rightarrow> StoredRunRecord \<Rightarrow> ('w, unit) act" where
  "store_create st r = noted (\<lambda>x. StoreCall (OpCreate r) (OutUnit x)) (so_create st r)"

definition store_load :: "'w RunStore \<Rightarrow> string \<Rightarrow> ('w, StoredRunRecord) act" where
  "store_load st k = noted (\<lambda>x. StoreCall (OpLoad k) (OutRecord x)) (so_load st k)"

definition store_save :: "'w RunStore \<Rightarrow> StoredRunRecord \<Rightarrow> int \<Rightarrow> ('w, StoredRunRecord) act" where
  "store_save st r v = noted (\<lambda>x. StoreCall (OpSave r v) (OutRecord x)) (so_save st r v)"

definition store_claim :: "'w RunStore \<Rightarrow> string \<Rightarrow> int \<Rightarrow> ('w, StoredRunRecord option) act" where
  "store_claim st k v = noted (\<lambda>x. StoreCall (OpClaim k v) (OutClaim x)) (so_claim st k v)"

section \<open>Inputs and contexts\<close>

record float_ops =
  fo_add :: "pyfloat \<Rightarrow> pyfloat \<Rightarrow> pyfloat"
  fo_sub :: "pyfloat \<Rightarrow> pyfloat \<Rightarrow> pyfloat"

record RunInput =
  ri_task :: string
  ri_run_id :: "string option"
  ri_metadata :: "jobj option"

definition run_input_post_init :: "RunInput \<Rightarrow> RunInput res" where
  "run_input_post_init r =
     rbind (ensure (nonblank (ri_task r)) ValueError) (\<lambda>_.
     rbind (ensure (opt_nonblank (ri_run_id r)) ValueError) (\<lambda>_. Inr r))"

record DurableRunContext =
  cx_run_input :: RunInput
  cx_run_id :: string
  cx_started_at_utc :: pyfloat
  cx_deadline_monotonic :: pyfloat
  cx_events :: "RunEvent list"
  cx_messages :: "Message list"
  cx_tool_calls :: int
  cx_model_turns :: int
  cx_next_step :: int
  cx_record :: StoredRunRecord
  cx_merge_completed_tool :: bool

text \<open>\<^verbatim>\<open>DurableRunContext | RunResult\<close>.\<close>

datatype 'c flow = Return RunResult | Next 'c

definition py_max_zero :: "pyfloat \<Rightarrow> pyfloat" where
  "py_max_zero x = (if float_less (Finite ''0.0'') x then x else Finite ''0.0'')"

definition compute_deadline_monotonic ::
  "float_ops \<Rightarrow> ('w, pyfloat) eff \<Rightarrow> ('w, pyfloat) eff \<Rightarrow> pyfloat \<Rightarrow> ('w, pyfloat) act" where
  "compute_deadline_monotonic fo wall_clock monotonic_clock expires_at_utc =
     ebind (unnoted wall_clock) (\<lambda>now.
     ebind (unnoted monotonic_clock) (\<lambda>mono.
     eret (Inr (fo_add fo mono (py_max_zero (fo_sub fo expires_at_utc now))))))"

definition new_running_record ::
  "string \<Rightarrow> AgentProfile \<Rightarrow> RunInput \<Rightarrow> pyfloat \<Rightarrow> pyfloat \<Rightarrow> Message list \<Rightarrow> RunEvent list \<Rightarrow> StoredRunRecord" where
  "new_running_record run_id profile run_input started expires messages events =
     \<lparr>sr_schema_version = store_schema_version, sr_version = 0, sr_run_id = run_id,
      sr_durable_state = DS_RUNNING, sr_profile_fingerprint = profile_fingerprint profile,
      sr_task = ri_task run_input,
      sr_run_metadata = (case ri_metadata run_input of None \<Rightarrow> [] | Some m \<Rightarrow> m),
      sr_started_at_utc = started, sr_expires_at_utc = expires, sr_next_step = 1, sr_tool_calls = 0,
      sr_model_turns = 0, sr_messages = map serialize_message messages, sr_events = map serialize_event events,
      sr_pending_request_id = None, sr_pending_idempotency_key = None, sr_pending_action = None,
      sr_pending_tool_call_id = None, sr_pending_tool_name = None, sr_pending_execution_status = None,
      sr_pending_execution_output = JNull, sr_pending_execution_reason = None, sr_terminal_status = None,
      sr_final_text = None, sr_terminal_metadata = None\<rparr>"

section \<open>Resuming\<close>

definition resume_durable_run ::
  "float_ops \<Rightarrow> (string \<Rightarrow> json res) \<Rightarrow> ('w, pyfloat) eff \<Rightarrow> ('w, pyfloat) eff \<Rightarrow> AgentProfile \<Rightarrow> RunInput \<Rightarrow>
   StoredRunRecord \<Rightarrow> ('w, DurableRunContext flow) act" where
  "resume_durable_run fo loads wall_clock monotonic_clock profile run_input record =
     ebind (eret (ensure (profile_fingerprint profile = sr_profile_fingerprint record) RunStoreError)) (\<lambda>_.
     ebind (eret (ensure (py_strip (ri_task run_input) = py_strip (sr_task record)) RunStoreError)) (\<lambda>_.
     if terminal_durable (sr_durable_state record)
     then eret (rbind (record_to_run_result record) (\<lambda>r. Inr (Return r)))
     else if sr_durable_state record = DS_TOOL_IN_FLIGHT
     then eret (rbind (in_flight_run_result record in_flight_reason) (\<lambda>r. Inr (Return r)))
     else
       ebind (compute_deadline_monotonic fo wall_clock monotonic_clock (sr_expires_at_utc record)) (\<lambda>deadline.
       ebind (eret (rmapM deserialize_event (sr_events record))) (\<lambda>events.
       ebind (eret (rmapM (deserialize_message loads) (sr_messages record))) (\<lambda>messages.
       eret (Inr (Next \<lparr>cx_run_input = run_input, cx_run_id = sr_run_id record,
         cx_started_at_utc = sr_started_at_utc record, cx_deadline_monotonic = deadline,
         cx_events = events, cx_messages = messages, cx_tool_calls = sr_tool_calls record,
         cx_model_turns = sr_model_turns record, cx_next_step = sr_next_step record, cx_record = record,
         cx_merge_completed_tool = (sr_durable_state record = DS_TOOL_COMPLETED)\<rparr>)))))))"

text \<open>The lookup of \<^verbatim>\<open>initialize_durable_run\<close>: only the store's own error means that there is no record.\<close>

definition lookup_run :: "'w RunStore \<Rightarrow> string option \<Rightarrow> ('w, StoredRunRecord option) act" where
  "lookup_run st run_id = (case run_id of
       Some k \<Rightarrow>
         if k = [] then eret (Inr None)
         else (\<lambda>s. case store_load st k s of
             (Inl e, s') \<Rightarrow> (if e = RunStoreError then Inr None else Inl e, s')
           | (Inr r, s') \<Rightarrow> (Inr (Some r), s'))
     | None \<Rightarrow> eret (Inr None))"

definition initialize_durable_run ::
  "float_ops \<Rightarrow> (string \<Rightarrow> json res) \<Rightarrow> ('w, pyfloat) eff \<Rightarrow> ('w, pyfloat) eff \<Rightarrow> 'w RunStore \<Rightarrow> AgentProfile \<Rightarrow>
   RunInput \<Rightarrow> pyfloat \<Rightarrow> pyfloat \<Rightarrow> string \<Rightarrow> string \<Rightarrow> RunEvent \<Rightarrow> ('w, DurableRunContext flow) act" where
  "initialize_durable_run fo loads wall_clock monotonic_clock st profile run_input started_at_utc
       expires_at_utc run_id instructions started_event =
     ebind (lookup_run st (ri_run_id run_input)) (\<lambda>found.
     case found of
       Some record \<Rightarrow> resume_durable_run fo loads wall_clock monotonic_clock profile run_input record
     | None \<Rightarrow>
         ebind (eret (make_message ROLE_SYSTEM instructions JNull JNull None)) (\<lambda>system.
         ebind (eret (make_message ROLE_USER (ri_task run_input) JNull JNull None)) (\<lambda>user.
         let record = new_running_record run_id profile run_input started_at_utc expires_at_utc
               [system, user] [started_event] in
         ebind (store_create st record) (\<lambda>_.
         ebind (compute_deadline_monotonic fo wall_clock monotonic_clock expires_at_utc) (\<lambda>deadline.
         eret (Inr (Next \<lparr>cx_run_input = run_input, cx_run_id = run_id, cx_started_at_utc = started_at_utc,
           cx_deadline_monotonic = deadline, cx_events = [started_event], cx_messages = [system, user],
           cx_tool_calls = 0, cx_model_turns = 0, cx_next_step = 1, cx_record = record,
           cx_merge_completed_tool = False\<rparr>)))))))"

definition resolve_claim_conflict :: "'w RunStore \<Rightarrow> string \<Rightarrow> ('w, RunResult) act" where
  "resolve_claim_conflict st run_id =
     ebind (store_load st run_id) (\<lambda>current.
     if terminal_durable (sr_durable_state current) then eret (record_to_run_result current)
     else if sr_durable_state current = DS_TOOL_IN_FLIGHT
     then eret (in_flight_run_result current ''another worker claimed tool dispatch'')
     else eret (in_flight_run_result current ''tool dispatch claim conflict''))"

section \<open>Checkpoints\<close>

text \<open>The keyword arguments of \<^verbatim>\<open>persist_record\<close>; \<open>None\<close> (\<open>JNull\<close> for the output) keeps the record's value.\<close>

record checkpoint =
  ck_durable_state :: "DurableRunState option"
  ck_events :: "RunEvent list option"
  ck_messages :: "Message list option"
  ck_tool_calls :: "int option"
  ck_model_turns :: "int option"
  ck_next_step :: "int option"
  ck_pending_request_id :: "string option"
  ck_pending_idempotency_key :: "string option"
  ck_pending_action :: "jobj option"
  ck_pending_tool_call_id :: "string option"
  ck_pending_tool_name :: "string option"
  ck_pending_execution_status :: "string option"
  ck_pending_execution_output :: json
  ck_pending_execution_reason :: "string option"
  ck_clear_pending :: bool
  ck_terminal_status :: "RunStatus option"
  ck_final_text :: "string option"
  ck_terminal_metadata :: "jobj option"

definition checkpoint_nothing :: checkpoint where
  "checkpoint_nothing = \<lparr>ck_durable_state = None, ck_events = None, ck_messages = None, ck_tool_calls = None,
     ck_model_turns = None, ck_next_step = None, ck_pending_request_id = None,
     ck_pending_idempotency_key = None, ck_pending_action = None, ck_pending_tool_call_id = None,
     ck_pending_tool_name = None, ck_pending_execution_status = None, ck_pending_execution_output = JNull,
     ck_pending_execution_reason = None, ck_clear_pending = False, ck_terminal_status = None,
     ck_final_text = None, ck_terminal_metadata = None\<rparr>"

definition or_keep :: "'a option \<Rightarrow> 'a \<Rightarrow> 'a" where
  "or_keep new old = (case new of None \<Rightarrow> old | Some v \<Rightarrow> v)"

definition or_keep_opt :: "'a option \<Rightarrow> 'a option \<Rightarrow> 'a option" where
  "or_keep_opt new old = (case new of None \<Rightarrow> old | Some v \<Rightarrow> Some v)"

definition checkpoint_record :: "StoredRunRecord \<Rightarrow> checkpoint \<Rightarrow> StoredRunRecord" where
  "checkpoint_record r ck =
     (let pending = (\<lambda>new old. if ck_clear_pending ck then None else or_keep_opt new old) in
      r\<lparr>sr_durable_state := or_keep (ck_durable_state ck) (sr_durable_state r),
        sr_next_step := or_keep (ck_next_step ck) (sr_next_step r),
        sr_tool_calls := or_keep (ck_tool_calls ck) (sr_tool_calls r),
        sr_model_turns := or_keep (ck_model_turns ck) (sr_model_turns r),
        sr_messages := or_keep (map_option (map serialize_message) (ck_messages ck)) (sr_messages r),
        sr_events := or_keep (map_option (map serialize_event) (ck_events ck)) (sr_events r),
        sr_pending_request_id := pending (ck_pending_request_id ck) (sr_pending_request_id r),
        sr_pending_idempotency_key := pending (ck_pending_idempotency_key ck) (sr_pending_idempotency_key r),
        sr_pending_action := (if ck_clear_pending ck then None
          else or_keep_opt (ck_pending_action ck) (sr_pending_action r)),
        sr_pending_tool_call_id := pending (ck_pending_tool_call_id ck) (sr_pending_tool_call_id r),
        sr_pending_tool_name := pending (ck_pending_tool_name ck) (sr_pending_tool_name r),
        sr_pending_execution_status := pending (ck_pending_execution_status ck) (sr_pending_execution_status r),
        sr_pending_execution_output := (if ck_clear_pending ck then JNull
          else if ck_pending_execution_output ck \<noteq> JNull then ck_pending_execution_output ck
          else sr_pending_execution_output r),
        sr_pending_execution_reason := pending (ck_pending_execution_reason ck) (sr_pending_execution_reason r),
        sr_terminal_status := or_keep_opt (ck_terminal_status ck) (sr_terminal_status r),
        sr_final_text := or_keep_opt (ck_final_text ck) (sr_final_text r),
        sr_terminal_metadata := or_keep_opt (ck_terminal_metadata ck) (sr_terminal_metadata r)\<rparr>)"

definition persist_record :: "'w RunStore \<Rightarrow> StoredRunRecord \<Rightarrow> checkpoint \<Rightarrow> ('w, StoredRunRecord) act" where
  "persist_record st record ck = store_save st (checkpoint_record record ck) (sr_version record)"

definition finalize_durable_record ::
  "StoredRunRecord \<Rightarrow> DurableRunState \<Rightarrow> RunStatus \<Rightarrow> string option \<Rightarrow> jobj option \<Rightarrow> RunEvent list option \<Rightarrow>
   Message list option \<Rightarrow> int option \<Rightarrow> int option \<Rightarrow> StoredRunRecord" where
  "finalize_durable_record r state status final_text metadata events messages tool_calls model_turns =
     r\<lparr>sr_durable_state := state,
       sr_tool_calls := or_keep tool_calls (sr_tool_calls r),
       sr_model_turns := or_keep model_turns (sr_model_turns r),
       sr_messages := or_keep (map_option (map serialize_message) messages) (sr_messages r),
       sr_events := or_keep (map_option (map serialize_event) events) (sr_events r),
       sr_pending_request_id := None, sr_pending_idempotency_key := None, sr_pending_action := None,
       sr_pending_tool_call_id := None, sr_pending_tool_name := None, sr_pending_execution_status := None,
       sr_pending_execution_output := JNull, sr_pending_execution_reason := None,
       sr_terminal_status := Some status, sr_final_text := final_text,
       sr_terminal_metadata := Some (case metadata of
          Some m \<Rightarrow> if m = [] then sr_run_metadata r else m | None \<Rightarrow> sr_run_metadata r)\<rparr>"

section \<open>Restoring\<close>

text \<open>Python's truth value of a decoded document.\<close>

definition truthy :: "json \<Rightarrow> bool" where
  "truthy v = (case v of
       JNull \<Rightarrow> False
     | JBool b \<Rightarrow> b
     | JInt i \<Rightarrow> i \<noteq> 0
     | JFloat (Finite t) \<Rightarrow> (case parse_dec t of Some (m, _) \<Rightarrow> m \<noteq> 0 | None \<Rightarrow> True)
     | JFloat _ \<Rightarrow> True
     | JStr s \<Rightarrow> s \<noteq> []
     | JList xs \<Rightarrow> xs \<noteq> []
     | JObj d \<Rightarrow> d \<noteq> []
     | JOpaque _ \<Rightarrow> True)"

definition arg_text :: "json option \<Rightarrow> string res" where
  "arg_text v = (case v of None \<Rightarrow> Inl TypeError | Some (JStr s) \<Rightarrow> Inr s | Some _ \<Rightarrow> Inl ContractError)"

definition arg_opt_text :: "json option \<Rightarrow> (string option) res" where
  "arg_opt_text v = (case v of
       None \<Rightarrow> Inr None
     | Some (JStr s) \<Rightarrow> Inr (Some s)
     | Some x \<Rightarrow> if truthy x then Inl ContractError else Inr None)"

definition arg_opt_obj :: "json option \<Rightarrow> (jobj option) res" where
  "arg_opt_obj v = (case v of
       None \<Rightarrow> Inr None
     | Some (JObj d) \<Rightarrow> Inr (Some d)
     | Some x \<Rightarrow> if truthy x then Inl ContractError else Inr None)"

definition action_parameters :: "string list" where
  "action_parameters = [''agent_id'', ''framework'', ''tool_name'', ''capability'', ''arguments'', ''context'',
     ''evidence'', ''request_id'', ''idempotency_key'', ''timestamp'']"

text \<open>
  \<^verbatim>\<open>restore_action\<close>: the stored mapping is the keyword arguments of \<^verbatim>\<open>ActionIntent.capture\<close>. An unknown or a
  missing keyword is a \<^verbatim>\<open>TypeError\<close>, which is not caught. \<open>fresh\<close> and \<open>now\<close> are as in \<open>capture_action\<close>.
\<close>

definition restore_action :: "string \<Rightarrow> json \<Rightarrow> StoredRunRecord \<Rightarrow> ActionIntent res" where
  "restore_action fresh now r = (case sr_pending_action r of
       None \<Rightarrow> Inl RunStoreError
     | Some p \<Rightarrow>
         rbind (ensure (jkeys p \<subseteq> set action_parameters \<and>
                  {''agent_id'', ''framework'', ''tool_name'', ''capability'', ''arguments''} \<subseteq> jkeys p) TypeError) (\<lambda>_.
         on_error (\<lambda>e. e = ContractError) RunStoreError
           (rbind (arg_text (jget p ''agent_id'')) (\<lambda>agent_id.
            rbind (arg_text (jget p ''framework'')) (\<lambda>framework.
            rbind (arg_text (jget p ''tool_name'')) (\<lambda>name.
            rbind (arg_text (jget p ''capability'')) (\<lambda>capability.
            rbind (arg_opt_obj (jget p ''context'')) (\<lambda>context.
            rbind (arg_opt_obj (jget p ''evidence'')) (\<lambda>evidence.
            rbind (arg_opt_text (jget p ''request_id'')) (\<lambda>request_id.
            rbind (arg_opt_text (jget p ''idempotency_key'')) (\<lambda>key.
            capture_action fresh now agent_id framework name capability (or_null (jget p ''arguments''))
              context evidence request_id key
              (case jget p ''timestamp'' of Some JNull \<Rightarrow> None | v \<Rightarrow> v))))))))))))"

definition restore_tool_call :: "(string \<Rightarrow> json res) \<Rightarrow> StoredRunRecord \<Rightarrow> ToolCall res" where
  "restore_tool_call loads r =
     (case (sr_pending_tool_call_id r, sr_pending_tool_name r, sr_pending_action r) of
        (Some call_id, Some name, Some action) \<Rightarrow>
          (case jget action ''arguments'' of
             Some (JObj arguments) \<Rightarrow>
               rbind (rmapM (deserialize_message loads) (sr_messages r)) (\<lambda>messages.
               rbind (on_error is_model_error RunStoreError
                 (rbind (validate_history messages True) (\<lambda>_.
                  capture_tool_call loads call_id name (JObj arguments) None))) (\<lambda>pending.
               rbind (of_option RunStoreError
                 (if messages = [] then None else ms_tool_call (last messages))) (\<lambda>call.
               rbind (ensure (tc_call_id call = tc_call_id pending \<and> tc_name call = tc_name pending \<and>
                        dumps (JObj (tc_arguments call)) = dumps (JObj (tc_arguments pending))) RunStoreError) (\<lambda>_.
               Inr call))))
           | _ \<Rightarrow> Inl RunStoreError)
      | _ \<Rightarrow> Inl RunStoreError)"

definition all_statuses :: "ExecutionStatus list" where
  "all_statuses = [EXECUTED, BLOCKED, REVIEW_REQUIRED, CONTROL_FAILURE, INDETERMINATE]"

definition status_of_text :: "string \<Rightarrow> ExecutionStatus option" where
  "status_of_text s = find (\<lambda>x. status_value x = s) all_statuses"

definition restore_execution :: "StoredRunRecord \<Rightarrow> GovernedExecution res" where
  "restore_execution r = (case (sr_pending_execution_status r, sr_pending_request_id r) of
       (Some status_text, Some request_id) \<Rightarrow>
         rbind (of_option RunStoreError (status_of_text status_text)) (\<lambda>status.
         execution_post_init \<lparr>ge_status = status, ge_request_id = request_id,
           ge_tool_executed = (if status = EXECUTED then Some True
             else if status = INDETERMINATE then None else Some False),
           ge_reason = (case sr_pending_execution_reason r of Some t \<Rightarrow> t | None \<Rightarrow> []),
           ge_decision_id = None, ge_output = sr_pending_execution_output r, ge_retryable = False\<rparr>)
     | _ \<Rightarrow> Inl RunStoreError)"

end
