(* ===== verification/Agent_Loop.thy ===== *)
theory Agent_Loop
  imports Durable_Loop Governed_Runtime
begin

text \<open>
  \<^verbatim>\<open>cbrain/agent/foundation.py\<close>: the bounded loop of the foundation agent, with and without a run store.

  The collaborators of the agent are its fields: the gateway behind the governed runtime, the model
  router, the clocks, the knowledge service; \<open>ag_uuid\<close> and \<open>ag_time\<close> are what \<^verbatim>\<open>uuid4\<close> and \<^verbatim>\<open>time.time\<close>
  give if an action is captured without an id or a time. The runtime itself is \<open>execute\<close> of \<open>Governed_Runtime\<close>. The
  message of an exception that goes into a result is \<open>ag_str\<close> of it. An early \<^verbatim>\<open>return\<close> is \<open>Return\<close>;
  an exception that leaves \<^verbatim>\<open>run\<close> is \<open>Inl\<close>.
\<close>

section \<open>The agent\<close>

record 'w Agent =
  ag_profile :: AgentProfile
  ag_gateway :: "'w PrivateVaultGateway"
  ag_complete :: "string \<Rightarrow> CompletionRequest \<Rightarrow> ('w, ModelOutput) eff"
  ag_tools :: ToolRegistry
  ag_handlers :: "(string \<times> 'w handler) list"
  ag_clock :: "('w, pyfloat) eff"
  ag_wall_clock :: "('w, pyfloat) eff"
  ag_run_id_factory :: "('w, string) eff"
  ag_request_id_factory :: "string \<Rightarrow> int \<Rightarrow> ('w, string) eff"
  ag_cancelled :: "('w, bool) eff"
  ag_knowledge :: "(string \<Rightarrow> string \<Rightarrow> string \<Rightarrow> string \<Rightarrow> pyfloat \<Rightarrow> ('w, string) eff) option"
  ag_floats :: float_ops
  ag_loads :: "string \<Rightarrow> json res"
  ag_str :: "exn \<Rightarrow> string"
  ag_default :: "string \<Rightarrow> string res"
  ag_uuid :: "'w \<Rightarrow> string"
  ag_time :: "'w \<Rightarrow> pyfloat"

definition validate_handlers :: "'w Agent \<Rightarrow> unit res" where
  "validate_handlers ag =
     rbind (ensure (set (ap_permitted_tools (ag_profile ag)) \<subseteq> set (map fst (ag_handlers ag)))
       FoundationAgentError) (\<lambda>_.
     ensure (set (map fst (ag_handlers ag)) \<subseteq> set (ap_permitted_tools (ag_profile ag))) FoundationAgentError)"

abbreviation limits_of :: "'w Agent \<Rightarrow> RunLimits" where
  "limits_of ag \<equiv> ap_limits (ag_profile ag)"

section \<open>Pieces of a run\<close>

definition snapshot_detail :: "jobj \<Rightarrow> jobj" where
  "snapshot_detail d = canon_obj d"

definition run_event :: "RunEventKind \<Rightarrow> int \<Rightarrow> pyfloat \<Rightarrow> jobj \<Rightarrow> RunEvent" where
  "run_event kind step timestamp detail =
     \<lparr>re_kind = kind, re_step = step, re_timestamp = timestamp, re_detail = snapshot_detail detail\<rparr>"

definition metadata_of :: "RunInput \<Rightarrow> string option \<Rightarrow> jobj" where
  "metadata_of run_input reason =
     (let payload = (case ri_metadata run_input of None \<Rightarrow> [] | Some m \<Rightarrow> m) in
      case reason of None \<Rightarrow> payload | Some r \<Rightarrow> jset ''reason'' (JStr r) payload)"

text \<open>\<^verbatim>\<open>_failed\<close> and \<^verbatim>\<open>_terminal\<close> have the same body.\<close>

definition failed :: "string \<Rightarrow> RunStatus \<Rightarrow> RunEvent list \<Rightarrow> jobj \<Rightarrow> int \<Rightarrow> int \<Rightarrow> RunResult" where
  "failed run_id status events metadata tool_calls model_turns =
     \<lparr>rr_run_id = run_id, rr_status = status, rr_final_text = None, rr_tool_calls = tool_calls,
      rr_model_turns = model_turns,
      rr_events = events @ [run_event RUN_FAILED (int (length events)) (Finite ''0.0'')
        [(''status'', JStr (run_status_value status))]],
      rr_metadata = metadata\<rparr>"

definition fbind :: "('w, 'c flow) act \<Rightarrow> ('c \<Rightarrow> ('w, 'd flow) act) \<Rightarrow> ('w, 'd flow) act" where
  "fbind m f = ebind m (\<lambda>x. case x of Return r \<Rightarrow> eret (Inr (Return r)) | Next c \<Rightarrow> f c)"

text \<open>\<open>knowledge_context\<close>: the evidence message, and whether tools are blocked.\<close>

definition text_of :: "json option \<Rightarrow> string option" where
  "text_of v = (case v of Some (JStr s) \<Rightarrow> if nonblank s then Some s else None | _ \<Rightarrow> None)"

definition knowledge_context :: "'w Agent \<Rightarrow> RunInput \<Rightarrow> ('w, Message option \<times> bool) act" where
  "knowledge_context ag run_input =
     (let required = ap_knowledge_required_for_tools (ag_profile ag);
          metadata = metadata_of run_input None in
      case ag_knowledge ag of
        None \<Rightarrow> eret (Inr (None, required))
      | Some retrieve \<Rightarrow>
          (case (text_of (jget metadata ''tenant_id''), text_of (jget metadata ''collection_id''),
                 text_of (jget metadata ''principal_id'')) of
             (Some tenant, Some collection, Some who) \<Rightarrow>
               (\<lambda>s. case ebind (unnoted (ag_wall_clock ag)) (\<lambda>now.
                       unnoted (retrieve tenant collection who (ri_task run_input) now)) s of
                   (Inl e, s') \<Rightarrow> (Inr (None, required), s')
                 | (Inr evidence, s') \<Rightarrow>
                     (rbind (make_message ROLE_USER evidence JNull JNull None) (\<lambda>m. Inr (Some m, False)), s'))
           | _ \<Rightarrow> eret (Inr (None, required))))"

text \<open>The completion request and the call of the router; a \<^verbatim>\<open>ModelError\<close> is handed to the caller.\<close>

definition complete_model :: "'w Agent \<Rightarrow> Message list \<Rightarrow> ToolDefinition list \<Rightarrow> ('w, exn + ModelOutput) act" where
  "complete_model ag messages defs s =
     (case request_post_init \<lparr>cr_messages = messages, cr_tools = defs,
             cr_max_output_tokens = rl_max_output_tokens (limits_of ag)\<rparr> of
        Inl e \<Rightarrow> (if is_model_error e then Inr (Inl e) else Inl e, s)
      | Inr request \<Rightarrow>
          (case noted (\<lambda>_. ModelCall request) (ag_complete ag (ap_model_route (ag_profile ag)) request) s of
             (Inl e, s') \<Rightarrow> (if is_model_error e then Inr (Inl e) else Inl e, s')
           | (Inr out, s') \<Rightarrow> (Inr (Inr out), s')))"

text \<open>\<^verbatim>\<open>self._runtime.execute(action, self._handlers[name])\<close>.\<close>

definition run_tool ::
  "'w Agent \<Rightarrow> (string \<times> int) option \<Rightarrow> string \<Rightarrow> ActionIntent \<Rightarrow> ('w, GovernedExecution) act" where
  "run_tool ag claimed name action = (\<lambda>(w, tr).
     case map_of (ag_handlers ag) name of
       None \<Rightarrow> (Inl KeyError, (w, tr))
     | Some handler \<Rightarrow>
         (case execute (ag_gateway ag) action handler w of
            (r, s) \<Rightarrow> (r, (world s, tr @ [ToolRun claimed action (length (calls s))]))))"

definition capture_intent ::
  "'w Agent \<Rightarrow> string \<Rightarrow> string \<Rightarrow> ToolCall \<Rightarrow> string \<Rightarrow> pyfloat \<Rightarrow> string \<Rightarrow> ActionIntent res" where
  "capture_intent ag run_id capability call request_id timestamp fresh =
     capture_action fresh JNull (ap_agent_id (ag_profile ag)) ''cbrain-foundation'' (tc_name call) capability
       (JObj (tc_arguments call))
       (Some [(''run_id'', JStr run_id), (''tool_call_id'', JStr (tc_call_id call))]) None
       (Some request_id) (Some request_id) (Some (JFloat timestamp))"

definition tool_requested :: "int \<Rightarrow> pyfloat \<Rightarrow> string \<Rightarrow> string \<Rightarrow> string \<Rightarrow> RunEvent" where
  "tool_requested step now name capability request_id =
     run_event TOOL_REQUESTED step now [(''tool_name'', JStr name), (''capability'', JStr capability),
       (''request_id'', JStr request_id)]"

definition tool_completed :: "int \<Rightarrow> pyfloat \<Rightarrow> string \<Rightarrow> GovernedExecution \<Rightarrow> RunEvent" where
  "tool_completed step now request_id execution =
     run_event TOOL_COMPLETED step now [(''request_id'', JStr request_id),
       (''execution_status'', JStr (status_value (ge_status execution)))]"

definition tool_rejected :: "int \<Rightarrow> pyfloat \<Rightarrow> string \<Rightarrow> GovernedExecution \<Rightarrow> RunEvent" where
  "tool_rejected step now request_id execution =
     run_event TOOL_REJECTED step now [(''request_id'', JStr request_id),
       (''execution_status'', JStr (status_value (ge_status execution))), (''reason'', JStr (ge_reason execution))]"

definition observation_text :: "'w Agent \<Rightarrow> string \<Rightarrow> GovernedExecution \<Rightarrow> string res" where
  "observation_text ag request_id execution =
     render_ascii '', '' '': '' (ag_default ag) (canon (JObj
       [(''status'', JStr (status_value (ge_status execution))), (''request_id'', JStr request_id),
        (''output'', ge_output execution)]))"

text \<open>How a tool execution that is not \<open>EXECUTED\<close> ends the run.\<close>

fun rejected_status :: "ExecutionStatus \<Rightarrow> RunStatus" where
  "rejected_status BLOCKED = RS_REJECTED"
| "rejected_status REVIEW_REQUIRED = RS_REJECTED"
| "rejected_status _ = RS_TOOL_FAILURE"

section \<open>The ephemeral run\<close>

record eph =
  es_events :: "RunEvent list"
  es_messages :: "Message list"
  es_tool_calls :: int
  es_model_turns :: int

definition add_event :: "RunEvent \<Rightarrow> eph \<Rightarrow> eph" where
  "add_event e s = s\<lparr>es_events := es_events s @ [e]\<rparr>"

definition add_message :: "Message \<Rightarrow> eph \<Rightarrow> eph" where
  "add_message m s = s\<lparr>es_messages := es_messages s @ [m]\<rparr>"

definition stop :: "string \<Rightarrow> RunInput \<Rightarrow> RunStatus \<Rightarrow> string option \<Rightarrow> eph \<Rightarrow> ('w, 'c flow) act" where
  "stop run_id run_input status reason s =
     eret (Inr (Return (failed run_id status (es_events s) (metadata_of run_input reason)
       (es_tool_calls s) (es_model_turns s))))"

text \<open>The head of a turn, up to the model's answer.\<close>

definition ask_model ::
  "'w Agent \<Rightarrow> string \<Rightarrow> RunInput \<Rightarrow> pyfloat \<Rightarrow> ToolDefinition list \<Rightarrow> int \<Rightarrow> eph \<Rightarrow>
   ('w, (pyfloat \<times> ModelOutput \<times> eph) flow) act" where
  "ask_model ag run_id ri deadline defs step s =
     ebind (unnoted (ag_cancelled ag)) (\<lambda>cancelled.
     if cancelled then stop run_id ri RS_CANCELLED None s else
     ebind (unnoted (ag_clock ag)) (\<lambda>now.
     if float_less deadline now then stop run_id ri RS_TIMED_OUT None s else
     if rl_max_context_messages (limits_of ag) < int (length (es_messages s))
     then stop run_id ri RS_LIMIT_REACHED (Some ''context message limit reached'') s else
     let s1 = add_event (run_event MODEL_TURN step now [(''run_id'', JStr run_id)]) s in
     ebind (complete_model ag (es_messages s1) defs) (\<lambda>answer.
     case answer of
       Inl e \<Rightarrow> stop run_id ri RS_MODEL_FAILURE (Some (ag_str ag e)) s1
     | Inr output \<Rightarrow>
         (let s2 = s1\<lparr>es_model_turns := es_model_turns s1 + 1\<rparr> in
          ebind (unnoted (ag_cancelled ag)) (\<lambda>cancelled.
          if cancelled then stop run_id ri RS_CANCELLED None s2 else
          ebind (unnoted (ag_clock ag)) (\<lambda>after.
          if float_ge after deadline then stop run_id ri RS_TIMED_OUT None s2 else
          eret (Inr (Next (now, output, s2)))))))))"

definition finish_text ::
  "'w Agent \<Rightarrow> string \<Rightarrow> RunInput \<Rightarrow> int \<Rightarrow> string \<Rightarrow> eph \<Rightarrow> ('w, 'c flow) act" where
  "finish_text ag run_id ri step answer s =
     (if rl_max_model_text_chars (limits_of ag) < int (length answer)
      then stop run_id ri RS_INVALID_MODEL_RESPONSE (Some ''model text exceeds max_model_text_chars'') s
      else
        ebind (unnoted (ag_clock ag)) (\<lambda>t1.
        ebind (unnoted (ag_clock ag)) (\<lambda>t2.
        eret (Inr (Return \<lparr>rr_run_id = run_id, rr_status = RS_COMPLETED, rr_final_text = Some answer,
          rr_tool_calls = es_tool_calls s, rr_model_turns = es_model_turns s,
          rr_events = es_events s @ [run_event MODEL_RESPONSE step t1 [(''kind'', JStr ''text'')],
            run_event RUN_COMPLETED step t2 [(''run_id'', JStr run_id)]],
          rr_metadata = metadata_of ri None\<rparr>)))))"

definition not_permitted :: "string \<Rightarrow> string" where
  "not_permitted name = ''tool '' @ [CHR 0x27] @ name @ [CHR 0x27] @ '' is not permitted for this agent''"

definition not_registered :: "string \<Rightarrow> string" where
  "not_registered name = ''tool '' @ [CHR 0x27] @ name @ [CHR 0x27] @ '' is not registered''"

text \<open>What the loop does with the execution the runtime returned.\<close>

definition observe ::
  "'w Agent \<Rightarrow> string \<Rightarrow> RunInput \<Rightarrow> int \<Rightarrow> ToolCall \<Rightarrow> string \<Rightarrow> GovernedExecution \<Rightarrow> eph \<Rightarrow> ('w, eph flow) act" where
  "observe ag run_id ri step call request_id execution s =
     (if ge_status execution = EXECUTED then
        ebind (eret (observation_text ag request_id execution)) (\<lambda>observation.
        if rl_max_observation_chars (limits_of ag) < int (length observation)
        then stop run_id ri RS_LIMIT_REACHED (Some ''tool observation exceeds max_observation_chars'') s
        else
          ebind (unnoted (ag_clock ag)) (\<lambda>t.
          ebind (eret (make_message ROLE_TOOL observation (JStr (tc_call_id call)) (JStr (tc_name call)) None)) (\<lambda>m.
          eret (Inr (Next (add_message m (add_event (tool_completed step t request_id execution) s)))))))
      else
        ebind (unnoted (ag_clock ag)) (\<lambda>t.
        stop run_id ri (rejected_status (ge_status execution)) (Some (ge_reason execution))
          (add_event (tool_rejected step t request_id execution) s)))"

definition use_tool ::
  "'w Agent \<Rightarrow> string \<Rightarrow> RunInput \<Rightarrow> bool \<Rightarrow> int \<Rightarrow> pyfloat \<Rightarrow> ToolCall \<Rightarrow> eph \<Rightarrow> ('w, eph flow) act" where
  "use_tool ag run_id ri blocked step now call s =
     (if tc_name call \<notin> set (ap_permitted_tools (ag_profile ag))
      then stop run_id ri RS_INVALID_MODEL_RESPONSE (Some (not_permitted (tc_name call))) s
      else if \<not> registry_contains (ag_tools ag) (tc_name call)
      then stop run_id ri RS_INVALID_MODEL_RESPONSE (Some (not_registered (tc_name call))) s
      else if ap_max_tool_calls (ag_profile ag) \<le> es_tool_calls s
      then stop run_id ri RS_LIMIT_REACHED None s
      else
        ebind (eret (registry_get (ag_tools ag) (tc_name call))) (\<lambda>tool.
        ebind (unnoted (ag_request_id_factory ag run_id step)) (\<lambda>request_id.
        if blocked then stop run_id ri RS_TOOL_FAILURE (Some ''KNOWLEDGE_UNAVAILABLE'') s else
        ebind (unnoted (ag_wall_clock ag)) (\<lambda>timestamp.
        ebind (\<lambda>(w, tr). (Inr (ag_uuid ag w), (w, tr))) (\<lambda>fresh.
        case capture_intent ag run_id (gt_capability tool) call request_id timestamp fresh of
          Inl e \<Rightarrow>
            if e = ContractError then stop run_id ri RS_INVALID_MODEL_RESPONSE (Some (ag_str ag e)) s
            else eret (Inl e)
        | Inr action \<Rightarrow>
            (let s1 = add_event (tool_requested step now (tc_name call) (gt_capability tool) request_id) s in
             case validate_history (es_messages s1 @ [as_message call]) True of
               Inl e \<Rightarrow> stop run_id ri RS_INVALID_MODEL_RESPONSE (Some (ag_str ag e)) s1
             | Inr _ \<Rightarrow>
                 ebind (run_tool ag None (tc_name call) action) (\<lambda>execution.
                 observe ag run_id ri step call request_id execution
                   ((add_message (as_message call) s1)\<lparr>es_tool_calls := es_tool_calls s1 + 1\<rparr>))))))))"

definition ephemeral_step ::
  "'w Agent \<Rightarrow> string \<Rightarrow> RunInput \<Rightarrow> pyfloat \<Rightarrow> ToolDefinition list \<Rightarrow> bool \<Rightarrow> int \<Rightarrow> eph \<Rightarrow> ('w, eph flow) act" where
  "ephemeral_step ag run_id ri deadline defs blocked step s =
     fbind (ask_model ag run_id ri deadline defs step s) (\<lambda>(now, output, s2).
     case output of
       OutText answer \<Rightarrow> finish_text ag run_id ri step answer s2
     | OutOther \<Rightarrow> stop run_id ri RS_INVALID_MODEL_RESPONSE (Some ''model returned an unsupported output type'') s2
     | OutCall call \<Rightarrow> use_tool ag run_id ri blocked step now call s2)"

fun ephemeral_loop ::
  "'w Agent \<Rightarrow> string \<Rightarrow> RunInput \<Rightarrow> pyfloat \<Rightarrow> ToolDefinition list \<Rightarrow> bool \<Rightarrow> int list \<Rightarrow> eph \<Rightarrow> ('w, eph flow) act" where
  "ephemeral_loop ag run_id ri deadline defs blocked [] s = stop run_id ri RS_LIMIT_REACHED None s"
| "ephemeral_loop ag run_id ri deadline defs blocked (step # steps) s =
     fbind (ephemeral_step ag run_id ri deadline defs blocked step s)
       (ephemeral_loop ag run_id ri deadline defs blocked steps)"

definition run_id_of :: "'w Agent \<Rightarrow> RunInput \<Rightarrow> ('w, string) act" where
  "run_id_of ag ri = (case ri_run_id ri of
       Some k \<Rightarrow> if k = [] then unnoted (ag_run_id_factory ag) else eret (Inr k)
     | None \<Rightarrow> unnoted (ag_run_id_factory ag))"

definition run_ephemeral :: "'w Agent \<Rightarrow> RunInput \<Rightarrow> ('w, eph flow) act" where
  "run_ephemeral ag ri =
     ebind (eret (ensure (nonblank (ri_task ri)) FoundationAgentError)) (\<lambda>_.
     ebind (run_id_of ag ri) (\<lambda>run_id.
     if rl_max_task_chars (limits_of ag) < int (length (ri_task ri))
     then stop run_id ri RS_INVALID_MODEL_RESPONSE (Some ''task exceeds max_task_chars'')
       \<lparr>es_events = [], es_messages = [], es_tool_calls = 0, es_model_turns = 0\<rparr>
     else
       ebind (unnoted (ag_clock ag)) (\<lambda>started_at.
       let deadline = fo_add (ag_floats ag) started_at (ap_timeout_seconds (ag_profile ag)) in
       ebind (eret (make_message ROLE_SYSTEM (ap_instructions (ag_profile ag)) JNull JNull None)) (\<lambda>system.
       ebind (eret (make_message ROLE_USER (ri_task ri) JNull JNull None)) (\<lambda>user.
       ebind (knowledge_context ag ri) (\<lambda>(evidence, blocked).
       let s = \<lparr>es_events = [run_event RUN_STARTED 0 started_at [(''run_id'', JStr run_id)]],
                es_messages = [system, user] @ (case evidence of None \<Rightarrow> [] | Some m \<Rightarrow> [m]),
                es_tool_calls = 0, es_model_turns = 0\<rparr> in
       case definitions_for (ag_tools ag) (ap_permitted_tools (ag_profile ag)) of
         Inl e \<Rightarrow> if e = ToolRegistryError then stop run_id ri RS_MODEL_FAILURE (Some (ag_str ag e)) s
                  else eret (Inl e)
       | Inr defs \<Rightarrow>
           ephemeral_loop ag run_id ri deadline defs blocked [1..ap_max_model_turns (ag_profile ag)] s))))))"

section \<open>The durable run\<close>

definition add_cx_event :: "RunEvent \<Rightarrow> DurableRunContext \<Rightarrow> DurableRunContext" where
  "add_cx_event e cx = cx\<lparr>cx_events := cx_events cx @ [e]\<rparr>"

definition add_cx_message :: "Message \<Rightarrow> DurableRunContext \<Rightarrow> DurableRunContext" where
  "add_cx_message m cx = cx\<lparr>cx_messages := cx_messages cx @ [m]\<rparr>"

fun terminal_state :: "RunStatus \<Rightarrow> DurableRunState" where
  "terminal_state RS_COMPLETED = DS_COMPLETED"
| "terminal_state RS_CANCELLED = DS_CANCELLED"
| "terminal_state RS_RECOVERY_REQUIRED = DS_RECOVERY_REQUIRED"
| "terminal_state _ = DS_FAILED"

definition persist_terminal ::
  "'w Agent \<Rightarrow> 'w RunStore \<Rightarrow> DurableRunContext \<Rightarrow> RunStatus \<Rightarrow> string option \<Rightarrow> jobj option \<Rightarrow> ('w, 'c flow) act" where
  "persist_terminal ag st cx status final_text metadata =
     (let terminal_metadata = (case metadata of
            Some m \<Rightarrow> if m = [] then metadata_of (cx_run_input cx) None else m
          | None \<Rightarrow> metadata_of (cx_run_input cx) None);
          n = int (length (cx_events cx)) in
      ebind (if status \<noteq> RS_COMPLETED
             then eret (Inr (run_event RUN_FAILED n (Finite ''0.0'') [(''status'', JStr (run_status_value status))]))
             else ebind (unnoted (ag_clock ag)) (\<lambda>t.
                  eret (Inr (run_event RUN_COMPLETED n t [(''run_id'', JStr (cx_run_id cx))])))) (\<lambda>event.
      let terminal = finalize_durable_record (cx_record cx) (terminal_state status) status final_text
            (Some terminal_metadata) (Some (cx_events cx @ [event])) (Some (cx_messages cx))
            (Some (cx_tool_calls cx)) (Some (cx_model_turns cx)) in
      ebind (store_save st terminal (sr_version (cx_record cx))) (\<lambda>saved.
      eret (rbind (record_to_run_result saved) (\<lambda>r. Inr (Return r))))))"

text \<open>\<open>persist_terminal\<close> with the metadata of the run and a reason.\<close>

definition end_run ::
  "'w Agent \<Rightarrow> 'w RunStore \<Rightarrow> RunInput \<Rightarrow> DurableRunContext \<Rightarrow> RunStatus \<Rightarrow> string \<Rightarrow> ('w, 'c flow) act" where
  "end_run ag st ri cx status reason =
     persist_terminal ag st cx status None (Some (metadata_of ri (Some reason)))"

definition save_checkpoint ::
  "'w RunStore \<Rightarrow> DurableRunContext \<Rightarrow> checkpoint \<Rightarrow> ('w, DurableRunContext) act" where
  "save_checkpoint st cx ck =
     ebind (persist_record st (cx_record cx) ck) (\<lambda>saved. eret (Inr (cx\<lparr>cx_record := saved\<rparr>)))"

definition pending_action_of :: "'w Agent \<Rightarrow> string \<Rightarrow> string \<Rightarrow> ToolCall \<Rightarrow> ActionIntent \<Rightarrow> string \<Rightarrow> jobj" where
  "pending_action_of ag run_id capability call action request_id =
     [(''agent_id'', JStr (ap_agent_id (ag_profile ag))), (''framework'', JStr ''cbrain-foundation''),
      (''tool_name'', JStr (tc_name call)), (''capability'', JStr capability),
      (''arguments'', JObj (tc_arguments call)), (''request_id'', JStr request_id),
      (''idempotency_key'', JStr request_id), (''timestamp'', ai_timestamp action),
      (''context'', JObj [(''run_id'', JStr run_id), (''tool_call_id'', JStr (tc_call_id call))])]"

text \<open>
  The preparation of a tool call: the action is captured and checkpointed as \<open>TOOL_PREPARED\<close>, or, on a
  resumed run, restored from the record.
\<close>

definition prepare_tool ::
  "'w Agent \<Rightarrow> 'w RunStore \<Rightarrow> RunInput \<Rightarrow> int \<Rightarrow> ToolCall \<Rightarrow> pyfloat \<Rightarrow> GovernedTool \<Rightarrow> string \<Rightarrow> DurableRunContext \<Rightarrow>
   ('w, (ActionIntent \<times> DurableRunContext) flow) act" where
  "prepare_tool ag st ri step call now tool request_id cx =
     (case validate_history (cx_messages cx @ [as_message call]) True of
        Inl e \<Rightarrow> end_run ag st ri cx RS_INVALID_MODEL_RESPONSE (ag_str ag e)
      | Inr _ \<Rightarrow>
          ebind (unnoted (ag_wall_clock ag)) (\<lambda>timestamp.
          ebind (\<lambda>(w, tr). (Inr (ag_uuid ag w), (w, tr))) (\<lambda>fresh.
          case capture_intent ag (cx_run_id cx) (gt_capability tool) call request_id timestamp fresh of
            Inl e \<Rightarrow>
              if e = ContractError then end_run ag st ri cx RS_INVALID_MODEL_RESPONSE (ag_str ag e)
              else eret (Inl e)
          | Inr action \<Rightarrow>
              (let cx1 = add_cx_event (tool_requested step now (tc_name call) (gt_capability tool) request_id)
                     (add_cx_message (as_message call) cx) in
               ebind (save_checkpoint st cx1 (checkpoint_nothing
                 \<lparr>ck_durable_state := Some DS_TOOL_PREPARED, ck_events := Some (cx_events cx1),
                  ck_messages := Some (cx_messages cx1), ck_model_turns := Some (cx_model_turns cx1),
                  ck_next_step := Some step, ck_pending_request_id := Some request_id,
                  ck_pending_idempotency_key := Some request_id,
                  ck_pending_action := Some (pending_action_of ag (cx_run_id cx1) (gt_capability tool) call
                    action request_id),
                  ck_pending_tool_call_id := Some (tc_call_id call),
                  ck_pending_tool_name := Some (tc_name call)\<rparr>)) (\<lambda>cx2.
               eret (Inr (Next (action, cx2))))))))"

definition restore_prepared ::
  "'w Agent \<Rightarrow> DurableRunContext \<Rightarrow> ('w, (ActionIntent \<times> DurableRunContext) flow) act" where
  "restore_prepared ag cx =
     ebind (\<lambda>(w, tr). (restore_action (ag_uuid ag w) (JFloat (ag_time ag w)) (cx_record cx), (w, tr))) (\<lambda>action.
     eret (Inr (Next (action, cx))))"

text \<open>Claim, run once, and checkpoint the outcome as \<open>TOOL_COMPLETED\<close>.\<close>

definition dispatch_tool ::
  "'w Agent \<Rightarrow> 'w RunStore \<Rightarrow> int \<Rightarrow> ToolCall \<Rightarrow> ActionIntent \<Rightarrow> DurableRunContext \<Rightarrow>
   ('w, (GovernedExecution \<times> DurableRunContext) flow) act" where
  "dispatch_tool ag st step call action cx =
     (let version = sr_version (cx_record cx) in
      ebind (store_claim st (cx_run_id cx) version) (\<lambda>claimed.
      case claimed of
        None \<Rightarrow> ebind (resolve_claim_conflict st (cx_run_id cx)) (\<lambda>r. eret (Inr (Return r)))
      | Some record \<Rightarrow>
          ebind (run_tool ag (Some (cx_run_id cx, version)) (tc_name call) action) (\<lambda>execution.
          let cx1 = cx\<lparr>cx_record := record, cx_tool_calls := cx_tool_calls cx + 1\<rparr> in
          ebind (save_checkpoint st cx1 (checkpoint_nothing
            \<lparr>ck_durable_state := Some DS_TOOL_COMPLETED, ck_events := Some (cx_events cx1),
             ck_messages := Some (cx_messages cx1), ck_tool_calls := Some (cx_tool_calls cx1),
             ck_model_turns := Some (cx_model_turns cx1), ck_next_step := Some step,
             ck_pending_execution_status := Some (status_value (ge_status execution)),
             ck_pending_execution_output := ge_output execution,
             ck_pending_execution_reason := Some (ge_reason execution)\<rparr>)) (\<lambda>cx2.
          eret (Inr (Next (execution, cx2)))))))"

definition observe_durable ::
  "'w Agent \<Rightarrow> 'w RunStore \<Rightarrow> RunInput \<Rightarrow> int \<Rightarrow> ToolCall \<Rightarrow> string \<Rightarrow> GovernedExecution \<Rightarrow> DurableRunContext \<Rightarrow>
   ('w, DurableRunContext flow) act" where
  "observe_durable ag st ri step call request_id execution cx =
     (if ge_status execution = EXECUTED then
        ebind (eret (observation_text ag request_id execution)) (\<lambda>observation.
        if rl_max_observation_chars (limits_of ag) < int (length observation)
        then end_run ag st ri cx RS_LIMIT_REACHED ''tool observation exceeds max_observation_chars''
        else
          ebind (unnoted (ag_clock ag)) (\<lambda>t.
          ebind (eret (make_message ROLE_TOOL observation (JStr (tc_call_id call)) (JStr (tc_name call)) None)) (\<lambda>m.
          eret (Inr (Next (add_cx_message m (add_cx_event (tool_completed step t request_id execution) cx)))))))
      else
        ebind (unnoted (ag_clock ag)) (\<lambda>t.
        end_run ag st ri (add_cx_event (tool_rejected step t request_id execution) cx)
          (rejected_status (ge_status execution)) (ge_reason execution)))"

datatype resume_phase = NoResume | ResumePrepared | ResumeCompleted

definition execute_durable_tool ::
  "'w Agent \<Rightarrow> 'w RunStore \<Rightarrow> RunInput \<Rightarrow> bool \<Rightarrow> int \<Rightarrow> ToolCall \<Rightarrow> pyfloat \<Rightarrow> resume_phase \<Rightarrow> DurableRunContext \<Rightarrow>
   ('w, DurableRunContext flow) act" where
  "execute_durable_tool ag st ri blocked step call now phase cx =
     ebind (eret (registry_get (ag_tools ag) (tc_name call))) (\<lambda>tool.
     ebind (case sr_pending_request_id (cx_record cx) of
              Some k \<Rightarrow> if k = [] then unnoted (ag_request_id_factory ag (cx_run_id cx) step) else eret (Inr k)
            | None \<Rightarrow> unnoted (ag_request_id_factory ag (cx_run_id cx) step)) (\<lambda>request_id.
     if phase = ResumeCompleted
     then ebind (eret (restore_execution (cx_record cx))) (\<lambda>execution.
          observe_durable ag st ri step call request_id execution cx)
     else if blocked then end_run ag st ri cx RS_TOOL_FAILURE ''KNOWLEDGE_UNAVAILABLE''
     else
       ebind (unnoted (ag_cancelled ag)) (\<lambda>cancelled.
       if cancelled then persist_terminal ag st cx RS_CANCELLED None None else
       ebind (unnoted (ag_clock ag)) (\<lambda>t.
       if float_ge t (cx_deadline_monotonic cx) then persist_terminal ag st cx RS_TIMED_OUT None None else
       fbind (if phase = ResumePrepared then restore_prepared ag cx
              else prepare_tool ag st ri step call now tool request_id cx) (\<lambda>(action, cx1).
       fbind (dispatch_tool ag st step call action cx1) (\<lambda>(execution, cx2).
       observe_durable ag st ri step call request_id execution cx2))))))"

text \<open>A model turn of the durable run, up to the checks after the answer.\<close>

definition input_run_id :: "DurableRunContext \<Rightarrow> string" where
  "input_run_id cx = (case ri_run_id (cx_run_input cx) of Some k \<Rightarrow> k | None \<Rightarrow> [])"

definition ask_model_durable ::
  "'w Agent \<Rightarrow> 'w RunStore \<Rightarrow> RunInput \<Rightarrow> ToolDefinition list \<Rightarrow> int \<Rightarrow> pyfloat \<Rightarrow> DurableRunContext \<Rightarrow>
   ('w, (ModelOutput \<times> DurableRunContext) flow) act" where
  "ask_model_durable ag st ri defs step now cx =
     (let cx1 = add_cx_event (run_event MODEL_TURN step now [(''run_id'', JStr (input_run_id cx))]) cx in
      ebind (complete_model ag (cx_messages cx1) defs) (\<lambda>answer.
      case answer of
        Inl e \<Rightarrow> end_run ag st ri cx1 RS_MODEL_FAILURE (ag_str ag e)
      | Inr output \<Rightarrow>
          (let cx2 = cx1\<lparr>cx_model_turns := cx_model_turns cx1 + 1\<rparr> in
           ebind (save_checkpoint st cx2 (checkpoint_nothing
             \<lparr>ck_durable_state := Some DS_RUNNING, ck_events := Some (cx_events cx2),
              ck_messages := Some (cx_messages cx2), ck_model_turns := Some (cx_model_turns cx2),
              ck_next_step := Some step\<rparr>)) (\<lambda>cx3.
           ebind (unnoted (ag_cancelled ag)) (\<lambda>cancelled.
           if cancelled then persist_terminal ag st cx3 RS_CANCELLED None None else
           ebind (unnoted (ag_clock ag)) (\<lambda>t.
           if float_ge t (cx_deadline_monotonic cx3) then persist_terminal ag st cx3 RS_TIMED_OUT None None else
           eret (Inr (Next (output, cx3)))))))))"

definition finish_text_durable ::
  "'w Agent \<Rightarrow> 'w RunStore \<Rightarrow> RunInput \<Rightarrow> int \<Rightarrow> string \<Rightarrow> DurableRunContext \<Rightarrow> ('w, 'c flow) act" where
  "finish_text_durable ag st ri step answer cx =
     (if rl_max_model_text_chars (limits_of ag) < int (length answer)
      then end_run ag st ri cx RS_INVALID_MODEL_RESPONSE ''model text exceeds max_model_text_chars''
      else ebind (unnoted (ag_clock ag)) (\<lambda>t.
        persist_terminal ag st (add_cx_event (run_event MODEL_RESPONSE step t [(''kind'', JStr ''text'')]) cx)
          RS_COMPLETED (Some answer) None))"

text \<open>The call that a turn of the loop goes on with: restored on a resumed run, else proposed by the model.\<close>

definition next_call ::
  "'w Agent \<Rightarrow> 'w RunStore \<Rightarrow> RunInput \<Rightarrow> ToolDefinition list \<Rightarrow> int \<Rightarrow> pyfloat \<Rightarrow> resume_phase \<Rightarrow> DurableRunContext \<Rightarrow>
   ('w, (ToolCall \<times> DurableRunContext) flow) act" where
  "next_call ag st ri defs step now phase cx =
     (if phase \<noteq> NoResume
      then eret (rbind (on_error (\<lambda>e. e = RunStoreError) FoundationAgentError
             (restore_tool_call (ag_loads ag) (cx_record cx))) (\<lambda>call. Inr (Next (call, cx))))
      else
        fbind (ask_model_durable ag st ri defs step now cx) (\<lambda>(output, cx1).
        case output of
          OutText answer \<Rightarrow> finish_text_durable ag st ri step answer cx1
        | OutOther \<Rightarrow> end_run ag st ri cx1 RS_INVALID_MODEL_RESPONSE ''model returned an unsupported output type''
        | OutCall call \<Rightarrow>
            if tc_name call \<notin> set (ap_permitted_tools (ag_profile ag))
            then end_run ag st ri cx1 RS_INVALID_MODEL_RESPONSE (not_permitted (tc_name call))
            else if \<not> registry_contains (ag_tools ag) (tc_name call)
            then end_run ag st ri cx1 RS_INVALID_MODEL_RESPONSE (not_registered (tc_name call))
            else if ap_max_tool_calls (ag_profile ag) \<le> cx_tool_calls cx1
            then persist_terminal ag st cx1 RS_LIMIT_REACHED None None
            else eret (Inr (Next (call, cx1)))))"

definition durable_step ::
  "'w Agent \<Rightarrow> 'w RunStore \<Rightarrow> RunInput \<Rightarrow> Message option \<Rightarrow> bool \<Rightarrow> ToolDefinition list \<Rightarrow> resume_phase \<Rightarrow> int \<Rightarrow>
   DurableRunContext \<Rightarrow> ('w, DurableRunContext flow) act" where
  "durable_step ag st ri evidence blocked defs phase step cx =
     ebind (unnoted (ag_cancelled ag)) (\<lambda>cancelled.
     if cancelled then persist_terminal ag st cx RS_CANCELLED None None else
     ebind (unnoted (ag_clock ag)) (\<lambda>now.
     if float_less (cx_deadline_monotonic cx) now then persist_terminal ag st cx RS_TIMED_OUT None None else
     if rl_max_context_messages (limits_of ag) < int (length (cx_messages cx))
     then end_run ag st ri cx RS_LIMIT_REACHED ''context message limit reached'' else
     fbind (next_call ag st ri defs step now phase cx) (\<lambda>(call, cx1).
     fbind (execute_durable_tool ag st ri blocked step call now phase cx1) (\<lambda>cx2.
     let cx3 = (case evidence of
           Some m \<Rightarrow> if phase \<noteq> NoResume then add_cx_message m cx2 else cx2
         | None \<Rightarrow> cx2) in
     ebind (save_checkpoint st cx3 (checkpoint_nothing
       \<lparr>ck_durable_state := Some DS_RUNNING, ck_events := Some (cx_events cx3),
        ck_messages := Some (cx_messages cx3), ck_tool_calls := Some (cx_tool_calls cx3),
        ck_model_turns := Some (cx_model_turns cx3), ck_next_step := Some (step + 1),
        ck_clear_pending := True\<rparr>)) (\<lambda>cx4. eret (Inr (Next cx4)))))))"

fun durable_loop ::
  "'w Agent \<Rightarrow> 'w RunStore \<Rightarrow> RunInput \<Rightarrow> Message option \<Rightarrow> bool \<Rightarrow> ToolDefinition list \<Rightarrow> resume_phase \<Rightarrow> int list \<Rightarrow>
   DurableRunContext \<Rightarrow> ('w, DurableRunContext flow) act" where
  "durable_loop ag st ri evidence blocked defs phase [] cx = persist_terminal ag st cx RS_LIMIT_REACHED None None"
| "durable_loop ag st ri evidence blocked defs phase (step # steps) cx =
     fbind (durable_step ag st ri evidence blocked defs phase step cx)
       (durable_loop ag st ri evidence blocked defs NoResume steps)"

definition resume_phase_of :: "DurableRunContext \<Rightarrow> resume_phase" where
  "resume_phase_of cx =
     (if sr_durable_state (cx_record cx) = DS_TOOL_PREPARED then ResumePrepared
      else if cx_merge_completed_tool cx then ResumeCompleted else NoResume)"

text \<open>The part of \<^verbatim>\<open>_run_durable\<close> after the run was initialized.\<close>

definition continue_durable :: "'w Agent \<Rightarrow> 'w RunStore \<Rightarrow> RunInput \<Rightarrow> DurableRunContext \<Rightarrow> ('w, DurableRunContext flow) act" where
  "continue_durable ag st ri cx0 =
     ebind (knowledge_context ag ri) (\<lambda>(evidence, blocked).
     let cx = (case evidence of
           Some m \<Rightarrow> if sr_durable_state (cx_record cx0) \<notin> {DS_TOOL_PREPARED, DS_TOOL_COMPLETED}
                     then add_cx_message m cx0 else cx0
         | None \<Rightarrow> cx0) in
     case definitions_for (ag_tools ag) (ap_permitted_tools (ag_profile ag)) of
       Inl e \<Rightarrow> if e = ToolRegistryError then end_run ag st ri cx RS_MODEL_FAILURE (ag_str ag e)
                else eret (Inl e)
     | Inr defs \<Rightarrow>
         durable_loop ag st ri evidence blocked defs (resume_phase_of cx)
           [cx_next_step cx..ap_max_model_turns (ag_profile ag)] cx)"

text \<open>The head of \<^verbatim>\<open>_run_durable\<close>: the run id, the two clocks and the checked input.\<close>

definition start_durable :: "'w Agent \<Rightarrow> RunInput \<Rightarrow> ('w, (string \<times> pyfloat \<times> pyfloat \<times> RunInput) flow) act" where
  "start_durable ag ri =
     ebind (eret (ensure (nonblank (ri_task ri)) FoundationAgentError)) (\<lambda>_.
     ebind (run_id_of ag ri) (\<lambda>run_id.
     ebind (unnoted (ag_wall_clock ag)) (\<lambda>started_at_utc.
     ebind (unnoted (ag_clock ag)) (\<lambda>started_at.
     if rl_max_task_chars (limits_of ag) < int (length (ri_task ri))
     then eret (Inr (Return (failed run_id RS_INVALID_MODEL_RESPONSE []
            (metadata_of ri (Some ''task exceeds max_task_chars'')) 0 0)))
     else
       ebind (eret (run_input_post_init (ri\<lparr>ri_run_id := Some run_id\<rparr>))) (\<lambda>input.
       eret (Inr (Next (run_id, started_at_utc, started_at, input))))))))"

text \<open>The call of \<^verbatim>\<open>initialize_durable_run\<close>, whose \<^verbatim>\<open>RunStoreError\<close> becomes the agent's error.\<close>

definition begin_durable ::
  "'w Agent \<Rightarrow> 'w RunStore \<Rightarrow> string \<times> pyfloat \<times> pyfloat \<times> RunInput \<Rightarrow> ('w, DurableRunContext flow) act" where
  "begin_durable ag st = (\<lambda>(run_id, started_at_utc, started_at, input) s.
     case initialize_durable_run (ag_floats ag) (ag_loads ag) (ag_wall_clock ag) (ag_clock ag) st
            (ag_profile ag) input started_at_utc
            (fo_add (ag_floats ag) started_at_utc (ap_timeout_seconds (ag_profile ag))) run_id
            (ap_instructions (ag_profile ag))
            (run_event RUN_STARTED 0 started_at [(''run_id'', JStr run_id)]) s of
       (r, s') \<Rightarrow> (on_error (\<lambda>e. e = RunStoreError) FoundationAgentError r, s'))"

definition run_durable :: "'w Agent \<Rightarrow> 'w RunStore \<Rightarrow> RunInput \<Rightarrow> ('w, DurableRunContext flow) act" where
  "run_durable ag st ri =
     fbind (start_durable ag ri) (\<lambda>begun. fbind (begin_durable ag st begun) (continue_durable ag st ri))"

text \<open>\<^verbatim>\<open>FoundationAgent.run\<close>; the context of a run that would not have returned is dropped.\<close>

definition agent_run :: "'w Agent \<Rightarrow> 'w RunStore option \<Rightarrow> RunInput \<Rightarrow> ('w, unit flow) act" where
  "agent_run ag run_store ri = (case run_store of
       None \<Rightarrow> ebind (run_ephemeral ag ri) (\<lambda>x. eret (Inr (map_flow (\<lambda>_. ()) x)))
     | Some st \<Rightarrow> ebind (run_durable ag st ri) (\<lambda>x. eret (Inr (map_flow (\<lambda>_. ()) x))))"

end
