(* ===== verification/Agent_Safety.thy ===== *)
theory Agent_Safety
  imports Agent_Loop
begin

text \<open>
  What the loop of \<open>Agent_Loop\<close> guarantees, whatever the model, the gateway, the clocks and the other workers do:
  its bounds, that a stored version is dispatched only after it was claimed, and that a run in flight is not
  touched.

  \<open>keeps P m\<close> says that the events an effect appends satisfy \<open>P\<close>. The locale \<open>trace_property\<close> has the rules of
  sequencing for every \<open>P\<close> that is closed under concatenation; it is interpreted for each of the
  predicates below.
\<close>

section \<open>Predicates of traces\<close>

definition keeps :: "(agent_event list \<Rightarrow> bool) \<Rightarrow> ('w, 'a) act \<Rightarrow> bool" where
  "keeps P m = (\<forall>w tr r w' tr'. m (w, tr) = (r, (w', tr')) \<longrightarrow> (\<exists>ev. tr' = tr @ ev \<and> P ev))"

lemma keepsD: "keeps P m \<Longrightarrow> m (w, tr) = (r, (w', tr')) \<Longrightarrow> \<exists>ev. tr' = tr @ ev \<and> P ev"
  unfolding keeps_def by blast

lemma keeps_mono: "keeps P m \<Longrightarrow> (\<And>ev. P ev \<Longrightarrow> Q ev) \<Longrightarrow> keeps Q m"
  unfolding keeps_def by blast

fun is_tool :: "agent_event \<Rightarrow> bool" where
  "is_tool (ToolRun _ _ _) = True"
| "is_tool _ = False"

locale trace_property =
  fixes P :: "agent_event list \<Rightarrow> bool"
  assumes nil: "P []" and append: "P a \<Longrightarrow> P b \<Longrightarrow> P (a @ b)"
begin

lemma keeps_eret [simp, intro]: "keeps P (eret r)"
  using nil by (auto simp: keeps_def eret_def)

lemma keeps_pure [simp, intro]: "keeps P (\<lambda>(w, tr). (f w, (w, tr)))"
  using nil by (auto simp: keeps_def)

lemma keeps_unnoted [simp, intro]: "keeps P (unnoted m)"
  using nil by (auto simp: keeps_def unnoted_def split: prod.splits)

lemma keeps_noted [intro]: "(\<And>r. P [ev r]) \<Longrightarrow> keeps P (noted ev m)"
  by (auto simp: keeps_def noted_def split: prod.splits)

lemma keeps_ebind [intro]:
  assumes "keeps P m" and "\<And>a. keeps P (f a)"
  shows "keeps P (ebind m f)"
proof (unfold keeps_def, intro allI impI)
  fix w tr r w' tr'
  assume run: "ebind m f (w, tr) = (r, (w', tr'))"
  obtain x w1 tr1 where m: "m (w, tr) = (x, (w1, tr1))" by (metis prod.exhaust)
  then obtain ev where ev: "tr1 = tr @ ev" "P ev" using keepsD [OF assms(1)] by blast
  show "\<exists>ev. tr' = tr @ ev \<and> P ev"
  proof (cases x)
    case (Inl e)
    with run m ev show ?thesis by (auto simp: ebind_def)
  next
    case (Inr a)
    with run m have "f a (w1, tr1) = (r, (w', tr'))" by (simp add: ebind_def)
    from keepsD [OF assms(2) this] ev append show ?thesis by auto
  qed
qed

lemma keeps_fbind [intro]:
  assumes "keeps P m" and "\<And>a. keeps P (f a)"
  shows "keeps P (fbind m f)"
  unfolding fbind_def using assms by (intro keeps_ebind) (auto split: flow.split)

lemma keeps_if: "keeps P m \<Longrightarrow> keeps P n \<Longrightarrow> keeps P (if b then m else n)"
  by simp

lemma keeps_mapped:
  assumes "keeps P m"
  shows "keeps P (\<lambda>s. case m s of (r, s') \<Rightarrow> (f r, s'))"
  using assms unfolding keeps_def by (fastforce split: prod.splits)

lemmas keeps_rules = keeps_ebind keeps_fbind keeps_eret keeps_pure keeps_unnoted keeps_if

end

text \<open>A predicate that says nothing of store and model calls is kept by everything but the dispatch of a tool.\<close>

locale tool_predicate = trace_property +
  assumes other: "\<not> is_tool e \<Longrightarrow> P [e]"
begin

lemma keeps_store [simp, intro]:
  "keeps P (store_create st r)" "keeps P (store_load st k)" "keeps P (store_save st r v)"
  "keeps P (store_claim st k v)"
  unfolding store_create_def store_load_def store_save_def store_claim_def
  by (auto intro!: keeps_noted other)

lemma keeps_complete_model [simp, intro]: "keeps P (complete_model ag ms defs)"
proof (unfold keeps_def, intro allI impI)
  fix w tr r w' tr'
  assume run: "complete_model ag ms defs (w, tr) = (r, (w', tr'))"
  then consider "tr' = tr" | req where "tr' = tr @ [ModelCall req]"
    by (auto simp: complete_model_def noted_def split: sum.splits prod.splits if_splits)
  then show "\<exists>ev. tr' = tr @ ev \<and> P ev"
    using nil other [of "ModelCall _"] by cases auto
qed

lemma keeps_knowledge [simp, intro]:
  fixes ag :: "'w Agent"
  shows "keeps P (knowledge_context ag ri)"
proof -
  have "keeps P (\<lambda>s. case ebind (unnoted (ag_wall_clock ag)) (\<lambda>now. unnoted (f now)) s of
      (Inl e, s') \<Rightarrow> (Inr (None, b), s')
    | (Inr evidence, s') \<Rightarrow> (g evidence, s'))" for f :: "pyfloat \<Rightarrow> ('w, string) eff" and g b
  proof -
    have eq: "(\<lambda>s. case ebind (unnoted (ag_wall_clock ag)) (\<lambda>now. unnoted (f now)) s of
        (Inl e, s') \<Rightarrow> (Inr (None, b), s')
      | (Inr evidence, s') \<Rightarrow> (g evidence, s')) =
      (\<lambda>s. case ebind (unnoted (ag_wall_clock ag)) (\<lambda>now. unnoted (f now)) s of
        (r, s') \<Rightarrow> ((case r of Inl e \<Rightarrow> Inr (None, b) | Inr x \<Rightarrow> g x), s'))"
      by (auto split: prod.splits sum.splits)
    show ?thesis unfolding eq by (intro keeps_mapped keeps_rules)
  qed
  then show ?thesis unfolding knowledge_context_def Let_def by (auto split: option.split)
qed

lemma keeps_lookup_run [simp, intro]: "keeps P (lookup_run st k)"
proof -
  have eq: "(\<lambda>s. case store_load st k s of
      (Inl e, s') \<Rightarrow> (if e = RunStoreError then Inr None else Inl e, s')
    | (Inr r, s') \<Rightarrow> (Inr (Some r), s')) =
    (\<lambda>s. case store_load st k s of
      (r, s') \<Rightarrow> ((case r of Inl e \<Rightarrow> if e = RunStoreError then Inr None else Inl e | Inr x \<Rightarrow> Inr (Some x)), s'))" for k
    by (auto split: prod.splits sum.splits)
  show ?thesis unfolding lookup_run_def eq by (auto intro!: keeps_mapped split: option.split)
qed

lemma keeps_deadline [simp, intro]: "keeps P (compute_deadline_monotonic fo wc mc t)"
  unfolding compute_deadline_monotonic_def by (intro keeps_rules)

lemma keeps_persist_terminal [simp, intro]: "keeps P (persist_terminal ag st cx status txt metadata)"
  unfolding persist_terminal_def Let_def by (intro keeps_rules keeps_store)

lemma keeps_end_run [simp, intro]: "keeps P (end_run ag st ri cx status reason)"
  unfolding end_run_def by simp

lemma keeps_checkpoint [simp, intro]: "keeps P (save_checkpoint st cx ck)"
  unfolding save_checkpoint_def persist_record_def by (intro keeps_rules keeps_store)

lemma keeps_resolve [simp, intro]: "keeps P (resolve_claim_conflict st k)"
  unfolding resolve_claim_conflict_def by (intro keeps_rules keeps_store)

lemma keeps_resume [simp, intro]: "keeps P (resume_durable_run fo loads wc mc p ri r)"
  unfolding resume_durable_run_def by (intro keeps_rules keeps_deadline)

lemma keeps_initialize [simp, intro]: "keeps P (initialize_durable_run fo loads wc mc st p ri t1 t2 k i e)"
  unfolding initialize_durable_run_def Let_def
  by (intro keeps_ebind keeps_lookup_run) (auto intro!: keeps_rules split: option.split)

lemma keeps_prepare [simp, intro]: "keeps P (prepare_tool ag st ri step call now tool k cx)"
  unfolding prepare_tool_def Let_def
  by (auto intro!: keeps_rules split: sum.split)

lemma keeps_restore_prepared [simp, intro]: "keeps P (restore_prepared ag cx)"
  unfolding restore_prepared_def by (intro keeps_rules)

lemma keeps_observe_durable [simp, intro]: "keeps P (observe_durable ag st ri step call k x cx)"
  unfolding observe_durable_def by (intro keeps_rules keeps_end_run)

lemma keeps_ask_durable [simp, intro]: "keeps P (ask_model_durable ag st ri defs step now cx)"
  unfolding ask_model_durable_def Let_def
  by (intro keeps_ebind keeps_complete_model) (auto intro!: keeps_rules split: sum.split)

lemma keeps_finish_durable [simp, intro]: "keeps P (finish_text_durable ag st ri step t cx)"
  unfolding finish_text_durable_def by (intro keeps_rules keeps_end_run keeps_persist_terminal)

lemma keeps_next_call [simp, intro]: "keeps P (next_call ag st ri defs step now phase cx)"
  unfolding next_call_def
  by (auto intro!: keeps_rules split: ModelOutput.split)

end

text \<open>With the dispatch, the whole durable run.\<close>

locale dispatch_predicate = tool_predicate P for P +
  fixes ag :: "'w Agent" and st :: "'w RunStore"
  assumes dispatch: "keeps P (dispatch_tool ag st step call action cx)"
begin

lemma keeps_execute [simp, intro]: "keeps P (execute_durable_tool ag st ri blocked step call now phase cx)"
  unfolding execute_durable_tool_def
  by (auto intro!: keeps_rules dispatch split: option.split)

lemma keeps_step [simp, intro]: "keeps P (durable_step ag st ri evidence blocked defs phase step cx)"
  unfolding durable_step_def Let_def by (auto intro!: keeps_rules)

lemma keeps_loop [simp, intro]: "keeps P (durable_loop ag st ri evidence blocked defs phase steps cx)"
  by (induction steps arbitrary: phase cx) (auto intro!: keeps_rules)

lemma keeps_continue [simp, intro]: "keeps P (continue_durable ag st ri cx)"
  unfolding continue_durable_def Let_def
  by (intro keeps_ebind keeps_knowledge) (auto intro!: keeps_rules split: option.split sum.split)

lemma keeps_run_durable: "keeps P (run_durable ag st ri)"
proof -
  have "keeps P (start_durable ag ri)"
    unfolding start_durable_def run_id_of_def by (auto intro!: keeps_rules split: option.split)
  moreover have "keeps P (begin_durable ag st b)" for b
    by (cases b) (auto simp: begin_durable_def intro!: keeps_mapped)
  ultimately show ?thesis unfolding run_durable_def by (auto intro!: keeps_fbind)
qed

end

section \<open>A tool runs only for a version that was claimed\<close>

inductive claimed_runs :: "agent_event list \<Rightarrow> bool" where
  claimed_nil: "claimed_runs []"
| claimed_other: "claimed_runs tr \<Longrightarrow> \<not> is_tool e \<Longrightarrow> claimed_runs (e # tr)"
| claimed_run: "claimed_runs tr \<Longrightarrow>
    claimed_runs (StoreCall (OpClaim k v) (OutClaim (Inr (Some r))) # ToolRun (Some (k, v)) a n # tr)"

lemma claimed_append: "claimed_runs a \<Longrightarrow> claimed_runs b \<Longrightarrow> claimed_runs (a @ b)"
  by (induction rule: claimed_runs.induct) (auto intro: claimed_runs.intros)

lemma claimed_single [simp]: "\<not> is_tool e \<Longrightarrow> claimed_runs [e]"
  by (intro claimed_runs.intros)

lemma claimed_store: "claimed_runs tr \<Longrightarrow> claimed_runs (StoreCall u out # tr)"
  by (simp add: claimed_other)

interpretation claimed_tp: tool_predicate claimed_runs
  by unfold_locales (auto intro: claimed_runs.intros claimed_append)

lemma run_tool_cases:
  assumes "run_tool ag c name a (w, tr) = (r, (w', tr'))"
  shows "tr' = tr \<and> r = Inl KeyError \<or> (\<exists>n. tr' = tr @ [ToolRun c a n] \<and> n \<le> 1)"
proof (cases "map_of (ag_handlers ag) name")
  case None
  with assms show ?thesis by (simp add: run_tool_def)
next
  case (Some h)
  obtain x s where x: "execute (ag_gateway ag) a h w = (x, s)" by fastforce
  obtain outcome where "run_prog h (gw_decide_and_execute (ag_gateway ag) a) (start w) = (outcome, s)"
    using x by (auto simp: execute_def split: prod.splits)
  from entry_inv_run [OF entry_inv_start this] have "length (calls s) \<le> 1" by (simp add: entry_inv_def)
  with assms Some x show ?thesis by (auto simp: run_tool_def)
qed

text \<open>The dispatch: the claim, then at once the run it allows, then nothing more is run.\<close>

lemma dispatch_claimed: "keeps claimed_runs (dispatch_tool ag st step call action cx)"
proof (unfold keeps_def, intro allI impI)
  fix w tr r w' tr'
  let ?k = "cx_run_id cx" and ?v = "sr_version (cx_record cx)"
  assume run: "dispatch_tool ag st step call action cx (w, tr) = (r, (w', tr'))"
  obtain x w1 where c: "so_claim st ?k ?v w = (x, w1)" by fastforce
  then have sc: "store_claim st ?k ?v (w, tr) = (x, (w1, tr @ [StoreCall (OpClaim ?k ?v) (OutClaim x)]))"
    by (simp add: store_claim_def noted_def)
  show "\<exists>ev. tr' = tr @ ev \<and> claimed_runs ev"
  proof (cases x)
    case (Inl e)
    with run sc show ?thesis by (auto simp: dispatch_tool_def ebind_def Let_def intro: claimed_single)
  next
    case (Inr claim)
    show ?thesis
    proof (cases claim)
      case None
      let ?rest = "ebind (resolve_claim_conflict st ?k) (\<lambda>r. eret (Inr (Return r)))"
      have "?rest (w1, tr @ [StoreCall (OpClaim ?k ?v) (OutClaim x)]) = (r, (w', tr'))"
        using run Inr None
        by (simp add: dispatch_tool_def Let_def ebind_step [where m = "store_claim st ?k ?v", OF sc [unfolded Inr]])
      moreover have "keeps claimed_runs ?rest" by (intro claimed_tp.keeps_rules claimed_tp.keeps_resolve)
      ultimately obtain ev where "tr' = tr @ StoreCall (OpClaim ?k ?v) (OutClaim x) # ev" "claimed_runs ev"
        using keepsD by fastforce
      then show ?thesis by (auto intro: claimed_other)
    next
      case (Some cr)
      let ?cx = "cx\<lparr>cx_record := cr, cx_tool_calls := cx_tool_calls cx + 1\<rparr>"
      let ?rest = "\<lambda>execution. ebind (save_checkpoint st ?cx (checkpoint_nothing
            \<lparr>ck_durable_state := Some DS_TOOL_COMPLETED, ck_events := Some (cx_events ?cx),
             ck_messages := Some (cx_messages ?cx), ck_tool_calls := Some (cx_tool_calls ?cx),
             ck_model_turns := Some (cx_model_turns ?cx), ck_next_step := Some step,
             ck_pending_execution_status := Some (status_value (ge_status execution)),
             ck_pending_execution_output := ge_output execution,
             ck_pending_execution_reason := Some (ge_reason execution)\<rparr>)) (\<lambda>cx2.
          eret (Inr (Next (execution, cx2))))"
      let ?tr1 = "tr @ [StoreCall (OpClaim ?k ?v) (OutClaim (Inr (Some cr)))]"
      let ?run = "run_tool ag (Some (?k, ?v)) (tc_name call) action"
      have go: "ebind ?run ?rest (w1, ?tr1) = (r, (w', tr'))"
        using run Inr Some
        by (simp add: dispatch_tool_def Let_def ebind_step [where m = "store_claim st ?k ?v", OF sc [unfolded Inr]])
      obtain y w2 tr2 where y: "?run (w1, ?tr1) = (y, (w2, tr2))"
        by (metis prod.exhaust)
      have kr: "keeps claimed_runs (?rest execution)" for execution
        by (intro claimed_tp.keeps_rules claimed_tp.keeps_checkpoint)
      have "\<exists>ev. tr' = tr2 @ ev \<and> claimed_runs ev"
      proof (cases y)
        case (Inl e)
        show ?thesis using go claimed_nil by (simp add: ebind_fail [where m = "?run", OF y [unfolded Inl]])
      next
        case (Inr execution)
        have "?rest execution (w2, tr2) = (r, (w', tr'))"
          using go by (simp add: ebind_step [where m = "?run", OF y [unfolded Inr]])
        from keepsD [OF kr this] show ?thesis .
      qed
      with run_tool_cases [OF y] show ?thesis
        by (auto intro: claimed_store claimed_run)
    qed
  qed
qed

interpretation claimed: dispatch_predicate claimed_runs ag st for ag st
  by unfold_locales (rule dispatch_claimed)

text \<open>
  C30: In a durable run every dispatch of a tool directly follows the claim that won the stored version it was
  dispatched for, whatever the model, the gateway, the clocks and the other users of the store do, and
  each won claim allows one dispatch.
\<close>

theorem durable_dispatch_is_claimed:
  assumes "run_durable ag st ri (w, []) = (r, (w', tr))"
  shows "claimed_runs tr"
  using keepsD [OF claimed.keeps_run_durable assms] by simp

section \<open>Many workers on one store\<close>

text \<open>
  The events of several workers, in the order in which they happened, each with its worker. \<open>store_history\<close>
  says that the answers of the store are those of a store that serialises the calls, under any
  faults.
\<close>

inductive store_history :: "('f \<Rightarrow> run_op \<Rightarrow> 's \<Rightarrow> run_out \<times> 's) \<Rightarrow> 's \<Rightarrow> agent_event list \<Rightarrow> bool"
  for step where
  history_nil: "store_history step t []"
| history_store: "step f u t = (out, t') \<Longrightarrow> store_history step t' tr \<Longrightarrow>
    store_history step t (StoreCall u out # tr)"
| history_other: "store_history step t tr \<Longrightarrow> (\<And>u out. e \<noteq> StoreCall u out) \<Longrightarrow> store_history step t (e # tr)"

definition project :: "nat \<Rightarrow> (nat \<times> agent_event) list \<Rightarrow> agent_event list" where
  "project i tr = map snd (filter (\<lambda>e. fst e = i) tr)"

fun is_run_of :: "string \<Rightarrow> int \<Rightarrow> agent_event \<Rightarrow> bool" where
  "is_run_of k v (ToolRun (Some c) _ _) = (c = (k, v))"
| "is_run_of k v _ = False"

fun is_claim_of :: "string \<Rightarrow> int \<Rightarrow> agent_event \<Rightarrow> bool" where
  "is_claim_of k v (StoreCall (OpClaim j w) (OutClaim (Inr (Some _)))) = (j = k \<and> w = v)"
| "is_claim_of k v _ = False"

definition count :: "(agent_event \<Rightarrow> bool) \<Rightarrow> agent_event list \<Rightarrow> nat" where
  "count p tr = length (filter p tr)"

lemma count_simps [simp]:
  "count p [] = 0" "count p (e # tr) = (if p e then Suc (count p tr) else count p tr)"
  "count p (a @ b) = count p a + count p b"
  by (simp_all add: count_def)

lemma claimed_count: "claimed_runs tr \<Longrightarrow> count (is_run_of k v) tr \<le> count (is_claim_of k v) tr"
proof (induction rule: claimed_runs.induct)
  case (claimed_other tr e)
  then show ?case by (cases e) auto
qed auto

text \<open>Claims that a store answers are claims on the version it names.\<close>

context versioned_store
begin

lemma history_claims:
  assumes "store_history step t tr"
  shows "\<exists>cs. count (is_claim_of k v) tr \<le>
    wins (\<lambda>u. claim_target u = Some (k, v)) (fst (run_claims (advance_claim step) cs t))"
  using assms
proof (induction rule: store_history.induct)
  case (history_store f u t out t' tr)
  then obtain cs where cs: "count (is_claim_of k v) tr \<le>
      wins (\<lambda>u. claim_target u = Some (k, v)) (fst (run_claims (advance_claim step) cs t'))" by blast
  have "is_claim_of k v (StoreCall u out) \<Longrightarrow> claim_target u = Some (k, v) \<and> advanced out"
    by (cases "(k, v, StoreCall u out)" rule: is_claim_of.cases) auto
  then have "count (is_claim_of k v) (StoreCall u out # tr) \<le>
      wins (\<lambda>u. claim_target u = Some (k, v)) (fst (run_claims (advance_claim step) ((f, u) # cs) t))"
    using cs history_store.hyps(1) by (auto simp: wins_def advance_claim_def split: prod.splits)
  then show ?case by blast
next
  case (history_other t tr e)
  then have "\<not> is_claim_of k v e" by (cases "(k, v, e)" rule: is_claim_of.cases) auto
  with history_other show ?case by simp
qed (auto intro: exI [of _ "[]"])

lemma history_claims_once: "store_history step t tr \<Longrightarrow> count (is_claim_of k v) tr \<le> 1"
proof -
  assume "store_history step t tr"
  from history_claims [OF this] obtain cs where c: "count (is_claim_of k v) tr \<le>
    wins (\<lambda>u. claim_target u = Some (k, v)) (fst (run_claims (advance_claim step) cs t))" by blast
  have "wins (\<lambda>u. claim_target u = Some (k, v)) (fst (run_claims (advance_claim step) cs t)) \<le> 1"
    by (rule at_most_one_win) (simp add: same_target_def)
  with c show ?thesis by linarith
qed

end

lemma count_project:
  assumes "\<forall>e\<in>set tr. fst e < n"
  shows "count p (map snd tr) = (\<Sum>i<n. count p (project i tr))"
  using assms
proof (induction tr)
  case (Cons e tr)
  have "count p (project i (e # tr)) = (if i = fst e \<and> p (snd e) then 1 else 0) + count p (project i tr)" for i
    by (simp add: project_def)
  with Cons show ?case by (simp add: sum.distrib sum.delta' cong: if_cong)
qed (simp add: project_def)

text \<open>
  C31: However many workers run and resume the same runs on one SQLite store, under whatever faults of the
  database, or on one memory store, the tool of a stored version is dispatched at most once in all. The
  calls of the workers may interleave in any way; the store serialises them.
\<close>

theorem at_most_one_dispatch:
  assumes workers: "\<forall>i<n. \<exists>w r w'. run_durable (ag i) (st i) (ri i) (w, []) = (r, (w', project i tr))"
    and known: "\<forall>e\<in>set tr. fst e < n"
    and serial: "store_history sqlite_step t (map snd tr) \<or> store_history (\<lambda>_ :: unit. mem_step) m (map snd tr)"
  shows "count (is_run_of k v) (map snd tr) \<le> 1"
proof -
  have "count (is_run_of k v) (project i tr) \<le> count (is_claim_of k v) (project i tr)" if "i < n" for i
    using workers that keepsD [OF claimed.keeps_run_durable] by (fastforce intro: claimed_count)
  then have "count (is_run_of k v) (map snd tr) \<le> count (is_claim_of k v) (map snd tr)"
    unfolding count_project [OF known] by (intro sum_mono) simp
  moreover have "count (is_claim_of k v) (map snd tr) \<le> 1"
    using serial sqlite.history_claims_once mem.history_claims_once by blast
  ultimately show ?thesis by linarith
qed

section \<open>A run that is settled or in flight\<close>

lemma any_dispatch: "keeps (\<lambda>_. True) (dispatch_tool ag st step call action cx)"
  using dispatch_claimed by (rule keeps_mono) simp

interpretation any: dispatch_predicate "\<lambda>_. True" ag st for ag st
  by unfold_locales (simp_all add: any_dispatch)

lemma initialize_loaded:
  assumes "so_load st k w = (Inr rec, w1)" and "ri_run_id ri = Some k" and "k \<noteq> []"
  shows "initialize_durable_run fo loads wc mc st p ri t1 t2 rid i e (w, tr) =
    resume_durable_run fo loads wc mc p ri rec (w1, tr @ [StoreCall (OpLoad k) (OutRecord (Inr rec))])"
  using assms
  by (simp add: initialize_durable_run_def lookup_run_def ebind_def store_load_def noted_def)

lemma initialize_not_loaded:
  assumes "so_load st k w = (Inl x, w1)" and "ri_run_id ri = Some k" and "k \<noteq> []"
    and "initialize_durable_run fo loads wc mc st p ri t1 t2 rid i e (w, tr) = (r, (w', tr'))"
  shows "\<exists>ev. tr' = tr @ StoreCall (OpLoad k) (OutRecord (Inl x)) # ev"
proof -
  have l: "lookup_run st (Some k) (w, tr) = (if x = RunStoreError then Inr None else Inl x,
      (w1, tr @ [StoreCall (OpLoad k) (OutRecord (Inl x))]))"
    using assms by (simp add: lookup_run_def store_load_def noted_def)
  let ?f = "\<lambda>found. case found of
       Some record \<Rightarrow> resume_durable_run fo loads wc mc p ri record
     | None \<Rightarrow>
         ebind (eret (make_message ROLE_SYSTEM i JNull JNull None)) (\<lambda>system.
         ebind (eret (make_message ROLE_USER (ri_task ri) JNull JNull None)) (\<lambda>user.
         let record = new_running_record rid p ri t1 t2 [system, user] [e] in
         ebind (store_create st record) (\<lambda>_.
         ebind (compute_deadline_monotonic fo wc mc t2) (\<lambda>deadline.
         eret (Inr (Next \<lparr>cx_run_input = ri, cx_run_id = rid, cx_started_at_utc = t1,
           cx_deadline_monotonic = deadline, cx_events = [e], cx_messages = [system, user],
           cx_tool_calls = 0, cx_model_turns = 0, cx_next_step = 1, cx_record = record,
           cx_merge_completed_tool = False\<rparr>))))))"
  have k: "keeps (\<lambda>_. True) (?f None)"
    unfolding Let_def option.case by (intro any.keeps_rules any.keeps_store any.keeps_deadline)
  show ?thesis
  proof (cases "x = RunStoreError")
    case True
    then have "?f None (w1, tr @ [StoreCall (OpLoad k) (OutRecord (Inl x))]) = (r, (w', tr'))"
      using assms(2,4) l by (simp add: initialize_durable_run_def ebind_def [of "lookup_run st (Some k)"])
    from keepsD [OF k this] show ?thesis by auto
  next
    case False
    then show ?thesis
      using assms(2,4) l by (auto simp: initialize_durable_run_def ebind_def [of "lookup_run st (Some k)"])
  qed
qed

lemma resume_settled:
  assumes "terminal_durable (sr_durable_state rec) \<or> sr_durable_state rec = DS_TOOL_IN_FLIGHT"
  shows "\<exists>x. resume_durable_run fo loads wc mc p ri rec s = (x, s) \<and>
    (x = Inl RunStoreError \<or> x = rbind (observe_loaded_run rec) (\<lambda>r. Inr (Return r)))"
  using assms
  by (auto simp: resume_durable_run_def ebind_def eret_def ensure_def observe_loaded_run_def)

definition traceless :: "('w, 'a) act \<Rightarrow> bool" where
  "traceless m = (\<forall>w tr. \<exists>r w'. m (w, tr) = (r, (w', tr)))"

lemma traceless_eret [simp]: "traceless (eret r)" and traceless_unnoted [simp]: "traceless (unnoted m)"
  by (auto simp: traceless_def eret_def unnoted_def split: prod.split)

lemma tracelessD: "traceless m \<Longrightarrow> m (w, tr) = (r, (w', tr')) \<Longrightarrow> tr' = tr"
  unfolding traceless_def by (metis prod.inject)

lemma traceless_ebind:
  assumes "traceless m" and "\<And>a. traceless (f a)"
  shows "traceless (ebind m f)"
proof (unfold traceless_def, intro allI)
  fix w tr
  from assms(1) have "\<exists>x w1. m (w, tr) = (x, (w1, tr))" by (simp add: traceless_def)
  then obtain x w1 where m: "m (w, tr) = (x, (w1, tr))" by blast
  show "\<exists>r w'. ebind m f (w, tr) = (r, (w', tr))"
  proof (cases x)
    case (Inr a)
    from assms(2) [of a] have "\<exists>r w'. f a (w1, tr) = (r, (w', tr))" by (simp add: traceless_def)
    with m Inr show ?thesis by (simp add: ebind_def)
  qed (simp add: m ebind_def)
qed

lemma fbind_cases:
  assumes "fbind m f s = (r, s')"
  obtains (fail) e where "m s = (Inl e, s')" "r = Inl e"
    | (final) x where "m s = (Inr (Return x), s')" "r = Inr (Return x)"
    | (step) c s1 where "m s = (Inr (Next c), s1)" "f c s1 = (r, s')"
proof -
  obtain x s1 where m: "m s = (x, s1)" by (metis surj_pair)
  show thesis
  proof (cases x)
    case (Inl e)
    with m assms show ?thesis by (intro fail) (auto simp: fbind_def ebind_def)
  next
    case (Inr y)
    with m assms show ?thesis
      by (cases y) (auto simp: fbind_def ebind_def eret_def intro: final step)
  qed
qed

lemma traceless_start: "traceless (start_durable ag ri)"
  unfolding start_durable_def run_id_of_def
  by (auto intro!: traceless_ebind split: option.split)

lemma start_durable_Next:
  assumes "start_durable ag ri (w, []) = (Inr (Next (k, t, u, input)), (w1, []))"
  shows "ri_run_id input = Some k" and "k \<noteq> []" and "ri_task input = ri_task ri"
  using assms
  by (auto simp: start_durable_def ebind_def eret_def ensure_def run_input_post_init_def unnoted_def
      res_simps opt_nonblank_def nonblank_def split: prod.splits sum.splits if_splits)

lemma fbind_extends:
  assumes "fbind m f s = (r, (w', tr'))" and "m s = (x, (w1, tr1))" and "\<And>c. keeps (\<lambda>_. True) (f c)"
  shows "\<exists>ev. tr' = tr1 @ ev"
  using assms(1)
proof (cases rule: fbind_cases)
  case (step c s1)
  with assms(2) have "f c (w1, tr1) = (r, (w', tr'))" by simp
  from keepsD [OF assms(3) this] show ?thesis by blast
qed (use assms(2) in auto)


end
