(* ===== verification/Agent_Bounds.thy ===== *)
theory Agent_Bounds
  imports Agent_Safety
begin

text \<open>
  What a run of the agent without a store may do at most, and what a resumed run does with the action that
  was prepared before it was interrupted.

  \<open>ensures m R\<close> is the weakest-precondition style of statement that the proofs use: the events an effect appends and
  its result satisfy \<open>R\<close>. The rules follow the effect's structure.
\<close>

section \<open>Events and results of an effect\<close>

definition ensures :: "('w, 'a) act \<Rightarrow> (agent_event list \<Rightarrow> 'a res \<Rightarrow> bool) \<Rightarrow> bool" where
  "ensures m R = (\<forall>w tr r w' tr'. m (w, tr) = (r, (w', tr')) \<longrightarrow> (\<exists>ev. tr' = tr @ ev \<and> R ev r))"

lemma ensuresD: "ensures m R \<Longrightarrow> m (w, tr) = (r, (w', tr')) \<Longrightarrow> \<exists>ev. tr' = tr @ ev \<and> R ev r"
  unfolding ensures_def by blast

lemma ensures_mono: "ensures m R \<Longrightarrow> (\<And>ev r. R ev r \<Longrightarrow> S ev r) \<Longrightarrow> ensures m S"
  unfolding ensures_def by blast

lemma ensures_eret: "R [] r \<Longrightarrow> ensures (eret r) R"
  by (auto simp: ensures_def eret_def)

lemma ensures_unnoted: "(\<And>r. R [] r) \<Longrightarrow> ensures (unnoted m) R"
  by (auto simp: ensures_def unnoted_def split: prod.splits)

lemma ensures_pure: "(\<And>r. R [] r) \<Longrightarrow> ensures (\<lambda>(w, tr). (f w, (w, tr))) R"
  by (auto simp: ensures_def)

lemma ensures_ebind:
  assumes "ensures m (\<lambda>ev x. case x of Inl e \<Rightarrow> R ev (Inl e) | Inr a \<Rightarrow> ensures (f a) (\<lambda>ev'. R (ev @ ev')))"
  shows "ensures (ebind m f) R"
proof (unfold ensures_def, intro allI impI)
  fix w tr r w' tr'
  assume run: "ebind m f (w, tr) = (r, (w', tr'))"
  obtain x w1 tr1 where m: "m (w, tr) = (x, (w1, tr1))" by (metis prod.exhaust)
  from ensuresD [OF assms m] obtain ev where ev: "tr1 = tr @ ev"
    "case x of Inl e \<Rightarrow> R ev (Inl e) | Inr a \<Rightarrow> ensures (f a) (\<lambda>ev'. R (ev @ ev'))" by blast
  show "\<exists>ev. tr' = tr @ ev \<and> R ev r"
  proof (cases x)
    case (Inl e)
    with run m ev show ?thesis by (auto simp: ebind_def)
  next
    case (Inr a)
    with run m have "f a (w1, tr1) = (r, (w', tr'))" by (simp add: ebind_def)
    moreover from ev Inr have "ensures (f a) (\<lambda>ev'. R (ev @ ev'))" by simp
    ultimately obtain ev' where "tr' = tr1 @ ev'" "R (ev @ ev') r" by (auto dest: ensuresD)
    with ev show ?thesis by auto
  qed
qed

lemma ensures_ebind_traceless:
  assumes "traceless m" and "\<And>e. R [] (Inl e)" and "\<And>a. ensures (f a) R"
  shows "ensures (ebind m f) R"
proof (rule ensures_ebind)
  show "ensures m (\<lambda>ev x. case x of Inl e \<Rightarrow> R ev (Inl e) | Inr a \<Rightarrow> ensures (f a) (\<lambda>ev'. R (ev @ ev')))"
    using assms(2,3) by (auto simp: ensures_def [of m] dest!: tracelessD [OF assms(1)] intro!: exI [of _ "[]"] split: sum.split)
qed

lemma ensures_fbind:
  assumes "ensures m (\<lambda>ev x. case x of Inl e \<Rightarrow> R ev (Inl e) | Inr (Return y) \<Rightarrow> R ev (Inr (Return y))
    | Inr (Next a) \<Rightarrow> ensures (f a) (\<lambda>ev'. R (ev @ ev')))"
  shows "ensures (fbind m f) R"
  unfolding fbind_def
  by (rule ensures_ebind, rule ensures_mono [OF assms])
    (auto intro: ensures_eret split: sum.splits flow.splits)

lemma traceless_pure [simp]: "traceless (\<lambda>(w, tr). (f w, (w, tr)))"
  by (auto simp: traceless_def)

lemma traceless_knowledge: "traceless (knowledge_context ag ri)"
  by (auto simp: traceless_def knowledge_context_def Let_def ebind_def eret_def unnoted_def
      split: option.split prod.split sum.split)

section \<open>Every run ends\<close>

text \<open>\<open>ends m\<close>: the effect gives a result or an exception, it does not ask to go on.\<close>

definition ends :: "('w, 'c flow) act \<Rightarrow> bool" where
  "ends m = (\<forall>s t s'. m s \<noteq> (Inr (Next t), s'))"

lemma ends_ebind: "(\<And>a. ends (f a)) \<Longrightarrow> ends (ebind m f)"
  by (auto simp: ends_def ebind_def split: prod.splits sum.splits)

lemma ends_fbind: "(\<And>a. ends (f a)) \<Longrightarrow> ends (fbind m f)"
  unfolding fbind_def by (rule ends_ebind) (auto simp: ends_def eret_def split: flow.split)

lemma ends_eret [simp]: "ends (eret (Inl e))" "ends (eret (Inr (Return r)))"
  "ends (eret (rbind x (\<lambda>r. Inr (Return r))))"
  by (auto simp: ends_def eret_def res_simps)

lemma ends_stop [simp]: "ends (stop k ri status reason s)"
  by (simp add: stop_def)

lemma ends_persist_terminal [simp]: "ends (persist_terminal ag st cx status answer metadata)"
  unfolding persist_terminal_def Let_def by (auto intro!: ends_ebind)

lemma ends_end_run [simp]: "ends (end_run ag st ri cx status reason)"
  by (simp add: end_run_def)

lemma ends_ephemeral_loop: "ends (ephemeral_loop ag k ri deadline defs blocked steps s)"
  by (induction steps arbitrary: s) (auto intro: ends_fbind)

lemma ends_durable_loop: "ends (durable_loop ag st ri evidence blocked defs phase steps cx)"
  by (induction steps arbitrary: phase cx) (auto intro: ends_fbind)

lemma ends_run_ephemeral: "ends (run_ephemeral ag ri)"
  unfolding run_ephemeral_def Let_def
  by (auto intro!: ends_ebind ends_ephemeral_loop split: sum.split)

lemma ends_run_durable: "ends (run_durable ag st ri)"
  unfolding run_durable_def continue_durable_def Let_def
  by (auto intro!: ends_fbind ends_ebind ends_durable_loop split: sum.split)

text \<open>
  Every run of the agent, with or without a store, ends: whatever the model, the gateway, the store and the clocks
  answer, \<^verbatim>\<open>run\<close> returns a result or raises, and is never left with a turn to take.
\<close>

theorem agent_run_ends:
  "\<exists>r s'. agent_run ag run_store ri s = (r, s') \<and> ((\<exists>e. r = Inl e) \<or> (\<exists>x. r = Inr (Return x)))"
proof -
  have "ends (agent_run ag run_store ri)"
  proof (cases run_store)
    case None
    then show ?thesis using ends_run_ephemeral [of ag ri]
      by (auto simp: ends_def agent_run_def ebind_def eret_def split: prod.splits sum.splits)
        (metis flow.exhaust flow.map(1) flow.simps(4))
  next
    case (Some st)
    then show ?thesis using ends_run_durable [of ag st ri]
      by (auto simp: ends_def agent_run_def ebind_def eret_def split: prod.splits sum.splits)
        (metis flow.exhaust flow.map(1) flow.simps(4))
  qed
  then show ?thesis unfolding ends_def by (metis flow.exhaust sumE surj_pair)
qed

section \<open>The ephemeral run\<close>

fun is_model :: "agent_event \<Rightarrow> bool" where
  "is_model (ModelCall _) = True"
| "is_model _ = False"

abbreviation tools_in :: "agent_event list \<Rightarrow> int" where
  "tools_in ev \<equiv> int (count is_tool ev)"

abbreviation models_in :: "agent_event list \<Rightarrow> int" where
  "models_in ev \<equiv> int (count is_model ev)"

text \<open>
  What each event of a run may be: a call of the model within the limits of the profile, or one entry at most into the
  handler of a permitted tool, for the agent of the profile and the capability the registry has for
  the tool. The ephemeral run has no store.
\<close>

definition event_ok :: "'w Agent \<Rightarrow> agent_event \<Rightarrow> bool" where
  "event_ok ag e = (case e of
       ToolRun c a n \<Rightarrow> c = None \<and> n \<le> 1 \<and> ai_tool_name a \<in> set (ap_permitted_tools (ag_profile ag)) \<and>
         ai_agent_id a = ap_agent_id (ag_profile ag) \<and>
         (case registry_get (ag_tools ag) (ai_tool_name a) of Inr t \<Rightarrow> ai_capability a = gt_capability t | _ \<Rightarrow> False)
     | ModelCall q \<Rightarrow> int (length (cr_messages q)) \<le> rl_max_context_messages (limits_of ag) \<and>
         cr_max_output_tokens q = rl_max_output_tokens (limits_of ag)
     | StoreCall _ _ \<Rightarrow> False)"

text \<open>
  The counters against the trace, for a piece of the loop that starts in \<open>s\<close> and may call the model \<open>n\<close> times: \<open>g\<close>
  gives the state the piece ends in.
\<close>

definition advance :: "int \<Rightarrow> int \<Rightarrow> agent_event list \<Rightarrow> eph \<Rightarrow> bool" where
  "advance used turns ev s =
     (used = es_tool_calls s + tools_in ev \<and> es_model_turns s \<le> turns \<and>
      turns \<le> es_model_turns s + models_in ev)"

definition within :: "'w Agent \<Rightarrow> ('c \<Rightarrow> eph) \<Rightarrow> eph \<Rightarrow> int \<Rightarrow> agent_event list \<Rightarrow> 'c flow res \<Rightarrow> bool" where
  "within ag g s n ev r =
     (list_all (event_ok ag) ev \<and> tools_in ev \<le> max 0 (ap_max_tool_calls (ag_profile ag) - es_tool_calls s) \<and>
      models_in ev \<le> n \<and>
      (case r of
         Inl _ \<Rightarrow> True
       | Inr (Return x) \<Rightarrow> advance (rr_tool_calls x) (rr_model_turns x) ev s
       | Inr (Next c) \<Rightarrow> advance (es_tool_calls (g c)) (es_model_turns (g c)) ev s))"

lemma within_append:
  assumes "within ag g s n ev (Inr (Next c))" and "within ag h (g c) m ev' r"
  shows "within ag h s (n + m) (ev @ ev') r"
  using assms by (auto simp: within_def advance_def split: sum.splits flow.splits)

lemma within_fail [simp]: "0 \<le> n \<Longrightarrow> within ag g s n [] (Inl e)"
  by (simp add: within_def)

lemma within_next [simp]: "0 \<le> n \<Longrightarrow> g c = s \<Longrightarrow> within ag g s n [] (Inr (Next c))"
  by (simp add: within_def advance_def)

lemma within_same:
  "es_tool_calls s = es_tool_calls t \<Longrightarrow> es_model_turns s = es_model_turns t \<Longrightarrow> within ag g s n ev r = within ag g t n ev r"
  by (auto simp: within_def advance_def split: sum.splits flow.splits)

lemma add_counters [simp]:
  "es_tool_calls (add_event e s) = es_tool_calls s" "es_model_turns (add_event e s) = es_model_turns s"
  "es_tool_calls (add_message m s) = es_tool_calls s" "es_model_turns (add_message m s) = es_model_turns s"
  by (simp_all add: add_event_def add_message_def)

lemma within_bind:
  assumes "ensures m (within ag g s n)" and "\<And>c. ensures (f c) (within ag h (g c) k)" and "0 \<le> k"
  shows "ensures (fbind m f) (within ag h s (n + k))"
proof (rule ensures_fbind, rule ensures_mono [OF assms(1)])
  fix ev r
  assume w: "within ag g s n ev r"
  show "case r of Inl e \<Rightarrow> within ag h s (n + k) ev (Inl e) | Inr (Return y) \<Rightarrow> within ag h s (n + k) ev (Inr (Return y))
    | Inr (Next a) \<Rightarrow> ensures (f a) (\<lambda>ev'. within ag h s (n + k) (ev @ ev'))"
  proof (cases "\<exists>c. r = Inr (Next c)")
    case True
    with w show ?thesis by (auto intro!: ensures_mono [OF assms(2)] within_append)
  next
    case False
    with w assms(3) show ?thesis by (auto simp: within_def split: sum.splits flow.splits)
  qed
qed

lemma ensures_stop: "0 \<le> n \<Longrightarrow> es_tool_calls t = es_tool_calls s \<Longrightarrow> es_model_turns t = es_model_turns s \<Longrightarrow>
    ensures (stop k ri st reason t) (within ag g s n)"
  by (auto simp: stop_def failed_def within_def advance_def intro!: ensures_eret)

lemma complete_model_ok:
  assumes "int (length ms) \<le> rl_max_context_messages (limits_of ag)"
  shows "ensures (complete_model ag ms defs) (\<lambda>ev x. list_all (event_ok ag) ev \<and> count is_tool ev = 0 \<and>
    count is_model ev \<le> 1 \<and> (case x of Inr (Inr _) \<Rightarrow> count is_model ev = 1 | _ \<Rightarrow> True))"
  using assms
  by (auto simp: ensures_def complete_model_def noted_def request_post_init_def res_simps event_ok_def
      split: sum.splits prod.splits if_splits)

lemma ask_model_within: "ensures (ask_model ag k ri deadline defs step s) (within ag (\<lambda>(now, out, t). t) s 1)"
proof -
  let ?s1 = "\<lambda>now. add_event (run_event MODEL_TURN step now [(''run_id'', JStr k)]) s"
  let ?s2 = "\<lambda>now. (?s1 now)\<lparr>es_model_turns := es_model_turns (?s1 now) + 1\<rparr>"
  have after: "ensures (ebind (unnoted (ag_cancelled ag)) (\<lambda>cancelled.
          if cancelled then stop k ri RS_CANCELLED None (?s2 now) else
          ebind (unnoted (ag_clock ag)) (\<lambda>after.
          if float_ge after deadline then stop k ri RS_TIMED_OUT None (?s2 now) else
          eret (Inr (Next (now, out, ?s2 now))))))
        (\<lambda>ev'. within ag (\<lambda>(now, out, t). t) s 1 (ev @ ev'))"
    if "list_all (event_ok ag) ev" "count is_tool ev = 0" "count is_model ev = 1" for ev now out
    using that
    by (auto intro!: ensures_ebind_traceless ensures_eret simp: stop_def failed_def within_def advance_def)
  have model: "ensures (ebind (complete_model ag (es_messages (?s1 now)) defs) (\<lambda>answer.
     case answer of
       Inl e \<Rightarrow> stop k ri RS_MODEL_FAILURE (Some (ag_str ag e)) (?s1 now)
     | Inr output \<Rightarrow>
          ebind (unnoted (ag_cancelled ag)) (\<lambda>cancelled.
          if cancelled then stop k ri RS_CANCELLED None (?s2 now) else
          ebind (unnoted (ag_clock ag)) (\<lambda>after.
          if float_ge after deadline then stop k ri RS_TIMED_OUT None (?s2 now) else
          eret (Inr (Next (now, output, ?s2 now))))))) (within ag (\<lambda>(now, out, t). t) s 1)"
    if "int (length (es_messages s)) \<le> rl_max_context_messages (limits_of ag)" for now
  proof (rule ensures_ebind, rule ensures_mono [OF complete_model_ok])
    show "int (length (es_messages (?s1 now))) \<le> rl_max_context_messages (limits_of ag)"
      using that by (simp add: add_event_def)
  qed (auto intro!: after ensures_eret simp: stop_def failed_def within_def advance_def split: sum.splits)
  show ?thesis
    unfolding ask_model_def Let_def
    by (auto intro!: ensures_ebind_traceless ensures_stop model)
qed

lemma finish_text_within: "ensures (finish_text ag k ri step answer s) (within ag g s 0)"
  unfolding finish_text_def
  by (auto intro!: ensures_ebind_traceless ensures_stop ensures_eret simp: within_def advance_def)

lemma observe_within: "ensures (observe ag k ri step call i x s) (within ag (\<lambda>t. t) s 0)"
  unfolding observe_def
  by (auto intro!: ensures_ebind_traceless ensures_stop ensures_eret simp: within_def advance_def)

lemma capture_intent_fields:
  assumes "capture_intent ag k cap call i ts fresh = Inr a"
  shows "ai_tool_name a = tc_name call" "ai_agent_id a = ap_agent_id (ag_profile ag)" "ai_capability a = cap"
  using assms by (auto simp: capture_intent_def capture_action_def Let_def res_simps action_post_init_Inr_iff)

lemma run_tool_ensures: "ensures (run_tool ag c name a) (\<lambda>ev x. ev = [] \<and> x = Inl KeyError \<or>
    (\<exists>n. ev = [ToolRun c a n] \<and> n \<le> 1))"
  unfolding ensures_def
proof (intro allI impI)
  fix w tr r w' tr'
  assume "run_tool ag c name a (w, tr) = (r, (w', tr'))"
  from run_tool_cases [OF this] show "\<exists>ev. tr' = tr @ ev \<and>
      (ev = [] \<and> r = Inl KeyError \<or> (\<exists>n. ev = [ToolRun c a n] \<and> n \<le> 1))" by auto
qed

text \<open>The dispatch within the loop: it is entered only below the limit, and counts itself.\<close>

lemma run_and_observe_within:
  assumes a: "capture_intent ag k (gt_capability tool) call i ts fresh = Inr a"
    and permitted: "tc_name call \<in> set (ap_permitted_tools (ag_profile ag))"
    and tool: "registry_get (ag_tools ag) (tc_name call) = Inr tool"
    and below: "es_tool_calls s < ap_max_tool_calls (ag_profile ag)"
    and t: "es_tool_calls t = es_tool_calls s + 1" "es_model_turns t = es_model_turns s"
  shows "ensures (ebind (run_tool ag None (tc_name call) a) (\<lambda>x. observe ag k ri step call i x t)) (within ag (\<lambda>t. t) s 0)"
proof (rule ensures_ebind, rule ensures_mono [OF run_tool_ensures])
  fix ev and x :: "GovernedExecution res"
  assume ev: "ev = [] \<and> x = Inl KeyError \<or> (\<exists>n. ev = [ToolRun None a n] \<and> n \<le> 1)"
  have ok: "event_ok ag (ToolRun None a n)" if "n \<le> 1" for n
    using that permitted tool capture_intent_fields [OF a] by (simp add: event_ok_def)
  have "within ag (\<lambda>t. t) s 0 (ToolRun None a n # ev') r" if "n \<le> 1" "within ag (\<lambda>t. t) t 0 ev' r" for n ev' r
    using that ok below t by (auto simp: within_def advance_def split: sum.splits flow.splits)
  note step = this
  have fail: "within ag (\<lambda>t. t) s 0 ev (Inl e)" for e
    using ev ok below by (auto simp: within_def)
  show "case x of Inl e \<Rightarrow> within ag (\<lambda>t. t) s 0 ev (Inl e)
      | Inr y \<Rightarrow> ensures (observe ag k ri step call i y t) (\<lambda>ev'. within ag (\<lambda>t. t) s 0 (ev @ ev'))"
    using ev fail by (auto intro!: ensures_mono [OF observe_within] step split: sum.split)
qed

lemma use_tool_within: "ensures (use_tool ag k ri blocked step now call s) (within ag (\<lambda>t. t) s 0)"
proof -
  have cont: "ensures (case capture_intent ag k (gt_capability tool) call i ts fresh of
          Inl e \<Rightarrow>
            if e = ContractError then stop k ri RS_INVALID_MODEL_RESPONSE (Some (ag_str ag e)) s
            else eret (Inl e)
        | Inr action \<Rightarrow>
            (case validate_history
               (es_messages (add_event (tool_requested step now (tc_name call) (gt_capability tool) i) s) @ [as_message call]) True of
               Inl e \<Rightarrow> stop k ri RS_INVALID_MODEL_RESPONSE (Some (ag_str ag e))
                 (add_event (tool_requested step now (tc_name call) (gt_capability tool) i) s)
             | Inr _ \<Rightarrow>
                 ebind (run_tool ag None (tc_name call) action) (\<lambda>execution.
                 observe ag k ri step call i execution
                   ((add_message (as_message call) (add_event (tool_requested step now (tc_name call) (gt_capability tool) i) s))
                     \<lparr>es_tool_calls := es_tool_calls (add_event (tool_requested step now (tc_name call) (gt_capability tool) i) s) + 1\<rparr>))))
      (within ag (\<lambda>t. t) s 0)"
    if "tc_name call \<in> set (ap_permitted_tools (ag_profile ag))" "registry_get (ag_tools ag) (tc_name call) = Inr tool"
      "es_tool_calls s < ap_max_tool_calls (ag_profile ag)" for tool i ts fresh
    using that
    by (auto intro!: run_and_observe_within ensures_stop ensures_eret split: sum.split)
  have tool: "ensures (ebind (eret x) f) (within ag (\<lambda>t. t) s 0)"
    if "\<And>a. x = Inr a \<Longrightarrow> ensures (f a) (within ag (\<lambda>t. t) s 0)" for x :: "GovernedTool res" and f
    using that by (cases x) (auto simp: ensures_def ebind_def eret_def)
  show ?thesis
    unfolding use_tool_def Let_def
    by (auto intro!: tool ensures_ebind_traceless ensures_stop cont)
qed

lemma ephemeral_step_within:
  "ensures (ephemeral_step ag k ri deadline defs blocked step s) (within ag (\<lambda>t. t) s 1)"
proof -
  have "ensures (case out of OutText answer \<Rightarrow> finish_text ag k ri step answer t
      | OutOther \<Rightarrow> stop k ri RS_INVALID_MODEL_RESPONSE (Some ''model returned an unsupported output type'') t
      | OutCall call \<Rightarrow> use_tool ag k ri blocked step now call t) (within ag (\<lambda>t. t) t 0)" for out t now
    by (auto intro: finish_text_within use_tool_within ensures_stop split: ModelOutput.split)
  then show ?thesis
    unfolding ephemeral_step_def
    by (intro within_bind [OF ask_model_within, where k = 0, simplified]) (simp add: case_prod_beta')
qed

lemma ephemeral_loop_within:
  "ensures (ephemeral_loop ag k ri deadline defs blocked steps s) (within ag (\<lambda>t. t) s (int (length steps)))"
proof (induction steps arbitrary: s)
  case (Cons step steps)
  from within_bind [OF ephemeral_step_within Cons.IH] show ?case by (simp add: add.commute)
qed (simp add: ensures_stop)

lemma run_ephemeral_within:
  "ensures (run_ephemeral ag ri) (\<lambda>ev r. \<exists>s. es_tool_calls s = 0 \<and> es_model_turns s = 0 \<and>
     within ag (\<lambda>t. t) s (max 0 (ap_max_model_turns (ag_profile ag))) ev r \<and> (\<forall>t. r \<noteq> Inr (Next t)))"
  (is "ensures _ ?R")
proof -
  have loop: "ensures (ephemeral_loop ag k ri deadline defs blocked [1..ap_max_model_turns (ag_profile ag)] s) ?R"
    if "es_tool_calls s = 0" "es_model_turns s = 0" for k deadline defs blocked s
  proof (unfold ensures_def, intro allI impI)
    fix w tr r w' tr'
    assume run: "ephemeral_loop ag k ri deadline defs blocked [1..ap_max_model_turns (ag_profile ag)] s (w, tr) = (r, (w', tr'))"
    from ensuresD [OF ephemeral_loop_within run] obtain ev where
      "tr' = tr @ ev" "within ag (\<lambda>t. t) s (int (length [1..ap_max_model_turns (ag_profile ag)])) ev r" by blast
    moreover have "int (length [1..ap_max_model_turns (ag_profile ag)]) = max 0 (ap_max_model_turns (ag_profile ag))"
      by simp
    moreover from run ends_ephemeral_loop have "r \<noteq> Inr (Next t)" for t unfolding ends_def by metis
    ultimately show "\<exists>ev. tr' = tr @ ev \<and> ?R ev r" using that by auto
  qed
  have end_run: "ensures (stop k ri st reason s) ?R" if "es_tool_calls s = 0" "es_model_turns s = 0" for k st reason s
    using that by (auto intro!: ensures_eret exI [of _ s] simp: stop_def failed_def within_def advance_def)
  have fail: "?R [] (Inl e)" for e
    by (intro exI [of _ "\<lparr>es_events = [], es_messages = [], es_tool_calls = 0, es_model_turns = 0\<rparr>"]) simp
  have q: "traceless (run_id_of ag ri)" by (auto simp: run_id_of_def split: option.split)
  show ?thesis
    unfolding run_ephemeral_def Let_def
    by (auto intro!: ensures_ebind_traceless loop end_run fail q traceless_knowledge ensures_eret split: sum.split)
qed


section \<open>The action of a resumed run\<close>

text \<open>
  C34: A run that was interrupted after it had prepared a tool call resumes with the action it prepared: whatever
  \<open>uuid4\<close> and the clock would give now, the action restored from the checkpoint, before or after its trip through the store,
  is the captured one, with its id, its idempotency key, its timestamp and the stored bytes of its
  arguments.
\<close>

theorem resumed_action_is_prepared_action:
  assumes "capture_intent ag k cap call i ts fresh = Inr a" and "i \<noteq> []"
    and "sr_pending_action rec = Some p"
    and "p = pending_action_of ag k cap call a i \<or> p = canon_obj (pending_action_of ag k cap call a i)"
  shows "restore_action fresh' now rec = Inr a"
proof -
  let ?p = "pending_action_of ag k cap call a i"
  have d: "distinct (map fst ?p)" by (simp add: pending_action_of_def)
  have ts: "ai_timestamp a = JFloat ts"
    using assms(1) by (auto simp: capture_intent_def capture_action_def Let_def res_simps action_post_init_Inr_iff)
  have keys: "jkeys ?p \<subseteq> set action_parameters \<and>
      {''agent_id'', ''framework'', ''tool_name'', ''capability'', ''arguments''} \<subseteq> jkeys ?p"
    by (simp add: pending_action_of_def jkeys_def action_parameters_def)
  have same: "snapshot_object (JObj (canon_obj d)) = snapshot_object (JObj d)" for d
    using valid_json_canon [of "JObj d"] by (simp add: snapshot_object_def canon_JObj del: canon.simps valid_json_canon)
  let ?ctx = "[(''run_id'', JStr k), (''tool_call_id'', JStr (tc_call_id call))]"
  have cap: "capture_action fresh' now (ap_agent_id (ag_profile ag)) ''cbrain-foundation'' (tc_name call) cap
      (JObj args) (Some ctx) None (Some i) (Some i) (Some (JFloat ts)) = Inr a"
    if "args = tc_arguments call \<or> args = canon_obj (tc_arguments call)" "ctx = ?ctx \<or> ctx = canon_obj ?ctx"
    for args ctx
  proof -
    have "snapshot_object (JObj args) = snapshot_object (JObj (tc_arguments call))"
      and "snapshot_object (JObj ctx) = snapshot_object (JObj ?ctx)"
      using that by (auto simp: same)
    with assms(1,2) show ?thesis by (simp add: capture_intent_def capture_action_def text_or_def Let_def)
  qed
  have get: "jget ?p ''agent_id'' = Some (JStr (ap_agent_id (ag_profile ag)))"
    "jget ?p ''framework'' = Some (JStr ''cbrain-foundation'')" "jget ?p ''tool_name'' = Some (JStr (tc_name call))"
    "jget ?p ''capability'' = Some (JStr cap)" "jget ?p ''arguments'' = Some (JObj (tc_arguments call))"
    "jget ?p ''context'' = Some (JObj ?ctx)" "jget ?p ''evidence'' = None" "jget ?p ''request_id'' = Some (JStr i)"
    "jget ?p ''idempotency_key'' = Some (JStr i)" "jget ?p ''timestamp'' = Some (JFloat ts)"
    by (simp_all add: pending_action_of_def ts)
  note defs = restore_action_def rbind_def ensure_def on_error_def arg_text_def arg_opt_obj_def arg_opt_text_def
    or_null_def assms(3) keys keys [simplified] get cap
  show ?thesis
    using assms(4)
  proof
    assume p: "p = ?p"
    show ?thesis by (simp add: defs p del: canon.simps)
  next
    assume p: "p = canon_obj ?p"
    show ?thesis by (simp add: defs p jget_canon [OF d] canon_JObj del: canon.simps(7))
  qed
qed

end
