(* ===== verification/Witnesses_Agent.thy ===== *)
theory Witnesses_Agent
  imports Agent_Bounds
begin

text \<open>
  Witnesses of the agent loop: an agent that pays once and then answers, over a SQLite run store, run to its
  end.
\<close>

section \<open>One agent\<close>

definition payer :: AgentProfile where
  "payer = \<lparr>ap_agent_id = ''agent'', ap_instructions = ''Pay.'', ap_model_route = ''m'',
     ap_permitted_tools = [''pay''], ap_max_model_turns = 3, ap_max_tool_calls = 2,
     ap_timeout_seconds = Finite ''60.0'', ap_limits = default_limits, ap_knowledge_required_for_tools = False\<rparr>"

definition pay_tool :: GovernedTool where
  "pay_tool = \<lparr>gt_name = ''pay'', gt_capability = ''payments.send'', gt_description = ''Pays.'',
     gt_input_schema = [(''type'', JStr ''object''), (''properties'', JObj [])]\<rparr>"

definition pay_call :: ToolCall where
  "pay_call = \<lparr>tc_call_id = ''c1'', tc_name = ''pay'', tc_arguments = [(''amount'', JInt 5)], tc_continuation = None\<rparr>"

text \<open>The model asks for the tool until it has seen an observation.\<close>

definition pay_model :: "string \<Rightarrow> CompletionRequest \<Rightarrow> ('w, ModelOutput) eff" where
  "pay_model route q w =
     (Inr (if list_ex (\<lambda>m. ms_role m = ROLE_TOOL) (cr_messages q) then OutText ''paid'' else OutCall pay_call), w)"

definition pay_once :: "'w PrivateVaultGateway" where
  "pay_once = \<lparr>gw_independent_execution = None,
     gw_decide_and_execute = (\<lambda>a. Invoke (JObj []) (\<lambda>_. Done (Execution
       \<lparr>ge_status = EXECUTED, ge_request_id = ai_request_id a, ge_tool_executed = Some True, ge_reason = ''done'',
        ge_decision_id = Some ''d1'', ge_output = JObj [], ge_retryable = False\<rparr>)))\<rparr>"

definition pay_agent :: "'w Agent" where
  "pay_agent = \<lparr>ag_profile = payer, ag_gateway = pay_once, ag_complete = pay_model, ag_tools = [pay_tool],
     ag_handlers = [(''pay'', \<lambda>a w. (Inr a, w))], ag_clock = (\<lambda>w. (Inr (Finite ''1.0''), w)),
     ag_wall_clock = (\<lambda>w. (Inr (Finite ''1.0''), w)), ag_run_id_factory = (\<lambda>w. (Inr ''run'', w)),
     ag_request_id_factory = (\<lambda>k n w. (Inr (k @ '':1''), w)), ag_cancelled = (\<lambda>w. (Inr False, w)),
     ag_knowledge = None, ag_floats = \<lparr>fo_add = (\<lambda>_ _. Finite ''61.0''), fo_sub = (\<lambda>_ _. Finite ''60.0'')\<rparr>,
     ag_loads = (\<lambda>_. Inl ValueError), ag_str = exn_name, ag_default = (\<lambda>_. Inl TypeError),
     ag_uuid = (\<lambda>_. ''u''), ag_time = (\<lambda>_. Finite ''1.0'')\<rparr>"

lemma pay_agent_profile: "ag_profile pay_agent = payer"
  by (simp add: pay_agent_def)

definition pay_input :: RunInput where
  "pay_input = \<lparr>ri_task = ''pay'', ri_run_id = Some ''run'', ri_metadata = None\<rparr>"

definition mem_runs :: "memory_store RunStore" where
  "mem_runs = \<lparr>so_create = mem_create, so_load = (\<lambda>k s. (mem_load k s, s)),
     so_save = mem_save, so_claim = mem_claim_tool_dispatch\<rparr>"

text \<open>The digest in the record stays a symbol: evaluating it would not change what the run does.\<close>

declare profile_fingerprint_def [code del]

definition first_run :: "DurableRunContext flow res \<times> memory_store \<times> agent_event list" where
  "first_run = run_durable pay_agent mem_runs pay_input (Map.empty, [])"

definition second_run :: "DurableRunContext flow res \<times> memory_store \<times> agent_event list" where
  "second_run = run_durable pay_agent mem_runs pay_input (fst (snd first_run), [])"

text \<open>The history of a store, as a computation.\<close>

fun mem_follows :: "memory_store \<Rightarrow> agent_event list \<Rightarrow> bool" where
  "mem_follows s [] = True"
| "mem_follows s (StoreCall u out # tr) = (case mem_step u s of (o', s') \<Rightarrow> o' = out \<and> mem_follows s' tr)"
| "mem_follows s (_ # tr) = mem_follows s tr"

lemma mem_follows_history: "mem_follows s tr \<Longrightarrow> store_history (\<lambda>_ :: unit. mem_step) s tr"
  by (induction rule: mem_follows.induct) (auto intro: store_history.intros split: prod.splits)

abbreviation first_trace :: "agent_event list" where
  "first_trace \<equiv> snd (snd first_run)"

abbreviation second_trace :: "agent_event list" where
  "second_trace \<equiv> snd (snd second_run)"

section \<open>The durable run\<close>

lemma runs_evaluated:
  "case first_run of (r1, s1, t1) \<Rightarrow> case run_durable pay_agent mem_runs pay_input (s1, []) of (r2, s2, t2) \<Rightarrow>
     count is_tool t1 = 1 \<and> count (is_run_of ''run'' 2) t1 = 1 \<and> mem_follows Map.empty (t1 @ t2) \<and>
     (case t2 of [StoreCall (OpLoad k) (OutRecord (Inr rec))] \<Rightarrow> terminal_durable (sr_durable_state rec) | _ \<Rightarrow> False) \<and>
     (case r2 of Inr (Return x) \<Rightarrow> rr_status x = RS_COMPLETED \<and> rr_final_text x = Some ''paid'' | _ \<Rightarrow> False)"
  by code_simp

lemmas runs_known = runs_evaluated [unfolded case_prod_beta, folded second_run_def]

lemma first_run_dispatches: "count is_tool first_trace = 1" "count (is_run_of ''run'' 2) first_trace = 1"
  using runs_known by blast+

lemma runs_follow: "mem_follows Map.empty (first_trace @ second_trace)"
  using runs_known by blast

text \<open>The second worker finds the run completed.\<close>

lemma second_run_loads:
  obtains k rec where "second_trace = [StoreCall (OpLoad k) (OutRecord (Inr rec))]"
    "terminal_durable (sr_durable_state rec)"
proof -
  have "case second_trace of [StoreCall (OpLoad k) (OutRecord (Inr rec))] \<Rightarrow> terminal_durable (sr_durable_state rec) | _ \<Rightarrow> False"
    using runs_known by blast
  moreover obtain e tr where e: "second_trace = e # tr" using calculation by (cases second_trace) auto
  ultimately show thesis
    by (cases tr; cases e) (auto intro: that split: run_op.split_asm run_out.split_asm sum.split_asm)
qed

lemma second_run_answers:
  "case fst second_run of Inr (Return x) \<Rightarrow> rr_status x = RS_COMPLETED \<and> rr_final_text x = Some ''paid'' | _ \<Rightarrow> False"
  using runs_known by blast

lemma run_equations:
  "run_durable pay_agent mem_runs pay_input (Map.empty, []) = (fst first_run, (fst (snd first_run), first_trace))"
  "run_durable pay_agent mem_runs pay_input (fst (snd first_run), []) = (fst second_run, (fst (snd second_run), second_trace))"
  by (simp_all add: first_run_def second_run_def)

theorem durable_dispatch_is_claimed_witness:
  "claimed_runs first_trace \<and> count is_tool first_trace = 1"
  using durable_dispatch_is_claimed [OF run_equations(1)] first_run_dispatches(1) by simp

text \<open>Two workers, the second after the first.\<close>

theorem at_most_one_dispatch_witness:
  "count (is_run_of ''run'' 2) (map snd (map (Pair (0 :: nat)) first_trace @ map (Pair 1) second_trace)) = 1"
proof -
  let ?tr = "map (Pair (0 :: nat)) first_trace @ map (Pair 1) second_trace"
  have p: "project 0 ?tr = first_trace" "project (Suc 0) ?tr = second_trace"
    by (simp_all add: project_def filter_map o_def)
  have "\<exists>w r w'. run_durable pay_agent mem_runs pay_input (w, []) = (r, (w', project i ?tr))" if "i < 2" for i
  proof (cases "i = 0")
    case True
    show ?thesis unfolding True p using run_equations(1) by blast
  next
    case False
    with that have i: "i = Suc 0" by simp
    show ?thesis unfolding i p using run_equations(2) by blast
  qed
  moreover have "\<forall>e\<in>set ?tr. fst e < 2" by auto
  moreover have "store_history (\<lambda>_ :: unit. mem_step) Map.empty (map snd ?tr)"
    using mem_follows_history [OF runs_follow] by (simp add: o_def)
  ultimately have "count (is_run_of ''run'' 2) (map snd ?tr) \<le> 1"
    using at_most_one_dispatch [of 2 "\<lambda>_. pay_agent" "\<lambda>_. mem_runs" "\<lambda>_. pay_input" ?tr Map.empty Map.empty] by simp
  with first_run_dispatches(2) show ?thesis by (simp add: o_def)
qed


section \<open>The ephemeral run, the resumed action, a message\<close>

definition plain_run :: "eph flow res \<times> unit \<times> agent_event list" where
  "plain_run = run_ephemeral pay_agent pay_input ((), [])"


definition waiting_run :: "jobj \<Rightarrow> StoredRunRecord" where
  "waiting_run p = (new_running_record ''run'' payer pay_input (Finite ''1.0'') (Finite ''61.0'') [] [])
     \<lparr>sr_durable_state := DS_TOOL_PREPARED, sr_pending_action := Some p\<rparr>"

theorem resumed_action_is_prepared_action_witness:
  "\<exists>a. capture_intent (pay_agent :: unit Agent) ''run'' ''payments.send'' pay_call ''run:1'' (Finite ''1.0'') ''u'' = Inr a \<and>
     restore_action ''v'' (JInt 9)
       (waiting_run (canon_obj (pending_action_of (pay_agent :: unit Agent) ''run'' ''payments.send'' pay_call a ''run:1''))) = Inr a"
proof -
  have "case capture_intent (pay_agent :: unit Agent) ''run'' ''payments.send'' pay_call ''run:1'' (Finite ''1.0'') ''u'' of
      Inr _ \<Rightarrow> True | Inl _ \<Rightarrow> False" by code_simp
  then obtain a where a: "capture_intent (pay_agent :: unit Agent) ''run'' ''payments.send'' pay_call ''run:1''
      (Finite ''1.0'') ''u'' = Inr a" by (auto split: sum.splits)
  let ?p = "canon_obj (pending_action_of (pay_agent :: unit Agent) ''run'' ''payments.send'' pay_call a ''run:1'')"
  have "restore_action ''v'' (JInt 9) (waiting_run ?p) = Inr a"
    by (rule resumed_action_is_prepared_action [OF a, where p = ?p]) (simp_all add: waiting_run_def)
  with a show ?thesis by blast
qed

theorem message_roundtrip_witness:
  "deserialize_message (\<lambda>_. Inl ValueError) (canon_obj (serialize_message (as_message pay_call))) = Inr (as_message pay_call)"
proof -
  have "wf_message (\<lambda>_. Inl ValueError) (as_message pay_call)" by code_simp
  then show ?thesis by (rule message_roundtrip)
qed

definition pay_question :: Message where
  "pay_question = \<lparr>ms_role = ROLE_USER, ms_content = ''pay'', ms_tool_call_id = None, ms_tool_name = None,
     ms_tool_call = None\<rparr>"

definition pay_answer :: Message where
  "pay_answer = \<lparr>ms_role = ROLE_TOOL, ms_content = ''paid'', ms_tool_call_id = Some ''c1'', ms_tool_name = Some ''pay'',
     ms_tool_call = None\<rparr>"

theorem validate_history_iff_witness:
  "validate_history [pay_question, as_message pay_call, pay_answer] False = Inr () \<and>
   validate_history [pay_question, as_message pay_call] False = Inl ModelContractError"
  unfolding validate_history_iff by code_simp

end
