(* ===== verification/Py_Float.thy ===== *)
theory Py_Float
  imports Complex_Main
begin

text \<open>
  Python floats by value: the finite ones are rationals, and arithmetic on them, which rounds, is a parameter of the
  definitions that use it. Comparisons are exact; with \<open>nan\<close> they are false. For sorting, the order is the linear one
  of the numbers with the infinities at its ends.
\<close>

datatype pyfl = Fl rat | FNaN | FInf | FNegInf

fun fl_less :: "pyfl \<Rightarrow> pyfl \<Rightarrow> bool" where
  "fl_less (Fl x) (Fl y) = (x < y)"
| "fl_less (Fl _) FInf = True"
| "fl_less FNegInf (Fl _) = True"
| "fl_less FNegInf FInf = True"
| "fl_less _ _ = False"

text \<open>\<^verbatim>\<open>a >= b\<close>, which is false if one of them is \<open>nan\<close>.\<close>

definition fl_ge :: "pyfl \<Rightarrow> pyfl \<Rightarrow> bool" where
  "fl_ge a b = (fl_less b a \<or> (a = b \<and> a \<noteq> FNaN))"

fun fl_add :: "(rat \<Rightarrow> rat \<Rightarrow> pyfl) \<Rightarrow> pyfl \<Rightarrow> pyfl \<Rightarrow> pyfl" where
  "fl_add fadd (Fl x) (Fl y) = fadd x y"
| "fl_add fadd FNaN _ = FNaN"
| "fl_add fadd _ FNaN = FNaN"
| "fl_add fadd FInf FNegInf = FNaN"
| "fl_add fadd FNegInf FInf = FNaN"
| "fl_add fadd FInf _ = FInf"
| "fl_add fadd FNegInf _ = FNegInf"
| "fl_add fadd _ x = x"

text \<open>\<^verbatim>\<open>-x\<close>.\<close>

fun fl_neg :: "pyfl \<Rightarrow> pyfl" where
  "fl_neg (Fl x) = Fl (- x)"
| "fl_neg FNaN = FNaN"
| "fl_neg FInf = FNegInf"
| "fl_neg FNegInf = FInf"

definition fl_finite :: "pyfl \<Rightarrow> bool" where
  "fl_finite x = (case x of Fl _ \<Rightarrow> True | _ \<Rightarrow> False)"

fun fl_class :: "pyfl \<Rightarrow> nat" where
  "fl_class FNegInf = 0"
| "fl_class (Fl _) = 1"
| "fl_class FInf = 2"
| "fl_class FNaN = 3"

fun fl_val :: "pyfl \<Rightarrow> rat" where
  "fl_val (Fl x) = x"
| "fl_val _ = 0"

lemma fl_key: "fl_class x = fl_class y \<Longrightarrow> fl_val x = fl_val y \<Longrightarrow> x = y"
  by (cases x; cases y) auto

instantiation pyfl :: linorder
begin

definition less_eq_pyfl :: "pyfl \<Rightarrow> pyfl \<Rightarrow> bool" where
  "less_eq_pyfl x y = (fl_class x < fl_class y \<or> fl_class x = fl_class y \<and> fl_val x \<le> fl_val y)"

definition less_pyfl :: "pyfl \<Rightarrow> pyfl \<Rightarrow> bool" where
  "less_pyfl x y = (fl_class x < fl_class y \<or> fl_class x = fl_class y \<and> fl_val x < fl_val y)"

instance
  by standard (auto simp: less_eq_pyfl_def less_pyfl_def intro: fl_key)

end

text \<open>On numbers the order is Python's.\<close>

lemma fl_order: "x \<noteq> FNaN \<Longrightarrow> y \<noteq> FNaN \<Longrightarrow> x < y \<longleftrightarrow> fl_less x y"
  by (cases x; cases y) (auto simp: less_pyfl_def)

end
