(* ===== verification/Review_Store.thy ===== *)
theory Review_Store
  imports Approval Py_Float "HOL-Library.AList"
begin

text \<open>
  \<^verbatim>\<open>cbrain/company/durable_approval.py\<close>: reviews that are parked, leased to a worker, approved and consumed
  in a SQLite table shared by many processes.

  \<^verbatim>\<open>BEGIN IMMEDIATE\<close> serialises the transactions, so that concurrent callers are again a sequence of operations.
  A transaction that raises, or whose commit fails, is rolled back. The clock is read as often as the code
  reads it: \<open>rb_clock\<close> gives the value of each reading. Seconds are floats with their infinities and \<open>nan\<close>; the
  rounded sum of two finite ones is a parameter. The store is the only writer of its table, so that the columns of
  roles and states hold values of their types.
\<close>

section \<open>Records and the table\<close>

text \<open>SQLite stores \<open>nan\<close> as \<^verbatim>\<open>NULL\<close>.\<close>

definition store_real :: "pyfl option \<Rightarrow> pyfl option" where
  "store_real x = (if x = Some FNaN then None else x)"

datatype ReviewState = RV_PARKED | RV_LEASED | RV_APPROVED | RV_CONSUMED | RV_APPROVAL_EXPIRED | RV_FROZEN

record ReviewRecord =
  rv_organisation_id :: string
  rv_request_id :: string
  rv_intent_digest :: string
  rv_required_role :: ApprovalRole
  rv_state :: ReviewState
  rv_lease_owner :: "string option"
  rv_lease_expires_at :: "pyfl option"
  rv_actor_id :: "string option"
  rv_approved_at :: "pyfl option"
  rv_approval_expires_at :: "pyfl option"
  rv_consumed_at :: "pyfl option"
  rv_frozen_reason :: "string option"
  rv_version :: int

text \<open>An entry of the event log: time, event, state and, for an update, the version.\<close>

type_synonym review_event = "pyfl \<times> string \<times> ReviewState \<times> int option"

record review_row =
  vw_record :: ReviewRecord
  vw_event_log :: "review_event list"

record review_db =
  rb_rows :: "((string \<times> string) \<times> review_row) list"
  rb_clock :: "nat \<Rightarrow> pyfl"
  rb_ticks :: nat

record DurableReviewStore =
  dv_organisation_id :: string
  dv_max_ttl_seconds :: pyfl
  dv_max_lease_seconds :: pyfl
  dv_allowed_approvers :: "ApprovalRole \<rightharpoonup> string set"
  dv_add :: "rat \<Rightarrow> rat \<Rightarrow> pyfl"

definition review_store_init ::
  "(rat \<Rightarrow> rat \<Rightarrow> pyfl) \<Rightarrow> string \<Rightarrow> (ApprovalRole \<times> string list) list \<Rightarrow> pyfl \<Rightarrow> pyfl \<Rightarrow> DurableReviewStore res" where
  "review_store_init fadd organisation_id allowed_approvers max_ttl max_lease =
     rbind (ensure (nonblank organisation_id) ApprovalInboxError) (\<lambda>_.
     rbind (ensure (\<not> (fl_ge (Fl 0) max_ttl \<or> fl_ge (Fl 0) max_lease)) ApprovalInboxError) (\<lambda>_.
     rbind (ensure (list_all (\<lambda>(role, actors).
              card (set (filter nonblank actors)) = length actors) allowed_approvers) ApprovalInboxError) (\<lambda>_.
     Inr \<lparr>dv_organisation_id = organisation_id, dv_max_ttl_seconds = max_ttl, dv_max_lease_seconds = max_lease,
          dv_allowed_approvers = map_of (map (map_prod id set) allowed_approvers), dv_add = fadd\<rparr>)))"

section \<open>Statements\<close>

type_synonym 'a review_eff = "(review_db, 'a) eff"

definition read_clock :: "pyfl review_eff" where
  "read_clock w = (Inr (rb_clock w (rb_ticks w)), w\<lparr>rb_ticks := Suc (rb_ticks w)\<rparr>)"

definition find_row :: "DurableReviewStore \<Rightarrow> string \<Rightarrow> review_db \<Rightarrow> review_row option" where
  "find_row dv request_id w = map_of (rb_rows w) (dv_organisation_id dv, request_id)"

text \<open>What the columns hold of a record: the key columns are the key of the row.\<close>

definition stored_record :: "ReviewRecord \<Rightarrow> ReviewRecord" where
  "stored_record r = r\<lparr>rv_lease_expires_at := store_real (rv_lease_expires_at r),
     rv_approved_at := store_real (rv_approved_at r),
     rv_approval_expires_at := store_real (rv_approval_expires_at r),
     rv_consumed_at := store_real (rv_consumed_at r)\<rparr>"

definition record_at :: "((string \<times> string) \<times> review_row) list \<Rightarrow> string \<times> string \<Rightarrow> ReviewRecord option" where
  "record_at rows key = map_option (\<lambda>row. (stored_record (vw_record row))
     \<lparr>rv_organisation_id := fst key, rv_request_id := snd key\<rparr>) (map_of rows key)"

definition load_review :: "DurableReviewStore \<Rightarrow> string \<Rightarrow> ReviewRecord option review_eff" where
  "load_review dv request_id w = (Inr (record_at (rb_rows w) (dv_organisation_id dv, request_id)), w)"

definition review_events :: "DurableReviewStore \<Rightarrow> string \<Rightarrow> review_event list review_eff" where
  "review_events dv request_id w =
     (Inr (case find_row dv request_id w of None \<Rightarrow> [] | Some row \<Rightarrow> vw_event_log row), w)"

text \<open>SQLite's \<^verbatim>\<open>length\<close> counts the characters before the first NUL.\<close>

definition sql_length :: "string \<Rightarrow> nat" where
  "sql_length s = length (takeWhile (\<lambda>c. c \<noteq> CHR 0x00) s)"

definition insert_review :: "ReviewRecord \<Rightarrow> string \<Rightarrow> unit review_eff" where
  "insert_review record event =
     ebind read_clock (\<lambda>now w.
     let key = (rv_organisation_id record, rv_request_id record) in
     if map_of (rb_rows w) key \<noteq> None \<or> sql_length (rv_organisation_id record) = 0 \<or>
        sql_length (rv_request_id record) = 0 \<or> sql_length (rv_intent_digest record) = 0 \<or> rv_version record < 1
     then (Inl (External ''IntegrityError''), w)
     else (Inr (), w\<lparr>rb_rows := rb_rows w @ [(key, \<lparr>vw_record = stored_record record,
              vw_event_log = [(now, event, rv_state record, None)]\<rparr>)]\<rparr>))"

text \<open>The keyword arguments of \<^verbatim>\<open>_replace\<close>; a flag \<^verbatim>\<open>set_...\<close> is \<open>Some\<close> of the values it sets.\<close>

record review_change =
  ch_state :: ReviewState
  ch_clear_lease :: bool
  ch_lease :: "(string \<times> pyfl) option"
  ch_approval :: "(string \<times> pyfl \<times> pyfl) option"
  ch_consumed :: "pyfl option"
  ch_frozen :: "string option"

definition change_to :: "ReviewState \<Rightarrow> review_change" where
  "change_to state = \<lparr>ch_state = state, ch_clear_lease = False, ch_lease = None, ch_approval = None,
     ch_consumed = None, ch_frozen = None\<rparr>"

definition updated_record :: "ReviewRecord \<Rightarrow> review_change \<Rightarrow> ReviewRecord" where
  "updated_record r ch = r\<lparr>rv_state := ch_state ch,
     rv_lease_owner := (if ch_clear_lease ch then None
       else case ch_lease ch of Some (owner, _) \<Rightarrow> Some owner | None \<Rightarrow> rv_lease_owner r),
     rv_lease_expires_at := (if ch_clear_lease ch then None
       else case ch_lease ch of Some (_, expires) \<Rightarrow> Some expires | None \<Rightarrow> rv_lease_expires_at r),
     rv_actor_id := (case ch_approval ch of Some (actor, _, _) \<Rightarrow> Some actor | None \<Rightarrow> rv_actor_id r),
     rv_approved_at := (case ch_approval ch of Some (_, t, _) \<Rightarrow> Some t | None \<Rightarrow> rv_approved_at r),
     rv_approval_expires_at := (case ch_approval ch of Some (_, _, e) \<Rightarrow> Some e
       | None \<Rightarrow> rv_approval_expires_at r),
     rv_consumed_at := (case ch_consumed ch of Some t \<Rightarrow> Some t | None \<Rightarrow> rv_consumed_at r),
     rv_frozen_reason := (case ch_frozen ch of Some reason \<Rightarrow> Some reason | None \<Rightarrow> rv_frozen_reason r),
     rv_version := rv_version r + 1\<rparr>"

definition replace_review ::
  "DurableReviewStore \<Rightarrow> ReviewRecord \<Rightarrow> string \<Rightarrow> review_change \<Rightarrow> ReviewRecord review_eff" where
  "replace_review dv record event ch =
     (let updated = updated_record record ch; key = (rv_organisation_id record, rv_request_id record) in
      ebind (review_events dv (rv_request_id record)) (\<lambda>log.
      ebind read_clock (\<lambda>now w.
      case map_of (rb_rows w) key of
        Some row \<Rightarrow>
          if rv_version (vw_record row) = rv_version record
          then (Inr updated, w\<lparr>rb_rows := AList.update key \<lparr>vw_record = stored_record updated,
                  vw_event_log = log @ [(now, event, rv_state updated, Some (rv_version updated))]\<rparr> (rb_rows w)\<rparr>)
          else (Inl ApprovalInboxError, w)
      | None \<Rightarrow> (Inl ApprovalInboxError, w))))"

text \<open>
  A transaction: it does not begin, a statement fails after some readings of the clock, the body raises, the
  commit fails, or its changes stay.
\<close>

datatype review_fault = RvOk | RvBeginFails | RvStatementFails nat | RvCommitFails

definition transact :: "review_fault \<Rightarrow> 'a review_eff \<Rightarrow> 'a review_eff" where
  "transact fault body w = (case fault of
       RvBeginFails \<Rightarrow> (Inl OperationalError, w)
     | RvStatementFails n \<Rightarrow> (Inl OperationalError, w\<lparr>rb_ticks := rb_ticks w + n\<rparr>)
     | _ \<Rightarrow>
         (case body w of
            (Inl e, w') \<Rightarrow> (Inl e, w'\<lparr>rb_rows := rb_rows w\<rparr>)
          | (Inr a, w') \<Rightarrow>
              if fault = RvCommitFails then (Inl OperationalError, w'\<lparr>rb_rows := rb_rows w\<rparr>) else (Inr a, w')))"

section \<open>Operations\<close>

definition expire_lease_if_needed :: "DurableReviewStore \<Rightarrow> string \<Rightarrow> ReviewRecord option review_eff" where
  "expire_lease_if_needed dv request_id =
     ebind (load_review dv request_id) (\<lambda>found. case found of
       None \<Rightarrow> eret (Inr None)
     | Some r \<Rightarrow>
         (case (rv_state r, rv_lease_expires_at r) of
            (RV_LEASED, Some expires) \<Rightarrow>
              ebind read_clock (\<lambda>now.
              if fl_ge now expires
              then ebind (replace_review dv r ''lease_expired'' ((change_to RV_PARKED)\<lparr>ch_clear_lease := True\<rparr>))
                     (\<lambda>r'. eret (Inr (Some r')))
              else eret (Inr (Some r)))
          | _ \<Rightarrow> eret (Inr (Some r))))"

definition expire_approval_if_needed :: "DurableReviewStore \<Rightarrow> string \<Rightarrow> ReviewRecord option review_eff" where
  "expire_approval_if_needed dv request_id =
     ebind (load_review dv request_id) (\<lambda>found. case found of
       None \<Rightarrow> eret (Inr None)
     | Some r \<Rightarrow>
         (case (rv_state r, rv_approval_expires_at r) of
            (RV_APPROVED, Some expires) \<Rightarrow>
              ebind read_clock (\<lambda>now.
              if fl_ge now expires
              then ebind (replace_review dv r ''approval_expired'' (change_to RV_APPROVAL_EXPIRED))
                     (\<lambda>r'. eret (Inr (Some r')))
              else eret (Inr (Some r)))
          | _ \<Rightarrow> eret (Inr (Some r))))"

definition parked_record :: "DurableReviewStore \<Rightarrow> string \<Rightarrow> string \<Rightarrow> ApprovalRole \<Rightarrow> ReviewRecord" where
  "parked_record dv request_id digest role =
     \<lparr>rv_organisation_id = dv_organisation_id dv, rv_request_id = request_id, rv_intent_digest = digest,
      rv_required_role = role, rv_state = RV_PARKED, rv_lease_owner = None, rv_lease_expires_at = None,
      rv_actor_id = None, rv_approved_at = None, rv_approval_expires_at = None, rv_consumed_at = None,
      rv_frozen_reason = None, rv_version = 1\<rparr>"

definition review_park ::
  "DurableReviewStore \<Rightarrow> review_fault \<Rightarrow> string \<Rightarrow> string \<Rightarrow> ApprovalRole \<Rightarrow> ReviewRecord review_eff" where
  "review_park dv fault request_id digest role =
     (if \<not> nonblank digest then eret (Inl ApprovalInboxError)
      else transact fault (
        ebind (load_review dv request_id) (\<lambda>found. case found of
          Some existing \<Rightarrow>
            if rv_state existing = RV_FROZEN then eret (Inl ApprovalInboxError)
            else if rv_intent_digest existing \<noteq> digest \<or> rv_required_role existing \<noteq> role
            then eret (Inl ApprovalInboxError)
            else if rv_state existing \<in> {RV_PARKED, RV_LEASED, RV_APPROVED} then eret (Inr existing)
            else eret (Inl ApprovalInboxError)
        | None \<Rightarrow>
            (let r = parked_record dv request_id digest role in
             ebind (insert_review r ''parked'') (\<lambda>_. eret (Inr r))))))"

definition claim_lease ::
  "DurableReviewStore \<Rightarrow> review_fault \<Rightarrow> string \<Rightarrow> string \<Rightarrow> pyfl option \<Rightarrow> ReviewRecord review_eff" where
  "claim_lease dv fault request_id worker_id lease_seconds =
     (let window = (case lease_seconds of None \<Rightarrow> dv_max_lease_seconds dv | Some s \<Rightarrow> s) in
      if \<not> nonblank worker_id then eret (Inl ApprovalInboxError)
      else if fl_ge (Fl 0) window \<or> fl_less (dv_max_lease_seconds dv) window then eret (Inl ApprovalInboxError)
      else transact fault (
        ebind (expire_lease_if_needed dv request_id) (\<lambda>found. case found of
          None \<Rightarrow> eret (Inl ApprovalInboxError)
        | Some r \<Rightarrow>
            if rv_state r = RV_FROZEN then eret (Inl ApprovalInboxError)
            else ebind read_clock (\<lambda>now.
              let change = (change_to RV_LEASED)\<lparr>ch_lease := Some (worker_id, fl_add (dv_add dv) now window)\<rparr> in
              if rv_state r = RV_LEASED then
                (if rv_lease_owner r = Some worker_id \<and>
                    (case rv_lease_expires_at r of Some e \<Rightarrow> fl_less now e | None \<Rightarrow> False)
                 then replace_review dv r ''lease_renewed'' change
                 else eret (Inl ApprovalInboxError))
              else if rv_state r \<noteq> RV_PARKED then eret (Inl ApprovalInboxError)
              else replace_review dv r ''leased'' change))))"

definition release_lease ::
  "DurableReviewStore \<Rightarrow> review_fault \<Rightarrow> string \<Rightarrow> string \<Rightarrow> ReviewRecord review_eff" where
  "release_lease dv fault request_id worker_id =
     transact fault (
       ebind (expire_lease_if_needed dv request_id) (\<lambda>found. case found of
         None \<Rightarrow> eret (Inl ApprovalInboxError)
       | Some r \<Rightarrow>
           if rv_state r \<noteq> RV_LEASED then eret (Inr r)
           else if rv_lease_owner r \<noteq> Some worker_id then eret (Inl ApprovalInboxError)
           else replace_review dv r ''lease_released'' ((change_to RV_PARKED)\<lparr>ch_clear_lease := True\<rparr>)))"

definition review_approve ::
  "DurableReviewStore \<Rightarrow> review_fault \<Rightarrow> string \<Rightarrow> ApprovalPrincipal \<Rightarrow> pyfl \<Rightarrow> ReviewRecord review_eff" where
  "review_approve dv fault request_id approver ttl =
     (if fl_ge (Fl 0) ttl \<or> fl_less (dv_max_ttl_seconds dv) ttl then eret (Inl ApprovalInboxError)
      else transact fault (
        ebind (expire_lease_if_needed dv request_id) (\<lambda>found. case found of
          None \<Rightarrow> eret (Inl ApprovalInboxError)
        | Some r \<Rightarrow>
            if rv_state r = RV_FROZEN then eret (Inl ApprovalInboxError)
            else if rv_state r \<notin> {RV_PARKED, RV_LEASED} then eret (Inl ApprovalInboxError)
            else if ap_role approver \<noteq> rv_required_role r then eret (Inl ApprovalInboxError)
            else if \<not> (case dv_allowed_approvers dv (ap_role approver) of
                        Some allowed \<Rightarrow> ap_actor_id approver \<in> allowed | None \<Rightarrow> False)
            then eret (Inl ApprovalInboxError)
            else ebind read_clock (\<lambda>now.
              replace_review dv r ''approved'' ((change_to RV_APPROVED)\<lparr>ch_clear_lease := True,
                ch_approval := Some (ap_actor_id approver, now, fl_add (dv_add dv) now ttl)\<rparr>)))))"

definition review_consume ::
  "DurableReviewStore \<Rightarrow> review_fault \<Rightarrow> string \<Rightarrow> string \<Rightarrow> ApprovalRole \<Rightarrow> bool review_eff" where
  "review_consume dv fault request_id digest role =
     transact fault (
       ebind (expire_approval_if_needed dv request_id) (\<lambda>found. case found of
         None \<Rightarrow> eret (Inr False)
       | Some r \<Rightarrow>
           if rv_state r = RV_FROZEN then eret (Inr False)
           else if rv_state r \<noteq> RV_APPROVED then eret (Inr False)
           else if rv_required_role r \<noteq> role \<or> rv_intent_digest r \<noteq> digest then eret (Inr False)
           else ebind (case rv_approval_expires_at r of
                  None \<Rightarrow> eret (Inr False)
                | Some expires \<Rightarrow> ebind read_clock (\<lambda>now. eret (Inr (fl_ge now expires)))) (\<lambda>expired.
             if expired
             then ebind (replace_review dv r ''approval_expired'' (change_to RV_APPROVAL_EXPIRED)) (\<lambda>_. eret (Inr False))
             else ebind read_clock (\<lambda>now.
               ebind (replace_review dv r ''consumed'' ((change_to RV_CONSUMED)\<lparr>ch_consumed := Some now\<rparr>))
                 (\<lambda>_. eret (Inr True))))))"

fun freeze_rows :: "DurableReviewStore \<Rightarrow> string \<Rightarrow> string list \<Rightarrow> unit review_eff" where
  "freeze_rows dv reason [] = eret (Inr ())"
| "freeze_rows dv reason (request_id # rest) =
     ebind (load_review dv request_id) (\<lambda>found.
     ebind (case found of
         None \<Rightarrow> eret (Inr ())
       | Some r \<Rightarrow>
           if rv_state r = RV_FROZEN then eret (Inr ())
           else ebind (replace_review dv r ''frozen'' ((change_to RV_FROZEN)\<lparr>ch_clear_lease := True,
                  ch_frozen := Some reason\<rparr>)) (\<lambda>_. eret (Inr ()))) (\<lambda>_.
     freeze_rows dv reason rest))"

definition review_freeze :: "DurableReviewStore \<Rightarrow> review_fault \<Rightarrow> string \<Rightarrow> unit review_eff" where
  "review_freeze dv fault reason =
     (if \<not> nonblank reason then eret (Inl ApprovalInboxError)
      else transact fault (\<lambda>w.
        freeze_rows dv reason
          (map snd (filter (\<lambda>k. fst k = dv_organisation_id dv) (map fst (rb_rows w)))) w))"

definition review_get :: "DurableReviewStore \<Rightarrow> review_fault \<Rightarrow> string \<Rightarrow> ReviewRecord option review_eff" where
  "review_get dv fault request_id =
     transact fault (
       ebind (expire_lease_if_needed dv request_id) (\<lambda>r1.
       ebind (expire_approval_if_needed dv request_id) (\<lambda>r2.
       eret (Inr (case r2 of Some r \<Rightarrow> Some r | None \<Rightarrow> r1)))))"

section \<open>Operations of concurrent callers\<close>

datatype review_op =
    RvPark string string ApprovalRole
  | RvClaim string string "pyfl option"
  | RvRelease string string
  | RvApprove string ApprovalPrincipal pyfl
  | RvConsume string string ApprovalRole
  | RvFreeze string
  | RvGet string

definition no_win :: "'a review_eff \<Rightarrow> bool review_eff" where
  "no_win m = ebind m (\<lambda>_. eret (Inr False))"

fun review_step :: "DurableReviewStore \<Rightarrow> review_fault \<Rightarrow> review_op \<Rightarrow> review_db \<Rightarrow> bool res \<times> review_db" where
  "review_step dv f (RvPark k d role) = no_win (review_park dv f k d role)"
| "review_step dv f (RvClaim k worker s) = no_win (claim_lease dv f k worker s)"
| "review_step dv f (RvRelease k worker) = no_win (release_lease dv f k worker)"
| "review_step dv f (RvApprove k p ttl) = no_win (review_approve dv f k p ttl)"
| "review_step dv f (RvConsume k d role) = review_consume dv f k d role"
| "review_step dv f (RvFreeze reason) = no_win (review_freeze dv f reason)"
| "review_step dv f (RvGet k) = no_win (review_get dv f k)"

section \<open>The lifecycle of a review\<close>

definition same_review :: "ReviewRecord \<Rightarrow> ReviewRecord \<Rightarrow> bool" where
  "same_review r r' = (rv_organisation_id r' = rv_organisation_id r \<and> rv_request_id r' = rv_request_id r \<and>
     rv_intent_digest r' = rv_intent_digest r \<and> rv_required_role r' = rv_required_role r \<and>
     rv_version r' = rv_version r + 1)"

definition may_approve :: "DurableReviewStore \<Rightarrow> ReviewRecord \<Rightarrow> bool" where
  "may_approve dv r = (case (rv_actor_id r, dv_allowed_approvers dv (rv_required_role r)) of
     (Some actor, Some allowed) \<Rightarrow> actor \<in> allowed | _ \<Rightarrow> False)"

inductive review_life :: "DurableReviewStore \<Rightarrow> ReviewRecord \<Rightarrow> ReviewRecord \<Rightarrow> bool" for dv where
  life_lease: "same_review r r' \<Longrightarrow> rv_state r \<in> {RV_PARKED, RV_LEASED} \<Longrightarrow> rv_state r' = RV_LEASED \<Longrightarrow> review_life dv r r'"
| life_unlease: "same_review r r' \<Longrightarrow> rv_state r = RV_LEASED \<Longrightarrow> rv_state r' = RV_PARKED \<Longrightarrow> review_life dv r r'"
| life_approve: "same_review r r' \<Longrightarrow> rv_state r \<in> {RV_PARKED, RV_LEASED} \<Longrightarrow> rv_state r' = RV_APPROVED \<Longrightarrow>
    may_approve dv r' \<Longrightarrow> review_life dv r r'"
| life_expire: "same_review r r' \<Longrightarrow> rv_state r = RV_APPROVED \<Longrightarrow> rv_state r' = RV_APPROVAL_EXPIRED \<Longrightarrow> review_life dv r r'"
| life_consume: "same_review r r' \<Longrightarrow> rv_state r = RV_APPROVED \<Longrightarrow> rv_state r' = RV_CONSUMED \<Longrightarrow>
    rv_actor_id r' = rv_actor_id r \<Longrightarrow> review_life dv r r'"
| life_freeze: "same_review r r' \<Longrightarrow> rv_state r \<noteq> RV_FROZEN \<Longrightarrow> rv_state r' = RV_FROZEN \<Longrightarrow> review_life dv r r'"

text \<open>What an operation may do to a table: move rows along the lifecycle, and add rows that start parked.\<close>

definition moves ::
  "DurableReviewStore \<Rightarrow> ((string \<times> string) \<times> review_row) list \<Rightarrow> ((string \<times> string) \<times> review_row) list \<Rightarrow> bool" where
  "moves dv rows rows' =
     ((\<forall>k r. record_at rows k = Some r \<longrightarrow> (\<exists>r'. record_at rows' k = Some r' \<and> (review_life dv)\<^sup>*\<^sup>* r r')) \<and>
      (\<forall>k r'. record_at rows k = None \<longrightarrow> record_at rows' k = Some r' \<longrightarrow>
         (\<exists>r0. rv_state r0 = RV_PARKED \<and> rv_version r0 = 1 \<and> (review_life dv)\<^sup>*\<^sup>* r0 r')))"

lemma moves_refl [simp]: "moves dv rows rows"
  by (auto simp: moves_def)

lemma moves_some:
  "moves dv a b \<Longrightarrow> record_at a k = Some r \<Longrightarrow> \<exists>r'. record_at b k = Some r' \<and> (review_life dv)\<^sup>*\<^sup>* r r'"
  unfolding moves_def by blast

lemma moves_none:
  "moves dv a b \<Longrightarrow> record_at a k = None \<Longrightarrow> record_at b k = Some r' \<Longrightarrow>
     \<exists>r0. rv_state r0 = RV_PARKED \<and> rv_version r0 = 1 \<and> (review_life dv)\<^sup>*\<^sup>* r0 r'"
  unfolding moves_def by blast

lemma moves_trans:
  assumes ab: "moves dv a b" and bc: "moves dv b c"
  shows "moves dv a c"
proof (unfold moves_def, intro conjI allI impI)
  fix k r
  assume "record_at a k = Some r"
  from moves_some [OF ab this] obtain r1 where r1: "record_at b k = Some r1" "(review_life dv)\<^sup>*\<^sup>* r r1" by blast
  from moves_some [OF bc r1(1)] r1(2) show "\<exists>r'. record_at c k = Some r' \<and> (review_life dv)\<^sup>*\<^sup>* r r'"
    by (meson rtranclp_trans)
next
  fix k r'
  assume k: "record_at a k = None" "record_at c k = Some r'"
  show "\<exists>r0. rv_state r0 = RV_PARKED \<and> rv_version r0 = 1 \<and> (review_life dv)\<^sup>*\<^sup>* r0 r'"
  proof (cases "record_at b k")
    case None
    from moves_none [OF bc None k(2)] show ?thesis .
  next
    case (Some r1)
    from moves_none [OF ab k(1) Some] moves_some [OF bc Some] k(2) show ?thesis
      by (metis option.inject rtranclp_trans)
  qed
qed

lemma moves_update:
  assumes "record_at rows k = Some r" and "record_at rows' k = Some r'" and "review_life dv r r'"
    and other: "\<And>j. j \<noteq> k \<Longrightarrow> record_at rows' j = record_at rows j"
  shows "moves dv rows rows'"
proof (unfold moves_def, intro conjI allI impI)
  fix j q
  assume q: "record_at rows j = Some q"
  show "\<exists>q'. record_at rows' j = Some q' \<and> (review_life dv)\<^sup>*\<^sup>* q q'"
  proof (cases "j = k")
    case True
    with q assms show ?thesis by auto
  next
    case False
    with q other show ?thesis by auto
  qed
next
  fix j q'
  assume "record_at rows j = None" "record_at rows' j = Some q'"
  with assms show "\<exists>r0. rv_state r0 = RV_PARKED \<and> rv_version r0 = 1 \<and> (review_life dv)\<^sup>*\<^sup>* r0 q'"
    by (cases "j = k") auto
qed

lemma moves_insert:
  assumes "record_at rows k = None" and "record_at rows' k = Some r'" and "rv_state r' = RV_PARKED" "rv_version r' = 1"
    and other: "\<And>j. j \<noteq> k \<Longrightarrow> record_at rows' j = record_at rows j"
  shows "moves dv rows rows'"
proof (unfold moves_def, intro conjI allI impI)
  fix j q
  assume "record_at rows j = Some q"
  with assms show "\<exists>q'. record_at rows' j = Some q' \<and> (review_life dv)\<^sup>*\<^sup>* q q'" by (cases "j = k") auto
next
  fix j q'
  assume q: "record_at rows j = None" "record_at rows' j = Some q'"
  show "\<exists>r0. rv_state r0 = RV_PARKED \<and> rv_version r0 = 1 \<and> (review_life dv)\<^sup>*\<^sup>* r0 q'"
  proof (cases "j = k")
    case True
    with q assms show ?thesis by (intro exI [of _ q']) auto
  next
    case False
    with q other show ?thesis by auto
  qed
qed

section \<open>Statements move rows along the lifecycle\<close>

definition sound_at :: "DurableReviewStore \<Rightarrow> 'a review_eff \<Rightarrow> review_db \<Rightarrow> bool" where
  "sound_at dv m w = (\<forall>r w'. m w = (r, w') \<longrightarrow> moves dv (rb_rows w) (rb_rows w'))"

lemma sound_eret [simp]: "sound_at dv (eret x) w"
  by (simp add: sound_at_def eret_def)

lemma sound_ebind:
  assumes "sound_at dv m w" and "\<And>a w1. m w = (Inr a, w1) \<Longrightarrow> sound_at dv (f a) w1"
  shows "sound_at dv (ebind m f) w"
  using assms unfolding sound_at_def ebind_def
  by (auto split: prod.splits sum.splits intro: moves_trans)

lemma sound_load: "sound_at dv (f (record_at (rb_rows w) (dv_organisation_id dv, k))) w \<Longrightarrow>
    sound_at dv (ebind (load_review dv k) f) w"
  by (simp add: sound_at_def ebind_def load_review_def)

lemma sound_clock: "(\<And>t. sound_at dv (f t) (w\<lparr>rb_ticks := Suc (rb_ticks w)\<rparr>)) \<Longrightarrow> sound_at dv (ebind read_clock f) w"
  by (simp add: sound_at_def ebind_def read_clock_def)

lemma sound_transact: "sound_at dv m w \<Longrightarrow> sound_at dv (transact f m) w"
  by (auto simp: sound_at_def transact_def split: review_fault.splits prod.splits sum.splits if_splits)

lemma sound_no_win: "sound_at dv m w \<Longrightarrow> sound_at dv (no_win m) w"
  unfolding no_win_def by (rule sound_ebind) auto

lemma store_real_idem [simp]: "store_real (store_real x) = store_real x"
  by (simp add: store_real_def)

lemma stored_fields [simp]:
  "rv_organisation_id (stored_record r) = rv_organisation_id r" "rv_request_id (stored_record r) = rv_request_id r"
  "rv_intent_digest (stored_record r) = rv_intent_digest r" "rv_required_role (stored_record r) = rv_required_role r"
  "rv_state (stored_record r) = rv_state r" "rv_actor_id (stored_record r) = rv_actor_id r"
  "rv_version (stored_record r) = rv_version r"
  "stored_record (stored_record r) = stored_record r"
  by (simp_all add: stored_record_def)

lemma record_at_key:
  "record_at rows k = Some r \<Longrightarrow> rv_organisation_id r = fst k \<and> rv_request_id r = snd k \<and> stored_record r = r"
  by (auto simp: record_at_def stored_record_def)

lemma updated_fields [simp]:
  "same_review r (updated_record r ch)" "rv_state (updated_record r ch) = ch_state ch"
  "rv_actor_id (updated_record r ch) = (case ch_approval ch of Some (actor, _, _) \<Rightarrow> Some actor | None \<Rightarrow> rv_actor_id r)"
  "rv_organisation_id (updated_record r ch) = rv_organisation_id r" "rv_request_id (updated_record r ch) = rv_request_id r"
  "rv_required_role (updated_record r ch) = rv_required_role r"
  "rv_intent_digest (updated_record r ch) = rv_intent_digest r"
  by (simp_all add: same_review_def updated_record_def)

lemma life_stored: "review_life dv r r' \<Longrightarrow> review_life dv (stored_record r) (stored_record r')"
  by (induction rule: review_life.induct)
    (auto intro: review_life.intros simp: same_review_def may_approve_def)

text \<open>The record a transaction holds is the one in the table.\<close>

definition current :: "DurableReviewStore \<Rightarrow> string \<Rightarrow> ReviewRecord \<Rightarrow> review_db \<Rightarrow> bool" where
  "current dv k r w = (record_at (rb_rows w) (dv_organisation_id dv, k) = Some (stored_record r) \<and>
     rv_organisation_id r = dv_organisation_id dv \<and> rv_request_id r = k)"

lemma current_loaded: "record_at (rb_rows w) (dv_organisation_id dv, k) = Some r \<Longrightarrow> current dv k r w"
  using record_at_key [of "rb_rows w" "(dv_organisation_id dv, k)" r] by (simp add: current_def)

lemma current_tick [simp]: "current dv k r (w\<lparr>rb_ticks := n\<rparr>) = current dv k r w"
  by (simp add: current_def)

lemma record_at_update:
  "record_at (AList.update key row rows) j = (if j = key then Some ((stored_record (vw_record row))
     \<lparr>rv_organisation_id := fst key, rv_request_id := snd key\<rparr>) else record_at rows j)"
  by (simp add: record_at_def update_conv')

lemma replace_current:
  assumes "current dv k r w"
  shows "\<exists>w'. replace_review dv r ev ch w = (Inr (updated_record r ch), w') \<and> current dv k (updated_record r ch) w' \<and>
    (\<forall>j. j \<noteq> (dv_organisation_id dv, k) \<longrightarrow> record_at (rb_rows w') j = record_at (rb_rows w) j)"
proof -
  obtain row where row: "map_of (rb_rows w) (dv_organisation_id dv, k) = Some row"
      "(stored_record (vw_record row))\<lparr>rv_organisation_id := dv_organisation_id dv, rv_request_id := k\<rparr> = stored_record r"
    using assms by (auto simp: current_def record_at_def)
  from arg_cong [OF row(2), of rv_version] have v: "rv_version (vw_record row) = rv_version r" by simp
  have key: "rv_organisation_id r = dv_organisation_id dv" "rv_request_id r = k" using assms by (simp_all add: current_def)
  have id: "(stored_record r')\<lparr>rv_organisation_id := rv_organisation_id r', rv_request_id := rv_request_id r'\<rparr> = stored_record r'" for r'
    by (simp add: stored_record_def)
  show ?thesis
    using row(1) v key id [of "updated_record r ch"]
    by (auto simp: replace_review_def Let_def ebind_def review_events_def read_clock_def current_def record_at_update)
qed

lemma replace_moves:
  assumes "current dv k r w" and "review_life dv r (updated_record r ch)"
  obtains w' where "replace_review dv r ev ch w = (Inr (updated_record r ch), w')"
    "current dv k (updated_record r ch) w'" "moves dv (rb_rows w) (rb_rows w')"
proof -
  obtain w' where w': "replace_review dv r ev ch w = (Inr (updated_record r ch), w')"
      "current dv k (updated_record r ch) w'"
      "\<forall>j. j \<noteq> (dv_organisation_id dv, k) \<longrightarrow> record_at (rb_rows w') j = record_at (rb_rows w) j"
    using replace_current [OF assms(1)] by blast
  have "moves dv (rb_rows w) (rb_rows w')"
  proof (rule moves_update)
    show "record_at (rb_rows w) (dv_organisation_id dv, k) = Some (stored_record r)"
      using assms(1) by (simp add: current_def)
    show "record_at (rb_rows w') (dv_organisation_id dv, k) = Some (stored_record (updated_record r ch))"
      using w'(2) by (simp add: current_def)
    show "review_life dv (stored_record r) (stored_record (updated_record r ch))" using assms(2) by (rule life_stored)
  qed (use w'(3) in blast)
  with w' that show thesis by blast
qed

lemma sound_replace:
  assumes "current dv k r w" and "review_life dv r (updated_record r ch)"
  shows "sound_at dv (replace_review dv r ev ch) w"
  by (rule replace_moves [OF assms, of ev]) (simp add: sound_at_def)

lemma change_simps [simp]:
  "ch_state (change_to s) = s" "ch_approval (change_to s) = None"
  by (simp_all add: change_to_def)

text \<open>The two expiries answer with the record that is then in the table.\<close>

definition answers_current :: "DurableReviewStore \<Rightarrow> string \<Rightarrow> ReviewRecord option review_eff \<Rightarrow> review_db \<Rightarrow> bool" where
  "answers_current dv k m w = (\<exists>found w1. m w = (Inr found, w1) \<and> moves dv (rb_rows w) (rb_rows w1) \<and>
     (case found of None \<Rightarrow> record_at (rb_rows w1) (dv_organisation_id dv, k) = None | Some r \<Rightarrow> current dv k r w1))"

lemma answers_current_replaced:
  assumes "current dv k r w" and "review_life dv r (updated_record r ch)"
  shows "answers_current dv k (ebind (replace_review dv r ev ch) (\<lambda>r'. eret (Inr (Some r')))) w"
  by (rule replace_moves [OF assms, of ev]) (simp add: answers_current_def ebind_def eret_def)

lemma answers_current_kept: "current dv k r w \<Longrightarrow> answers_current dv k (eret (Inr (Some r))) w"
  by (simp add: answers_current_def eret_def)

lemma answers_current_clock:
  "answers_current dv k (f (rb_clock w (rb_ticks w))) (w\<lparr>rb_ticks := Suc (rb_ticks w)\<rparr>) \<Longrightarrow>
     answers_current dv k (ebind read_clock f) w"
  by (simp add: answers_current_def ebind_def read_clock_def)

lemma answers_current_load:
  assumes "record_at (rb_rows w) (dv_organisation_id dv, k) = None \<Longrightarrow> f None = eret (Inr None)"
    and "\<And>r. current dv k r w \<Longrightarrow> answers_current dv k (f (Some r)) w"
  shows "answers_current dv k (ebind (load_review dv k) f) w"
  using assms current_loaded [of w dv k]
  by (cases "record_at (rb_rows w) (dv_organisation_id dv, k)")
    (auto simp: answers_current_def ebind_def load_review_def eret_def)

lemma expire_lease_at: "answers_current dv k (expire_lease_if_needed dv k) w"
  unfolding expire_lease_if_needed_def
  by (rule answers_current_load)
    (auto intro!: answers_current_clock answers_current_replaced answers_current_kept life_unlease
      split: ReviewState.split option.split)

lemma expire_approval_at: "answers_current dv k (expire_approval_if_needed dv k) w"
  unfolding expire_approval_if_needed_def
  by (rule answers_current_load)
    (auto intro!: answers_current_clock answers_current_replaced answers_current_kept life_expire
      split: ReviewState.split option.split)

lemma sound_expired:
  assumes "answers_current dv k m w" and "\<And>w1. sound_at dv (f None) w1"
    and "\<And>r w1. current dv k r w1 \<Longrightarrow> sound_at dv (f (Some r)) w1"
  shows "sound_at dv (ebind m f) w"
proof -
  obtain found w1 where m: "m w = (Inr found, w1)" "moves dv (rb_rows w) (rb_rows w1)"
    and cur: "case found of None \<Rightarrow> record_at (rb_rows w1) (dv_organisation_id dv, k) = None | Some r \<Rightarrow> current dv k r w1"
    using assms(1) by (auto simp: answers_current_def)
  have "sound_at dv (f found) w1" using assms(2,3) cur by (cases found) auto
  with m show ?thesis
    by (intro sound_ebind) (auto simp: sound_at_def)
qed

section \<open>Operations move rows along the lifecycle\<close>

lemma sound_park: "sound_at dv (review_park dv f k d role) w"
proof -
  have ins: "sound_at dv (ebind (insert_review (parked_record dv k d role) ''parked'') g) w"
    if "record_at (rb_rows w) (dv_organisation_id dv, k) = None" and "\<And>x v. sound_at dv (g x) v" for w and g :: "unit \<Rightarrow> ReviewRecord review_eff"
  proof (rule sound_ebind)
    have "moves dv (rb_rows w) (rb_rows w @ [((dv_organisation_id dv, k), \<lparr>vw_record = stored_record (parked_record dv k d role),
        vw_event_log = l\<rparr>)])" for l
      using that(1)
      by (intro moves_insert [where k = "(dv_organisation_id dv, k)"])
        (auto simp: record_at_def map_add_def parked_record_def split: option.split)
    then show "sound_at dv (insert_review (parked_record dv k d role) ''parked'') w"
      by (auto simp: sound_at_def insert_review_def ebind_def read_clock_def Let_def parked_record_def split: if_splits)
  qed (rule that(2))
  show ?thesis
    unfolding review_park_def Let_def
    by (auto intro!: sound_transact sound_load ins split: option.split)
qed

lemma sound_claim_lease: "sound_at dv (claim_lease dv f k worker s) w"
  unfolding claim_lease_def Let_def
  by (auto intro!: sound_transact sound_expired [OF expire_lease_at] sound_clock sound_replace life_lease)

lemma sound_release: "sound_at dv (release_lease dv f k worker) w"
  unfolding release_lease_def
  by (auto intro!: sound_transact sound_expired [OF expire_lease_at] sound_replace life_unlease)

lemma sound_approve: "sound_at dv (review_approve dv f k p ttl) w"
  unfolding review_approve_def
  by (auto intro!: sound_transact sound_expired [OF expire_lease_at] sound_clock sound_replace life_approve
      simp: may_approve_def split: option.splits)

lemma sound_get: "sound_at dv (review_get dv f k) w"
  unfolding review_get_def
  by (auto intro!: sound_transact sound_expired [OF expire_lease_at] sound_expired [OF expire_approval_at])

lemma sound_consume: "sound_at dv (review_consume dv f k d role) w"
proof -
  have e: "sound_at dv (ebind (replace_review dv r ev (change_to RV_APPROVAL_EXPIRED)) (\<lambda>_. eret (Inr False))) w"
    if "current dv k r w" "rv_state r = RV_APPROVED" for r ev w
    by (rule sound_ebind) (use that in \<open>auto intro!: sound_replace life_expire\<close>)
  have c: "sound_at dv (ebind (replace_review dv r ev ((change_to RV_CONSUMED)\<lparr>ch_consumed := t\<rparr>)) (\<lambda>_. eret (Inr True))) w"
    if "current dv k r w" "rv_state r = RV_APPROVED" for r ev w t
    by (rule sound_ebind) (use that in \<open>auto intro!: sound_replace life_consume\<close>)
  have check: "sound_at dv (ebind (case x of None \<Rightarrow> eret (Inr False)
      | Some expires \<Rightarrow> ebind read_clock (\<lambda>now. eret (Inr (fl_ge now expires)))) g) w"
    if "\<And>b v. current dv k r v \<Longrightarrow> sound_at dv (g b) v" "current dv k r w" for x w r and g :: "bool \<Rightarrow> bool review_eff"
    using that(2) that(1) [of w] that(1) [of "w\<lparr>rb_ticks := Suc (rb_ticks w)\<rparr>"]
    by (cases x) (auto simp: sound_at_def ebind_def eret_def read_clock_def)
  show ?thesis
    unfolding review_consume_def
    by (auto intro!: sound_transact sound_expired [OF expire_approval_at] check sound_clock e c)
qed

lemma sound_freeze: "sound_at dv (review_freeze dv f reason) w"
proof -
  have rows: "sound_at dv (freeze_rows dv reason ks) w" for ks w
  proof (induction ks arbitrary: w)
    case (Cons k ks)
    show ?case
      unfolding freeze_rows.simps
    proof (rule sound_load, rule sound_ebind)
      show "sound_at dv (case record_at (rb_rows w) (dv_organisation_id dv, k) of None \<Rightarrow> eret (Inr ())
          | Some r \<Rightarrow> if rv_state r = RV_FROZEN then eret (Inr ())
             else ebind (replace_review dv r ''frozen'' ((change_to RV_FROZEN)\<lparr>ch_clear_lease := True,
                  ch_frozen := Some reason\<rparr>)) (\<lambda>_. eret (Inr ()))) w"
        by (auto intro!: sound_ebind sound_replace life_freeze dest: current_loaded split: option.split)
    qed (rule Cons.IH)
  qed simp
  have "sound_at dv (\<lambda>w. freeze_rows dv reason (ks w) w) w" for ks
    using rows [of "ks w" w] by (simp add: sound_at_def)
  then show ?thesis unfolding review_freeze_def by (auto intro!: sound_transact)
qed

lemma sound_step: "sound_at dv (review_step dv f op) w"
  by (cases op) (auto intro: sound_no_win sound_park sound_claim_lease sound_release sound_approve sound_consume
      sound_freeze sound_get)

section \<open>A consumption\<close>

definition approval_holds :: "ReviewRecord \<Rightarrow> review_db \<Rightarrow> bool" where
  "approval_holds r w = (case rv_approval_expires_at r of
       None \<Rightarrow> True
     | Some e \<Rightarrow> \<not> fl_ge (rb_clock w (rb_ticks w)) e \<and> \<not> fl_ge (rb_clock w (Suc (rb_ticks w))) e)"

lemma expire_approval_keeps:
  assumes "record_at (rb_rows w) (dv_organisation_id dv, k) = Some r" and "rv_state r = RV_APPROVED"
    and "case rv_approval_expires_at r of None \<Rightarrow> True | Some e \<Rightarrow> \<not> fl_ge (rb_clock w (rb_ticks w)) e"
  shows "expire_approval_if_needed dv k w = (Inr (Some r),
    (if rv_approval_expires_at r = None then w else w\<lparr>rb_ticks := Suc (rb_ticks w)\<rparr>))"
  using assms
  by (auto simp: expire_approval_if_needed_def ebind_def load_review_def read_clock_def eret_def split: option.splits)

lemma expire_approval_other:
  assumes "record_at (rb_rows w) (dv_organisation_id dv, k) = Some r" and "rv_state r \<noteq> RV_APPROVED"
  shows "expire_approval_if_needed dv k w = (Inr (Some r), w)"
  using assms
  by (cases "rv_state r") (auto simp: expire_approval_if_needed_def ebind_def load_review_def eret_def)

lemma expire_approval_expires:
  assumes "record_at (rb_rows w) (dv_organisation_id dv, k) = Some r" and "rv_state r = RV_APPROVED"
    and "rv_approval_expires_at r = Some e" "fl_ge (rb_clock w (rb_ticks w)) e"
  shows "\<exists>w1. expire_approval_if_needed dv k w = (Inr (Some (updated_record r (change_to RV_APPROVAL_EXPIRED))), w1)"
proof -
  let ?w = "w\<lparr>rb_ticks := Suc (rb_ticks w)\<rparr>"
  have "current dv k r ?w" using current_loaded [OF assms(1)] by simp
  from replace_current [OF this, of "''approval_expired''" "change_to RV_APPROVAL_EXPIRED"] obtain w1 where
    "replace_review dv r ''approval_expired'' (change_to RV_APPROVAL_EXPIRED) ?w =
      (Inr (updated_record r (change_to RV_APPROVAL_EXPIRED)), w1)" by blast
  with assms show ?thesis
    by (simp add: expire_approval_if_needed_def ebind_def load_review_def read_clock_def eret_def)
qed

lemma consume_won:
  assumes won: "review_consume dv f k d role w = (Inr True, w')"
  obtains r where "record_at (rb_rows w) (dv_organisation_id dv, k) = Some r" "rv_state r = RV_APPROVED"
    "rv_required_role r = role" "rv_intent_digest r = d" "approval_holds r w"
    "\<exists>r'. record_at (rb_rows w') (dv_organisation_id dv, k) = Some r' \<and> rv_state r' = RV_CONSUMED"
proof (cases "record_at (rb_rows w) (dv_organisation_id dv, k)")
  case None
  with won show ?thesis
    by (auto simp: review_consume_def transact_def expire_approval_if_needed_def ebind_def load_review_def eret_def
        split: review_fault.splits)
next
  case (Some r)
  let ?exp = "\<exists>e. rv_approval_expires_at r = Some e \<and> fl_ge (rb_clock w (rb_ticks w)) e"
  consider "rv_state r \<noteq> RV_APPROVED" | "rv_state r = RV_APPROVED" ?exp | "rv_state r = RV_APPROVED" "\<not> ?exp" by blast
  then show ?thesis
  proof cases
    case 1
    with won expire_approval_other [OF Some 1] show ?thesis
      by (auto simp: review_consume_def transact_def ebind_def eret_def split: review_fault.splits if_splits)
  next
    case 2
    then obtain w1 where "expire_approval_if_needed dv k w = (Inr (Some (updated_record r (change_to RV_APPROVAL_EXPIRED))), w1)"
      using expire_approval_expires [OF Some] by blast
    with won show ?thesis
      by (auto simp: review_consume_def transact_def ebind_def eret_def split: review_fault.splits)
  next
    case 3
    define w1 where "w1 = (if rv_approval_expires_at r = None then w else w\<lparr>rb_ticks := Suc (rb_ticks w)\<rparr>)"
    define w2 where "w2 = (if rv_approval_expires_at r = None then w1 else w1\<lparr>rb_ticks := Suc (rb_ticks w1)\<rparr>)"
    have x: "expire_approval_if_needed dv k w = (Inr (Some r), w1)"
      unfolding w1_def using 3 by (intro expire_approval_keeps [OF Some]) (auto split: option.split)
    have cur: "current dv k r w2" using current_loaded [OF Some] by (simp add: w1_def w2_def)
    have role: "rv_required_role r = role" "rv_intent_digest r = d"
      using won x 3(1) by (auto simp: review_consume_def transact_def ebind_def eret_def split: review_fault.splits if_splits)
    let ?now = "rb_clock w2 (rb_ticks w2)" and ?w3 = "w2\<lparr>rb_ticks := Suc (rb_ticks w2)\<rparr>"
    let ?ch = "(change_to RV_CONSUMED)\<lparr>ch_consumed := Some ?now\<rparr>"
    have "current dv k r ?w3" using cur by simp
    from replace_current [OF this, of "''consumed''" ?ch] obtain w4 where
      w4: "replace_review dv r ''consumed'' ?ch ?w3 = (Inr (updated_record r ?ch), w4)" "current dv k (updated_record r ?ch) w4"
      by blast
    have f: "f = RvOk" using won by (auto simp: review_consume_def transact_def split: review_fault.splits prod.splits sum.splits)
    have fresh: "rv_approval_expires_at r = Some e \<Longrightarrow> \<not> fl_ge (rb_clock w1 (rb_ticks w1)) e" for e
      using won x 3(1) role f
      by (auto simp: review_consume_def transact_def ebind_def eret_def read_clock_def split: prod.splits sum.splits if_splits)
    have "review_consume dv f k d role w = (Inr True, w4)"
    proof (cases "rv_approval_expires_at r")
      case None
      with x 3(1) role f w4(1) show ?thesis
        by (simp add: review_consume_def transact_def ebind_def eret_def read_clock_def w1_def w2_def)
    next
      case (Some e)
      with fresh have "\<not> fl_ge (rb_clock w1 (rb_ticks w1)) e" by simp
      with Some x 3(1) role f w4(1) show ?thesis
        by (simp add: review_consume_def transact_def ebind_def eret_def read_clock_def w1_def w2_def)
    qed
    with won have "w' = w4" by simp
    with w4(2) have "\<exists>r'. record_at (rb_rows w') (dv_organisation_id dv, k) = Some r' \<and> rv_state r' = RV_CONSUMED"
      by (simp add: current_def)
    moreover have "approval_holds r w"
      using 3(2) fresh by (auto simp: approval_holds_def w1_def split: option.split)
    ultimately show ?thesis using Some 3(1) role that by blast
  qed
qed


section \<open>Workers that share the table\<close>

text \<open>
  Every worker has a store of its own on the table: an operation comes with the configuration of the worker's store.
  Only a consumption wins; it spends the review, and nothing takes a review out of the states that count as spent.
\<close>

definition worker_step ::
  "review_fault \<Rightarrow> DurableReviewStore \<times> review_op \<Rightarrow> review_db \<Rightarrow> bool res \<times> review_db" where
  "worker_step f u = review_step (fst u) f (snd u)"

fun op_review :: "DurableReviewStore \<times> review_op \<Rightarrow> (string \<times> string) option" where
  "op_review (dv, RvConsume k _ _) = Some (dv_organisation_id dv, k)"
| "op_review _ = None"

definition review_spent :: "string \<times> string \<Rightarrow> review_db \<Rightarrow> bool" where
  "review_spent k w = (\<exists>r. record_at (rb_rows w) k = Some r \<and> rv_state r \<in> {RV_CONSUMED, RV_FROZEN})"

definition work_spent :: "DurableReviewStore \<times> review_op \<Rightarrow> review_db \<Rightarrow> bool" where
  "work_spent u w = (case op_review u of None \<Rightarrow> False | Some k \<Rightarrow> review_spent k w)"

definition same_target :: "DurableReviewStore \<times> review_op \<Rightarrow> DurableReviewStore \<times> review_op \<Rightarrow> bool" where
  "same_target u v = (op_review u \<noteq> None \<and> op_review u = op_review v)"

lemma life_spent:
  "(review_life dv)\<^sup>*\<^sup>* r r' \<Longrightarrow> rv_state r \<in> {RV_CONSUMED, RV_FROZEN} \<Longrightarrow> rv_state r' \<in> {RV_CONSUMED, RV_FROZEN}"
  by (induction rule: rtranclp_induct) (auto elim!: review_life.cases)

lemma moves_spent: "moves dv (rb_rows w) (rb_rows w') \<Longrightarrow> review_spent k w \<Longrightarrow> review_spent k w'"
  unfolding review_spent_def using moves_some life_spent by metis

lemma step_moves: "review_step dv f op w = (r, w') \<Longrightarrow> moves dv (rb_rows w) (rb_rows w')"
  using sound_step [of dv f op w] by (simp add: sound_at_def)

lemma no_win_False: "no_win m w \<noteq> (Inr True, w')"
  by (auto simp: no_win_def ebind_def eret_def split: prod.splits sum.splits)

lemma step_won:
  assumes "review_step dv f op w = (Inr True, w')"
  obtains k d role where "op = RvConsume k d role" "review_consume dv f k d role w = (Inr True, w')"
  using assms by (cases op) (auto simp: no_win_False)

interpretation review: single_use_claim worker_step work_spent same_target "\<lambda>_. True"
proof unfold_locales
  fix f s r s' and u v :: "DurableReviewStore \<times> review_op"
  show "\<not> work_spent u s" if "worker_step f u s = (Inr True, s')"
  proof -
    from that obtain k d role where u: "snd u = RvConsume k d role"
      and won: "review_consume (fst u) f k d role s = (Inr True, s')"
      unfolding worker_step_def by (rule step_won)
    have "op_review u = Some (dv_organisation_id (fst u), k)" using u by (cases u) simp
    with won show ?thesis by (auto elim!: consume_won simp: work_spent_def review_spent_def)
  qed
  show "work_spent v s'" if "worker_step f u s = (Inr True, s')" "same_target v u"
  proof -
    from that(1) obtain k d role where u: "snd u = RvConsume k d role"
      and won: "review_consume (fst u) f k d role s = (Inr True, s')"
      unfolding worker_step_def by (rule step_won)
    have "op_review v = Some (dv_organisation_id (fst u), k)" using u that(2) by (cases u) (auto simp: same_target_def)
    with won show ?thesis by (auto elim!: consume_won simp: work_spent_def review_spent_def)
  qed
  show "work_spent v s'" if "worker_step f u s = (r, s')" "work_spent v s"
    using that moves_spent [OF step_moves [of "fst u" f "snd u" s r s']]
    by (auto simp: worker_step_def work_spent_def split: option.splits)
qed simp

section \<open>Approvals are given by allowed approvers\<close>

definition backed :: "DurableReviewStore \<Rightarrow> review_db \<Rightarrow> bool" where
  "backed dv w = (\<forall>k r. record_at (rb_rows w) k = Some r \<longrightarrow> rv_state r \<in> {RV_APPROVED, RV_CONSUMED} \<longrightarrow> may_approve dv r)"

lemma life_backed_step:
  "review_life dv r r' \<Longrightarrow> rv_state r \<in> {RV_APPROVED, RV_CONSUMED} \<longrightarrow> may_approve dv r \<Longrightarrow>
     rv_state r' \<in> {RV_APPROVED, RV_CONSUMED} \<longrightarrow> may_approve dv r'"
  by (auto elim!: review_life.cases simp: may_approve_def same_review_def split: option.splits)

lemma life_backed:
  assumes "(review_life dv)\<^sup>*\<^sup>* r r'" and "rv_state r \<in> {RV_APPROVED, RV_CONSUMED} \<longrightarrow> may_approve dv r"
  shows "rv_state r' \<in> {RV_APPROVED, RV_CONSUMED} \<longrightarrow> may_approve dv r'"
  using assms by (induction rule: rtranclp_induct) (auto dest: life_backed_step)

lemma moves_backed:
  assumes "moves dv (rb_rows w) (rb_rows w')" and "backed dv w"
  shows "backed dv w'"
  unfolding backed_def
proof (intro allI impI)
  fix k r'
  assume r': "record_at (rb_rows w') k = Some r'" "rv_state r' \<in> {RV_APPROVED, RV_CONSUMED}"
  show "may_approve dv r'"
  proof (cases "record_at (rb_rows w) k")
    case None
    from moves_none [OF assms(1) None r'(1)] obtain r0 where "rv_state r0 = RV_PARKED" "(review_life dv)\<^sup>*\<^sup>* r0 r'" by blast
    then show ?thesis using life_backed [of dv r0 r'] r'(2) by auto
  next
    case (Some r)
    with moves_some [OF assms(1) Some] r'(1) have "(review_life dv)\<^sup>*\<^sup>* r r'" by simp
    moreover have "rv_state r \<in> {RV_APPROVED, RV_CONSUMED} \<longrightarrow> may_approve dv r"
      using assms(2) Some unfolding backed_def by blast
    ultimately show ?thesis using life_backed [of dv r r'] r'(2) by blast
  qed
qed

lemma run_backed: "backed dv w \<Longrightarrow> backed dv (snd (run_claims (review_step dv) cs w))"
proof (induction cs arbitrary: w)
  case (Cons c cs)
  obtain f op where c: "c = (f, op)" by fastforce
  obtain r w1 where st: "review_step dv f op w = (r, w1)" by fastforce
  from Cons.IH [OF moves_backed [OF step_moves [OF st] Cons.prems]] show ?case by (simp add: c st split_def)
qed simp

definition empty_table :: "(nat \<Rightarrow> pyfl) \<Rightarrow> review_db" where
  "empty_table clock = \<lparr>rb_rows = [], rb_clock = clock, rb_ticks = 0\<rparr>"

lemma empty_backed [simp]: "backed dv (empty_table clock)"
  by (simp add: backed_def empty_table_def record_at_def)

section \<open>Boundary behaviour of approvals\<close>

text \<open>
  A time to live of \<open>nan\<close> passes the check against the deployment's maximum; the expiry it gives is stored as
  \<^verbatim>\<open>NULL\<close>, which is read as an approval with no expiry.
\<close>

lemma nan_ttl_never_expires:
  assumes "review_approve dv f k p FNaN w = (Inr r, w')"
  shows "\<exists>r'. record_at (rb_rows w') (dv_organisation_id dv, k) = Some r' \<and> rv_state r' = RV_APPROVED \<and>
    rv_approval_expires_at r' = None \<and> approval_holds r' w''"
proof -
  obtain found w1 where e: "expire_lease_if_needed dv k w = (Inr found, w1)"
    and cur: "case found of None \<Rightarrow> record_at (rb_rows w1) (dv_organisation_id dv, k) = None | Some q \<Rightarrow> current dv k q w1"
    using expire_lease_at [of dv k w] by (auto simp: answers_current_def)
  have ok: "f = RvOk" using assms
    by (auto simp: review_approve_def transact_def eret_def split: if_splits review_fault.splits prod.splits sum.splits)
  obtain q where q: "found = Some q"
    using assms e ok by (cases found) (auto simp: review_approve_def transact_def ebind_def eret_def split: if_splits)
  let ?now = "rb_clock w1 (rb_ticks w1)" and ?w2 = "w1\<lparr>rb_ticks := Suc (rb_ticks w1)\<rparr>"
  let ?ch = "(change_to RV_APPROVED)\<lparr>ch_clear_lease := True, ch_approval := Some (ap_actor_id p, ?now, FNaN)\<rparr>"
  have "current dv k q ?w2" using cur q by simp
  from replace_current [OF this, of "''approved''" ?ch] obtain w3 where
    w3: "replace_review dv q ''approved'' ?ch ?w2 = (Inr (updated_record q ?ch), w3)" "current dv k (updated_record q ?ch) w3"
    by blast
  have "fl_add (dv_add dv) ?now FNaN = FNaN" by (cases ?now) auto
  with assms e q ok w3(1) have "w' = w3"
    by (auto simp: review_approve_def transact_def ebind_def eret_def read_clock_def split: if_splits option.splits)
  moreover have "rv_approval_expires_at (stored_record (updated_record q ?ch)) = None"
    by (simp add: stored_record_def updated_record_def store_real_def)
  ultimately show ?thesis using w3(2) by (simp add: current_def approval_holds_def)
qed

section \<open>Properties\<close>

text \<open>
  C38. Workers share the durable review table. In any sequence of their parks, leases, releases, approvals,
  freezes, reads and consumptions, with transactions that fail to begin, fail inside or fail to commit, from any table
  and with any clock, at most one consumption of a request of an organisation succeeds.
\<close>

theorem review_consumed_at_most_once:
  "wins (\<lambda>u. op_review u = Some (organisation_id, request_id)) (fst (run_claims worker_step cs w)) \<le> 1"
  by (rule review.at_most_one_win) (auto simp: same_target_def)

text \<open>
  C39. A consumption that succeeds, after any operations on an empty table, found the review approved for the digest
  and role the caller names, by an approver the directory lists for that role, with an expiry the clock had not
  reached at either reading, and leaves it consumed.
\<close>

theorem review_consumption_is_backed:
  assumes "run_claims (review_step dv) cs (empty_table clock) = (outs, w)"
    and "review_consume dv f request_id digest role w = (Inr True, w')"
  shows "\<exists>r r' actor allowed. record_at (rb_rows w) (dv_organisation_id dv, request_id) = Some r \<and>
     rv_state r = RV_APPROVED \<and> rv_intent_digest r = digest \<and> rv_required_role r = role \<and>
     rv_actor_id r = Some actor \<and> dv_allowed_approvers dv role = Some allowed \<and> actor \<in> allowed \<and>
     approval_holds r w \<and>
     record_at (rb_rows w') (dv_organisation_id dv, request_id) = Some r' \<and> rv_state r' = RV_CONSUMED"
proof -
  from assms(2) obtain r where r: "record_at (rb_rows w) (dv_organisation_id dv, request_id) = Some r"
      "rv_state r = RV_APPROVED" "rv_required_role r = role" "rv_intent_digest r = digest" "approval_holds r w"
      "\<exists>r'. record_at (rb_rows w') (dv_organisation_id dv, request_id) = Some r' \<and> rv_state r' = RV_CONSUMED"
    by (rule consume_won)
  have "backed dv w" using run_backed [of dv "empty_table clock" cs] assms(1) by simp
  then have "may_approve dv r" using r(1,2) by (auto simp: backed_def)
  then show ?thesis using r by (auto simp: may_approve_def split: option.splits)
qed

end
