(* ===== verification/Crm.thy ===== *)
theory Crm
  imports Simulator_Contracts
begin

text \<open>
  \<^verbatim>\<open>cbrain/simulators/crm.py\<close>: contacts that can be read, merged, mailed and exported behind the shared
  \<^verbatim>\<open>execute\<close> skeleton.
\<close>

section \<open>State\<close>

record Contact =
  ct_contact_id :: string
  ct_name :: string
  ct_email :: string
  ct_status :: string
  ct_merged_into :: "string option"

definition contact_post_init :: "Contact \<Rightarrow> Contact res" where
  "contact_post_init c =
     rbind (rmapM sim_required_text [ct_contact_id c, ct_name c, ct_email c]) (\<lambda>_.
     rbind (ensure (ct_status c \<in> {''ACTIVE'', ''MERGED''}) SimulatorContractError) (\<lambda>_.
     rbind (ensure (\<not> (ct_status c = ''ACTIVE'' \<and> ct_merged_into c \<noteq> None)) SimulatorContractError) (\<lambda>_.
     rbind (if ct_status c = ''MERGED'' then sim_text (map_option JStr (ct_merged_into c)) else Inr []) (\<lambda>_.
     Inr c))))"

definition contact_payload :: "Contact \<Rightarrow> jobj" where
  "contact_payload c =
     [(''contact_id'', JStr (ct_contact_id c)), (''name'', JStr (ct_name c)), (''email'', JStr (ct_email c)),
      (''status'', JStr (ct_status c)),
      (''merged_into'', case ct_merged_into c of None \<Rightarrow> JNull | Some m \<Rightarrow> JStr m)]"

record CrmState =
  cs_contacts :: "(string \<times> Contact) list"
  cs_sent_emails :: "jobj list"
  cs_exports :: "jobj list"

fun add_contacts :: "Contact list \<Rightarrow> (string \<times> Contact) list \<Rightarrow> (string \<times> Contact) list res" where
  "add_contacts [] acc = Inr acc"
| "add_contacts (c # rest) acc =
     (if map_of acc (ct_contact_id c) \<noteq> None then Inl SimulatorConflict
      else add_contacts rest (AList.update (ct_contact_id c) c acc))"

definition crm_init :: "Contact list \<Rightarrow> CrmState target res" where
  "crm_init contacts =
     rbind (add_contacts contacts []) (\<lambda>acc.
     Inr \<lparr>tt_state = \<lparr>cs_contacts = acc, cs_sent_emails = [], cs_exports = []\<rparr>,
          tt_version = 0, tt_effects = Map.empty\<rparr>)"

definition crm_snapshot :: "CrmState target \<Rightarrow> jobj res" where
  "crm_snapshot t =
     (let s = tt_state t in
      rbind (canonical_object (JObj
         [(''domain'', JStr ''crm''), (''state_version'', JInt (tt_version t)),
          (''contacts'', JList (map (\<lambda>kv. JObj (contact_payload (snd kv))) (sort_key fst (cs_contacts s)))),
          (''sent_emails'', JList (map JObj (cs_sent_emails s))),
          (''exports'', JList (map JObj (cs_exports s)))])) sim_restore_object)"

section \<open>Operations\<close>

definition active_contact :: "CrmState \<Rightarrow> string \<Rightarrow> Contact res" where
  "active_contact s contact_id =
     rbind (of_option SimulatorNotFound (map_of (cs_contacts s) contact_id)) (\<lambda>c.
     rbind (ensure (ct_status c = ''ACTIVE'') SimulatorConflict) (\<lambda>_. Inr c))"

definition crm_read :: "jobj \<Rightarrow> CrmState \<Rightarrow> json res" where
  "crm_read arguments s =
     rbind (exact_fields arguments [''contact_id'']) (\<lambda>_.
     rbind (sim_text (jget arguments ''contact_id'')) (\<lambda>contact_id.
     rbind (active_contact s contact_id) (\<lambda>c.
     Inr (JObj [(''contact'', JObj (contact_payload c))]))))"

definition merge_checks :: "jobj \<Rightarrow> CrmState \<Rightarrow> (string \<times> string \<times> Contact) res" where
  "merge_checks arguments s =
     rbind (exact_fields arguments [''source_contact_id'', ''target_contact_id'']) (\<lambda>_.
     rbind (sim_text (jget arguments ''source_contact_id'')) (\<lambda>source_id.
     rbind (sim_text (jget arguments ''target_contact_id'')) (\<lambda>target_id.
     rbind (ensure (source_id \<noteq> target_id) SimulatorBusinessError) (\<lambda>_.
     rbind (active_contact s source_id) (\<lambda>source.
     rbind (active_contact s target_id) (\<lambda>target.
     rbind (contact_post_init (source\<lparr>ct_status := ''MERGED'', ct_merged_into := Some (ct_contact_id target)\<rparr>)) (\<lambda>merged.
     Inr (source_id, target_id, merged))))))))"

definition crm_merge :: "jobj \<Rightarrow> CrmState \<Rightarrow> json res \<times> CrmState" where
  "crm_merge arguments s = (case merge_checks arguments s of
       Inl e \<Rightarrow> (Inl e, s)
     | Inr (source_id, target_id, merged) \<Rightarrow>
         (Inr (JObj [(''source_contact_id'', JStr source_id), (''target_contact_id'', JStr target_id),
                     (''status'', JStr ''MERGED'')]),
          s\<lparr>cs_contacts := AList.update source_id merged (cs_contacts s)\<rparr>))"

definition email_document :: "nat \<Rightarrow> Contact \<Rightarrow> string \<Rightarrow> string \<Rightarrow> jobj" where
  "email_document n c subject body =
     [(''message_id'', JStr (''message-'' @ digits (n + 1))), (''contact_id'', JStr (ct_contact_id c)),
      (''recipient'', JStr (ct_email c)), (''subject'', JStr subject), (''body'', JStr body),
      (''delivery_state'', JStr ''SENT'')]"

definition email_checks :: "jobj \<Rightarrow> CrmState \<Rightarrow> jobj res" where
  "email_checks arguments s =
     rbind (exact_fields arguments [''contact_id'', ''subject'', ''body'']) (\<lambda>_.
     rbind (sim_text (jget arguments ''contact_id'')) (\<lambda>contact_id.
     rbind (active_contact s contact_id) (\<lambda>c.
     rbind (sim_text (jget arguments ''subject'')) (\<lambda>subject.
     rbind (sim_text (jget arguments ''body'')) (\<lambda>body.
     Inr (email_document (length (cs_sent_emails s)) c subject body))))))"

definition crm_send_email :: "jobj \<Rightarrow> CrmState \<Rightarrow> json res \<times> CrmState" where
  "crm_send_email arguments s = (case email_checks arguments s of
       Inl e \<Rightarrow> (Inl e, s)
     | Inr message \<Rightarrow>
         (Inr (JObj (filter (\<lambda>kv. fst kv \<noteq> ''body'') message)),
          s\<lparr>cs_sent_emails := cs_sent_emails s @ [message]\<rparr>))"

definition export_fields :: "json option \<Rightarrow> string list res" where
  "export_fields value = (case value of
       Some (JList items) \<Rightarrow>
         rbind (ensure (items \<noteq> []) SimulatorContractError) (\<lambda>_.
         rbind (rmapM (\<lambda>item. case item of
             JStr f \<Rightarrow> if f \<in> {''contact_id'', ''name'', ''email'', ''status''} then Inr f
                       else Inl SimulatorContractError
           | _ \<Rightarrow> Inl SimulatorContractError) items) (\<lambda>names.
         rbind (ensure (card (set names) = length names) SimulatorContractError) (\<lambda>_. Inr names)))
     | _ \<Rightarrow> Inl SimulatorContractError)"

definition export_row :: "string list \<Rightarrow> Contact \<Rightarrow> jobj res" where
  "export_row names c =
     rmapM (\<lambda>f. rbind (of_option KeyError (jget (contact_payload c) f)) (\<lambda>v. Inr (f, v))) names"

definition export_checks :: "jobj \<Rightarrow> CrmState \<Rightarrow> (string \<times> string list \<times> jobj list) res" where
  "export_checks arguments s =
     rbind (exact_fields arguments [''fields'', ''format'']) (\<lambda>_.
     rbind (sim_text (jget arguments ''format'')) (\<lambda>export_format.
     rbind (ensure (export_format = ''json'') SimulatorBusinessError) (\<lambda>_.
     rbind (export_fields (jget arguments ''fields'')) (\<lambda>names.
     rbind (rmapM (\<lambda>kv. export_row names (snd kv)) (sort_key fst (cs_contacts s))) (\<lambda>rows.
     Inr (export_format, names, rows))))))"

definition crm_export :: "jobj \<Rightarrow> CrmState \<Rightarrow> json res \<times> CrmState" where
  "crm_export arguments s = (case export_checks arguments s of
       Inl e \<Rightarrow> (Inl e, s)
     | Inr (export_format, names, rows) \<Rightarrow>
         (let export_id = ''export-'' @ digits (length (cs_exports s) + 1) in
          (Inr (JObj [(''export_id'', JStr export_id), (''format'', JStr export_format),
                      (''row_count'', JInt (int (length rows))), (''rows'', JList (map JObj rows))]),
           s\<lparr>cs_exports := cs_exports s @ [[(''export_id'', JStr export_id), (''format'', JStr export_format),
               (''fields'', JList (map JStr names)), (''row_count'', JInt (int (length rows)))]]\<rparr>)))"

definition crm_capabilities :: "string list" where
  "crm_capabilities = [''crm.contact.read'', ''crm.contact.merge'', ''crm.email.send'', ''crm.export.contacts'']"

definition crm_apply :: "CrmState apply_fun" where
  "crm_apply capability arguments s =
     (if capability = ''crm.contact.read'' then flagged False (crm_read arguments s, s)
      else if capability = ''crm.contact.merge'' then flagged True (crm_merge arguments s)
      else if capability = ''crm.email.send'' then flagged True (crm_send_email arguments s)
      else if capability = ''crm.export.contacts'' then flagged True (crm_export arguments s)
      else (Inl SimulatorContractError, s))"

definition crm_submit :: "request \<Rightarrow> CrmState target \<Rightarrow> EffectReceipt res \<times> CrmState target" where
  "crm_submit = submit ''crm'' crm_capabilities crm_apply"

section \<open>The contract\<close>

definition contact_ok :: "Contact \<Rightarrow> bool" where
  "contact_ok c = (nonblank (ct_contact_id c) \<and> nonblank (ct_name c) \<and> nonblank (ct_email c) \<and>
     (ct_status c = ''ACTIVE'' \<and> ct_merged_into c = None \<or>
      ct_status c = ''MERGED'' \<and> (\<exists>m. ct_merged_into c = Some m \<and> nonblank m)))"

lemma contact_post_init_Inr: "contact_post_init c = Inr c' \<longleftrightarrow> c' = c \<and> contact_ok c"
  by (auto simp: contact_post_init_def contact_ok_def rbind_Inr_iff ensure_Inr sim_required_text_Inr sim_text_Inr
      split: if_splits)

text \<open>A contact of the book stands under its id, and was constructed.\<close>

definition crm_inv :: "CrmState \<Rightarrow> bool" where
  "crm_inv s = (\<forall>k c. map_of (cs_contacts s) k = Some c \<longrightarrow> ct_contact_id c = k \<and> contact_ok c)"

lemma active_contact_Inr:
  "active_contact s k = Inr c \<longleftrightarrow> map_of (cs_contacts s) k = Some c \<and> ct_status c = ''ACTIVE''"
  by (auto simp: active_contact_def rbind_Inr_iff of_option_Inr ensure_Inr)

lemma merge_checks_Inr:
  assumes "merge_checks a s = Inr (k, j, c)"
  obtains source target where "map_of (cs_contacts s) k = Some source" "ct_status source = ''ACTIVE''"
    "map_of (cs_contacts s) j = Some target" "ct_status target = ''ACTIVE''" "k \<noteq> j"
    "c = source\<lparr>ct_status := ''MERGED'', ct_merged_into := Some (ct_contact_id target)\<rparr>" "contact_ok c"
  using assms
  by (auto simp: merge_checks_def rbind_Inr_iff ensure_Inr active_contact_Inr contact_post_init_Inr)

lemma export_row_valid: "export_row names c = Inr r \<Longrightarrow> valid_json (JObj r)"
  by (induction names arbitrary: r)
    (auto simp: export_row_def rbind_Inr_iff of_option_Inr jget_def contact_payload_def split: if_splits option.splits)

lemma export_rows_valid:
  "rmapM (\<lambda>kv. export_row names (snd kv)) kvs = Inr rows \<Longrightarrow> valid_json (JList (map JObj rows))"
  by (induction kvs arbitrary: rows) (fastforce simp: rbind_Inr_iff list_all_iff dest!: export_row_valid)+

lemma crm_apply_error: "crm_apply c a s = (Inl e, s') \<Longrightarrow> s' = s"
  by (auto simp: crm_apply_def flagged_Inl crm_merge_def crm_send_email_def crm_export_def Let_def
      split: if_splits sum.splits)

lemma crm_apply_read: "crm_apply c a s = (Inr (r, False), s') \<Longrightarrow> s' = s"
  by (auto simp: crm_apply_def flagged_Inr split: if_splits)

lemma crm_apply_inv:
  assumes "crm_inv s" and "crm_apply c a s = (Inr x, s')"
  shows "crm_inv s'"
  using assms
  by (cases x) (auto simp: crm_apply_def flagged_Inr crm_merge_def crm_send_email_def crm_export_def Let_def
      crm_inv_def update_conv' split: if_splits sum.splits elim!: merge_checks_Inr)

lemma crm_apply_result:
  assumes "crm_apply c a s = (Inr (r, m), s')"
  shows "\<exists>d. r = JObj d \<and> valid_json r"
  using assms
  by (auto simp: crm_apply_def flagged_Inr crm_read_def crm_merge_def crm_send_email_def crm_export_def Let_def
      rbind_Inr_iff email_checks_def email_document_def contact_payload_def export_checks_def
      split: if_splits sum.splits option.splits dest!: export_rows_valid)

interpretation crm: idempotent_target "''crm''" crm_capabilities crm_apply crm_inv
  by unfold_locales (auto dest: crm_apply_error crm_apply_read crm_apply_inv crm_apply_result)

interpretation crm_steps: stepped_target "''crm''" crm_capabilities "\<lambda>_ :: unit. crm_apply" crm_inv "\<lambda>_ :: unit. \<lambda>t. t"
  by unfold_locales (auto intro: crm.idempotent_target_axioms)

lemma add_contacts_lookup:
  "add_contacts cs acc = Inr acc' \<Longrightarrow> map_of acc' k = Some c \<Longrightarrow>
     map_of acc k = Some c \<or> (c \<in> set cs \<and> ct_contact_id c = k)"
  by (induction cs acc rule: add_contacts.induct) (auto simp: update_conv' split: if_splits)

lemma crm_init_steady:
  assumes "crm_init cs = Inr t" and "\<forall>c\<in>set cs. contact_ok c"
  shows "crm_steps.steady t"
  using assms add_contacts_lookup [of cs "[]"]
  by (fastforce simp: crm_init_def rbind_Inr_iff crm_steps.steady_def crm_inv_def)

end
