(* ===== verification/Mail.thy ===== *)
theory Mail
  imports Simulator_Contracts
begin

text \<open>\<^verbatim>\<open>cbrain/simulators/mail.py\<close>: a mail target that keeps the exact bytes of every body.\<close>

section \<open>State and operations\<close>

record MailMessage =
  mm_message_id :: string
  mm_to :: string
  mm_subject :: string
  mm_body :: bytes
  mm_body_sha256 :: string

definition message_payload :: "MailMessage \<Rightarrow> jobj" where
  "message_payload m =
     [(''message_id'', JStr (mm_message_id m)), (''to'', JStr (mm_to m)), (''subject'', JStr (mm_subject m)),
      (''body_sha256'', JStr (mm_body_sha256 m)), (''byte_length'', JInt (int (length (mm_body m)))),
      (''status'', JStr ''SENT'')]"

record MailState =
  ml_credential_digest :: string
  ml_messages :: "(string \<times> MailMessage) list"

definition mail_init :: "string \<Rightarrow> MailState target res" where
  "mail_init credential_digest =
     rbind (ensure (length credential_digest = 64 \<and> list_all is_hex_digit credential_digest)
              SimulatorContractError) (\<lambda>_.
     Inr \<lparr>tt_state = \<lparr>ml_credential_digest = credential_digest, ml_messages = []\<rparr>,
          tt_version = 0, tt_effects = Map.empty\<rparr>)"

definition mail_snapshot :: "MailState target \<Rightarrow> jobj res" where
  "mail_snapshot t =
     rbind (canonical_object (JObj
        [(''domain'', JStr ''procurement''), (''state_version'', JInt (tt_version t)),
         (''credential_digest'', JStr (ml_credential_digest (tt_state t))),
         (''messages'', JList (map (\<lambda>kv. JObj (message_payload (snd kv)))
            (sort_key fst (ml_messages (tt_state t)))))])) sim_restore_object"

definition stored_body :: "string \<Rightarrow> MailState target \<Rightarrow> bytes res" where
  "stored_body message_id t =
     rbind (of_option SimulatorNotFound (map_of (ml_messages (tt_state t)) message_id)) (\<lambda>m. Inr (mm_body m))"

definition send_checks :: "jobj \<Rightarrow> MailState \<Rightarrow> MailMessage res" where
  "send_checks arguments s =
     rbind (exact_fields arguments [''to'', ''subject'', ''body'']) (\<lambda>_.
     rbind (case jget arguments ''body'' of
         Some (JStr text) \<Rightarrow> Inr (encode_utf8 text) | _ \<Rightarrow> Inl SimulatorContractError) (\<lambda>body.
     rbind (sim_text (jget arguments ''to'')) (\<lambda>recipient.
     rbind (sim_text (jget arguments ''subject'')) (\<lambda>subject.
     Inr \<lparr>mm_message_id = ''mail-'' @ pad4 (length (ml_messages s) + 1), mm_to = recipient,
          mm_subject = subject, mm_body = body, mm_body_sha256 = digest_text body\<rparr>))))"

definition mail_send :: "jobj \<Rightarrow> MailState \<Rightarrow> json res \<times> MailState" where
  "mail_send arguments s = (case send_checks arguments s of
       Inl e \<Rightarrow> (Inl e, s)
     | Inr m \<Rightarrow>
         (Inr (JObj (message_payload m)),
          s\<lparr>ml_messages := AList.update (mm_message_id m) m (ml_messages s)\<rparr>))"

definition mail_capabilities :: "string list" where
  "mail_capabilities = [''procurement.mail.send'']"

definition mail_apply :: "MailState apply_fun" where
  "mail_apply capability arguments s =
     (if capability = ''procurement.mail.send'' then flagged True (mail_send arguments s)
      else (Inl SimulatorContractError, s))"

definition mail_submit :: "request \<Rightarrow> MailState target \<Rightarrow> EffectReceipt res \<times> MailState target" where
  "mail_submit = submit ''procurement'' mail_capabilities mail_apply"

section \<open>The contract\<close>

definition mail_inv :: "MailState \<Rightarrow> bool" where
  "mail_inv s = (numbered (ml_messages s) \<and>
     (\<forall>k m. map_of (ml_messages s) k = Some m \<longrightarrow> mm_message_id m = k \<and> mm_body_sha256 m = digest_text (mm_body m)))"

lemma send_checks_Inr:
  assumes "send_checks a s = Inr m"
  shows "mm_message_id m = ''mail'' @ ''-'' @ pad4 (Suc (length (ml_messages s)))"
    and "mm_body_sha256 m = digest_text (mm_body m)"
    and "\<exists>text. jget a ''body'' = Some (JStr text) \<and> mm_body m = encode_utf8 text"
  using assms
  by (auto simp: send_checks_def rbind_Inr_iff split: option.splits json.splits)

lemma mail_apply_cases:
  assumes "mail_apply c a s = (r, s')"
  obtains (refused) e where "r = Inl e" "s' = s"
  | (sent) m where "send_checks a s = Inr m" "r = Inr (JObj (message_payload m), True)"
      "s' = s\<lparr>ml_messages := AList.update (mm_message_id m) m (ml_messages s)\<rparr>"
  using assms by (cases "send_checks a s") (auto simp: mail_apply_def flagged_def mail_send_def split: if_splits)

lemma mail_sent_inv:
  assumes i: "mail_inv s" and m: "send_checks a s = Inr m"
  shows "mail_inv (s\<lparr>ml_messages := AList.update (mm_message_id m) m (ml_messages s)\<rparr>)"
proof -
  have "numbered (AList.update (mm_message_id m) m (ml_messages s))"
    using i send_checks_Inr(1) [OF m] by (intro numbered_update_new) (auto simp: mail_inv_def)
  with i send_checks_Inr(2) [OF m] show ?thesis by (auto simp: mail_inv_def update_conv')
qed

lemma payload_valid [simp]: "valid_json (JObj (message_payload m))"
  by (simp add: message_payload_def)

interpretation mail: idempotent_target "''procurement''" mail_capabilities mail_apply mail_inv
  by unfold_locales (auto intro: mail_sent_inv simp del: valid_json.simps elim!: mail_apply_cases)

interpretation mail_steps: stepped_target "''procurement''" mail_capabilities "\<lambda>_ :: unit. mail_apply" mail_inv "\<lambda>_ :: unit. \<lambda>t. t"
  by unfold_locales (auto intro: mail.idempotent_target_axioms)

lemma mail_init_steady: "mail_init d = Inr t \<Longrightarrow> mail_steps.steady t"
  by (auto simp: mail_init_def rbind_Inr_iff mail_steps.steady_def mail_inv_def)

text \<open>Messages are never lost or overwritten.\<close>

definition mail_kept :: "MailState \<Rightarrow> MailState \<Rightarrow> bool" where
  "mail_kept s s' = (\<forall>k m. map_of (ml_messages s) k = Some m \<longrightarrow> map_of (ml_messages s') k = Some m)"

lemma mail_apply_kept:
  assumes "mail_inv s" and "mail_apply c a s = (Inr x, s')"
  shows "mail_kept s s'"
  using assms(2)
proof (cases rule: mail_apply_cases)
  case (sent m)
  have "map_of (ml_messages s) (mm_message_id m) = None"
    using numbered_fresh [of "ml_messages s" "''mail''"] assms(1) send_checks_Inr(1) [OF sent(1)]
    by (simp add: mail_inv_def)
  with sent(3) show ?thesis by (auto simp: mail_kept_def update_conv')
qed simp

lemma mail_run_kept:
  "mail_steps.steady t \<Longrightarrow> mail_kept (tt_state t)
     (tt_state (run_steps ''procurement'' mail_capabilities (\<lambda>_ :: unit. mail_apply) (\<lambda>_ :: unit. \<lambda>t. t) steps t))"
  by (rule mail_steps.run_keeps) (auto simp: mail_kept_def dest: mail_apply_kept [unfolded mail_kept_def])

end
