(* ===== verification/Orders.thy ===== *)
theory Orders
  imports Ledger
begin

text \<open>
  \<^verbatim>\<open>cbrain/simulators/orders.py\<close>: purchase orders that are created, read, amended and cancelled behind the
  shared \<^verbatim>\<open>execute\<close> skeleton, and their shipments, whose status the operator sets. An order takes its number from
  the reading of the clock and the count of orders.
\<close>

section \<open>State\<close>

record PurchaseOrder =
  po_po_number :: string
  po_vendor_id :: string
  po_quote_id :: string
  po_tonnes :: int
  po_rate_per_tonne :: int
  po_payment_terms :: string
  po_comparison_digest :: string
  po_status :: string
  po_created_at :: string

definition order_payload :: "PurchaseOrder \<Rightarrow> json res" where
  "order_payload o' =
     rbind (money_text (po_tonnes o')) (\<lambda>tonnes.
     rbind (money_text (po_rate_per_tonne o')) (\<lambda>rate.
     Inr (JObj [(''po_number'', JStr (po_po_number o')), (''vendor_id'', JStr (po_vendor_id o')),
       (''quote_id'', JStr (po_quote_id o')), (''tonnes'', JStr tonnes), (''rate_per_tonne'', JStr rate),
       (''payment_terms'', JStr (po_payment_terms o')), (''comparison_digest'', JStr (po_comparison_digest o')),
       (''status'', JStr (po_status o')), (''created_at'', JStr (po_created_at o'))])))"

record Shipment =
  sh_shipment_id :: string
  sh_po_number :: string
  sh_status :: string

definition shipment_payload :: "Shipment \<Rightarrow> json" where
  "shipment_payload s = JObj [(''shipment_id'', JStr (sh_shipment_id s)), (''po_number'', JStr (sh_po_number s)),
     (''status'', JStr (sh_status s))]"

record OrderState =
  ob_orders :: "(string \<times> PurchaseOrder) list"
  ob_shipments :: "(string \<times> Shipment) list"

definition order_init :: "OrderState target" where
  "order_init = \<lparr>tt_state = \<lparr>ob_orders = [], ob_shipments = []\<rparr>, tt_version = 0, tt_effects = Map.empty\<rparr>"

definition order_snapshot :: "OrderState target \<Rightarrow> jobj res" where
  "order_snapshot t =
     rbind (rmapM (\<lambda>kv. order_payload (snd kv)) (sort_key fst (ob_orders (tt_state t)))) (\<lambda>orders.
     rbind (canonical_object (JObj
        [(''domain'', JStr ''procurement''), (''state_version'', JInt (tt_version t)),
         (''purchase_orders'', JList orders),
         (''shipments'', JList (map (\<lambda>kv. shipment_payload (snd kv))
            (sort_key fst (ob_shipments (tt_state t)))))])) sim_restore_object)"

section \<open>Operations\<close>

definition payment_terms :: "string set" where
  "payment_terms = {''ADVANCE'', ''NET_15'', ''NET_30'', ''NET_45'', ''LC_SIGHT''}"

definition shipment_statuses :: "string set" where
  "shipment_statuses = {''PENDING'', ''DISPATCHED'', ''IN_TRANSIT'', ''DELIVERED'', ''DELAYED'', ''SHORT_DELIVERED''}"

definition set_shipment_status :: "string \<Rightarrow> string \<Rightarrow> OrderState target \<Rightarrow> unit res \<times> OrderState target" where
  "set_shipment_status po_number status t =
     (case
        rbind (sim_required_text po_number) (\<lambda>_.
        rbind (sim_required_text status) (\<lambda>_.
        rbind (ensure (status \<in> shipment_statuses) SimulatorContractError) (\<lambda>_.
        of_option SimulatorNotFound (map_of (ob_shipments (tt_state t)) po_number))))
      of Inl e \<Rightarrow> (Inl e, t)
       | Inr shipment \<Rightarrow>
           (Inr (), t\<lparr>tt_state := (tt_state t)\<lparr>ob_shipments :=
                AList.update po_number (shipment\<lparr>sh_status := status\<rparr>) (ob_shipments (tt_state t))\<rparr>,
              tt_version := tt_version t + 1\<rparr>))"

text \<open>The amounts of orders are never floats; otherwise they are read as the ledger reads them.\<close>

definition order_money :: "json \<Rightarrow> int res" where
  "order_money value = (case value of
       JStr _ \<Rightarrow> positive_money value
     | JInt _ \<Rightarrow> positive_money value
     | _ \<Rightarrow> Inl SimulatorContractError)"

definition required_order :: "OrderState \<Rightarrow> string \<Rightarrow> PurchaseOrder res" where
  "required_order s po_number = of_option SimulatorNotFound (map_of (ob_orders s) po_number)"

definition order_from :: "OrderState \<Rightarrow> jobj \<Rightarrow> PurchaseOrder res" where
  "order_from s arguments = rbind (sim_text (jget arguments ''po_number'')) (required_order s)"

definition amount_from :: "jobj \<Rightarrow> string \<Rightarrow> int res" where
  "amount_from arguments key = rbind (of_option KeyError (jget arguments key)) order_money"

definition create_checks :: "string \<Rightarrow> jobj \<Rightarrow> OrderState \<Rightarrow> PurchaseOrder res" where
  "create_checks created_at arguments s =
     rbind (exact_fields arguments [''vendor_id'', ''quote_id'', ''tonnes'', ''rate_per_tonne'', ''payment_terms'',
              ''comparison_digest'']) (\<lambda>_.
     rbind (sim_text (jget arguments ''payment_terms'')) (\<lambda>terms.
     rbind (ensure (terms \<in> payment_terms) SimulatorContractError) (\<lambda>_.
     rbind (sim_text (jget arguments ''vendor_id'')) (\<lambda>vendor_id.
     rbind (sim_text (jget arguments ''quote_id'')) (\<lambda>quote_id.
     rbind (amount_from arguments ''tonnes'') (\<lambda>tonnes.
     rbind (amount_from arguments ''rate_per_tonne'') (\<lambda>rate.
     rbind (sim_text (jget arguments ''comparison_digest'')) (\<lambda>digest.
     Inr \<lparr>po_po_number = ''PO-'' @ take 4 created_at @ ''-'' @ pad4 (length (ob_orders s) + 1),
          po_vendor_id = vendor_id, po_quote_id = quote_id, po_tonnes = tonnes, po_rate_per_tonne = rate,
          po_payment_terms = terms, po_comparison_digest = digest, po_status = ''OPEN'',
          po_created_at = created_at\<rparr>))))))))"

definition create_order :: "string \<Rightarrow> jobj \<Rightarrow> OrderState \<Rightarrow> json res \<times> OrderState" where
  "create_order now arguments s = (case create_checks now arguments s of
       Inl e \<Rightarrow> (Inl e, s)
     | Inr order \<Rightarrow>
         (order_payload order,
          s\<lparr>ob_orders := AList.update (po_po_number order) order (ob_orders s),
            ob_shipments := AList.update (po_po_number order)
              \<lparr>sh_shipment_id = ''shp-'' @ po_po_number order, sh_po_number = po_po_number order,
               sh_status = ''PENDING''\<rparr> (ob_shipments s)\<rparr>))"

definition read_order :: "jobj \<Rightarrow> OrderState \<Rightarrow> json res" where
  "read_order arguments s =
     rbind (exact_fields arguments [''po_number'']) (\<lambda>_. rbind (order_from s arguments) order_payload)"

definition set_order :: "PurchaseOrder \<Rightarrow> OrderState \<Rightarrow> OrderState" where
  "set_order order s = s\<lparr>ob_orders := AList.update (po_po_number order) order (ob_orders s)\<rparr>"

definition amend_checks :: "jobj \<Rightarrow> OrderState \<Rightarrow> PurchaseOrder res" where
  "amend_checks arguments s =
     rbind (exact_fields arguments [''po_number'', ''tonnes'', ''rate_per_tonne'']) (\<lambda>_.
     rbind (order_from s arguments) (\<lambda>order.
     rbind (ensure (po_status order \<noteq> ''CANCELLED'') SimulatorBusinessError) (\<lambda>_.
     rbind (amount_from arguments ''tonnes'') (\<lambda>tonnes.
     rbind (amount_from arguments ''rate_per_tonne'') (\<lambda>rate.
     Inr (order\<lparr>po_tonnes := tonnes, po_rate_per_tonne := rate, po_status := ''AMENDED''\<rparr>))))))"

definition cancel_checks :: "jobj \<Rightarrow> OrderState \<Rightarrow> PurchaseOrder res" where
  "cancel_checks arguments s =
     rbind (exact_fields arguments [''po_number'']) (\<lambda>_.
     rbind (order_from s arguments) (\<lambda>order.
     rbind (ensure (po_status order \<noteq> ''CANCELLED'') SimulatorBusinessError) (\<lambda>_.
     rbind (of_option KeyError (map_of (ob_shipments s) (po_po_number order))) (\<lambda>shipment.
     rbind (ensure (sh_status shipment \<noteq> ''DELIVERED'') SimulatorBusinessError) (\<lambda>_.
     Inr (order\<lparr>po_status := ''CANCELLED''\<rparr>))))))"

definition store_order :: "PurchaseOrder res \<Rightarrow> OrderState \<Rightarrow> json res \<times> OrderState" where
  "store_order checked s = (case checked of
       Inl e \<Rightarrow> (Inl e, s)
     | Inr order \<Rightarrow> (order_payload order, set_order order s))"

definition amend_order :: "jobj \<Rightarrow> OrderState \<Rightarrow> json res \<times> OrderState" where
  "amend_order arguments s = store_order (amend_checks arguments s) s"

definition cancel_order :: "jobj \<Rightarrow> OrderState \<Rightarrow> json res \<times> OrderState" where
  "cancel_order arguments s = store_order (cancel_checks arguments s) s"

definition read_shipment :: "jobj \<Rightarrow> OrderState \<Rightarrow> json res" where
  "read_shipment arguments s =
     rbind (exact_fields arguments [''po_number'']) (\<lambda>_.
     rbind (sim_text (jget arguments ''po_number'')) (\<lambda>po_number.
     rbind (of_option SimulatorNotFound (map_of (ob_shipments s) po_number)) (\<lambda>shipment.
     Inr (shipment_payload shipment))))"

definition order_capabilities :: "string list" where
  "order_capabilities = [''procurement.po.create'', ''procurement.po.read'', ''procurement.po.amend'',
     ''procurement.po.cancel'', ''procurement.shipment.read'']"

definition order_apply :: "string \<Rightarrow> OrderState apply_fun" where
  "order_apply now capability arguments s =
     (if capability = ''procurement.po.create'' then flagged True (create_order now arguments s)
      else if capability = ''procurement.po.read'' then flagged False (read_order arguments s, s)
      else if capability = ''procurement.po.amend'' then flagged True (amend_order arguments s)
      else if capability = ''procurement.po.cancel'' then flagged True (cancel_order arguments s)
      else if capability = ''procurement.shipment.read'' then flagged False (read_shipment arguments s, s)
      else (Inl SimulatorContractError, s))"

definition order_submit :: "string \<Rightarrow> request \<Rightarrow> OrderState target \<Rightarrow> EffectReceipt res \<times> OrderState target" where
  "order_submit now = submit ''procurement'' order_capabilities (order_apply now)"

definition operate_shipment :: "string \<times> string \<Rightarrow> OrderState target \<Rightarrow> OrderState target" where
  "operate_shipment act t = snd (set_shipment_status (fst act) (snd act) t)"

section \<open>The contract\<close>

definition order_ok :: "string \<Rightarrow> PurchaseOrder \<Rightarrow> bool" where
  "order_ok k order = (po_po_number order = k \<and> 0 < po_tonnes order \<and> po_tonnes order < money_bound \<and>
     0 < po_rate_per_tonne order \<and> po_rate_per_tonne order < money_bound)"

definition order_inv :: "OrderState \<Rightarrow> bool" where
  "order_inv s = (numbered (ob_orders s) \<and>
     (\<forall>k order. map_of (ob_orders s) k = Some order \<longrightarrow> order_ok k order \<and> map_of (ob_shipments s) k \<noteq> None))"

lemma order_payload_ok:
  assumes "order_ok k order"
  obtains d where "order_payload order = Inr (JObj d)" "valid_json (JObj d)"
proof -
  obtain t r where "money_text (po_tonnes order) = Inr t" "money_text (po_rate_per_tonne order) = Inr r"
    using money_text_ok [of "po_tonnes order"] money_text_ok [of "po_rate_per_tonne order"] assms
    by (auto simp: order_ok_def)
  then show thesis using that by (simp add: order_payload_def)
qed

lemma order_money_Inr: "order_money v = Inr c \<Longrightarrow> 0 < c \<and> c < money_bound"
  by (cases v) (auto simp: order_money_def dest: positive_money_Inr)

lemma amount_from_Inr: "amount_from a k = Inr c \<Longrightarrow> 0 < c \<and> c < money_bound"
  by (auto simp: amount_from_def rbind_Inr_iff dest: order_money_Inr)

lemma order_from_Inr:
  "order_inv s \<Longrightarrow> order_from s a = Inr order \<Longrightarrow>
     map_of (ob_orders s) (po_po_number order) = Some order \<and> order_ok (po_po_number order) order"
  by (auto simp: order_from_def required_order_def rbind_Inr_iff of_option_Inr order_inv_def order_ok_def)

lemma create_checks_Inr:
  assumes "create_checks now a s = Inr order"
  shows "order_ok (po_po_number order) order" "po_status order = ''OPEN''" "po_created_at order = now"
    "po_po_number order = (''PO-'' @ take 4 now) @ ''-'' @ pad4 (Suc (length (ob_orders s)))"
  using assms by (auto simp: create_checks_def rbind_Inr_iff order_ok_def dest: amount_from_Inr)

text \<open>What an update may change of an order, in one step: its status advances, and its amounts if it is amended.\<close>

definition same_terms :: "PurchaseOrder \<Rightarrow> PurchaseOrder \<Rightarrow> bool" where
  "same_terms p q = (po_po_number q = po_po_number p \<and> po_vendor_id q = po_vendor_id p \<and>
     po_quote_id q = po_quote_id p \<and> po_payment_terms q = po_payment_terms p \<and>
     po_comparison_digest q = po_comparison_digest p \<and> po_created_at q = po_created_at p)"

definition order_update :: "PurchaseOrder \<Rightarrow> PurchaseOrder \<Rightarrow> bool" where
  "order_update p q = (same_terms p q \<and> (po_status q = ''OPEN'' \<longrightarrow> q = p) \<and> (po_status p = ''CANCELLED'' \<longrightarrow> q = p))"

lemma amend_checks_Inr:
  assumes "order_inv s" and "amend_checks a s = Inr q"
  obtains p where "map_of (ob_orders s) (po_po_number q) = Some p" "order_update p q" "order_ok (po_po_number q) q"
  using assms order_from_Inr [OF assms(1)]
  by (fastforce simp: amend_checks_def rbind_Inr_iff ensure_Inr order_update_def same_terms_def order_ok_def
      dest: amount_from_Inr)

lemma cancel_checks_Inr:
  assumes "order_inv s" and "cancel_checks a s = Inr q"
  obtains p where "map_of (ob_orders s) (po_po_number q) = Some p" "order_update p q" "order_ok (po_po_number q) q"
  using assms order_from_Inr [OF assms(1)]
  by (fastforce simp: cancel_checks_def rbind_Inr_iff ensure_Inr order_update_def same_terms_def order_ok_def)

text \<open>The three ways in which an operation ends.\<close>

lemma order_apply_cases:
  assumes i: "order_inv s" and ap: "order_apply now c a s = (r, s')"
  obtains (unchanged) "s' = s" "case r of Inl e \<Rightarrow> True | Inr (v, m) \<Rightarrow> \<not> m \<and> (\<exists>d. v = JObj d \<and> valid_json v)"
  | (created) order v where "create_checks now a s = Inr order" "r = Inr (v, True)" "\<exists>d. v = JObj d \<and> valid_json v"
      "s' = snd (create_order now a s)"
  | (updated) p q v where "map_of (ob_orders s) (po_po_number q) = Some p" "order_update p q"
      "order_ok (po_po_number q) q" "r = Inr (v, True)" "\<exists>d. v = JObj d \<and> valid_json v" "s' = set_order q s"
proof -
  have up: thesis if "flagged True (store_order ck s) = (r, s')"
    and "\<And>q. ck = Inr q \<Longrightarrow> \<exists>p. map_of (ob_orders s) (po_po_number q) = Some p \<and> order_update p q \<and> order_ok (po_po_number q) q"
    for ck
  proof (cases ck)
    case (Inl e)
    with that(1) show ?thesis by (intro unchanged) (auto simp: store_order_def flagged_def)
  next
    case (Inr q)
    from that(2) [OF this] obtain p where p: "map_of (ob_orders s) (po_po_number q) = Some p" "order_update p q"
      "order_ok (po_po_number q) q" by blast
    obtain d where "order_payload q = Inr (JObj d)" "valid_json (JObj d)" using order_payload_ok [OF p(3)] by blast
    with that(1) Inr p show ?thesis by (intro updated [of q p "JObj d"]) (auto simp: store_order_def flagged_def)
  qed
  have rd: thesis if "flagged False (x, s) = (r, s')" and "\<And>v. x = Inr v \<Longrightarrow> \<exists>d. v = JObj d \<and> valid_json v" for x
    using that by (intro unchanged) (cases x; auto simp: flagged_def)+
  consider "c = ''procurement.po.create''" | "c = ''procurement.po.read''" | "c = ''procurement.po.amend''"
    | "c = ''procurement.po.cancel''" | "c = ''procurement.shipment.read''"
    | "c \<notin> set order_capabilities" by (auto simp: order_capabilities_def)
  then show thesis
  proof cases
    case 1
    show ?thesis
    proof (cases "create_checks now a s")
      case (Inl e)
      with 1 ap show ?thesis by (intro unchanged) (auto simp: order_apply_def create_order_def flagged_def)
    next
      case (Inr order)
      obtain d where "order_payload order = Inr (JObj d)" "valid_json (JObj d)"
        using order_payload_ok [OF create_checks_Inr(1) [OF Inr]] by blast
      with 1 ap Inr show ?thesis
        by (intro created [of order "JObj d"]) (auto simp: order_apply_def create_order_def flagged_def)
    qed
  next
    case 2
    have "read_order a s = Inr v \<Longrightarrow> \<exists>d. v = JObj d \<and> valid_json v" for v
      by (auto simp: read_order_def order_payload_def rbind_Inr_iff)
    with 2 ap show ?thesis by (intro rd [of "read_order a s"]) (auto simp: order_apply_def)
  next
    case 3
    with ap i show ?thesis
      by (intro up [of "amend_checks a s"]) (auto simp: order_apply_def amend_order_def elim: amend_checks_Inr)
  next
    case 4
    with ap i show ?thesis
      by (intro up [of "cancel_checks a s"]) (auto simp: order_apply_def cancel_order_def elim: cancel_checks_Inr)
  next
    case 5
    have "read_shipment a s = Inr v \<Longrightarrow> \<exists>d. v = JObj d \<and> valid_json v" for v
      by (auto simp: read_shipment_def shipment_payload_def rbind_Inr_iff)
    with 5 ap show ?thesis by (intro rd [of "read_shipment a s"]) (auto simp: order_apply_def)
  next
    case 6
    with ap show ?thesis by (intro unchanged) (auto simp: order_apply_def order_capabilities_def)
  qed
qed

definition book_kept :: "OrderState \<Rightarrow> OrderState \<Rightarrow> bool" where
  "book_kept s s' = (\<forall>k p. map_of (ob_orders s) k = Some p \<longrightarrow>
     (\<exists>q. map_of (ob_orders s') k = Some q \<and> order_update p q))"

lemma order_update_refl: "order_update p p"
  by (simp add: order_update_def same_terms_def)

lemma order_update_trans: "order_update p q \<Longrightarrow> order_update q r \<Longrightarrow> order_update p r"
  unfolding order_update_def same_terms_def by metis

lemma book_kept_refl: "book_kept s s"
  by (auto simp: book_kept_def intro: order_update_refl)

lemma book_kept_trans: "book_kept a b \<Longrightarrow> book_kept b c \<Longrightarrow> book_kept a c"
  unfolding book_kept_def by (meson order_update_trans)

lemma created_step:
  assumes i: "order_inv s" and c: "create_checks now a s = Inr order"
  shows "order_inv (snd (create_order now a s)) \<and> book_kept s (snd (create_order now a s))"
proof -
  let ?k = "po_po_number order"
  note ok = create_checks_Inr [OF c]
  have num: "numbered (ob_orders s)" using i by (simp add: order_inv_def)
  have new: "map_of (ob_orders s) ?k = None" unfolding ok(4) by (rule numbered_fresh [OF num])
  have "numbered (AList.update ?k order (ob_orders s))" by (rule numbered_update_new [OF num ok(4)])
  moreover have "order_ok k p \<and> map_of (ob_shipments s) k \<noteq> None" if "map_of (ob_orders s) k = Some p" for k p
    using i that by (simp add: order_inv_def)
  ultimately show ?thesis using c ok(1) new
    by (auto simp: create_order_def order_inv_def book_kept_def update_conv' intro: order_update_refl)
qed

lemma updated_step:
  assumes i: "order_inv s" and p: "map_of (ob_orders s) (po_po_number q) = Some p" "order_update p q"
    and ok: "order_ok (po_po_number q) q"
  shows "order_inv (set_order q s) \<and> book_kept s (set_order q s)"
proof -
  have "numbered (AList.update (po_po_number q) q (ob_orders s))"
    using i p(1) by (intro numbered_update_old) (auto simp: order_inv_def)
  then show ?thesis using i p ok
    by (auto simp: set_order_def order_inv_def book_kept_def update_conv' intro: order_update_refl)
qed

lemma order_apply_step:
  assumes "order_inv s" and "order_apply now c a s = (r, s')"
  shows "order_inv s' \<and> book_kept s s' \<and> (case r of Inl e \<Rightarrow> s' = s | Inr (v, m) \<Rightarrow> (m \<or> s' = s) \<and> (\<exists>d. v = JObj d \<and> valid_json v))"
  using assms
proof (cases rule: order_apply_cases)
  case unchanged
  then show ?thesis using assms(1) book_kept_refl by (auto split: sum.splits)
next
  case (created order v)
  then show ?thesis using created_step [OF assms(1) created(1)] by simp
next
  case (updated p q v)
  then show ?thesis using updated_step [OF assms(1) updated(1-3)] by simp
qed

interpretation orders: idempotent_target "''procurement''" order_capabilities "order_apply now" order_inv for now
  by unfold_locales (fastforce dest: order_apply_step simp del: valid_json.simps)+

lemma operate_shipment_step:
  "order_inv (tt_state t) \<Longrightarrow> order_inv (tt_state (operate_shipment act t)) \<and>
     book_kept (tt_state t) (tt_state (operate_shipment act t))"
  by (auto simp: operate_shipment_def set_shipment_status_def order_inv_def update_conv' book_kept_def
      intro: order_update_refl split: sum.splits)

interpretation order_steps: stepped_target "''procurement''" order_capabilities order_apply order_inv operate_shipment
  by unfold_locales
    (auto intro: orders.idempotent_target_axioms dest: operate_shipment_step,
     auto simp: operate_shipment_def set_shipment_status_def split: sum.splits)

definition order_run :: "(string, string \<times> string) target_step list \<Rightarrow> OrderState target \<Rightarrow> OrderState target" where
  "order_run = run_steps ''procurement'' order_capabilities order_apply operate_shipment"

lemma order_init_steady: "order_steps.steady order_init"
  by (simp add: order_init_def order_steps.steady_def order_inv_def)

lemma order_run_steady: "order_steps.steady t \<Longrightarrow> order_steps.steady (order_run steps t)"
  unfolding order_run_def by (rule order_steps.run_steady)

lemma order_run_kept: "order_steps.steady t \<Longrightarrow> book_kept (tt_state t) (tt_state (order_run steps t))"
  unfolding order_run_def
  by (rule order_steps.run_keeps)
    (auto intro: book_kept_refl book_kept_trans dest: order_apply_step operate_shipment_step)

end
