(* ===== verification/Targets.thy ===== *)
theory Targets
  imports Crm Mail Orders
begin

text \<open>
  What the target simulators promise together: each is an instance of \<open>stepped_target\<close>, and so idempotent, and the
  order book is never rewritten.
\<close>

interpretation ledger_steps: stepped_target "''payments''" payment_capabilities "\<lambda>_ :: unit. ledger_apply" ledger_inv "\<lambda>_ :: unit. \<lambda>t. t"
  by unfold_locales (auto intro: ledger.idempotent_target_axioms)

lemma ledger_init_steady:
  "ledger_init as bs = Inr t \<Longrightarrow> \<forall>a\<in>set as. account_ok (la_account_id a) a \<Longrightarrow> ledger_steps.steady t"
  using ledger_init_inv [of as bs t] by (simp add: ledger.target_inv_def ledger_steps.steady_def)

section \<open>Properties\<close>


text \<open>
  C40. The order book is never rewritten. Whatever requests and shipment updates follow, at whatever clock readings, an
  order stays in the book under its number with its vendor, quote, payment terms, comparison digest and creation time;
  an order that is still open is unchanged, and a cancelled order never changes again. New orders get numbers that no
  order had.
\<close>

theorem orders_are_kept:
  assumes "map_of (ob_orders (tt_state (order_run earlier order_init))) po_number = Some p"
  shows "\<exists>q. map_of (ob_orders (tt_state (order_run later (order_run earlier order_init)))) po_number = Some q \<and>
    same_terms p q \<and> po_po_number q = po_number \<and> 0 < po_tonnes q \<and> 0 < po_rate_per_tonne q \<and>
    (po_status q = ''OPEN'' \<longrightarrow> q = p) \<and> (po_status p = ''CANCELLED'' \<longrightarrow> q = p)"
proof -
  let ?t = "order_run earlier order_init"
  have st: "order_steps.steady ?t" using order_init_steady by (rule order_run_steady)
  from order_run_kept [OF this, of later] assms obtain q where
    q: "map_of (ob_orders (tt_state (order_run later ?t))) po_number = Some q" "order_update p q"
    unfolding book_kept_def by blast
  have "order_inv (tt_state (order_run later ?t))"
    using order_run_steady [OF st] by (simp add: order_steps.steady_def)
  then have "order_ok po_number q" using q(1) by (simp add: order_inv_def)
  with q show ?thesis unfolding order_update_def order_ok_def by blast
qed

end
