(* ===== verification/Witnesses_Targets.thy ===== *)
theory Witnesses_Targets
  imports Review_Store Targets Witnesses_State
begin

text \<open>
  Witnesses of the durable review store, a payment parked, leased, approved and consumed, and of the target simulators.
\<close>

section \<open>A review\<close>

definition cfo_store :: DurableReviewStore where
  "cfo_store = \<lparr>dv_organisation_id = ''acme'', dv_max_ttl_seconds = Fl 3600, dv_max_lease_seconds = Fl 60,
     dv_allowed_approvers = [CONTROLLER \<mapsto> {''cfo''}], dv_add = (\<lambda>x y. Fl (x + y))\<rparr>"

definition approved_run :: "(review_fault \<times> review_op) list" where
  "approved_run = [(RvOk, RvPark ''r1'' ''d1'' CONTROLLER), (RvCommitFails, RvConsume ''r1'' ''d1'' CONTROLLER),
     (RvOk, RvClaim ''r1'' ''w1'' None),
     (RvOk, RvApprove ''r1'' \<lparr>ap_actor_id = ''cfo'', ap_role = CONTROLLER\<rparr> (Fl 600))]"

definition approved_db :: review_db where
  "approved_db = snd (run_claims (review_step cfo_store) approved_run (empty_table (\<lambda>_. Fl 1)))"

theorem review_consumption_is_backed_witness:
  "\<exists>r r' actor allowed w'. review_consume cfo_store RvOk ''r1'' ''d1'' CONTROLLER approved_db = (Inr True, w') \<and>
     record_at (rb_rows approved_db) (''acme'', ''r1'') = Some r \<and>
     rv_state r = RV_APPROVED \<and> rv_actor_id r = Some actor \<and>
     dv_allowed_approvers cfo_store CONTROLLER = Some allowed \<and> actor \<in> allowed \<and> approval_holds r approved_db \<and>
     record_at (rb_rows w') (''acme'', ''r1'') = Some r' \<and> rv_state r' = RV_CONSUMED"
proof -
  have "fst (review_consume cfo_store RvOk ''r1'' ''d1'' CONTROLLER approved_db) = Inr True" by code_simp
  then obtain w' where w: "review_consume cfo_store RvOk ''r1'' ''d1'' CONTROLLER approved_db = (Inr True, w')"
    by (metis prod.collapse)
  have run: "run_claims (review_step cfo_store) approved_run (empty_table (\<lambda>_. Fl 1)) =
      (fst (run_claims (review_step cfo_store) approved_run (empty_table (\<lambda>_. Fl 1))), approved_db)"
    by (simp add: approved_db_def)
  have "dv_organisation_id cfo_store = ''acme''" by (simp add: cfo_store_def)
  with w review_consumption_is_backed [OF run w] show ?thesis by auto
qed

text \<open>A request that arrives after a freeze is parked and can be approved: a freeze reaches the rows of its time.\<close>

lemma freeze_leaves_new_requests_open:
  "map snd (fst (run_claims (review_step cfo_store)
     [(RvOk, RvFreeze ''incident''), (RvOk, RvPark ''r1'' ''d1'' CONTROLLER),
      (RvOk, RvApprove ''r1'' \<lparr>ap_actor_id = ''cfo'', ap_role = CONTROLLER\<rparr> (Fl 600)),
      (RvOk, RvConsume ''r1'' ''d1'' CONTROLLER)] (empty_table (\<lambda>_. Fl 1)))) =
   [Inr False, Inr False, Inr False, Inr True]"
  by code_simp

section \<open>Simulators\<close>

definition jane :: Contact where
  "jane = \<lparr>ct_contact_id = ''c1'', ct_name = ''Jane'', ct_email = ''j@x'', ct_status = ''ACTIVE'', ct_merged_into = None\<rparr>"


definition steel_order :: request where
  "steel_order = \<lparr>rr_capability = ''procurement.po.create'', rr_request_id = ''r1'', rr_idempotency_key = ''k1'',
     rr_arguments = JObj [(''vendor_id'', JStr ''v1''), (''quote_id'', JStr ''q1''), (''tonnes'', JStr ''20''),
       (''rate_per_tonne'', JStr ''51000.50''), (''payment_terms'', JStr ''NET_30''), (''comparison_digest'', JStr ''d1'')]\<rparr>"

definition steel_cancel :: request where
  "steel_cancel = \<lparr>rr_capability = ''procurement.po.cancel'', rr_request_id = ''r2'', rr_idempotency_key = ''k2'',
     rr_arguments = JObj [(''po_number'', JStr ''PO-2026-0001'')]\<rparr>"

definition steel_steps :: "(string, string \<times> string) target_step list" where
  "steel_steps = [Request ''2026-03-01T09:00:00Z'' steel_order, Request ''2026-03-02T09:00:00Z'' steel_cancel]"

lemma capture_ok:
  assumes "nonblank c" "nonblank r" "nonblank k" "valid_json (JObj d)"
  shows "\<exists>dg. capture_request c r k (JObj d) = Inr (canon_obj d, dg)"
proof -
  have "valid_json (JObj (request_document c r k (canon_obj d)))"
    using assms(4) valid_json_canon [of "JObj d"] by (simp add: request_document_def canon_JObj del: canon.simps)
  then have "canonical_object (JObj (request_document c r k (canon_obj d))) =
      Inr (Doc (JObj (canon_obj (request_document c r k (canon_obj d)))))" unfolding canonical_object_Inr by blast
  moreover have "canonical_object (JObj d) = Inr (Doc (JObj (canon_obj d)))" unfolding canonical_object_Inr
    using assms(4) by blast
  moreover have "sim_required_text x = Inr x" if "nonblank x" for x using that by (simp add: sim_required_text_Inr)
  ultimately show ?thesis using assms(1-3) by (simp add: capture_request_def sim_restore_object_def Let_def)
qed

lemma steel_amounts: "positive_money (JStr ''20'') = Inr 2000" "positive_money (JStr ''51000.50'') = Inr 5100050"
  by (simp_all add: positive_money_def decimal_of_def parse_dec_def split_sign_def split_at_def parse_exp_def
      show_int_def digits.simps nat_of_digits_def digit_val_def is_digit_def money_bound_def Let_def py_strip_def
      py_isspace_def)

lemma steel_texts: "nonblank ''d1''" "nonblank ''q1''" "nonblank ''v1''" "nonblank ''NET_30''" "nonblank ''PO-2026-0001''"
  "pad4 (Suc 0) = ''0001''"
  by code_simp+

lemma steel_arguments:
  "canon_obj [(''vendor_id'', JStr ''v1''), (''quote_id'', JStr ''q1''), (''tonnes'', JStr ''20''),
     (''rate_per_tonne'', JStr ''51000.50''), (''payment_terms'', JStr ''NET_30''), (''comparison_digest'', JStr ''d1'')] =
   [(''comparison_digest'', JStr ''d1''), (''payment_terms'', JStr ''NET_30''), (''quote_id'', JStr ''q1''),
    (''rate_per_tonne'', JStr ''51000.50''), (''tonnes'', JStr ''20''), (''vendor_id'', JStr ''v1'')]"
  "canon_obj [(''po_number'', JStr ''PO-2026-0001'')] = [(''po_number'', JStr ''PO-2026-0001'')]"
  by code_simp+

definition steel :: PurchaseOrder where
  "steel = \<lparr>po_po_number = ''PO-2026-0001'', po_vendor_id = ''v1'', po_quote_id = ''q1'', po_tonnes = 2000,
     po_rate_per_tonne = 5100050, po_payment_terms = ''NET_30'', po_comparison_digest = ''d1'', po_status = ''OPEN'',
     po_created_at = ''2026-03-01T09:00:00Z''\<rparr>"

definition ordered_book :: OrderState where
  "ordered_book = \<lparr>ob_orders = [(''PO-2026-0001'', steel)], ob_shipments = [(''PO-2026-0001'',
     \<lparr>sh_shipment_id = ''shp-PO-2026-0001'', sh_po_number = ''PO-2026-0001'', sh_status = ''PENDING''\<rparr>)]\<rparr>"

definition cancelled_book :: OrderState where
  "cancelled_book = ordered_book\<lparr>ob_orders := [(''PO-2026-0001'', steel\<lparr>po_status := ''CANCELLED''\<rparr>)]\<rparr>"

lemma steel_ordered:
  "snd (order_apply ''2026-03-01T09:00:00Z'' ''procurement.po.create''
     (canon_obj [(''vendor_id'', JStr ''v1''), (''quote_id'', JStr ''q1''), (''tonnes'', JStr ''20''),
       (''rate_per_tonne'', JStr ''51000.50''), (''payment_terms'', JStr ''NET_30''),
       (''comparison_digest'', JStr ''d1'')]) (tt_state order_init)) = ordered_book"
proof -
  have "exact_fields [(''comparison_digest'', JStr ''d1''), (''payment_terms'', JStr ''NET_30''),
      (''quote_id'', JStr ''q1''), (''rate_per_tonne'', JStr ''51000.50''), (''tonnes'', JStr ''20''),
      (''vendor_id'', JStr ''v1'')] [''vendor_id'', ''quote_id'', ''tonnes'', ''rate_per_tonne'', ''payment_terms'',
      ''comparison_digest''] = Inr ()" by code_simp
  then have "create_checks ''2026-03-01T09:00:00Z'' [(''comparison_digest'', JStr ''d1''), (''payment_terms'', JStr ''NET_30''),
      (''quote_id'', JStr ''q1''), (''rate_per_tonne'', JStr ''51000.50''), (''tonnes'', JStr ''20''),
      (''vendor_id'', JStr ''v1'')] (tt_state order_init) = Inr steel"
    by (auto simp: create_checks_def amount_from_def order_money_def steel_amounts jget_def
        sim_text_def steel_texts payment_terms_def order_init_def steel_def)
  then show ?thesis
    by (simp add: steel_arguments order_apply_def create_order_def flagged_def ordered_book_def)
      (simp add: steel_def order_init_def)
qed

lemma steel_cancelled:
  "snd (order_apply ''2026-03-02T09:00:00Z'' ''procurement.po.cancel''
     (canon_obj [(''po_number'', JStr ''PO-2026-0001'')]) ordered_book) = cancelled_book"
proof -
  have "cancel_checks [(''po_number'', JStr ''PO-2026-0001'')] ordered_book = Inr (steel\<lparr>po_status := ''CANCELLED''\<rparr>)"
    by (simp add: cancel_checks_def exact_fields_def jkeys_def jget_def sim_text_def steel_texts order_from_def
        required_order_def ordered_book_def) (simp add: steel_def)
  then show ?thesis
    by (simp add: steel_arguments order_apply_def cancel_order_def store_order_def set_order_def flagged_def
        cancelled_book_def) (simp add: steel_def ordered_book_def)
qed

lemma steel_run: "tt_state (order_run steel_steps order_init) = cancelled_book"
proof -
  let ?t = "snd (submit ''procurement'' order_capabilities (order_apply ''2026-03-01T09:00:00Z'') steel_order order_init)"
  obtain d1 where "capture_request (rr_capability steel_order) (rr_request_id steel_order) (rr_idempotency_key steel_order)
      (rr_arguments steel_order) = Inr (canon_obj [(''vendor_id'', JStr ''v1''), (''quote_id'', JStr ''q1''), (''tonnes'', JStr ''20''),
       (''rate_per_tonne'', JStr ''51000.50''), (''payment_terms'', JStr ''NET_30''), (''comparison_digest'', JStr ''d1'')], d1)"
    unfolding steel_order_def request.simps using capture_ok by fastforce
  then have t: "tt_state ?t = ordered_book"
    by (subst submit_state) (auto simp: steel_order_def order_capabilities_def steel_ordered, simp add: order_init_def)
  have k: "tt_effects ?t ''k2'' = None" by (subst submit_other_key) (simp_all add: steel_order_def order_init_def)
  obtain d2 where "capture_request (rr_capability steel_cancel) (rr_request_id steel_cancel) (rr_idempotency_key steel_cancel)
      (rr_arguments steel_cancel) = Inr (canon_obj [(''po_number'', JStr ''PO-2026-0001'')], d2)"
    unfolding steel_cancel_def request.simps using capture_ok by fastforce
  with k t have "tt_state (snd (submit ''procurement'' order_capabilities (order_apply ''2026-03-02T09:00:00Z'') steel_cancel ?t)) =
      cancelled_book"
    by (subst submit_state) (auto simp: steel_cancel_def order_capabilities_def steel_cancelled)
  then show ?thesis by (simp add: order_run_def steel_steps_def)
qed

theorem orders_are_kept_witness:
  "\<exists>p q. map_of (ob_orders (tt_state (order_run steel_steps order_init))) ''PO-2026-0001'' = Some p \<and>
     po_status p = ''CANCELLED'' \<and>
     map_of (ob_orders (tt_state (order_run steel_steps (order_run steel_steps order_init)))) ''PO-2026-0001'' = Some q \<and> q = p"
proof -
  obtain p where p: "map_of (ob_orders (tt_state (order_run steel_steps order_init))) ''PO-2026-0001'' = Some p"
      "po_status p = ''CANCELLED''"
    by (simp add: steel_run cancelled_book_def)
  from orders_are_kept [OF p(1), of steel_steps] p show ?thesis by auto
qed

end
