(* ===== verification/Knowledge.thy ===== *)
theory Knowledge
  imports Agent_Profile Py_Float "HOL-Library.Product_Lexorder"
begin

text \<open>
  \<^verbatim>\<open>cbrain/knowledge/contracts.py\<close> and \<^verbatim>\<open>knowledge/configuration.py\<close>: the immutable values of the knowledge runtime
  and the checks of their constructors. A constructor stores the stripped text of a field; \<open>..._init\<close> gives the value
  that is stored.
\<close>

abbreviation KnowledgeError :: exn where
  "KnowledgeError \<equiv> External ''KnowledgeError''"

abbreviation KnowledgeUnavailable :: exn where
  "KnowledgeUnavailable \<equiv> External ''KnowledgeUnavailable''"

abbreviation KnowledgeConfigError :: exn where
  "KnowledgeConfigError \<equiv> External ''KnowledgeConfigError''"

definition knowledge_schema_version :: int where
  "knowledge_schema_version = 1"

definition untrusted_source_context :: string where
  "untrusted_source_context = ''UNTRUSTED_SOURCE_CONTEXT''"

definition forbidden_metadata_keys :: "string list" where
  "forbidden_metadata_keys = [''api_key'', ''authorization'', ''connection'', ''credential'', ''credentials'',
     ''database_url'', ''dsn'', ''password'', ''private_key'', ''redis_url'', ''secret'', ''secrets'', ''token'',
     ''url'', ''urls'']"

datatype DistanceMetric = COSINE

section \<open>Checks and digests\<close>

text \<open>
  \<^verbatim>\<open>str.casefold\<close> on the first 256 code points. The micro sign folds to a character beyond them and to no folded
  character within, so that it may stand for its image.
\<close>

definition fold_char :: "char \<Rightarrow> string" where
  "fold_char c = (let n = of_char c :: nat in
     if (65 \<le> n \<and> n \<le> 90) \<or> (192 \<le> n \<and> n \<le> 222 \<and> n \<noteq> 215) then [char_of (n + 32)]
     else if n = 223 then ''ss'' else [c])"

definition py_casefold :: "string \<Rightarrow> string" where
  "py_casefold s = concat (map fold_char s)"

text \<open>\<^verbatim>\<open>text.split()\<close>: the runs of characters that are no blanks. \<open>word\<close> is the run that is being read.\<close>

fun split_blanks :: "string \<Rightarrow> string \<Rightarrow> string list" where
  "split_blanks word [] = (if word = [] then [] else [word])"
| "split_blanks word (c # cs) =
     (if py_isspace c then (if word = [] then split_blanks [] cs else word # split_blanks [] cs)
      else split_blanks (word @ [c]) cs)"

definition py_split :: "string \<Rightarrow> string list" where
  "py_split s = split_blanks [] s"

definition canonical_json :: "jobj \<Rightarrow> string res" where
  "canonical_json payload =
     rbind (ensure (valid_json (JObj payload)) ValueError) (\<lambda>_.
     render_ascii '','' '':'' (\<lambda>_. Inl TypeError) (canon (JObj payload)))"

definition hex_of_text :: "string \<Rightarrow> string" where
  "hex_of_text s = sha256_hexdigest (encode_utf8 s)"

definition hex_of_payload :: "jobj \<Rightarrow> string res" where
  "hex_of_payload payload = rbind (canonical_json payload) (\<lambda>s. Inr (hex_of_text s))"

definition require_text :: "string \<Rightarrow> string res" where
  "require_text s =
     (if \<not> nonblank s then Inl KnowledgeError
      else if CHR 0x00 \<in> set s then Inl KnowledgeError
      else Inr (py_strip s))"

definition require_positive_int :: "int \<Rightarrow> int res" where
  "require_positive_int i = rbind (ensure (1 \<le> i) KnowledgeError) (\<lambda>_. Inr i)"

definition finite_timestamp :: "pyfl \<Rightarrow> pyfl res" where
  "finite_timestamp x = rbind (ensure (fl_finite x) KnowledgeError) (\<lambda>_. Inr x)"

definition finite_positive_ttl :: "pyfl \<Rightarrow> pyfl res" where
  "finite_positive_ttl x = rbind (ensure (fl_finite x \<and> fl_less (Fl 0) x) KnowledgeError) (\<lambda>_. Inr x)"

definition reject_forbidden_metadata :: "string list \<Rightarrow> unit res" where
  "reject_forbidden_metadata keys =
     ensure (list_all (\<lambda>k. py_casefold k \<notin> set forbidden_metadata_keys) keys) KnowledgeError"

definition frozen_text_set :: "string set \<Rightarrow> string set res" where
  "frozen_text_set values =
     rbind (ensure (\<forall>x\<in>values. nonblank x \<and> CHR 0x00 \<notin> set x) KnowledgeError) (\<lambda>_. Inr (py_strip ` values))"

text \<open>A mapping of texts with stripped keys and values; of two keys that strip to the same, the later wins.\<close>

fun clean_texts :: "(string \<times> string) list \<Rightarrow> (string \<times> string) list \<Rightarrow> (string \<times> string) list res" where
  "clean_texts acc [] = Inr acc"
| "clean_texts acc ((k, v) # rest) =
     rbind (require_text v) (\<lambda>v'. rbind (require_text k) (\<lambda>k'. clean_texts (AList.update k' v' acc) rest))"

section \<open>Documents and chunks\<close>

record EmbeddingProfile =
  ep_profile_id :: string
  ep_model_id :: string
  ep_dimension :: int
  ep_distance_metric :: DistanceMetric
  ep_normalization_version :: string

definition embedding_profile_init :: "EmbeddingProfile \<Rightarrow> EmbeddingProfile res" where
  "embedding_profile_init p =
     rbind (require_text (ep_profile_id p)) (\<lambda>profile_id.
     rbind (require_text (ep_model_id p)) (\<lambda>model_id.
     rbind (require_positive_int (ep_dimension p)) (\<lambda>dimension.
     rbind (require_text (ep_normalization_version p)) (\<lambda>version.
     Inr \<lparr>ep_profile_id = profile_id, ep_model_id = model_id, ep_dimension = dimension,
          ep_distance_metric = ep_distance_metric p, ep_normalization_version = version\<rparr>))))"

definition embedding_profile_digest :: "EmbeddingProfile \<Rightarrow> string res" where
  "embedding_profile_digest p = hex_of_payload
     [(''profile_id'', JStr (ep_profile_id p)), (''model_id'', JStr (ep_model_id p)),
      (''dimension'', JInt (ep_dimension p)), (''distance_metric'', JStr ''cosine''),
      (''normalization_version'', JStr (ep_normalization_version p))]"

record SourceDocument =
  sd_tenant_id :: string
  sd_collection_id :: string
  sd_source_id :: string
  sd_media_type :: string
  sd_text :: string
  sd_acl_principals :: "string set"
  sd_created_at :: pyfl
  sd_provenance :: string
  sd_metadata :: "(string \<times> string) list"

definition source_document_init :: "SourceDocument \<Rightarrow> SourceDocument res" where
  "source_document_init d =
     rbind (require_text (sd_tenant_id d)) (\<lambda>tenant_id.
     rbind (require_text (sd_collection_id d)) (\<lambda>collection_id.
     rbind (require_text (sd_source_id d)) (\<lambda>source_id.
     rbind (require_text (sd_media_type d)) (\<lambda>media_type.
     rbind (ensure (media_type \<in> {''text/plain'', ''text/markdown''}) KnowledgeError) (\<lambda>_.
     rbind (ensure (sd_text d \<noteq> [] \<and> CHR 0x00 \<notin> set (sd_text d)) KnowledgeError) (\<lambda>_.
     rbind (frozen_text_set (sd_acl_principals d)) (\<lambda>acl.
     rbind (finite_timestamp (sd_created_at d)) (\<lambda>created_at.
     rbind (require_text (sd_provenance d)) (\<lambda>provenance.
     rbind (reject_forbidden_metadata (map fst (sd_metadata d))) (\<lambda>_.
     rbind (clean_texts [] (sd_metadata d)) (\<lambda>metadata.
     Inr (d\<lparr>sd_tenant_id := tenant_id, sd_collection_id := collection_id, sd_source_id := source_id,
            sd_media_type := media_type, sd_acl_principals := acl, sd_created_at := created_at,
            sd_provenance := provenance, sd_metadata := metadata\<rparr>))))))))))))"

definition document_digest :: "SourceDocument \<Rightarrow> string" where
  "document_digest d = hex_of_text (sd_text d)"

record DocumentRevision =
  dr_tenant_id :: string
  dr_collection_id :: string
  dr_source_id :: string
  dr_source_revision :: int
  dr_content_digest :: string
  dr_provenance :: string
  dr_acl_principals :: "string set"
  dr_created_at :: pyfl
  dr_schema_version :: int
  dr_tombstoned :: bool

definition document_revision_init :: "DocumentRevision \<Rightarrow> DocumentRevision res" where
  "document_revision_init r =
     rbind (require_text (dr_tenant_id r)) (\<lambda>tenant_id.
     rbind (require_text (dr_collection_id r)) (\<lambda>collection_id.
     rbind (require_text (dr_source_id r)) (\<lambda>source_id.
     rbind (require_positive_int (dr_source_revision r)) (\<lambda>revision.
     rbind (require_text (dr_content_digest r)) (\<lambda>digest.
     rbind (require_text (dr_provenance r)) (\<lambda>provenance.
     rbind (frozen_text_set (dr_acl_principals r)) (\<lambda>acl.
     rbind (finite_timestamp (dr_created_at r)) (\<lambda>created_at.
     rbind (require_positive_int (dr_schema_version r)) (\<lambda>version.
     Inr (r\<lparr>dr_tenant_id := tenant_id, dr_collection_id := collection_id, dr_source_id := source_id,
            dr_source_revision := revision, dr_content_digest := digest, dr_provenance := provenance,
            dr_acl_principals := acl, dr_created_at := created_at, dr_schema_version := version\<rparr>))))))))))"

record KnowledgeChunk =
  kc_chunk_id :: string
  kc_tenant_id :: string
  kc_collection_id :: string
  kc_source_id :: string
  kc_source_revision :: int
  kc_chunk_index :: int
  kc_text :: string
  kc_content_digest :: string
  kc_provenance :: string
  kc_acl_principals :: "string set"
  kc_created_at :: pyfl
  kc_schema_version :: int

definition chunk_init :: "KnowledgeChunk \<Rightarrow> KnowledgeChunk res" where
  "chunk_init c =
     rbind (require_text (kc_chunk_id c)) (\<lambda>chunk_id.
     rbind (require_text (kc_tenant_id c)) (\<lambda>tenant_id.
     rbind (require_text (kc_collection_id c)) (\<lambda>collection_id.
     rbind (require_text (kc_source_id c)) (\<lambda>source_id.
     rbind (require_positive_int (kc_source_revision c)) (\<lambda>revision.
     rbind (ensure (0 \<le> kc_chunk_index c) KnowledgeError) (\<lambda>_.
     rbind (ensure (kc_text c \<noteq> []) KnowledgeError) (\<lambda>_.
     rbind (require_text (kc_content_digest c)) (\<lambda>digest.
     rbind (require_text (kc_provenance c)) (\<lambda>provenance.
     rbind (frozen_text_set (kc_acl_principals c)) (\<lambda>acl.
     rbind (finite_timestamp (kc_created_at c)) (\<lambda>created_at.
     rbind (require_positive_int (kc_schema_version c)) (\<lambda>version.
     Inr (c\<lparr>kc_chunk_id := chunk_id, kc_tenant_id := tenant_id, kc_collection_id := collection_id,
            kc_source_id := source_id, kc_source_revision := revision, kc_content_digest := digest,
            kc_provenance := provenance, kc_acl_principals := acl, kc_created_at := created_at,
            kc_schema_version := version\<rparr>)))))))))))))"

section \<open>Queries, citations and hits\<close>

record RetrievalQuery =
  rq_tenant_id :: string
  rq_collection_id :: string
  rq_principal_id :: string
  rq_text :: string
  rq_top_k :: int
  rq_created_at :: pyfl
  rq_policy_version :: string

definition query_init :: "RetrievalQuery \<Rightarrow> RetrievalQuery res" where
  "query_init q =
     rbind (require_text (rq_tenant_id q)) (\<lambda>tenant_id.
     rbind (require_text (rq_collection_id q)) (\<lambda>collection_id.
     rbind (require_text (rq_principal_id q)) (\<lambda>principal_id.
     rbind (require_text (rq_text q)) (\<lambda>text.
     rbind (require_positive_int (rq_top_k q)) (\<lambda>top_k.
     rbind (finite_timestamp (rq_created_at q)) (\<lambda>created_at.
     rbind (require_text (rq_policy_version q)) (\<lambda>policy.
     Inr \<lparr>rq_tenant_id = tenant_id, rq_collection_id = collection_id, rq_principal_id = principal_id,
          rq_text = text, rq_top_k = top_k, rq_created_at = created_at, rq_policy_version = policy\<rparr>)))))))"

definition query_digest :: "RetrievalQuery \<Rightarrow> string res" where
  "query_digest q = hex_of_payload
     [(''tenant_id'', JStr (rq_tenant_id q)), (''collection_id'', JStr (rq_collection_id q)),
      (''principal_id'', JStr (rq_principal_id q)),
      (''text'', JStr (py_casefold (join '' '' (py_split (rq_text q))))), (''top_k'', JInt (rq_top_k q)),
      (''policy_version'', JStr (rq_policy_version q))]"

record Citation =
  ci_tenant_id :: string
  ci_source_id :: string
  ci_source_revision :: int
  ci_content_digest :: string
  ci_provenance :: string
  ci_acl_principals :: "string set"
  ci_created_at :: pyfl
  ci_schema_version :: int
  ci_chunk_id :: string

definition citation_init :: "Citation \<Rightarrow> Citation res" where
  "citation_init c =
     rbind (require_text (ci_tenant_id c)) (\<lambda>tenant_id.
     rbind (require_text (ci_source_id c)) (\<lambda>source_id.
     rbind (require_positive_int (ci_source_revision c)) (\<lambda>revision.
     rbind (require_text (ci_content_digest c)) (\<lambda>digest.
     rbind (require_text (ci_provenance c)) (\<lambda>provenance.
     rbind (frozen_text_set (ci_acl_principals c)) (\<lambda>acl.
     rbind (finite_timestamp (ci_created_at c)) (\<lambda>created_at.
     rbind (require_positive_int (ci_schema_version c)) (\<lambda>version.
     rbind (require_text (ci_chunk_id c)) (\<lambda>chunk_id.
     Inr \<lparr>ci_tenant_id = tenant_id, ci_source_id = source_id, ci_source_revision = revision,
          ci_content_digest = digest, ci_provenance = provenance, ci_acl_principals = acl,
          ci_created_at = created_at, ci_schema_version = version, ci_chunk_id = chunk_id\<rparr>)))))))))"

definition citation_from_chunk :: "KnowledgeChunk \<Rightarrow> Citation res" where
  "citation_from_chunk c = citation_init
     \<lparr>ci_tenant_id = kc_tenant_id c, ci_source_id = kc_source_id c, ci_source_revision = kc_source_revision c,
      ci_content_digest = kc_content_digest c, ci_provenance = kc_provenance c,
      ci_acl_principals = kc_acl_principals c, ci_created_at = kc_created_at c,
      ci_schema_version = kc_schema_version c, ci_chunk_id = kc_chunk_id c\<rparr>"

record RetrievalHit =
  rh_chunk :: KnowledgeChunk
  rh_score :: pyfl
  rh_citation :: Citation
  rh_rank :: int

definition hit_init :: "RetrievalHit \<Rightarrow> RetrievalHit res" where
  "hit_init h =
     rbind (ensure (fl_finite (rh_score h)) KnowledgeError) (\<lambda>_.
     rbind (require_positive_int (rh_rank h)) (\<lambda>_.
     rbind (ensure (\<not> (ci_chunk_id (rh_citation h) \<noteq> kc_chunk_id (rh_chunk h) \<or>
              ci_content_digest (rh_citation h) \<noteq> kc_content_digest (rh_chunk h) \<or>
              ci_source_id (rh_citation h) \<noteq> kc_source_id (rh_chunk h) \<or>
              ci_tenant_id (rh_citation h) \<noteq> kc_tenant_id (rh_chunk h))) KnowledgeError) (\<lambda>_.
     Inr h)))"

text \<open>The latencies of the stages are left out of the diagnostics.\<close>

record RetrievalDiagnostics =
  dg_vector_candidate_count :: int
  dg_keyword_candidate_count :: int
  dg_graph_expanded_count :: int
  dg_cache_hit :: bool
  dg_final_hit_count :: int
  dg_truncated :: bool

definition diagnostics_init :: "RetrievalDiagnostics \<Rightarrow> RetrievalDiagnostics res" where
  "diagnostics_init d =
     rbind (ensure (0 \<le> dg_vector_candidate_count d \<and> 0 \<le> dg_keyword_candidate_count d \<and>
              0 \<le> dg_graph_expanded_count d \<and> 0 \<le> dg_final_hit_count d) KnowledgeError) (\<lambda>_. Inr d)"

record RetrievedContext =
  rx_trust :: string
  rx_query_digest :: string
  rx_hits :: "RetrievalHit list"
  rx_diagnostics :: RetrievalDiagnostics
  rx_quoted_evidence :: string

definition context_init :: "RetrievedContext \<Rightarrow> RetrievedContext res" where
  "context_init c =
     rbind (ensure (rx_trust c = untrusted_source_context) KnowledgeError) (\<lambda>_.
     rbind (require_text (rx_query_digest c)) (\<lambda>digest. Inr (c\<lparr>rx_query_digest := digest\<rparr>)))"

section \<open>The graph\<close>

record GraphNode =
  gn_node_id :: string
  gn_tenant_id :: string
  gn_canonical_type :: string
  gn_canonical_name :: string
  gn_attributes :: "(string \<times> string) list"
  gn_provenance_chunk_ids :: "string list"
  gn_confidence :: pyfl
  gn_valid_from :: pyfl
  gn_valid_to :: "pyfl option"
  gn_source_revision :: int
  gn_source_id :: string
  gn_schema_version :: int
  gn_merge_score :: "pyfl option"
  gn_merge_reason :: "string option"

definition unit_interval :: "pyfl \<Rightarrow> bool" where
  "unit_interval x = (fl_ge x (Fl 0) \<and> fl_ge (Fl 1) x)"

definition optional_timestamp :: "pyfl option \<Rightarrow> pyfl option res" where
  "optional_timestamp x = (case x of None \<Rightarrow> Inr None | Some t \<Rightarrow> rbind (finite_timestamp t) (\<lambda>t'. Inr (Some t')))"

definition node_init :: "GraphNode \<Rightarrow> GraphNode res" where
  "node_init n =
     rbind (require_text (gn_node_id n)) (\<lambda>node_id.
     rbind (require_text (gn_tenant_id n)) (\<lambda>tenant_id.
     rbind (require_text (gn_canonical_type n)) (\<lambda>ctype.
     rbind (require_text (gn_canonical_name n)) (\<lambda>cname.
     rbind (ensure (gn_provenance_chunk_ids n \<noteq> []) KnowledgeError) (\<lambda>_.
     rbind (rmapM require_text (gn_provenance_chunk_ids n)) (\<lambda>provenance.
     rbind (require_text (gn_source_id n)) (\<lambda>source_id.
     rbind (require_positive_int (gn_source_revision n)) (\<lambda>revision.
     rbind (ensure (unit_interval (gn_confidence n)) KnowledgeError) (\<lambda>_.
     rbind (finite_timestamp (gn_valid_from n)) (\<lambda>valid_from.
     rbind (optional_timestamp (gn_valid_to n)) (\<lambda>valid_to.
     rbind (require_positive_int (gn_schema_version n)) (\<lambda>version.
     rbind (reject_forbidden_metadata (map fst (gn_attributes n))) (\<lambda>_.
     rbind (clean_texts [] (gn_attributes n)) (\<lambda>attributes.
     Inr (n\<lparr>gn_node_id := node_id, gn_tenant_id := tenant_id, gn_canonical_type := ctype,
            gn_canonical_name := cname, gn_provenance_chunk_ids := provenance, gn_source_id := source_id,
            gn_source_revision := revision, gn_valid_from := valid_from, gn_valid_to := valid_to,
            gn_schema_version := version, gn_attributes := attributes\<rparr>)))))))))))))))"

record GraphEdge =
  ge_edge_id :: string
  ge_tenant_id :: string
  ge_source_node_id :: string
  ge_relation_type :: string
  ge_target_node_id :: string
  ge_provenance_chunk_ids :: "string list"
  ge_confidence :: pyfl
  ge_valid_from :: pyfl
  ge_valid_to :: "pyfl option"
  ge_source_revision :: int
  ge_source_id :: string
  ge_schema_version :: int

definition edge_init :: "GraphEdge \<Rightarrow> GraphEdge res" where
  "edge_init e =
     rbind (require_text (ge_edge_id e)) (\<lambda>edge_id.
     rbind (require_text (ge_tenant_id e)) (\<lambda>tenant_id.
     rbind (require_text (ge_source_node_id e)) (\<lambda>source_node.
     rbind (require_text (ge_relation_type e)) (\<lambda>relation.
     rbind (require_text (ge_target_node_id e)) (\<lambda>target_node.
     rbind (ensure (ge_provenance_chunk_ids e \<noteq> []) KnowledgeError) (\<lambda>_.
     rbind (rmapM require_text (ge_provenance_chunk_ids e)) (\<lambda>provenance.
     rbind (require_text (ge_source_id e)) (\<lambda>source_id.
     rbind (require_positive_int (ge_source_revision e)) (\<lambda>revision.
     rbind (ensure (unit_interval (ge_confidence e)) KnowledgeError) (\<lambda>_.
     rbind (finite_timestamp (ge_valid_from e)) (\<lambda>valid_from.
     rbind (optional_timestamp (ge_valid_to e)) (\<lambda>valid_to.
     rbind (require_positive_int (ge_schema_version e)) (\<lambda>version.
     Inr (e\<lparr>ge_edge_id := edge_id, ge_tenant_id := tenant_id, ge_source_node_id := source_node,
            ge_relation_type := relation, ge_target_node_id := target_node,
            ge_provenance_chunk_ids := provenance, ge_source_id := source_id, ge_source_revision := revision,
            ge_valid_from := valid_from, ge_valid_to := valid_to, ge_schema_version := version\<rparr>))))))))))))))"

record GraphPath =
  gp_nodes :: "GraphNode list"
  gp_edges :: "GraphEdge list"
  gp_citations :: "Citation list"

definition path_init :: "GraphPath \<Rightarrow> GraphPath res" where
  "path_init p = rbind (ensure (gp_nodes p \<noteq> [] \<and> gp_citations p \<noteq> []) KnowledgeError) (\<lambda>_. Inr p)"

section \<open>Cache keys and results\<close>

record CacheKey =
  ck_schema_version :: int
  ck_tenant_id :: string
  ck_principal_acl_digest :: string
  ck_collection_id :: string
  ck_collection_revision :: int
  ck_query_digest :: string
  ck_embedding_profile_digest :: string
  ck_retrieval_config_digest :: string
  ck_policy_version :: string
  ck_top_k :: int

definition cache_key_init :: "CacheKey \<Rightarrow> CacheKey res" where
  "cache_key_init k =
     rbind (require_positive_int (ck_schema_version k)) (\<lambda>schema.
     rbind (require_text (ck_tenant_id k)) (\<lambda>tenant_id.
     rbind (require_text (ck_principal_acl_digest k)) (\<lambda>acl.
     rbind (require_text (ck_collection_id k)) (\<lambda>collection_id.
     rbind (ensure (0 \<le> ck_collection_revision k) KnowledgeError) (\<lambda>_.
     rbind (require_text (ck_query_digest k)) (\<lambda>query.
     rbind (require_text (ck_embedding_profile_digest k)) (\<lambda>profile.
     rbind (require_text (ck_retrieval_config_digest k)) (\<lambda>config.
     rbind (require_text (ck_policy_version k)) (\<lambda>policy.
     rbind (require_positive_int (ck_top_k k)) (\<lambda>top_k.
     Inr \<lparr>ck_schema_version = schema, ck_tenant_id = tenant_id, ck_principal_acl_digest = acl,
          ck_collection_id = collection_id, ck_collection_revision = ck_collection_revision k,
          ck_query_digest = query, ck_embedding_profile_digest = profile,
          ck_retrieval_config_digest = config, ck_policy_version = policy, ck_top_k = top_k\<rparr>))))))))))"

definition cache_key_encoded :: "CacheKey \<Rightarrow> string res" where
  "cache_key_encoded k = hex_of_payload
     [(''schema_version'', JInt (ck_schema_version k)), (''tenant_id'', JStr (ck_tenant_id k)),
      (''principal_acl_digest'', JStr (ck_principal_acl_digest k)),
      (''collection_id'', JStr (ck_collection_id k)), (''collection_revision'', JInt (ck_collection_revision k)),
      (''query_digest'', JStr (ck_query_digest k)),
      (''embedding_profile_digest'', JStr (ck_embedding_profile_digest k)),
      (''retrieval_config_digest'', JStr (ck_retrieval_config_digest k)),
      (''policy_version'', JStr (ck_policy_version k)), (''top_k'', JInt (ck_top_k k))]"

record IngestionResult =
  ir_tenant_id :: string
  ir_collection_id :: string
  ir_source_id :: string
  ir_source_revision :: int
  ir_collection_revision :: int
  ir_chunk_ids :: "string list"
  ir_content_digest :: string
  ir_idempotent :: bool
  ir_published :: bool

definition ingestion_result_init :: "IngestionResult \<Rightarrow> IngestionResult res" where
  "ingestion_result_init r =
     rbind (require_text (ir_tenant_id r)) (\<lambda>tenant_id.
     rbind (require_text (ir_collection_id r)) (\<lambda>collection_id.
     rbind (require_text (ir_source_id r)) (\<lambda>source_id.
     rbind (require_positive_int (ir_source_revision r)) (\<lambda>revision.
     rbind (ensure (0 \<le> ir_collection_revision r) KnowledgeError) (\<lambda>_.
     rbind (require_text (ir_content_digest r)) (\<lambda>digest.
     Inr (r\<lparr>ir_tenant_id := tenant_id, ir_collection_id := collection_id, ir_source_id := source_id,
            ir_source_revision := revision, ir_content_digest := digest\<rparr>)))))))"

section \<open>Configuration\<close>

record KnowledgeConfig =
  kg_postgres_dsn :: "string option"
  kg_redis_dsn :: "string option"
  kg_cache_ttl_seconds :: pyfl
  kg_max_document_bytes :: int
  kg_chunk_size :: int
  kg_chunk_overlap :: int
  kg_top_k :: int
  kg_vector_candidate_count :: int
  kg_keyword_candidate_count :: int
  kg_graph_max_depth :: int
  kg_graph_max_nodes :: int
  kg_retrieval_timeout_seconds :: pyfl
  kg_embedding_profile :: EmbeddingProfile
  kg_max_context_chunks :: int
  kg_max_context_bytes :: int
  kg_max_context_tokens :: int
  kg_policy_version :: string

definition optional_dsn :: "string option \<Rightarrow> string option res" where
  "optional_dsn v = (case v of
       None \<Rightarrow> Inr None
     | Some s \<Rightarrow> if s = [] then Inr None else rbind (require_text s) (\<lambda>t. Inr (Some t)))"

definition config_init :: "KnowledgeConfig \<Rightarrow> KnowledgeConfig res" where
  "config_init g =
     rbind (optional_dsn (kg_postgres_dsn g)) (\<lambda>postgres.
     rbind (optional_dsn (kg_redis_dsn g)) (\<lambda>redis.
     rescue KnowledgeConfigError (
     rbind (finite_positive_ttl (kg_cache_ttl_seconds g)) (\<lambda>ttl.
     rbind (require_positive_int (kg_max_document_bytes g)) (\<lambda>_.
     rbind (require_positive_int (kg_chunk_size g)) (\<lambda>_.
     rbind (ensure (0 \<le> kg_chunk_overlap g \<and> kg_chunk_overlap g < kg_chunk_size g) KnowledgeConfigError) (\<lambda>_.
     rbind (require_positive_int (kg_top_k g)) (\<lambda>_.
     rbind (require_positive_int (kg_vector_candidate_count g)) (\<lambda>_.
     rbind (require_positive_int (kg_keyword_candidate_count g)) (\<lambda>_.
     rbind (require_positive_int (kg_graph_max_depth g)) (\<lambda>_.
     rbind (require_positive_int (kg_graph_max_nodes g)) (\<lambda>_.
     rbind (finite_positive_ttl (kg_retrieval_timeout_seconds g)) (\<lambda>_.
     rbind (require_positive_int (kg_max_context_chunks g)) (\<lambda>_.
     rbind (require_positive_int (kg_max_context_bytes g)) (\<lambda>_.
     rbind (require_positive_int (kg_max_context_tokens g)) (\<lambda>_.
     rbind (require_text (kg_policy_version g)) (\<lambda>policy.
     Inr (g\<lparr>kg_postgres_dsn := postgres, kg_redis_dsn := redis, kg_policy_version := policy\<rparr>))))))))))))))))))"

definition retrieval_digest :: "KnowledgeConfig \<Rightarrow> string res" where
  "retrieval_digest g = hex_of_payload
     [(''top_k'', JInt (kg_top_k g)), (''vector_candidate_count'', JInt (kg_vector_candidate_count g)),
      (''keyword_candidate_count'', JInt (kg_keyword_candidate_count g)),
      (''graph_max_depth'', JInt (kg_graph_max_depth g)), (''graph_max_nodes'', JInt (kg_graph_max_nodes g)),
      (''max_context_chunks'', JInt (kg_max_context_chunks g)),
      (''max_context_bytes'', JInt (kg_max_context_bytes g)),
      (''max_context_tokens'', JInt (kg_max_context_tokens g)), (''policy_version'', JStr (kg_policy_version g))]"

definition default_knowledge_config :: KnowledgeConfig where
  "default_knowledge_config =
     \<lparr>kg_postgres_dsn = None, kg_redis_dsn = None, kg_cache_ttl_seconds = Fl 30, kg_max_document_bytes = 65536,
      kg_chunk_size = 160, kg_chunk_overlap = 32, kg_top_k = 4, kg_vector_candidate_count = 8,
      kg_keyword_candidate_count = 8, kg_graph_max_depth = 2, kg_graph_max_nodes = 16,
      kg_retrieval_timeout_seconds = Fl 2,
      kg_embedding_profile = \<lparr>ep_profile_id = ''deterministic-8'', ep_model_id = ''cbrain-deterministic'',
        ep_dimension = 8, ep_distance_metric = COSINE, ep_normalization_version = ''v1''\<rparr>,
      kg_max_context_chunks = 4, kg_max_context_bytes = 4096, kg_max_context_tokens = 512,
      kg_policy_version = ''v1''\<rparr>"

end
