(* ===== verification/Knowledge_Chunks.thy ===== *)
theory Knowledge_Chunks
  imports Knowledge
begin

text \<open>
  \<^verbatim>\<open>cbrain/knowledge/chunking.py\<close>, \<^verbatim>\<open>knowledge/fusion.py\<close> and \<^verbatim>\<open>knowledge/graph.py\<close>: the pure algorithms of the
  knowledge runtime. The loop that cuts a text is a partial function: \<open>None\<close> is a loop that does not end.
\<close>

section \<open>Chunking\<close>

definition normalize_text :: "string \<Rightarrow> string" where
  "normalize_text text = join '' '' (py_split text)"

definition text_digest :: "string \<Rightarrow> string" where
  "text_digest text = hex_of_text (normalize_text text)"

definition chunk_id_for :: "string \<Rightarrow> string \<Rightarrow> string \<Rightarrow> int \<Rightarrow> int \<Rightarrow> string \<Rightarrow> string res" where
  "chunk_id_for tenant_id collection_id source_id source_revision chunk_index normalized_text = hex_of_payload
     [(''tenant_id'', JStr tenant_id), (''collection_id'', JStr collection_id), (''source_id'', JStr source_id),
      (''source_revision'', JInt source_revision), (''chunk_index'', JInt chunk_index),
      (''normalized_text_digest'', JStr (text_digest normalized_text))]"

partial_function (option) chunk_loop :: "nat \<Rightarrow> nat \<Rightarrow> string \<Rightarrow> nat \<Rightarrow> string list \<Rightarrow> string list option" where
  "chunk_loop sz overlap text start parts =
     (if start < length text
      then let stop = min (length text) (start + sz);
               parts' = parts @ [take (stop - start) (drop start text)] in
           if length text \<le> stop then Some parts'
           else chunk_loop sz overlap text (stop - overlap) parts'
      else Some parts)"

declare chunk_loop.simps [code]

definition split_chunks :: "string \<Rightarrow> int \<Rightarrow> int \<Rightarrow> string list res option" where
  "split_chunks text sz overlap =
     (let normalized = normalize_text text in
      if isl (require_positive_int sz) then Some (Inl KnowledgeError)
      else if normalized = [] then Some (Inl KnowledgeError)
      else if overlap < 0 \<or> sz \<le> overlap then Some (Inl KnowledgeError)
      else if int (length normalized) \<le> sz then Some (Inr [normalized])
      else map_option Inr (chunk_loop (nat sz) (nat overlap) normalized 0 []))"

text \<open>The chunks of a document; a loop that does not end would be the exception that no code catches.\<close>

abbreviation NoReturn :: exn where
  "NoReturn \<equiv> External ''no return''"

definition document_chunk :: "SourceDocument \<Rightarrow> int \<Rightarrow> pyfl \<Rightarrow> int \<Rightarrow> string \<Rightarrow> KnowledgeChunk res" where
  "document_chunk document source_revision created_at index text =
     rbind (chunk_id_for (sd_tenant_id document) (sd_collection_id document) (sd_source_id document)
              source_revision index text) (\<lambda>chunk_id.
     chunk_init \<lparr>kc_chunk_id = chunk_id, kc_tenant_id = sd_tenant_id document,
       kc_collection_id = sd_collection_id document, kc_source_id = sd_source_id document,
       kc_source_revision = source_revision, kc_chunk_index = index, kc_text = text,
       kc_content_digest = text_digest text, kc_provenance = sd_provenance document,
       kc_acl_principals = sd_acl_principals document, kc_created_at = created_at,
       kc_schema_version = knowledge_schema_version\<rparr>)"

definition build_chunks :: "SourceDocument \<Rightarrow> int \<Rightarrow> KnowledgeConfig \<Rightarrow> pyfl \<Rightarrow> KnowledgeChunk list res" where
  "build_chunks document source_revision config created_at =
     rbind (case split_chunks (sd_text document) (kg_chunk_size config) (kg_chunk_overlap config) of
         None \<Rightarrow> Inl NoReturn | Some r \<Rightarrow> r) (\<lambda>texts.
     rmapM (\<lambda>(index, text). document_chunk document source_revision created_at (int index) text)
       (enumerate 0 texts))"

definition authorized :: "KnowledgeChunk \<Rightarrow> string \<Rightarrow> bool" where
  "authorized chunk principal_id = (principal_id \<in> kc_acl_principals chunk \<or> ''*'' \<in> kc_acl_principals chunk)"

text \<open>\<open>select_diverse\<close>: first one chunk per source, then the rest in order. The flag says that the limit was reached.\<close>

fun one_per_source ::
  "int \<Rightarrow> KnowledgeChunk list \<Rightarrow> string list \<Rightarrow> KnowledgeChunk list \<Rightarrow> KnowledgeChunk list \<times> bool" where
  "one_per_source limit chosen seen [] = (chosen, False)"
| "one_per_source limit chosen seen (c # cs) =
     (if kc_source_id c \<in> set seen \<and> int (length chosen) < limit then one_per_source limit chosen seen cs
      else let chosen' = chosen @ [c] in
        if limit \<le> int (length chosen') then (chosen', True)
        else one_per_source limit chosen' (kc_source_id c # seen) cs)"

fun fill_up :: "int \<Rightarrow> KnowledgeChunk list \<Rightarrow> KnowledgeChunk list \<Rightarrow> KnowledgeChunk list" where
  "fill_up limit chosen [] = chosen"
| "fill_up limit chosen (c # cs) =
     (if c \<in> set chosen then fill_up limit chosen cs
      else let chosen' = chosen @ [c] in
        if limit \<le> int (length chosen') then chosen' else fill_up limit chosen' cs)"

definition select_diverse :: "KnowledgeChunk list \<Rightarrow> int \<Rightarrow> KnowledgeChunk list" where
  "select_diverse chunks limit =
     (case one_per_source limit [] [] chunks of
        (chosen, full) \<Rightarrow> if full then chosen else fill_up limit chosen chunks)"

section \<open>Fusion\<close>

text \<open>The rounded float operations the runtime uses: sum, quotient of one and an integer, square root, \<^verbatim>\<open>sum\<close>.\<close>

record float_ops =
  fo_add :: "rat \<Rightarrow> rat \<Rightarrow> pyfl"
  fo_mul :: "pyfl \<Rightarrow> pyfl \<Rightarrow> pyfl"
  fo_div :: "pyfl \<Rightarrow> pyfl \<Rightarrow> pyfl"
  fo_sqrt :: "pyfl \<Rightarrow> pyfl"
  fo_sum :: "pyfl list \<Rightarrow> pyfl"

definition add_score :: "float_ops \<Rightarrow> string \<Rightarrow> pyfl \<Rightarrow> (string \<times> pyfl) list \<Rightarrow> (string \<times> pyfl) list" where
  "add_score ops key value scores =
     AList.update key (fl_add (fo_add ops) (case map_of scores key of Some s \<Rightarrow> s | None \<Rightarrow> Fl 0) value) scores"

definition by_score :: "(string \<times> pyfl) list \<Rightarrow> (string \<times> pyfl) list" where
  "by_score scores = sort_key (\<lambda>item. (fl_neg (snd item), fst item)) scores"

definition reciprocal_rank_fusion :: "float_ops \<Rightarrow> int \<Rightarrow> string list list \<Rightarrow> (string \<times> pyfl) list" where
  "reciprocal_rank_fusion ops k ranked_lists =
     by_score (fold (\<lambda>ranked scores.
         fold (\<lambda>(rank, item). add_score ops item (fo_div ops (Fl 1) (Fl (of_int (k + int rank)))))
           (enumerate 1 ranked) scores) ranked_lists [])"

definition merge_score_maps :: "float_ops \<Rightarrow> (string \<times> pyfl) list list \<Rightarrow> (string \<times> pyfl) list" where
  "merge_score_maps ops maps = fold (\<lambda>m merged. fold (\<lambda>(k, v). add_score ops k v) m merged) maps []"

definition rrf_k :: int where
  "rrf_k = 60"

section \<open>The graph\<close>

definition require_provenance :: "string list \<Rightarrow> unit res" where
  "require_provenance provenance_chunk_ids = ensure (provenance_chunk_ids \<noteq> []) KnowledgeError"

definition same_attributes :: "(string \<times> string) list \<Rightarrow> (string \<times> string) list \<Rightarrow> bool" where
  "same_attributes a b = (set (map fst a) = set (map fst b) \<and> list_all (\<lambda>kv. map_of b (fst kv) = map_of a (fst kv)) a)"

text \<open>The merge score is the decimal of the literal.\<close>

fun resolve_entities :: "GraphNode list \<Rightarrow> GraphNode \<Rightarrow> GraphNode \<times> rat \<times> string" where
  "resolve_entities [] candidate = (candidate, 0, ''no-match'')"
| "resolve_entities (node # rest) candidate =
     (if gn_tenant_id node \<noteq> gn_tenant_id candidate then resolve_entities rest candidate
      else if gn_canonical_type node \<noteq> gn_canonical_type candidate then resolve_entities rest candidate
      else if gn_canonical_name node \<noteq> gn_canonical_name candidate then resolve_entities rest candidate
      else if \<not> same_attributes (gn_attributes node) (gn_attributes candidate)
      then (candidate, 4 / 10, ''same-name-conflicting-attributes'')
      else if gn_source_id node \<noteq> gn_source_id candidate
      then (candidate, 7 / 10, ''compatible-name-different-source'')
      else (node, 1, ''exact-source-identity''))"

type_synonym walk_entry = "string \<times> int \<times> GraphNode list \<times> GraphEdge list"

text \<open>The entries that the edges of a node push, once the node is visited.\<close>

definition push_edges ::
  "(string \<rightharpoonup> GraphNode) \<Rightarrow> GraphEdge list \<Rightarrow> int \<Rightarrow> string list \<Rightarrow> walk_entry \<Rightarrow> walk_entry list" where
  "push_edges visible outgoing max_nodes visited entry = (case entry of (node_id, depth, nodes, edges) \<Rightarrow>
     if max_nodes \<le> int (length visited) then []
     else List.map_filter (\<lambda>e.
       if ge_target_node_id e \<in> set visited then None
       else map_option (\<lambda>target. (ge_target_node_id e, depth + 1, nodes @ [target], edges @ [e]))
              (visible (ge_target_node_id e)))
       (sort_key ge_edge_id outgoing))"

function walk_from ::
  "(string \<rightharpoonup> GraphNode) \<Rightarrow> (string \<Rightarrow> GraphEdge list) \<Rightarrow> int \<Rightarrow> int \<Rightarrow> (GraphNode list \<Rightarrow> Citation list res) \<Rightarrow>
   string list \<Rightarrow> walk_entry list \<Rightarrow> GraphPath list res" where
  "walk_from visible adjacency max_depth max_nodes citations_for visited [] = Inr []"
| "walk_from visible adjacency max_depth max_nodes citations_for visited (entry # rest) =
     (case entry of (node_id, depth, nodes, edges) \<Rightarrow>
      if \<not> int (length visited) < max_nodes then Inr []
      else if node_id \<in> set visited
      then walk_from visible adjacency max_depth max_nodes citations_for visited rest
      else
        rbind (citations_for nodes) (\<lambda>citations.
        rbind (if citations = [] then Inr []
               else rbind (path_init \<lparr>gp_nodes = nodes, gp_edges = edges, gp_citations = citations\<rparr>) (\<lambda>p. Inr [p]))
          (\<lambda>found.
        rbind (walk_from visible adjacency max_depth max_nodes citations_for (node_id # visited)
                 (if max_depth \<le> depth then rest
                  else rest @ push_edges visible (adjacency node_id) max_nodes (node_id # visited) entry))
          (\<lambda>paths. Inr (found @ paths)))))"
  by pat_completeness auto

termination
  by (relation "measures [\<lambda>(_, _, _, max_nodes, _, visited, _). nat (max_nodes - int (length visited)),
        \<lambda>(_, _, _, _, _, _, stack). length stack]") auto

fun bounded_walk ::
  "(string \<rightharpoonup> GraphNode) \<Rightarrow> (string \<Rightarrow> GraphEdge list) \<Rightarrow> string list \<Rightarrow> int \<Rightarrow> int \<Rightarrow>
   (GraphNode list \<Rightarrow> Citation list res) \<Rightarrow> GraphPath list res" where
  "bounded_walk visible adjacency [] max_depth max_nodes citations_for = Inr []"
| "bounded_walk visible adjacency (seed # seeds) max_depth max_nodes citations_for =
     rbind (case visible seed of
         None \<Rightarrow> Inr []
       | Some node \<Rightarrow> walk_from visible adjacency max_depth max_nodes citations_for [] [(seed, 0, [node], [])])
       (\<lambda>paths.
     rbind (bounded_walk visible adjacency seeds max_depth max_nodes citations_for) (\<lambda>more. Inr (paths @ more)))"

section \<open>Cutting a text\<close>

text \<open>The text that overlapping parts were cut from.\<close>

fun rebuild :: "nat \<Rightarrow> string list \<Rightarrow> string" where
  "rebuild overlap [] = []"
| "rebuild overlap (p # ps) = p @ concat (map (drop overlap) ps)"

lemma rebuild_tail: "qs \<noteq> [] \<Longrightarrow> ov \<le> length (hd qs) \<Longrightarrow> concat (map (drop ov) qs) = drop ov (rebuild ov qs)"
  by (cases qs) auto

lemma chunk_loop_cuts:
  assumes "ov < sz" and "start < length text"
  shows "\<exists>qs. chunk_loop sz ov text start parts = Some (parts @ qs) \<and> qs \<noteq> [] \<and>
    length (hd qs) = min sz (length text - start) \<and> rebuild ov qs = drop start text \<and>
    (\<forall>q\<in>set qs. q \<noteq> [] \<and> length q \<le> sz)"
  using assms(2)
proof (induction "length text - start" arbitrary: start parts rule: less_induct)
  case less
  let ?p = "take (min (length text) (start + sz) - start) (drop start text)"
  show ?case
  proof (cases "length text \<le> start + sz")
    case True
    with less.prems have "chunk_loop sz ov text start parts = Some (parts @ [?p])"
      by (subst chunk_loop.simps) (simp add: Let_def)
    moreover have "?p = drop start text" using True by simp
    ultimately show ?thesis using less.prems True assms(1)
      by (intro exI [of _ "[?p]"]) (auto simp: min_def)
  next
    case False
    let ?s = "start + sz - ov"
    have s: "start < ?s" "?s < length text" using False assms(1) by auto
    then have "length text - ?s < length text - start" by arith
    from less.hyps [OF this s(2), of "parts @ [?p]"] obtain qs where
      q: "chunk_loop sz ov text ?s (parts @ [?p]) = Some ((parts @ [?p]) @ qs)" "qs \<noteq> []"
        "length (hd qs) = min sz (length text - ?s)" "rebuild ov qs = drop ?s text"
        "\<forall>q\<in>set qs. q \<noteq> [] \<and> length q \<le> sz" by blast
    have p: "?p = take sz (drop start text)" using False by simp
    have "chunk_loop sz ov text start parts = Some (parts @ ?p # qs)"
      using less.prems False q(1) by (subst chunk_loop.simps) (simp add: Let_def min_def)
    moreover have "rebuild ov (?p # qs) = drop start text"
    proof -
      have "ov \<le> length (hd qs)" using q(3) assms(1) False by simp
      from rebuild_tail [OF q(2) this] have "concat (map (drop ov) qs) = drop (start + sz) text"
        using q(4) assms(1) by (simp add: add.commute)
      moreover have "take sz (drop start text) @ drop (start + sz) text = drop start text"
        by (metis add.commute append_take_drop_id drop_drop)
      ultimately show ?thesis unfolding p by simp
    qed
    moreover have "?p \<noteq> []" "length ?p = min sz (length text - start)" using less.prems assms(1) False by auto
    ultimately show ?thesis using q(5) by (intro exI [of _ "?p # qs"]) auto
  qed
qed

lemma split_blanks_words: "w \<in> set (split_blanks word cs) \<Longrightarrow> w \<noteq> []"
  by (induction word cs rule: split_blanks.induct) (auto split: if_splits)

lemma split_blanks_empty: "split_blanks word cs = [] \<longleftrightarrow> word = [] \<and> list_all py_isspace cs"
  by (induction word cs rule: split_blanks.induct) auto

lemma join_empty: "\<forall>w\<in>set ws. w \<noteq> [] \<Longrightarrow> join sep ws = [] \<longleftrightarrow> ws = []"
  by (induction sep ws rule: join.induct) auto

lemma normalize_empty: "normalize_text text = [] \<longleftrightarrow> \<not> nonblank text"
proof -
  have "\<forall>w\<in>set (py_split text). w \<noteq> []" using split_blanks_words by (auto simp: py_split_def)
  from join_empty [OF this, of "'' ''"] show ?thesis
    by (auto simp: normalize_text_def py_split_def split_blanks_empty nonblank_def list_all_iff list_ex_iff)
qed

section \<open>Selecting chunks\<close>

lemma one_per_source_subset:
  "set (fst (one_per_source limit chosen seen cs)) \<subseteq> set chosen \<union> set cs"
  by (induction limit chosen seen cs rule: one_per_source.induct) (auto simp: Let_def)

lemma fill_up_subset: "set (fill_up limit chosen cs) \<subseteq> set chosen \<union> set cs"
  by (induction limit chosen cs rule: fill_up.induct) (auto simp: Let_def)

lemma select_diverse_subset: "set (select_diverse cs limit) \<subseteq> set cs"
  using one_per_source_subset [of limit "[]" "[]" cs] fill_up_subset [of limit "fst (one_per_source limit [] [] cs)" cs]
  by (cases "one_per_source limit [] [] cs") (auto simp: select_diverse_def)

section \<open>Walking the graph\<close>

text \<open>What the walk keeps of an entry: it is a path through visible nodes, no longer than its depth says.\<close>

definition entry_ok :: "(string \<rightharpoonup> GraphNode) \<Rightarrow> int \<Rightarrow> walk_entry \<Rightarrow> bool" where
  "entry_ok visible max_depth entry = (case entry of (node_id, depth, nodes, edges) \<Rightarrow>
     int (length edges) = depth \<and> length nodes = Suc (length edges) \<and> (depth = 0 \<or> depth \<le> max_depth) \<and>
     set nodes \<subseteq> ran visible)"

definition path_ok :: "(string \<rightharpoonup> GraphNode) \<Rightarrow> int \<Rightarrow> GraphPath \<Rightarrow> bool" where
  "path_ok visible max_depth p = (gp_citations p \<noteq> [] \<and> length (gp_nodes p) = Suc (length (gp_edges p)) \<and>
     (gp_edges p = [] \<or> int (length (gp_edges p)) \<le> max_depth) \<and> set (gp_nodes p) \<subseteq> ran visible)"

lemma push_edges_ok:
  assumes "entry_ok visible max_depth (node_id, depth, nodes, edges)" and "depth < max_depth"
    and "x \<in> set (push_edges visible outgoing max_nodes visited (node_id, depth, nodes, edges))"
  shows "entry_ok visible max_depth x"
  using assms
  by (auto simp: push_edges_def entry_ok_def List.map_filter_def ran_def split: if_splits)

lemma walk_from_ok:
  assumes "walk_from visible adjacency max_depth max_nodes cites visited stack = Inr paths"
    and "\<forall>x\<in>set stack. entry_ok visible max_depth x" and "int (length visited) \<le> max_nodes"
  shows "(\<forall>p\<in>set paths. path_ok visible max_depth p) \<and> int (length visited + length paths) \<le> max_nodes"
  using assms
proof (induction visible adjacency max_depth max_nodes cites visited stack arbitrary: paths rule: walk_from.induct)
  case (2 visible adjacency max_depth max_nodes cites visited entry rest)
  obtain node_id depth nodes edges where entry: "entry = (node_id, depth, nodes, edges)" by (cases entry)
  consider "\<not> int (length visited) < max_nodes" | "int (length visited) < max_nodes" "node_id \<in> set visited"
    | "int (length visited) < max_nodes" "node_id \<notin> set visited" by blast
  then show ?case
  proof cases
    case 1
    with 2 entry show ?thesis by auto
  next
    case 2
    with "2.IH"(1) [OF entry [symmetric] refl refl] "2.prems" entry show ?thesis by simp
  next
    case 3
    let ?stack = "if max_depth \<le> depth then rest
      else rest @ push_edges visible (adjacency node_id) max_nodes (node_id # visited) entry"
    from "2.prems"(1) 3 entry obtain cs found more where
      cs: "cites nodes = Inr cs" and
      found: "(if cs = [] then Inr [] else rbind (path_init \<lparr>gp_nodes = nodes, gp_edges = edges, gp_citations = cs\<rparr>)
        (\<lambda>p. Inr [p])) = Inr found" and
      more: "walk_from visible adjacency max_depth max_nodes cites (node_id # visited) ?stack = Inr more" and
      paths: "paths = found @ more"
      by (auto simp: rbind_Inr_iff)
    have e: "entry_ok visible max_depth (node_id, depth, nodes, edges)" using "2.prems"(2) entry by simp
    have st: "\<forall>x\<in>set ?stack. entry_ok visible max_depth x"
      using "2.prems"(2) push_edges_ok [OF e] entry by (auto simp: not_le)
    have "(\<forall>p\<in>set more. path_ok visible max_depth p) \<and> int (length (node_id # visited) + length more) \<le> max_nodes"
      using "2.IH"(2) [OF entry [symmetric] refl refl _ 3(2) more st] 3(1) by simp
    moreover have "(\<forall>p\<in>set found. path_ok visible max_depth p) \<and> length found \<le> 1"
      using found e by (auto simp: path_init_def rbind_Inr_iff ensure_Inr path_ok_def entry_ok_def split: if_splits)
    ultimately show ?thesis by (auto simp: paths)
  qed
qed simp

section \<open>Property\<close>

text \<open>
  C25. Cutting a document ends and loses nothing. For every text and every size and overlap, \<^verbatim>\<open>split_chunks\<close> returns:
  an error exactly if the text is blank or the overlap is not below the size or negative, and otherwise parts, none
  empty and none longer than the size, that give back the normalized text once the overlaps are cut off.
\<close>

theorem split_chunks_covers:
  "if nonblank text \<and> 0 \<le> overlap \<and> overlap < sz
   then \<exists>parts. split_chunks text sz overlap = Some (Inr parts) \<and> parts \<noteq> [] \<and>
     rebuild (nat overlap) parts = normalize_text text \<and> (\<forall>p\<in>set parts. p \<noteq> [] \<and> int (length p) \<le> sz)
   else split_chunks text sz overlap = Some (Inl KnowledgeError)"
proof (cases "nonblank text \<and> 0 \<le> overlap \<and> overlap < sz")
  case False
  then show ?thesis
    by (auto simp: split_chunks_def Let_def normalize_empty require_positive_int_def ensure_def)
next
  case True
  then have n: "normalize_text text \<noteq> []" by (simp add: normalize_empty)
  have pos: "\<not> isl (require_positive_int sz)" using True by (auto simp: require_positive_int_def ensure_def)
  show ?thesis
  proof (cases "int (length (normalize_text text)) \<le> sz")
    case True
    with \<open>nonblank text \<and> _\<close> n pos show ?thesis by (auto simp: split_chunks_def Let_def)
  next
    case False
    have "nat overlap < nat sz" "0 < length (normalize_text text)" using True n by auto
    from chunk_loop_cuts [OF this, of "[]"] obtain parts where
      "chunk_loop (nat sz) (nat overlap) (normalize_text text) 0 [] = Some parts" "parts \<noteq> []"
      "rebuild (nat overlap) parts = normalize_text text" "\<forall>q\<in>set parts. q \<noteq> [] \<and> length q \<le> nat sz" by auto
    with True False n pos show ?thesis by (auto simp: split_chunks_def Let_def)
  qed
qed

end
