(* ===== verification/Knowledge_Store.thy ===== *)
theory Knowledge_Store
  imports Knowledge_Chunks
begin

text \<open>
  \<^verbatim>\<open>cbrain/knowledge/ports.py\<close> and \<^verbatim>\<open>knowledge/stores/memory.py\<close>: the ports of the knowledge runtime as records of
  operations over a world, and the store and cache that keep everything in memory. Dictionaries are association lists
  in insertion order. Floats are finite or not, and their rounded operations are a parameter.
\<close>

section \<open>Ports\<close>

record 'w KnowledgeStore =
  ks_get_revision :: "string \<Rightarrow> string \<Rightarrow> string \<Rightarrow> ('w, DocumentRevision option) eff"
  ks_list_live_chunks :: "string \<Rightarrow> string \<Rightarrow> string \<Rightarrow> ('w, KnowledgeChunk list) eff"
  ks_load_chunks :: "string list \<Rightarrow> ('w, KnowledgeChunk list) eff"
  ks_collection_revision :: "string \<Rightarrow> string \<Rightarrow> ('w, int) eff"
  ks_embedding_profile :: "string \<Rightarrow> string \<Rightarrow> ('w, EmbeddingProfile option) eff"
  ks_search_vector :: "string \<Rightarrow> string \<Rightarrow> string \<Rightarrow> pyfl list \<Rightarrow> int \<Rightarrow> ('w, (string \<times> pyfl) list) eff"
  ks_search_keyword :: "string \<Rightarrow> string \<Rightarrow> string \<Rightarrow> string \<Rightarrow> int \<Rightarrow> ('w, (string \<times> pyfl) list) eff"
  ks_upsert_nodes :: "GraphNode list \<Rightarrow> ('w, unit) eff"
  ks_upsert_edges :: "GraphEdge list \<Rightarrow> ('w, unit) eff"
  ks_traverse :: "string \<Rightarrow> string \<Rightarrow> string list \<Rightarrow> int \<Rightarrow> int \<Rightarrow> ('w, GraphPath list) eff"
  ks_nodes_for_chunks :: "string list \<Rightarrow> ('w, GraphNode list) eff"
  ks_publish_revision :: "SourceDocument \<Rightarrow> DocumentRevision \<Rightarrow> KnowledgeChunk list \<Rightarrow> (string \<times> pyfl list) list \<Rightarrow>
    GraphNode list \<Rightarrow> GraphEdge list \<Rightarrow> EmbeddingProfile \<Rightarrow> ('w, int) eff"
  ks_tombstone :: "string \<Rightarrow> string \<Rightarrow> string \<Rightarrow> pyfl \<Rightarrow> ('w, int) eff"
  ks_citations_for :: "KnowledgeChunk list \<Rightarrow> ('w, Citation list) eff"

record 'w KVCache =
  kv_get :: "CacheKey \<Rightarrow> ('w, string list option) eff"
  kv_set :: "CacheKey \<Rightarrow> string list \<Rightarrow> pyfl \<Rightarrow> ('w, unit) eff"

type_synonym 'w EmbeddingProvider = "string list \<Rightarrow> EmbeddingProfile \<Rightarrow> ('w, pyfl list list) eff"
type_synonym 'w EntityRelationExtractor = "KnowledgeChunk \<Rightarrow> ('w, GraphNode list \<times> GraphEdge list) eff"

section \<open>State\<close>

type_synonym source_key = "string \<times> string \<times> string"

record MemoryStore =
  ms_revisions :: "(source_key \<times> DocumentRevision) list"
  ms_chunks :: "(string \<times> KnowledgeChunk) list"
  ms_live_chunks :: "(source_key \<times> string list) list"
  ms_embeddings :: "(string \<times> pyfl list) list"
  ms_nodes :: "(string \<times> GraphNode) list"
  ms_edges :: "(string \<times> GraphEdge) list"
  ms_collection_revision :: "((string \<times> string) \<times> int) list"
  ms_profiles :: "((string \<times> string) \<times> EmbeddingProfile) list"
  ms_fail_reads :: bool

definition memory_store_init :: MemoryStore where
  "memory_store_init = \<lparr>ms_revisions = [], ms_chunks = [], ms_live_chunks = [], ms_embeddings = [], ms_nodes = [],
     ms_edges = [], ms_collection_revision = [], ms_profiles = [], ms_fail_reads = False\<rparr>"

definition guard_reads :: "MemoryStore \<Rightarrow> unit res" where
  "guard_reads s = ensure (\<not> ms_fail_reads s) KnowledgeUnavailable"

section \<open>Reads\<close>

definition chunk_source :: "KnowledgeChunk \<Rightarrow> source_key" where
  "chunk_source c = (kc_tenant_id c, kc_collection_id c, kc_source_id c)"

definition is_tombstoned :: "MemoryStore \<Rightarrow> KnowledgeChunk \<Rightarrow> bool" where
  "is_tombstoned s c = (case map_of (ms_revisions s) (chunk_source c) of
     None \<Rightarrow> True | Some r \<Rightarrow> dr_tombstoned r)"

definition get_revision :: "string \<Rightarrow> string \<Rightarrow> string \<Rightarrow> MemoryStore \<Rightarrow> DocumentRevision option res" where
  "get_revision tenant_id collection_id source_id s =
     rbind (guard_reads s) (\<lambda>_. Inr (map_of (ms_revisions s) (tenant_id, collection_id, source_id)))"

definition list_live_chunks :: "string \<Rightarrow> string \<Rightarrow> string \<Rightarrow> MemoryStore \<Rightarrow> KnowledgeChunk list res" where
  "list_live_chunks tenant_id collection_id principal_id s =
     rbind (guard_reads s) (\<lambda>_.
     Inr (sort_key kc_chunk_id (filter (\<lambda>c. kc_tenant_id c = tenant_id \<and> kc_collection_id c = collection_id \<and>
       authorized c principal_id \<and> \<not> is_tombstoned s c) (map snd (ms_chunks s)))))"

definition load_chunks :: "string list \<Rightarrow> MemoryStore \<Rightarrow> KnowledgeChunk list res" where
  "load_chunks chunk_ids s =
     rbind (guard_reads s) (\<lambda>_.
     Inr (List.map_filter (\<lambda>chunk_id. case map_of (ms_chunks s) chunk_id of
         None \<Rightarrow> None
       | Some c \<Rightarrow> if is_tombstoned s c then None else Some c) chunk_ids))"

definition collection_revision :: "string \<Rightarrow> string \<Rightarrow> MemoryStore \<Rightarrow> int res" where
  "collection_revision tenant_id collection_id s =
     rbind (guard_reads s) (\<lambda>_.
     Inr (case map_of (ms_collection_revision s) (tenant_id, collection_id) of Some n \<Rightarrow> n | None \<Rightarrow> 0))"

definition embedding_profile :: "string \<Rightarrow> string \<Rightarrow> MemoryStore \<Rightarrow> EmbeddingProfile option res" where
  "embedding_profile tenant_id collection_id s =
     rbind (guard_reads s) (\<lambda>_. Inr (map_of (ms_profiles s) (tenant_id, collection_id)))"

definition cosine :: "float_ops \<Rightarrow> pyfl list \<Rightarrow> pyfl list \<Rightarrow> pyfl res" where
  "cosine ops l r =
     rbind (ensure (length l = length r) ValueError) (\<lambda>_.
     let dot = fo_sum ops (map2 (fo_mul ops) l r);
         norm = (\<lambda>v. fo_sqrt ops (fo_sum ops (map (\<lambda>a. fo_mul ops a a) v)));
         scale = fo_mul ops (norm l) (norm r) in
     if norm l = Fl 0 \<or> norm r = Fl 0 then Inr (Fl 0)
     else if scale = Fl 0 then Inl (External ''ZeroDivisionError'')
     else Inr (fo_div ops dot scale))"

definition search_vector ::
  "float_ops \<Rightarrow> string \<Rightarrow> string \<Rightarrow> string \<Rightarrow> pyfl list \<Rightarrow> int \<Rightarrow> MemoryStore \<Rightarrow> (string \<times> pyfl) list res" where
  "search_vector ops tenant_id collection_id principal_id vector limit s =
     rbind (list_live_chunks tenant_id collection_id principal_id s) (\<lambda>chunks.
     rbind (rmapM (\<lambda>(chunk_id, embedding). rbind (cosine ops vector embedding) (\<lambda>score. Inr (chunk_id, score)))
         (List.map_filter (\<lambda>c. map_option (Pair (kc_chunk_id c)) (map_of (ms_embeddings s) (kc_chunk_id c))) chunks))
       (\<lambda>scored. Inr (take (nat limit) (by_score scored))))"

definition search_keyword ::
  "string \<Rightarrow> string \<Rightarrow> string \<Rightarrow> string \<Rightarrow> int \<Rightarrow> MemoryStore \<Rightarrow> (string \<times> pyfl) list res" where
  "search_keyword tenant_id collection_id principal_id query limit s =
     (let terms = set (py_split (py_casefold (join '' '' (py_split query)))) in
      rbind (list_live_chunks tenant_id collection_id principal_id s) (\<lambda>chunks.
      Inr (take (nat limit) (by_score (List.map_filter (\<lambda>c.
        let overlap = card (terms \<inter> set (py_split (py_casefold (kc_text c)))) in
        if overlap = 0 then None else Some (kc_chunk_id c, Fl (of_nat overlap))) chunks)))))"

definition search ::
  "float_ops \<Rightarrow> string \<Rightarrow> string \<Rightarrow> string \<Rightarrow> pyfl list option \<Rightarrow> string option \<Rightarrow> int \<Rightarrow> MemoryStore \<Rightarrow>
   (string \<times> pyfl) list res" where
  "search ops tenant_id collection_id principal_id vector query limit s = (case vector of
       Some v \<Rightarrow> search_vector ops tenant_id collection_id principal_id v limit s
     | None \<Rightarrow> search_keyword tenant_id collection_id principal_id (case query of Some q \<Rightarrow> q | None \<Rightarrow> []) limit s)"

definition citations_for :: "KnowledgeChunk list \<Rightarrow> Citation list res" where
  "citations_for chunks = rmapM citation_from_chunk chunks"

definition authorized_chunk_ids :: "string \<Rightarrow> string \<Rightarrow> MemoryStore \<Rightarrow> string list" where
  "authorized_chunk_ids tenant_id principal_id s =
     map kc_chunk_id (filter (\<lambda>c. kc_tenant_id c = tenant_id \<and> authorized c principal_id \<and> \<not> is_tombstoned s c)
       (map snd (ms_chunks s)))"

fun cited_chunks :: "string list \<Rightarrow> MemoryStore \<Rightarrow> string list \<Rightarrow> string list \<Rightarrow> KnowledgeChunk list" where
  "cited_chunks allowed s seen [] = []"
| "cited_chunks allowed s seen (chunk_id # rest) =
     (if chunk_id \<notin> set allowed \<or> chunk_id \<in> set seen then cited_chunks allowed s seen rest
      else case map_of (ms_chunks s) chunk_id of
        None \<Rightarrow> cited_chunks allowed s seen rest
      | Some c \<Rightarrow> c # cited_chunks allowed s (chunk_id # seen) rest)"

definition citations_for_nodes :: "GraphNode list \<Rightarrow> string \<Rightarrow> string \<Rightarrow> MemoryStore \<Rightarrow> Citation list res" where
  "citations_for_nodes nodes tenant_id principal_id s =
     citations_for (cited_chunks (authorized_chunk_ids tenant_id principal_id s) s []
       (concat (map gn_provenance_chunk_ids nodes)))"

definition nodes_for_chunks :: "string list \<Rightarrow> MemoryStore \<Rightarrow> GraphNode list" where
  "nodes_for_chunks chunk_ids s =
     filter (\<lambda>n. list_ex (\<lambda>i. i \<in> set chunk_ids) (gn_provenance_chunk_ids n)) (map snd (ms_nodes s))"

definition visible_nodes :: "string \<Rightarrow> string \<Rightarrow> MemoryStore \<Rightarrow> string \<rightharpoonup> GraphNode" where
  "visible_nodes tenant_id principal_id s = map_of (rev (map (\<lambda>n. (gn_node_id n, n))
     (filter (\<lambda>n. gn_tenant_id n = tenant_id \<and>
        list_ex (\<lambda>i. i \<in> set (authorized_chunk_ids tenant_id principal_id s)) (gn_provenance_chunk_ids n))
       (map snd (ms_nodes s)))))"

definition adjacency_of :: "string \<Rightarrow> string \<Rightarrow> MemoryStore \<Rightarrow> string \<Rightarrow> GraphEdge list" where
  "adjacency_of tenant_id principal_id s node_id =
     (let visible = visible_nodes tenant_id principal_id s in
      filter (\<lambda>e. ge_tenant_id e = tenant_id \<and> visible (ge_source_node_id e) \<noteq> None \<and>
          visible (ge_target_node_id e) \<noteq> None \<and>
          list_ex (\<lambda>i. i \<in> set (authorized_chunk_ids tenant_id principal_id s)) (ge_provenance_chunk_ids e) \<and>
          ge_source_node_id e = node_id)
        (map snd (ms_edges s)))"

definition traverse :: "string \<Rightarrow> string \<Rightarrow> string list \<Rightarrow> int \<Rightarrow> int \<Rightarrow> MemoryStore \<Rightarrow> GraphPath list res" where
  "traverse tenant_id principal_id seed_node_ids max_depth max_nodes s =
     rbind (guard_reads s) (\<lambda>_.
     bounded_walk (visible_nodes tenant_id principal_id s) (adjacency_of tenant_id principal_id s) seed_node_ids
       max_depth max_nodes (\<lambda>nodes. citations_for_nodes nodes tenant_id principal_id s))"

section \<open>Writes\<close>

definition upsert_nodes :: "GraphNode list \<Rightarrow> MemoryStore \<Rightarrow> MemoryStore" where
  "upsert_nodes nodes s = s\<lparr>ms_nodes := fold (\<lambda>n. AList.update (gn_node_id n) n) nodes (ms_nodes s)\<rparr>"

definition upsert_edges :: "GraphEdge list \<Rightarrow> MemoryStore \<Rightarrow> MemoryStore" where
  "upsert_edges edges s = s\<lparr>ms_edges := fold (\<lambda>e. AList.update (ge_edge_id e) e) edges (ms_edges s)\<rparr>"

definition next_collection_revision :: "string \<times> string \<Rightarrow> MemoryStore \<Rightarrow> int \<times> MemoryStore" where
  "next_collection_revision key s =
     (let n = (case map_of (ms_collection_revision s) key of Some n \<Rightarrow> n | None \<Rightarrow> 0) + 1 in
      (n, s\<lparr>ms_collection_revision := AList.update key n (ms_collection_revision s)\<rparr>))"

definition publish_revision ::
  "SourceDocument \<Rightarrow> DocumentRevision \<Rightarrow> KnowledgeChunk list \<Rightarrow> (string \<times> pyfl list) list \<Rightarrow> GraphNode list \<Rightarrow>
   GraphEdge list \<Rightarrow> EmbeddingProfile \<Rightarrow> MemoryStore \<Rightarrow> int res \<times> MemoryStore" where
  "publish_revision document revision chunks embeddings nodes edges profile s =
     (let key = (sd_tenant_id document, sd_collection_id document);
          source = (sd_tenant_id document, sd_collection_id document, sd_source_id document);
          existing = map_of (ms_profiles s) key in
      if existing \<noteq> None \<and> existing \<noteq> Some profile then (Inl KnowledgeError, s)
      else if list_ex (\<lambda>kv. int (length (snd kv)) \<noteq> ep_dimension profile) embeddings then (Inl KnowledgeError, s)
      else
        let previous = (case map_of (ms_live_chunks s) source of Some ids \<Rightarrow> ids | None \<Rightarrow> []);
            s1 = s\<lparr>ms_chunks := fold (\<lambda>c. AList.update (kc_chunk_id c) c) chunks (fold AList.delete previous (ms_chunks s)),
                   ms_embeddings := fold (\<lambda>(i, v). AList.update i v) embeddings
                     (fold AList.delete previous (ms_embeddings s)),
                   ms_revisions := AList.update source revision (ms_revisions s)\<rparr>;
            s2 = upsert_edges edges (upsert_nodes nodes s1);
            s3 = s2\<lparr>ms_live_chunks := AList.update source (map kc_chunk_id chunks) (ms_live_chunks s2),
                    ms_profiles := AList.update key profile (ms_profiles s2)\<rparr>;
            (n, s4) = next_collection_revision key s3 in
        (Inr n, s4))"

definition tombstone :: "string \<Rightarrow> string \<Rightarrow> string \<Rightarrow> pyfl \<Rightarrow> MemoryStore \<Rightarrow> int res \<times> MemoryStore" where
  "tombstone tenant_id collection_id source_id created_at s =
     (case map_of (ms_revisions s) (tenant_id, collection_id, source_id) of
        None \<Rightarrow> (Inl KnowledgeError, s)
      | Some current \<Rightarrow>
          (case document_revision_init \<lparr>dr_tenant_id = tenant_id, dr_collection_id = collection_id,
                  dr_source_id = source_id, dr_source_revision = dr_source_revision current + 1,
                  dr_content_digest = dr_content_digest current, dr_provenance = dr_provenance current,
                  dr_acl_principals = dr_acl_principals current, dr_created_at = created_at,
                  dr_schema_version = knowledge_schema_version, dr_tombstoned = True\<rparr> of
             Inl e \<Rightarrow> (Inl e, s)
           | Inr revision \<Rightarrow>
               (let s1 = s\<lparr>ms_revisions := AList.update (tenant_id, collection_id, source_id) revision (ms_revisions s)\<rparr>;
                    (n, s2) = next_collection_revision (tenant_id, collection_id) s1 in
                (Inr n, s2))))"

section \<open>Caches\<close>

record MemoryCache =
  mc_entries :: "(string \<times> (pyfl \<times> string list)) list"
  mc_fail_closed :: bool

definition cache_get :: "pyfl \<Rightarrow> CacheKey \<Rightarrow> MemoryCache \<Rightarrow> string list option res \<times> MemoryCache" where
  "cache_get now key c =
     (if mc_fail_closed c then (Inl KnowledgeError, c)
      else case cache_key_encoded key of
        Inl e \<Rightarrow> (Inl e, c)
      | Inr encoded \<Rightarrow>
          (case map_of (mc_entries c) encoded of
             None \<Rightarrow> (Inr None, c)
           | Some (expires_at, ids) \<Rightarrow>
               if fl_ge now expires_at then (Inr None, c\<lparr>mc_entries := AList.delete encoded (mc_entries c)\<rparr>)
               else (Inr (Some ids), c)))"

definition cache_set ::
  "float_ops \<Rightarrow> pyfl \<Rightarrow> CacheKey \<Rightarrow> string list \<Rightarrow> pyfl \<Rightarrow> MemoryCache \<Rightarrow> unit res \<times> MemoryCache" where
  "cache_set ops now key chunk_ids ttl_seconds c =
     (if mc_fail_closed c then (Inl KnowledgeError, c)
      else case finite_positive_ttl ttl_seconds of
        Inl e \<Rightarrow> (Inl e, c)
      | Inr ttl \<Rightarrow>
          (case cache_key_encoded key of
             Inl e \<Rightarrow> (Inl e, c)
           | Inr encoded \<Rightarrow>
               (Inr (), c\<lparr>mc_entries :=
                  AList.update encoded (fl_add (fo_add ops) now ttl, chunk_ids) (mc_entries c)\<rparr>)))"

definition null_cache :: "'w KVCache" where
  "null_cache = \<lparr>kv_get = (\<lambda>_. eret (Inr None)),
     kv_set = (\<lambda>_ _ ttl. eret (rbind (finite_positive_ttl ttl) (\<lambda>_. Inr ())))\<rparr>"

section \<open>The world of the in-memory runtime\<close>

record knowledge_world =
  kw_store :: MemoryStore
  kw_cache :: MemoryCache
  kw_clock :: "nat \<Rightarrow> pyfl"
  kw_ticks :: nat

definition on_store :: "(MemoryStore \<Rightarrow> 'a res) \<Rightarrow> (knowledge_world, 'a) eff" where
  "on_store f w = (f (kw_store w), w)"

definition write_store :: "(MemoryStore \<Rightarrow> 'a res \<times> MemoryStore) \<Rightarrow> (knowledge_world, 'a) eff" where
  "write_store f w = (case f (kw_store w) of (r, s) \<Rightarrow> (r, w\<lparr>kw_store := s\<rparr>))"

definition memory_store :: "float_ops \<Rightarrow> knowledge_world KnowledgeStore" where
  "memory_store ops =
     \<lparr>ks_get_revision = (\<lambda>t c s. on_store (get_revision t c s)),
      ks_list_live_chunks = (\<lambda>t c p. on_store (list_live_chunks t c p)),
      ks_load_chunks = (\<lambda>ids. on_store (load_chunks ids)),
      ks_collection_revision = (\<lambda>t c. on_store (collection_revision t c)),
      ks_embedding_profile = (\<lambda>t c. on_store (embedding_profile t c)),
      ks_search_vector = (\<lambda>t c p v n. on_store (search_vector ops t c p v n)),
      ks_search_keyword = (\<lambda>t c p q n. on_store (search_keyword t c p q n)),
      ks_upsert_nodes = (\<lambda>ns. write_store (\<lambda>s. (Inr (), upsert_nodes ns s))),
      ks_upsert_edges = (\<lambda>es. write_store (\<lambda>s. (Inr (), upsert_edges es s))),
      ks_traverse = (\<lambda>t p seeds d n. on_store (traverse t p seeds d n)),
      ks_nodes_for_chunks = (\<lambda>ids. on_store (\<lambda>s. Inr (nodes_for_chunks ids s))),
      ks_publish_revision = (\<lambda>d r cs em ns es p. write_store (publish_revision d r cs em ns es p)),
      ks_tombstone = (\<lambda>t c s now. write_store (tombstone t c s now)),
      ks_citations_for = (\<lambda>cs. eret (citations_for cs))\<rparr>"

definition memory_cache :: "float_ops \<Rightarrow> knowledge_world KVCache" where
  "memory_cache ops =
     \<lparr>kv_get = (\<lambda>key w. case cache_get (kw_clock w (kw_ticks w)) key (kw_cache w) of
         (r, c) \<Rightarrow> (r, w\<lparr>kw_cache := c, kw_ticks := Suc (kw_ticks w)\<rparr>)),
      kv_set = (\<lambda>key ids ttl w. case cache_set ops (kw_clock w (kw_ticks w)) key ids ttl (kw_cache w) of
         (r, c) \<Rightarrow> (r, w\<lparr>kw_cache := c, kw_ticks := Suc (kw_ticks w)\<rparr>))\<rparr>"

end
