(* ===== verification/Witnesses_Knowledge.thy ===== *)
theory Witnesses_Knowledge
  imports Retrieval
begin

text \<open>
  Witnesses of the knowledge runtime: a text that is cut into overlapping parts, and a query whose cached ids name a
  chunk that its principal may see and one that it may not.
\<close>

section \<open>Cutting\<close>

theorem split_chunks_covers_witness:
  "split_chunks ''the quick  brown fox'' 8 3 = Some (Inr [''the quic'', ''uick bro'', ''brown fo'', '' fox'']) \<and>
   rebuild 3 [''the quic'', ''uick bro'', ''brown fo'', '' fox''] = normalize_text ''the quick  brown fox'' \<and>
   split_chunks ''  '' 8 3 = Some (Inl KnowledgeError) \<and> split_chunks ''a'' 3 3 = Some (Inl KnowledgeError)"
proof -
  have eq: "split_chunks ''the quick  brown fox'' 8 3 = Some (Inr [''the quic'', ''uick bro'', ''brown fo'', '' fox''])"
    by code_simp
  have "nonblank ''the quick  brown fox''" "\<not> nonblank ''  ''" by code_simp+
  then show ?thesis
    using split_chunks_covers [of "''the quick  brown fox''" 3 8] split_chunks_covers [of "''  ''" 3 8]
      split_chunks_covers [of "''a''" 3 3] eq by simp
qed

section \<open>Retrieving\<close>

lemma hex_text: "nonblank (hex_of_text s)" "CHR 0x00 \<notin> set (hex_of_text s)"
proof -
  have digits: "list_all is_hex_digit (hex_of_text s)"
    by (simp add: hex_of_text_def sha256_hexdigest_def hex_bytes_digits)
  have len: "length (hex_of_text s) = 64" by (simp add: hex_of_text_def sha256_hexdigest_def)
  have no: "list_all (\<lambda>c. \<not> py_isspace c \<and> c \<noteq> CHR 0x00) ''0123456789abcdef''" by code_simp
  then have hex: "is_hex_digit c \<Longrightarrow> \<not> py_isspace c \<and> c \<noteq> CHR 0x00" for c
    unfolding is_hex_digit_def list_all_iff by blast
  with digits show "CHR 0x00 \<notin> set (hex_of_text s)" unfolding list_all_iff by blast
  from hex digits len show "nonblank (hex_of_text s)" by (cases "hex_of_text s") auto
qed

definition memo :: "string \<Rightarrow> string set \<Rightarrow> KnowledgeChunk" where
  "memo chunk_id acl = \<lparr>kc_chunk_id = chunk_id, kc_tenant_id = ''acme'', kc_collection_id = ''policies'',
     kc_source_id = ''memo'', kc_source_revision = 1, kc_chunk_index = 0, kc_text = ''Pay in 30 days'',
     kc_content_digest = ''d'', kc_provenance = ''hr'', kc_acl_principals = acl, kc_created_at = Fl 1,
     kc_schema_version = 1\<rparr>"

definition memo_citation :: "string \<Rightarrow> string set \<Rightarrow> Citation" where
  "memo_citation chunk_id acl = \<lparr>ci_tenant_id = ''acme'', ci_source_id = ''memo'', ci_source_revision = 1,
     ci_content_digest = ''d'', ci_provenance = ''hr'', ci_acl_principals = acl, ci_created_at = Fl 1,
     ci_schema_version = 1, ci_chunk_id = chunk_id\<rparr>"

definition desk_store :: "unit KnowledgeStore" where
  "desk_store = \<lparr>ks_get_revision = (\<lambda>_ _ _. eret (Inr None)), ks_list_live_chunks = (\<lambda>_ _ _. eret (Inr [])),
     ks_load_chunks = (\<lambda>_. eret (Inr [memo ''c1'' {''bob''}, memo ''c2'' {''alice''}])),
     ks_collection_revision = (\<lambda>_ _. eret (Inr 1)), ks_embedding_profile = (\<lambda>_ _. eret (Inr None)),
     ks_search_vector = (\<lambda>_ _ _ _ _. eret (Inr [])), ks_search_keyword = (\<lambda>_ _ _ _ _. eret (Inr [])),
     ks_upsert_nodes = (\<lambda>_. eret (Inr ())), ks_upsert_edges = (\<lambda>_. eret (Inr ())),
     ks_traverse = (\<lambda>_ _ _ _ _. eret (Inr [])), ks_nodes_for_chunks = (\<lambda>_. eret (Inr [])),
     ks_publish_revision = (\<lambda>_ _ _ _ _ _ _. eret (Inr 1)), ks_tombstone = (\<lambda>_ _ _ _. eret (Inr 1)),
     ks_citations_for = (\<lambda>_. eret (Inr [memo_citation ''c2'' {''alice''}]))\<rparr>"

definition desk_cache :: "unit KVCache" where
  "desk_cache = \<lparr>kv_get = (\<lambda>_. eret (Inr (Some [''c1'', ''c2'']))), kv_set = (\<lambda>_ _ _. eret (Inr ()))\<rparr>"

definition desk :: "float_ops \<Rightarrow> unit HybridRetriever" where
  "desk ops = \<lparr>hr_store = desk_store, hr_cache = desk_cache, hr_config = default_knowledge_config,
     hr_embeddings = (\<lambda>_ _. eret (Inr [])), hr_expand_graph = True, hr_floats = ops\<rparr>"

definition alice_query :: RetrievalQuery where
  "alice_query = \<lparr>rq_tenant_id = ''acme'', rq_collection_id = ''policies'', rq_principal_id = ''alice'',
     rq_text = ''payment terms'', rq_top_k = 4, rq_created_at = Fl 2, rq_policy_version = ''v1''\<rparr>"

definition alice_hit :: RetrievalHit where
  "alice_hit = \<lparr>rh_chunk = memo ''c2'' {''alice''}, rh_score = Fl 1, rh_citation = memo_citation ''c2'' {''alice''},
     rh_rank = 1\<rparr>"

lemma hex_of_payload_Inr: "canonical_json p = Inr s \<Longrightarrow> hex_of_payload p = Inr (hex_of_text s)"
  by (simp add: hex_of_payload_def)

lemma desk_digests:
  "\<exists>s. query_digest alice_query = Inr (hex_of_text s)"
  "\<exists>s. embedding_profile_digest (kg_embedding_profile default_knowledge_config) = Inr (hex_of_text s)"
  "\<exists>s. retrieval_digest default_knowledge_config = Inr (hex_of_text s)"
  unfolding query_digest_def embedding_profile_digest_def retrieval_digest_def
  by (rule exI, rule hex_of_payload_Inr, code_simp)+

lemma require_hex: "\<exists>t. require_text (hex_of_text s) = Inr t"
  by (simp add: require_text_def hex_text)

lemma desk_texts:
  "require_text ''acme'' = Inr ''acme''" "require_text ''policies'' = Inr ''policies''" "require_text ''v1'' = Inr ''v1''"
  by code_simp+

lemma desk_calls:
  "hr_config (desk ops) = default_knowledge_config"
  "ks_collection_revision (hr_store (desk ops)) t c = eret (Inr 1)"
  "kv_get (hr_cache (desk ops)) key = eret (Inr (Some [''c1'', ''c2'']))"
  by (simp_all add: desk_def desk_store_def desk_cache_def)

lemma desk_key: "\<exists>key. cache_key (desk ops) alice_query 1 = Inr key"
proof -
  obtain q p g where d: "query_digest alice_query = Inr (hex_of_text q)"
    "embedding_profile_digest (kg_embedding_profile default_knowledge_config) = Inr (hex_of_text p)"
    "retrieval_digest default_knowledge_config = Inr (hex_of_text g)" using desk_digests by blast
  obtain q' p' g' a where "require_text (hex_of_text q) = Inr q'" "require_text (hex_of_text p) = Inr p'"
    "require_text (hex_of_text g) = Inr g'" "require_text (hex_of_text ''alice'') = Inr a" using require_hex by metis
  with d show ?thesis
    by (simp add: cache_key_def desk_def cache_key_init_def alice_query_def knowledge_schema_version_def
        require_positive_int_def ensure_def desk_texts)
qed

lemma desk_hits:
  "retrieve_cached (desk ops) alice_query ids () = (Inr ([alice_hit], 0, 0, 0), ())"
proof -
  have c: "\<not> may_see alice_query (memo ''c1'' {''bob''})" "may_see alice_query (memo ''c2'' {''alice''})"
    "kc_chunk_id (memo chunk_id acl) = chunk_id" for chunk_id acl
    by (simp_all add: may_see_def memo_def alice_query_def authorized_def)
  have finite_score: "fl_finite (Fl 1)" by code_simp
  have h: "make_hits [memo_citation ''c2'' {''alice''}] [(''c2'', Fl 1)] [memo ''c2'' {''alice''}] = Inr [alice_hit]"
    by (simp add: make_hits_def memo_def memo_citation_def alice_hit_def hit_init_def require_positive_int_def
        ensure_def of_option_def finite_score)
  have r: "rank_hits [alice_hit] = Inr [alice_hit]"
    by (simp add: rank_hits_def memo_def memo_citation_def alice_hit_def hit_init_def require_positive_int_def ensure_def
        finite_score)
  show ?thesis
    using h r
    by (simp add: retrieve_cached_def authorized_chunks_def hits_from_chunks_def desk_def desk_store_def ebind_def
        eret_def c default_knowledge_config_def)
qed


end
