(* ===== verification/Knowledge_Runtime.thy ===== *)
theory Knowledge_Runtime
  imports Retrieval
begin

text \<open>
  \<^verbatim>\<open>cbrain/knowledge/runtime.py\<close>, \<^verbatim>\<open>context.py\<close> and the environment of \<^verbatim>\<open>configuration.py\<close>: the facade that picks a
  store and a cache for a deployment and hands documents and queries to ingestion and retrieval. The constructors of
  the stores and caches are a parameter; those of the database and of Redis connect and may raise.
\<close>

record 'w knowledge_backends =
  kb_memory_store :: "'w KnowledgeStore"
  kb_memory_cache :: "'w KVCache"
  kb_postgres :: "string \<Rightarrow> pyfl \<Rightarrow> ('w, 'w KnowledgeStore) eff"
  kb_redis :: "string \<Rightarrow> ('w, 'w KVCache) eff"
  kb_time :: "('w, pyfl) eff"

section \<open>Configuration from the environment\<close>

definition env_or_none :: "(string \<rightharpoonup> string) \<Rightarrow> string \<Rightarrow> string option" where
  "env_or_none env name = (case env name of None \<Rightarrow> None | Some s \<Rightarrow> if s = [] then None else Some s)"

definition knowledge_config_from_env :: "(string \<rightharpoonup> string) \<Rightarrow> KnowledgeConfig res" where
  "knowledge_config_from_env env =
     config_init (default_knowledge_config\<lparr>kg_postgres_dsn := env_or_none env ''CBRAIN_KNOWLEDGE_PG_DSN'',
       kg_redis_dsn := env_or_none env ''CBRAIN_KNOWLEDGE_REDIS_DSN''\<rparr>)"

definition production_mode_requested :: "(string \<rightharpoonup> string) \<Rightarrow> bool" where
  "production_mode_requested env =
     (py_casefold (py_strip (case env ''CBRAIN_KNOWLEDGE_MODE'' of Some s \<Rightarrow> s | None \<Rightarrow> [])) = ''production'')"

section \<open>The runtime\<close>

record 'w KnowledgeRuntime =
  kr_config :: KnowledgeConfig
  kr_store :: "'w KnowledgeStore"
  kr_cache :: "'w KVCache"
  kr_pipeline :: "'w IngestionPipeline"
  kr_retriever :: "'w HybridRetriever"

definition or_else :: "'a option \<Rightarrow> 'a \<Rightarrow> 'a" where
  "or_else v d = (case v of Some a \<Rightarrow> a | None \<Rightarrow> d)"

definition runtime_init ::
  "'w knowledge_backends \<Rightarrow> float_ops \<Rightarrow> KnowledgeConfig option \<Rightarrow> 'w KnowledgeStore option \<Rightarrow> 'w KVCache option \<Rightarrow>
   'w EmbeddingProvider \<Rightarrow> 'w EntityRelationExtractor \<Rightarrow> ('w, pyfl) eff option \<Rightarrow> 'w KnowledgeRuntime" where
  "runtime_init kb ops config store cache embeddings extractor clock =
     (let cfg = or_else config default_knowledge_config;
          st = or_else store (kb_memory_store kb);
          ca = or_else cache (kb_memory_cache kb) in
      \<lparr>kr_config = cfg, kr_store = st, kr_cache = ca,
       kr_pipeline = \<lparr>ip_store = st, ip_config = cfg, ip_embeddings = embeddings, ip_extractor = extractor,
         ip_clock = or_else clock (kb_time kb)\<rparr>,
       kr_retriever = \<lparr>hr_store = st, hr_cache = ca, hr_config = cfg, hr_embeddings = embeddings,
         hr_expand_graph = True, hr_floats = ops\<rparr>\<rparr>)"

definition durable_cache ::
  "'w knowledge_backends \<Rightarrow> KnowledgeConfig \<Rightarrow> 'w KVCache option \<Rightarrow> ('w, 'w KVCache) eff" where
  "durable_cache kb config cache = (case cache of
       Some c \<Rightarrow> eret (Inr c)
     | None \<Rightarrow> (case kg_redis_dsn config of
           Some dsn \<Rightarrow> if dsn = [] then eret (Inr null_cache) else kb_redis kb dsn
         | None \<Rightarrow> eret (Inr null_cache)))"

definition from_config ::
  "'w knowledge_backends \<Rightarrow> float_ops \<Rightarrow> (string \<rightharpoonup> string) \<Rightarrow> KnowledgeConfig option \<Rightarrow> bool \<Rightarrow>
   'w EmbeddingProvider \<Rightarrow> 'w EntityRelationExtractor \<Rightarrow> ('w, pyfl) eff option \<Rightarrow> 'w KnowledgeStore option \<Rightarrow>
   'w KVCache option \<Rightarrow> ('w, 'w KnowledgeRuntime) eff" where
  "from_config kb ops env config production embeddings extractor clock store cache =
     ebind (eret (case config of Some c \<Rightarrow> Inr c | None \<Rightarrow> knowledge_config_from_env env)) (\<lambda>resolved.
     let dsn = or_else (kg_postgres_dsn resolved) [] in
     if production \<and> dsn = [] then eret (Inl KnowledgeConfigError)
     else if production \<or> dsn \<noteq> [] then
       ebind (case store of Some s \<Rightarrow> eret (Inr s)
                | None \<Rightarrow> kb_postgres kb dsn (kg_retrieval_timeout_seconds resolved)) (\<lambda>durable_store.
       ebind (durable_cache kb resolved cache) (\<lambda>c.
       eret (Inr (runtime_init kb ops (Some resolved) (Some durable_store) (Some c) embeddings extractor clock))))
     else eret (Inr (runtime_init kb ops (Some resolved) store cache embeddings extractor clock)))"

definition runtime_ingest ::
  "(string set \<Rightarrow> string) \<Rightarrow> 'w KnowledgeRuntime \<Rightarrow> SourceDocument \<Rightarrow> ('w, IngestionResult) eff" where
  "runtime_ingest first_of kr document = ingest first_of (kr_pipeline kr) document"

definition runtime_tombstone ::
  "'w KnowledgeRuntime \<Rightarrow> string \<Rightarrow> string \<Rightarrow> string \<Rightarrow> ('w, IngestionResult) eff" where
  "runtime_tombstone kr tenant_id collection_id source_id =
     ingest_tombstone (kr_pipeline kr) tenant_id collection_id source_id"

definition provider_retrieve :: "'w HybridRetriever \<Rightarrow> RetrievalQuery \<Rightarrow> ('w, RetrievedContext) eff" where
  "provider_retrieve retriever query = retrieve retriever query"

definition runtime_retrieve :: "'w KnowledgeRuntime \<Rightarrow> RetrievalQuery \<Rightarrow> ('w, RetrievedContext) eff" where
  "runtime_retrieve kr query = provider_retrieve (kr_retriever kr) query"

definition graph_path :: "'w KnowledgeRuntime \<Rightarrow> string \<Rightarrow> string \<Rightarrow> string list \<Rightarrow> ('w, GraphPath list) eff" where
  "graph_path kr tenant_id principal_id seed_node_ids =
     ks_traverse (kr_store kr) tenant_id principal_id seed_node_ids (kg_graph_max_depth (kr_config kr))
       (kg_graph_max_nodes (kr_config kr))"

definition collection_status :: "'w KnowledgeRuntime \<Rightarrow> string \<Rightarrow> string \<Rightarrow> ('w, jobj) eff" where
  "collection_status kr tenant_id collection_id =
     ebind (ks_embedding_profile (kr_store kr) tenant_id collection_id) (\<lambda>profile.
     ebind (ks_collection_revision (kr_store kr) tenant_id collection_id) (\<lambda>revision.
     eret (Inr [(''tenant_id'', JStr tenant_id), (''collection_id'', JStr collection_id),
       (''collection_revision'', JInt revision),
       (''embedding_profile'', (case profile of None \<Rightarrow> JNull | Some p \<Rightarrow> JStr (ep_profile_id p)))])))"

section \<open>Deployments\<close>

text \<open>A production runtime never falls back to a store or a cache in memory.\<close>

lemma production_is_durable:
  assumes "from_config kb ops env config True embeddings extractor clock None None w = (Inr kr, w')"
  shows "\<exists>resolved dsn w1. kg_postgres_dsn resolved = Some dsn \<and> dsn \<noteq> [] \<and>
    (case config of Some c \<Rightarrow> resolved = c | None \<Rightarrow> knowledge_config_from_env env = Inr resolved) \<and>
    kr_config kr = resolved \<and>
    kb_postgres kb dsn (kg_retrieval_timeout_seconds resolved) w = (Inr (kr_store kr), w1) \<and>
    durable_cache kb resolved None w1 = (Inr (kr_cache kr), w')"
  using assms
  by (auto simp: from_config_def Let_def ebind_Inr eret_Inr or_else_def runtime_init_def
      split: option.splits if_splits)

lemma production_needs_dsn:
  "kg_postgres_dsn config = None \<Longrightarrow>
   from_config kb ops env (Some config) True embeddings extractor clock store cache w = (Inl KnowledgeConfigError, w)"
  by (simp add: from_config_def ebind_def eret_def or_else_def)

end
