(* ===== verification/Py_Text.thy ===== *)
theory Py_Text
  imports PV_Decision Knowledge
begin

text \<open>
  Python text of decoded documents: \<^verbatim>\<open>str\<close>, \<^verbatim>\<open>repr\<close>, truth values, substrings, iteration, and \<^verbatim>\<open>decimal.Decimal\<close>
  with its special values. Documents come from \<^verbatim>\<open>json.loads\<close>, which refuses integers of more than 4300 digits, so
  that \<^verbatim>\<open>str\<close> of their integers does not raise.
\<close>

section \<open>Text\<close>

fun contains_text :: "string \<Rightarrow> string \<Rightarrow> bool" where
  "contains_text sub [] = (sub = [])"
| "contains_text sub (c # cs) = (starts_with sub (c # cs) \<or> contains_text sub cs)"

definition backslash :: char where
  "backslash = CHR 0x5C"

definition repr_char :: "char \<Rightarrow> char \<Rightarrow> string" where
  "repr_char q c = (let n = of_char c :: nat in
     if c = backslash \<or> c = q then [backslash, c]
     else if n = 9 then backslash # ''t''
     else if n = 10 then backslash # ''n''
     else if n = 13 then backslash # ''r''
     else if n < 32 \<or> (127 \<le> n \<and> n \<le> 160) \<or> n = 173
     then backslash # ''x'' @ [hex_digit (n div 16), hex_digit (n mod 16)]
     else [c])"

definition repr_text :: "string \<Rightarrow> string" where
  "repr_text s =
     (let q = (if CHR 0x27 \<in> set s \<and> CHR 0x22 \<notin> set s then CHR 0x22 else CHR 0x27) in
      q # concat (map (repr_char q) s) @ [q])"

primrec py_repr :: "json \<Rightarrow> string" where
  "py_repr JNull = ''None''"
| "py_repr (JBool b) = (if b then ''True'' else ''False'')"
| "py_repr (JInt i) = show_int i"
| "py_repr (JFloat f) = (case f of Finite t \<Rightarrow> t | NaN \<Rightarrow> ''nan'' | PosInf \<Rightarrow> ''inf'' | NegInf \<Rightarrow> ''-inf'')"
| "py_repr (JStr s) = repr_text s"
| "py_repr (JList xs) = ''['' @ join '', '' (map py_repr xs) @ '']''"
| "py_repr (JObj d) = ''{'' @ join '', '' (map (\<lambda>(k, t). repr_text k @ '': '' @ t) (map (map_prod id py_repr) d)) @ ''}''"
| "py_repr (JOpaque c) = ''<'' @ c @ ''>''"

definition py_str :: "json \<Rightarrow> string" where
  "py_str v = (case v of JStr s \<Rightarrow> s | _ \<Rightarrow> py_repr v)"

definition truthy :: "json \<Rightarrow> bool" where
  "truthy v = (case v of
       JNull \<Rightarrow> False
     | JBool b \<Rightarrow> b
     | JInt i \<Rightarrow> i \<noteq> 0
     | JFloat (Finite t) \<Rightarrow> (case parse_dec t of Some (m, _) \<Rightarrow> m \<noteq> 0 | None \<Rightarrow> True)
     | JFloat _ \<Rightarrow> True
     | JStr s \<Rightarrow> s \<noteq> []
     | JList xs \<Rightarrow> xs \<noteq> []
     | JObj d \<Rightarrow> d \<noteq> []
     | JOpaque _ \<Rightarrow> True)"

text \<open>\<^verbatim>\<open>d.get(k)\<close>, \<^verbatim>\<open>d[k]\<close>, \<^verbatim>\<open>d.get(k) or v\<close>, and \<^verbatim>\<open>str(d[k])\<close>.\<close>

definition get_null :: "jobj \<Rightarrow> string \<Rightarrow> json" where
  "get_null d k = (case jget d k of Some v \<Rightarrow> v | None \<Rightarrow> JNull)"

definition item :: "jobj \<Rightarrow> string \<Rightarrow> json res" where
  "item d k = of_option KeyError (jget d k)"

definition get_or :: "jobj \<Rightarrow> string \<Rightarrow> json \<Rightarrow> json" where
  "get_or d k v = (if truthy (get_null d k) then get_null d k else v)"

definition item_text :: "jobj \<Rightarrow> string \<Rightarrow> string res" where
  "item_text d k = rbind (item d k) (\<lambda>v. Inr (py_str v))"

text \<open>\<^verbatim>\<open>list(v)\<close>.\<close>

definition py_list :: "json \<Rightarrow> json list res" where
  "py_list v = (case v of
       JList xs \<Rightarrow> Inr xs
     | JStr s \<Rightarrow> Inr (map (\<lambda>c. JStr [c]) s)
     | JObj d \<Rightarrow> Inr (map (\<lambda>kv. JStr (fst kv)) d)
     | _ \<Rightarrow> Inl TypeError)"

text \<open>\<^verbatim>\<open>int(v)\<close>. What it makes of the text of a finite float is an argument.\<close>

definition int_of_text :: "string \<Rightarrow> int option" where
  "int_of_text s = (case split_sign (py_strip s) of (sg, ds) \<Rightarrow>
     if ds \<noteq> [] \<and> list_all (\<lambda>c. is_digit c \<or> c = CHR ''_'') ds \<and> hd ds \<noteq> CHR ''_'' \<and> last ds \<noteq> CHR ''_'' \<and>
        \<not> contains_text ''__'' ds \<and> length (filter is_digit ds) \<le> 4300
     then Some (sg * int (nat_of_digits (filter is_digit ds))) else None)"

definition py_int :: "(string \<Rightarrow> int) \<Rightarrow> json \<Rightarrow> int res" where
  "py_int trunc v = (case v of
       JInt i \<Rightarrow> Inr i
     | JBool b \<Rightarrow> Inr (if b then 1 else 0)
     | JFloat (Finite t) \<Rightarrow> Inr (trunc t)
     | JFloat NaN \<Rightarrow> Inl ValueError
     | JFloat _ \<Rightarrow> Inl (External ''OverflowError'')
     | JStr s \<Rightarrow> of_option ValueError (int_of_text s)
     | _ \<Rightarrow> Inl TypeError)"

section \<open>Decimals\<close>

text \<open>
  \<^verbatim>\<open>Decimal(text)\<close>: sign, coefficient and exponent, or an infinity, or a quiet or signalling nan. An exponent out of
  the range of the C library raises \<^verbatim>\<open>InvalidOperation\<close>, as does any other text.
\<close>

datatype pydec = Dec bool nat int | DInf bool | DNaN bool

abbreviation InvalidOperation :: exn where
  "InvalidOperation \<equiv> External ''InvalidOperation''"

definition dec_in_range :: "nat \<Rightarrow> int \<Rightarrow> bool" where
  "dec_in_range m e = (-1999999999999999997 \<le> e \<and> e + int (length (digits m)) \<le> 10 ^ 18)"

definition py_decimal :: "string \<Rightarrow> pydec res" where
  "py_decimal text =
     (let t = filter (\<lambda>c. c \<noteq> CHR ''_'') (py_strip text);
          neg = (fst (split_sign t) = -1);
          body = py_lower (snd (split_sign t)) in
      if body = ''inf'' \<or> body = ''infinity'' then Inr (DInf neg)
      else if starts_with ''nan'' body \<and> list_all is_digit (drop 3 body) then Inr (DNaN False)
      else if starts_with ''snan'' body \<and> list_all is_digit (drop 4 body) then Inr (DNaN True)
      else case parse_dec t of
        None \<Rightarrow> Inl InvalidOperation
      | Some (m, e) \<Rightarrow> if dec_in_range (nat \<bar>m\<bar>) e then Inr (Dec neg (nat \<bar>m\<bar>) e) else Inl InvalidOperation)"

definition dec_integral :: "nat \<Rightarrow> int \<Rightarrow> bool" where
  "dec_integral m e = (m = 0 \<or> 0 \<le> e \<or> (nat (- e) < length (digits m) \<and> 10 ^ nat (- e) dvd m))"

text \<open>The value of an integral decimal.\<close>

definition dec_value :: "bool \<Rightarrow> nat \<Rightarrow> int \<Rightarrow> int" where
  "dec_value neg m e = (if neg then -1 else 1) *
     (if m = 0 then 0 else if 0 \<le> e then int m * 10 ^ nat e else int (m div 10 ^ nat (- e)))"

text \<open>\<^verbatim>\<open>str\<close> of a finite decimal.\<close>

definition dec_str :: "bool \<Rightarrow> nat \<Rightarrow> int \<Rightarrow> string" where
  "dec_str neg m e =
     (let ds = digits m; len = int (length ds); left = e + len in
      (if neg then ''-'' else []) @
      (if e \<le> 0 \<and> -6 < left then
         (if left \<le> 0 then ''0.'' @ replicate (nat (- left)) (CHR ''0'') @ ds
          else take (nat left) ds @ (if e = 0 then [] else CHR ''.'' # drop (nat left) ds))
       else take 1 ds @ (if len = 1 then [] else CHR ''.'' # drop 1 ds) @
         (if left = 1 then [] else ''E'' @ (if left - 1 < 0 then [] else ''+'') @ show_int (left - 1))))"

end
