(* ===== verification/Procurement_Records.thy ===== *)
theory Procurement_Records
  imports Py_Text
begin

text \<open>
  \<^verbatim>\<open>cbrain/procurement/erp.py\<close>, \<^verbatim>\<open>mailbox.py\<close> and \<^verbatim>\<open>extracts.py\<close>: records of the ERP replicas, quotations and their ranking,
  digests of requests for quotation, and the knowledge documents made of a replica.
\<close>

abbreviation ProcurementError :: exn where
  "ProcurementError \<equiv> External ''ProcurementError''"

section \<open>Replica records\<close>

datatype ErpSystem = ORACLE | SAP | SQL_SERVER

fun erp_value :: "ErpSystem \<Rightarrow> string" where
  "erp_value ORACLE = ''oracle''"
| "erp_value SAP = ''sap''"
| "erp_value SQL_SERVER = ''sql_server''"

definition secret_markers :: "string list" where
  "secret_markers = [''dsn='', ''jdbc:'', ''password='', ''pwd='', ''private_key'', ''api_key'', ''rfc://'', ''odbc:'']"

definition reject_secret_shaped :: "string \<Rightarrow> string res" where
  "reject_secret_shaped s =
     rbind (require_text s) (\<lambda>text.
     let lowered = py_casefold text in
     rbind (ensure (lowered \<notin> set forbidden_metadata_keys) ProcurementError) (\<lambda>_.
     rbind (ensure (\<not> list_ex (\<lambda>m. contains_text m lowered) secret_markers) ProcurementError) (\<lambda>_.
     Inr text)))"

record VendorRecord =
  vr_vendor_id :: string
  vr_name :: string
  vr_email :: string
  vr_registered :: bool
  vr_source_system :: ErpSystem

definition vendor_record_init :: "VendorRecord \<Rightarrow> VendorRecord res" where
  "vendor_record_init v =
     rbind (reject_secret_shaped (vr_vendor_id v)) (\<lambda>vendor_id.
     rbind (reject_secret_shaped (vr_name v)) (\<lambda>name.
     rbind (reject_secret_shaped (vr_email v)) (\<lambda>email.
     rbind (ensure (CHR ''@'' \<in> set email \<and> \<not> starts_with ''@'' email) ProcurementError) (\<lambda>_.
     Inr (v\<lparr>vr_vendor_id := vendor_id, vr_name := name, vr_email := email\<rparr>)))))"

record CatalogRecord =
  cr_material_id :: string
  cr_description :: string
  cr_source_system :: ErpSystem

definition catalog_record_init :: "CatalogRecord \<Rightarrow> CatalogRecord res" where
  "catalog_record_init c =
     rbind (reject_secret_shaped (cr_material_id c)) (\<lambda>material_id.
     rbind (reject_secret_shaped (cr_description c)) (\<lambda>description.
     Inr (c\<lparr>cr_material_id := material_id, cr_description := description\<rparr>)))"

record OpenPurchaseOrder =
  op_po_id :: string
  op_vendor_id :: string
  op_material_id :: string
  op_amount_minor :: string
  op_currency :: string
  op_source_system :: ErpSystem

definition open_po_init :: "OpenPurchaseOrder \<Rightarrow> OpenPurchaseOrder res" where
  "open_po_init p =
     rbind (reject_secret_shaped (op_po_id p)) (\<lambda>po_id.
     rbind (reject_secret_shaped (op_vendor_id p)) (\<lambda>vendor_id.
     rbind (reject_secret_shaped (op_material_id p)) (\<lambda>material_id.
     rbind (reject_secret_shaped (op_amount_minor p)) (\<lambda>amount_minor.
     rbind (reject_secret_shaped (op_currency p)) (\<lambda>currency.
     Inr (p\<lparr>op_po_id := po_id, op_vendor_id := vendor_id, op_material_id := material_id,
            op_amount_minor := amount_minor, op_currency := currency\<rparr>))))))"

record StaticReplicaSource =
  sr_erp_system :: ErpSystem
  sr_vendor_rows :: "VendorRecord list"
  sr_catalog_rows :: "CatalogRecord list"
  sr_open_po_rows :: "OpenPurchaseOrder list"

definition merge_replica_sources :: "StaticReplicaSource list \<Rightarrow> StaticReplicaSource res" where
  "merge_replica_sources sources = (case sources of
       [] \<Rightarrow> Inl ProcurementError
     | first # _ \<Rightarrow>
         let vendors = concat (map sr_vendor_rows sources) in
         if distinct (map vr_vendor_id vendors)
         then Inr \<lparr>sr_erp_system = sr_erp_system first, sr_vendor_rows = vendors,
                sr_catalog_rows = concat (map sr_catalog_rows sources),
                sr_open_po_rows = concat (map sr_open_po_rows sources)\<rparr>
         else Inl ProcurementError)"

definition parse_json_boolean :: "json \<Rightarrow> bool res" where
  "parse_json_boolean v = (case v of JBool b \<Rightarrow> Inr b | _ \<Rightarrow> Inl ProcurementError)"

definition mapping_without_secrets :: "jobj \<Rightarrow> jobj res" where
  "mapping_without_secrets d =
     rbind (ensure (list_all (\<lambda>kv. py_casefold (fst kv) \<notin> set forbidden_metadata_keys) d) ProcurementError)
       (\<lambda>_. Inr d)"

definition object_row :: "json \<Rightarrow> jobj res" where
  "object_row v = (case v of JObj d \<Rightarrow> mapping_without_secrets d | _ \<Rightarrow> Inl ProcurementError)"

definition object_rows :: "json \<Rightarrow> jobj list res" where
  "object_rows v = (case v of
       JNull \<Rightarrow> Inr []
     | JList xs \<Rightarrow> rmapM object_row xs
     | _ \<Rightarrow> Inl ProcurementError)"

definition registered_from_row :: "jobj \<Rightarrow> bool res" where
  "registered_from_row row = (case jget row ''registered'' of
     None \<Rightarrow> Inl ProcurementError | Some v \<Rightarrow> parse_json_boolean v)"

definition vendor_row :: "ErpSystem \<Rightarrow> jobj \<Rightarrow> VendorRecord res" where
  "vendor_row system row =
     rbind (item_text row ''vendor_id'') (\<lambda>vendor_id.
     rbind (item_text row ''name'') (\<lambda>name.
     rbind (item_text row ''email'') (\<lambda>email.
     rbind (registered_from_row row) (\<lambda>registered.
     vendor_record_init \<lparr>vr_vendor_id = vendor_id, vr_name = name, vr_email = email, vr_registered = registered,
       vr_source_system = system\<rparr>))))"

definition catalog_row :: "ErpSystem \<Rightarrow> jobj \<Rightarrow> CatalogRecord res" where
  "catalog_row system row =
     rbind (item_text row ''material_id'') (\<lambda>material_id.
     rbind (item_text row ''description'') (\<lambda>description.
     catalog_record_init \<lparr>cr_material_id = material_id, cr_description = description, cr_source_system = system\<rparr>))"

definition open_po_row :: "ErpSystem \<Rightarrow> jobj \<Rightarrow> OpenPurchaseOrder res" where
  "open_po_row system row =
     rbind (item_text row ''po_id'') (\<lambda>po_id.
     rbind (item_text row ''vendor_id'') (\<lambda>vendor_id.
     rbind (item_text row ''material_id'') (\<lambda>material_id.
     rbind (item_text row ''amount_minor'') (\<lambda>amount_minor.
     rbind (item_text row ''currency'') (\<lambda>currency.
     open_po_init \<lparr>op_po_id = po_id, op_vendor_id = vendor_id, op_material_id = material_id,
       op_amount_minor = amount_minor, op_currency = currency, op_source_system = system\<rparr>)))))"

definition records_from_mapping :: "jobj \<Rightarrow> ErpSystem \<Rightarrow> StaticReplicaSource res" where
  "records_from_mapping payload system =
     rbind (mapping_without_secrets payload) (\<lambda>_.
     rbind (object_rows (get_null payload ''vendors'')) (\<lambda>vendor_objs.
     rbind (rmapM (vendor_row system) vendor_objs) (\<lambda>vendors.
     rbind (object_rows (get_null payload ''catalog'')) (\<lambda>catalog_objs.
     rbind (rmapM (catalog_row system) catalog_objs) (\<lambda>catalog.
     rbind (object_rows (get_null payload ''open_purchase_orders'')) (\<lambda>po_objs.
     rbind (rmapM (open_po_row system) po_objs) (\<lambda>open_pos.
     Inr \<lparr>sr_erp_system = system, sr_vendor_rows = vendors, sr_catalog_rows = catalog,
          sr_open_po_rows = open_pos\<rparr>)))))))"

section \<open>Knowledge documents of a replica\<close>

definition replica_document ::
  "string \<Rightarrow> string \<Rightarrow> string \<Rightarrow> pyfl \<Rightarrow> string \<Rightarrow> string \<Rightarrow> string \<Rightarrow> (string \<times> string) list \<Rightarrow> SourceDocument res" where
  "replica_document tenant_id collection_id principal_id created_at source_id text provenance metadata =
     source_document_init \<lparr>sd_tenant_id = tenant_id, sd_collection_id = collection_id, sd_source_id = source_id,
       sd_media_type = ''text/plain'', sd_text = text, sd_acl_principals = {principal_id}, sd_created_at = created_at,
       sd_provenance = provenance, sd_metadata = metadata\<rparr>"

definition vendor_document :: "string \<Rightarrow> string \<Rightarrow> pyfl \<Rightarrow> string \<Rightarrow> VendorRecord \<Rightarrow> SourceDocument res" where
  "vendor_document tenant_id principal_id created_at system v =
     replica_document tenant_id ''procurement-vendors'' principal_id created_at
       (system @ ''-vendor-'' @ vr_vendor_id v)
       (''Vendor '' @ vr_vendor_id v @ '' named '' @ vr_name v @ '' is '' @
        (if vr_registered v then ''registered'' else ''unregistered'') @ '' in '' @ system @ ''.'')
       (system @ ''-vendor-master'')
       [(''source_system'', system), (''vendor_id'', vr_vendor_id v),
        (''registered'', if vr_registered v then ''true'' else ''false'')]"

definition material_document :: "string \<Rightarrow> string \<Rightarrow> pyfl \<Rightarrow> string \<Rightarrow> CatalogRecord \<Rightarrow> SourceDocument res" where
  "material_document tenant_id principal_id created_at system c =
     replica_document tenant_id ''procurement-catalog'' principal_id created_at
       (system @ ''-material-'' @ cr_material_id c)
       (''Material '' @ cr_material_id c @ '': '' @ cr_description c @ '' from '' @ system @ ''.'')
       (system @ ''-material-master'')
       [(''source_system'', system), (''material_id'', cr_material_id c)]"

definition open_po_document :: "string \<Rightarrow> string \<Rightarrow> pyfl \<Rightarrow> string \<Rightarrow> OpenPurchaseOrder \<Rightarrow> SourceDocument res" where
  "open_po_document tenant_id principal_id created_at system p =
     replica_document tenant_id ''procurement-open-pos'' principal_id created_at
       (system @ ''-po-'' @ op_po_id p)
       (''Open purchase order '' @ op_po_id p @ '' for vendor '' @ op_vendor_id p @ '' material '' @ op_material_id p @
        '' amount '' @ op_amount_minor p @ '' '' @ op_currency p @ '' from '' @ system @ ''.'')
       (system @ ''-open-po'')
       [(''source_system'', system), (''po_id'', op_po_id p), (''vendor_id'', op_vendor_id p)]"

definition documents_from_replica ::
  "StaticReplicaSource \<Rightarrow> string \<Rightarrow> string \<Rightarrow> pyfl \<Rightarrow> SourceDocument list res" where
  "documents_from_replica source tenant_id principal_id created_at =
     (let system = erp_value (sr_erp_system source) in
      rbind (rmapM (vendor_document tenant_id principal_id created_at system) (sr_vendor_rows source)) (\<lambda>vendors.
      rbind (rmapM (material_document tenant_id principal_id created_at system) (sr_catalog_rows source)) (\<lambda>materials.
      rbind (rmapM (open_po_document tenant_id principal_id created_at system) (sr_open_po_rows source)) (\<lambda>orders.
      let documents = vendors @ materials @ orders in
      if documents = [] then Inl ProcurementError else Inr documents))))"

section \<open>Quotations\<close>

record Quotation =
  qt_quote_id :: string
  qt_rfq_id :: string
  qt_vendor_id :: string
  qt_material_id :: string
  qt_amount_minor :: string
  qt_currency :: string

definition quotation_amount :: "Quotation \<Rightarrow> int res" where
  "quotation_amount q = (case rescue ProcurementError (py_decimal (qt_amount_minor q)) of
       Inl e \<Rightarrow> Inl e
     | Inr (Dec neg m e) \<Rightarrow>
         if neg \<or> m = 0 then Inl ProcurementError
         else if \<not> dec_integral m e then Inl ProcurementError
         else Inr (dec_value neg m e)
     | Inr _ \<Rightarrow> Inl ProcurementError)"

definition require_registered_vendor :: "string \<Rightarrow> (string \<times> VendorRecord) list \<Rightarrow> VendorRecord res" where
  "require_registered_vendor vendor_id vendors = (case map_of vendors vendor_id of
       None \<Rightarrow> Inl ProcurementError
     | Some v \<Rightarrow> if vr_registered v then Inr v else Inl ProcurementError)"

definition rank_quotations :: "Quotation list \<Rightarrow> Quotation list res" where
  "rank_quotations quotes =
     rbind (rmapM (\<lambda>q. rbind (quotation_amount q) (\<lambda>amount. Inr ((amount, qt_vendor_id q), q))) quotes) (\<lambda>keyed.
     Inr (map snd (sort_key fst keyed)))"

definition quotation_json :: "Quotation \<Rightarrow> jobj" where
  "quotation_json q = [(''quote_id'', JStr (qt_quote_id q)), (''rfq_id'', JStr (qt_rfq_id q)),
     (''vendor_id'', JStr (qt_vendor_id q)), (''material_id'', JStr (qt_material_id q)),
     (''amount_minor'', JStr (qt_amount_minor q)), (''currency'', JStr (qt_currency q))]"

definition quotation_board_payload :: "Quotation list \<Rightarrow> jobj res" where
  "quotation_board_payload quotes =
     rbind (rank_quotations quotes) (\<lambda>ranked.
     Inr [(''instant'', JBool True), (''count'', JInt (int (length ranked))), (''delivery_mode'', JStr ''simulated''),
       (''quotations'', JList (map (\<lambda>(index, q). JObj ((''rank'', JInt (int index)) # quotation_json q))
          (enumerate 1 ranked)))])"

definition canonical_rfq_digest :: "jobj \<Rightarrow> string res" where
  "canonical_rfq_digest arguments =
     rbind (item arguments ''material_id'') (\<lambda>material.
     rbind (item arguments ''rfq_id'') (\<lambda>rfq.
     rbind (item arguments ''vendor_ids'') (\<lambda>v.
     rbind (py_list v) (\<lambda>vendor_ids.
     hex_of_payload [(''material_id'', material), (''rfq_id'', rfq), (''vendor_ids'', JList vendor_ids)]))))"

definition quote_board_digest :: "jobj \<Rightarrow> string res" where
  "quote_board_digest board =
     hex_of_payload [(''count'', get_null board ''count''), (''quotations'', get_null board ''quotations'')]"

end
