(* ===== verification/Company_Desk.thy ===== *)
theory Company_Desk
  imports Company_Risk Procurement_Records
begin

text \<open>
  \<^verbatim>\<open>cbrain/company/authority.py\<close>, \<^verbatim>\<open>simulators.py\<close> and \<^verbatim>\<open>validation.py\<close>: the scope of a run, the state of the legal,
  accounts, operations, coding and procurement desks, and the validation of arguments before a decision. Dictionaries
  are association lists in insertion order; rows are decoded documents.
\<close>

section \<open>Authority\<close>

record CompanyExecutionContext =
  xc_principal_id :: string
  xc_agent_kind :: CompanyAgentKind
  xc_permitted_matter_ids :: "string set"
  xc_authorization_scope_id :: string

definition context_post_init :: "CompanyExecutionContext \<Rightarrow> CompanyExecutionContext res" where
  "context_post_init c =
     rbind (ensure (nonblank (xc_principal_id c)) ValueError) (\<lambda>_.
     rbind (ensure (nonblank (xc_authorization_scope_id c)) ValueError) (\<lambda>_.
     rbind (ensure (Ball (xc_permitted_matter_ids c) nonblank) ValueError) (\<lambda>_.
     Inr c)))"

section \<open>Desks\<close>

record OperationsSimulator =
  os_services :: "(string \<times> string) list"
  os_runbooks :: "(string \<times> jobj) list"
  os_tickets :: "(string \<times> jobj) list"
  os_incidents :: "jobj list"
  os_restarts :: "string list"

record LegalSimulator =
  lg_matters :: "(string \<times> string set) list"
  lg_contracts :: "(string \<times> jobj) list"
  lg_access_log :: "(string \<times> string) list"

record AccountsSimulator =
  ac_invoices :: "(string \<times> jobj) list"
  ac_purchase_orders :: "(string \<times> jobj) list"
  ac_ledger :: "(string \<times> jobj) list"
  ac_payments :: "jobj list"
  ac_vendors :: "(string \<times> jobj) list"

record CodingSimulator =
  cg_files :: "(string \<times> string) list"
  cg_search_index :: "(string \<times> string) list"
  cg_patches :: "jobj list"
  cg_pull_requests :: "jobj list"
  cg_test_runs :: "jobj list"

record ProcurementDesk =
  pd_vendors :: "(string \<times> VendorRecord) list"
  pd_catalog :: "(string \<times> CatalogRecord) list"
  pd_open_pos :: "(string \<times> OpenPurchaseOrder) list"
  pd_quotations :: "(string \<times> Quotation) list"
  pd_rfqs :: "(string \<times> jobj) list"
  pd_requisitions :: "(string \<times> jobj) list"
  pd_purchase_orders :: "(string \<times> jobj) list"
  pd_outbound_rfqs :: "jobj list"
  pd_quote_templates :: "((string \<times> string) \<times> (string \<times> string)) list"
  pd_rfq_fingerprints :: "(string \<times> string) list"
  pd_rfq_outcomes :: "(string \<times> jobj) list"

record CompanySimulatorBundle =
  sb_operations :: OperationsSimulator
  sb_legal :: LegalSimulator
  sb_accounts :: AccountsSimulator
  sb_coding :: CodingSimulator
  sb_procurement :: ProcurementDesk

definition rfq_idempotency_conflict :: "jobj \<Rightarrow> ProcurementDesk \<Rightarrow> bool res" where
  "rfq_idempotency_conflict arguments s = (case text_field arguments ''rfq_id'' of
       None \<Rightarrow> Inr False
     | Some rfq_id \<Rightarrow>
         rbind (canonical_rfq_digest arguments) (\<lambda>digest.
         Inr (case map_of (pd_rfq_fingerprints s) rfq_id of None \<Rightarrow> False | Some d \<Rightarrow> d \<noteq> digest)))"

definition replay_rfq_outcome :: "string \<Rightarrow> ProcurementDesk \<Rightarrow> jobj option" where
  "replay_rfq_outcome rfq_id s = map_of (pd_rfq_outcomes s) rfq_id"

definition record_rfq_outcome :: "jobj \<Rightarrow> jobj \<Rightarrow> ProcurementDesk \<Rightarrow> unit res \<times> ProcurementDesk" where
  "record_rfq_outcome arguments outcome s =
     (case rbind (item_text arguments ''rfq_id'') (\<lambda>rfq_id.
           rbind (canonical_rfq_digest arguments) (\<lambda>digest. Inr (rfq_id, digest))) of
        Inl e \<Rightarrow> (Inl e, s)
      | Inr (rfq_id, digest) \<Rightarrow>
          (case map_of (pd_rfq_fingerprints s) rfq_id of
             Some d \<Rightarrow>
               if d \<noteq> digest then (Inl ProcurementError, s)
               else (Inr (), s\<lparr>pd_rfq_fingerprints := AList.update rfq_id digest (pd_rfq_fingerprints s),
                              pd_rfq_outcomes := AList.update rfq_id outcome (pd_rfq_outcomes s)\<rparr>)
           | None \<Rightarrow> (Inr (), s\<lparr>pd_rfq_fingerprints := AList.update rfq_id digest (pd_rfq_fingerprints s),
                              pd_rfq_outcomes := AList.update rfq_id outcome (pd_rfq_outcomes s)\<rparr>)))"

abbreviation SimulatorValidationError :: exn where
  "SimulatorValidationError \<equiv> External ''SimulatorValidationError''"

definition parse_decimal_minor :: "string \<Rightarrow> (bool \<times> nat \<times> int) res" where
  "parse_decimal_minor s = (case rescue SimulatorValidationError (py_decimal s) of
       Inl e \<Rightarrow> Inl e
     | Inr (Dec neg m e) \<Rightarrow>
         if \<not> dec_integral m e then Inl SimulatorValidationError
         else if neg \<and> m \<noteq> 0 then Inl SimulatorValidationError
         else Inr (neg, m, e)
     | Inr _ \<Rightarrow> Inl SimulatorValidationError)"

section \<open>Validation of amounts\<close>

definition legal_scoped_tools :: "string list" where
  "legal_scoped_tools = [''search_contracts'', ''extract_clause'', ''compare_contracts'', ''identify_deviations'',
     ''prepare_redline'', ''draft_legal_summary'', ''send_commitment'', ''sign_contract'', ''file_document'',
     ''provide_legal_advice'']"

definition legal_contract_tools :: "string list" where
  "legal_contract_tools = [''extract_clause'', ''identify_deviations'', ''prepare_redline'', ''draft_legal_summary'',
     ''sign_contract'']"

definition money_tools :: "string list" where
  "money_tools = [''prepare_payment'', ''prepare_refund'', ''execute_payment'']"

definition procurement_money_tools :: "string list" where
  "procurement_money_tools = [''award_quote'', ''create_purchase_requisition'', ''release_purchase_order'']"

definition supported_currencies :: "string list" where
  "supported_currencies = [''USD'', ''EUR'']"

definition amount_ceiling :: int where
  "amount_ceiling = 100000000"

abbreviation passed :: validation where
  "passed \<equiv> (True, None)"

abbreviation refused :: "string \<Rightarrow> validation" where
  "refused reason \<equiv> (False, Some reason)"

text \<open>The amount, or the reason of its refusal. The pattern lets integers through only, so that the decimal is exact.\<close>

definition amount_text :: "json \<Rightarrow> string option" where
  "amount_text v = (case v of JInt i \<Rightarrow> Some (show_int i) | JStr s \<Rightarrow> Some (py_strip s) | _ \<Rightarrow> None)"

definition integer_minor :: "string \<Rightarrow> int option" where
  "integer_minor t = (let ds = (case t of c # r \<Rightarrow> if c = CHR ''-'' then r else t | [] \<Rightarrow> []) in
     if ds \<noteq> [] \<and> list_all is_digit ds
     then Some ((if hd t = CHR ''-'' then -1 else 1) * int (nat_of_digits ds)) else None)"

definition non_finite_texts :: "string list" where
  "non_finite_texts = [''nan'', ''inf'', ''+inf'', ''-inf'', ''infinity'', ''+infinity'', ''-infinity'']"

definition parse_amount :: "json \<Rightarrow> string + int" where
  "parse_amount v = (case amount_text v of
       None \<Rightarrow> Inl ''ACCOUNTS_AMOUNT_INVALID''
     | Some t \<Rightarrow>
         let lowered = py_lower t in
         if t = [] \<or> lowered \<in> {''true'', ''false''} then Inl ''ACCOUNTS_AMOUNT_INVALID''
         else if lowered \<in> set non_finite_texts then Inl ''ACCOUNTS_AMOUNT_NON_FINITE''
         else if CHR ''e'' \<in> set lowered then Inl ''ACCOUNTS_AMOUNT_INVALID''
         else case integer_minor t of
           None \<Rightarrow> Inl ''ACCOUNTS_AMOUNT_INVALID''
         | Some amount \<Rightarrow>
             if amount \<le> 0 then Inl ''ACCOUNTS_AMOUNT_NON_POSITIVE''
             else if amount_ceiling < amount then Inl ''ACCOUNTS_AMOUNT_OVER_LIMIT''
             else Inr amount)"

text \<open>\<^verbatim>\<open>isinstance(v, str)\<close> with membership.\<close>

definition text_of :: "json \<Rightarrow> string option" where
  "text_of v = (case v of JStr s \<Rightarrow> Some s | _ \<Rightarrow> None)"

definition supported_currency :: "jobj \<Rightarrow> string option" where
  "supported_currency arguments = (case text_of (get_null arguments ''currency'') of
     Some c \<Rightarrow> if c \<in> set supported_currencies then Some c else None | None \<Rightarrow> None)"

text \<open>\<^verbatim>\<open>amount > x\<close> and \<^verbatim>\<open>amount != x\<close> for an integer amount and any decimal.\<close>

definition dec_cmp :: "nat \<Rightarrow> int \<Rightarrow> bool \<Rightarrow> int \<Rightarrow> int \<times> int" where
  "dec_cmp m e neg amount = (let x = (if neg then - int m else int m) in
     if 0 \<le> e then (amount, x * 10 ^ nat e) else (amount * 10 ^ nat (- e), x))"

definition amount_exceeds :: "int \<Rightarrow> pydec \<Rightarrow> bool res" where
  "amount_exceeds amount d = (case d of
       Dec neg m e \<Rightarrow> (case dec_cmp m e neg amount of (a, x) \<Rightarrow> Inr (x < a))
     | DInf neg \<Rightarrow> Inr neg
     | DNaN _ \<Rightarrow> Inl InvalidOperation)"

definition amount_differs :: "int \<Rightarrow> pydec \<Rightarrow> bool res" where
  "amount_differs amount d = (case d of
       Dec neg m e \<Rightarrow> (case dec_cmp m e neg amount of (a, x) \<Rightarrow> Inr (a \<noteq> x))
     | DInf _ \<Rightarrow> Inr True
     | DNaN signalling \<Rightarrow> if signalling then Inl InvalidOperation else Inr True)"

section \<open>Validation of the accounts desk\<close>

definition check_invoice ::
  "string \<Rightarrow> jobj \<Rightarrow> int \<Rightarrow> string \<Rightarrow> jobj \<Rightarrow> validation res" where
  "check_invoice tool arguments amount currency invoice =
     rbind (py_decimal (py_str (get_or invoice ''amount_minor'' (JStr ''0'')))) (\<lambda>invoice_amount.
     if currency \<noteq> py_str (get_or invoice ''currency'' (JStr [])) then Inr (refused ''ACCOUNTS_INVOICE_MISMATCH'')
     else
       rbind (if tool = ''prepare_refund'' then amount_exceeds amount invoice_amount
              else amount_differs amount invoice_amount) (\<lambda>mismatch.
       let beneficiary = get_null arguments ''beneficiary_id'' in
       if mismatch then Inr (refused ''ACCOUNTS_INVOICE_MISMATCH'')
       else if (tool = ''execute_payment'' \<or> beneficiary \<noteq> JNull) \<and>
               text_of beneficiary \<noteq> Some (py_str (get_or invoice ''vendor_id'' (JStr [])))
       then Inr (refused ''ACCOUNTS_BENEFICIARY_MISMATCH'')
       else Inr passed))"

definition validate_money ::
  "string \<Rightarrow> jobj \<Rightarrow> CompanySimulatorBundle option \<Rightarrow> validation res" where
  "validate_money tool arguments bundle = (case parse_amount (get_null arguments ''amount_minor'') of
       Inl reason \<Rightarrow> Inr (refused reason)
     | Inr amount \<Rightarrow>
         (case supported_currency arguments of
            None \<Rightarrow> Inr (refused ''ACCOUNTS_CURRENCY_UNSUPPORTED'')
          | Some currency \<Rightarrow>
              (case (text_of (get_null arguments ''invoice_id''), bundle) of
                 (Some invoice_id, Some b) \<Rightarrow>
                   (case map_of (ac_invoices (sb_accounts b)) invoice_id of
                      None \<Rightarrow> Inr (refused ''ACCOUNTS_INVOICE_MISMATCH'')
                    | Some invoice \<Rightarrow> check_invoice tool arguments amount currency invoice)
               | _ \<Rightarrow> Inr (refused ''ACCOUNTS_INVOICE_MISMATCH''))))"

section \<open>Validation of the legal desk\<close>

definition authorized_contract_ids :: "string set \<Rightarrow> CompanySimulatorBundle option \<Rightarrow> string set" where
  "authorized_contract_ids permitted bundle = (case bundle of
       None \<Rightarrow> {}
     | Some b \<Rightarrow> (\<Union>m\<in>permitted. case map_of (lg_matters (sb_legal b)) m of Some ids \<Rightarrow> ids | None \<Rightarrow> {}))"

definition contract_matter :: "string \<Rightarrow> CompanySimulatorBundle option \<Rightarrow> string option" where
  "contract_matter contract_id bundle = (case bundle of
       None \<Rightarrow> None
     | Some b \<Rightarrow>
         (case map_of (lg_contracts (sb_legal b)) contract_id of
            None \<Rightarrow> None
          | Some contract \<Rightarrow>
              (case get_null contract ''matter_id'' of JNull \<Rightarrow> None | m \<Rightarrow> Some (py_str m))))"

definition validate_compare :: "jobj \<Rightarrow> string set \<Rightarrow> CompanySimulatorBundle option \<Rightarrow> validation" where
  "validate_compare arguments permitted bundle =
     (let left_id = py_str (get_or arguments ''left_id'' (JStr []));
          right_id = py_str (get_or arguments ''right_id'' (JStr []));
          allowed = authorized_contract_ids permitted bundle in
      if (case (contract_matter left_id bundle, contract_matter right_id bundle) of
            (Some l, Some r) \<Rightarrow> l \<noteq> r \<and> \<not> {l, r} \<subseteq> permitted
          | _ \<Rightarrow> False)
      then refused ''LEGAL_CROSS_MATTER_AUTHORITY_REQUIRED''
      else if left_id \<notin> allowed \<or> right_id \<notin> allowed then refused ''LEGAL_CONTRACT_OUTSIDE_SCOPE''
      else passed)"

definition validate_legal ::
  "string \<Rightarrow> jobj \<Rightarrow> CompanyExecutionContext \<Rightarrow> CompanySimulatorBundle option \<Rightarrow> validation" where
  "validate_legal tool arguments context bundle =
     (let permitted = xc_permitted_matter_ids context in
      if tool \<in> {''search_contracts'', ''send_commitment'', ''provide_legal_advice''} then
        (case text_of (get_null arguments ''matter_id'') of
           Some m \<Rightarrow> if m \<in> permitted then passed else refused ''LEGAL_MATTER_SCOPE_MISMATCH''
         | None \<Rightarrow> refused ''LEGAL_MATTER_SCOPE_MISMATCH'')
      else if tool = ''compare_contracts'' then validate_compare arguments permitted bundle
      else if tool \<in> set legal_contract_tools \<or> tool = ''file_document'' then
        (let contract_id = py_str (get_or arguments ''contract_id'' (get_or arguments ''document_id'' (JStr []))) in
         if contract_id \<notin> authorized_contract_ids permitted bundle then refused ''LEGAL_CONTRACT_OUTSIDE_SCOPE''
         else passed)
      else passed)"

section \<open>Validation of the procurement desk\<close>

text \<open>The vendors of a request, in order; \<open>seen\<close> are those before.\<close>

fun rfq_vendors_reason :: "ProcurementDesk \<Rightarrow> string list \<Rightarrow> json list \<Rightarrow> string option" where
  "rfq_vendors_reason s seen [] = None"
| "rfq_vendors_reason s seen (v # vs) = (case text_of v of
       None \<Rightarrow> Some ''PROCUREMENT_RFQ_VENDORS_INVALID''
     | Some i \<Rightarrow>
         if \<not> nonblank i \<or> i \<in> set seen then Some ''PROCUREMENT_RFQ_VENDORS_INVALID''
         else case map_of (pd_vendors s) i of
           None \<Rightarrow> Some ''PROCUREMENT_VENDOR_UNKNOWN''
         | Some vendor \<Rightarrow>
             if \<not> vr_registered vendor then Some ''PROCUREMENT_VENDOR_UNREGISTERED''
             else rfq_vendors_reason s (i # seen) vs)"

definition validate_rfq :: "jobj \<Rightarrow> ProcurementDesk \<Rightarrow> validation res" where
  "validate_rfq arguments s =
     (if (case text_of (get_null arguments ''material_id'') of Some m \<Rightarrow> map_of (pd_catalog s) m = None | None \<Rightarrow> True)
      then Inr (refused ''PROCUREMENT_MATERIAL_UNKNOWN'')
      else case get_null arguments ''vendor_ids'' of
        JList vendor_ids \<Rightarrow>
          if vendor_ids = [] then Inr (refused ''PROCUREMENT_RFQ_VENDORS_INVALID'')
          else (case rfq_vendors_reason s [] vendor_ids of
            Some reason \<Rightarrow> Inr (refused reason)
          | None \<Rightarrow>
              if text_field arguments ''rfq_id'' = None then Inr (refused ''PROCUREMENT_RFQ_VENDORS_INVALID'')
              else rbind (rfq_idempotency_conflict arguments s) (\<lambda>conflict.
                Inr (if conflict then refused ''PROCUREMENT_RFQ_IDEMPOTENCY_CONFLICT'' else passed)))
      | _ \<Rightarrow> Inr (refused ''PROCUREMENT_RFQ_VENDORS_INVALID''))"

definition check_requisition :: "jobj \<Rightarrow> int \<Rightarrow> string \<Rightarrow> ProcurementDesk \<Rightarrow> validation" where
  "check_requisition arguments amount currency s = (case text_of (get_null arguments ''pr_id'') of
       None \<Rightarrow> refused ''PROCUREMENT_REQUISITION_MISSING''
     | Some pr_id \<Rightarrow>
         (case map_of (pd_requisitions s) pr_id of
            None \<Rightarrow> refused ''PROCUREMENT_REQUISITION_MISSING''
          | Some requisition \<Rightarrow>
              if py_str (get_null requisition ''amount_minor'') \<noteq> show_int amount \<or>
                 py_str (get_null requisition ''currency'') \<noteq> currency
              then refused ''PROCUREMENT_QUOTE_MISMATCH'' else passed))"

definition check_quantity :: "jobj \<Rightarrow> Quotation \<Rightarrow> validation" where
  "check_quantity arguments quot =
     (if get_null arguments ''material_id'' \<noteq> JStr (qt_material_id quot) then refused ''PROCUREMENT_QUOTE_MISMATCH''
      else case get_null arguments ''quantity'' of
        JInt n \<Rightarrow> if n < 1 then refused ''PROCUREMENT_QUOTE_MISMATCH'' else passed
      | _ \<Rightarrow> refused ''PROCUREMENT_QUOTE_MISMATCH'')"

definition check_quote :: "string \<Rightarrow> jobj \<Rightarrow> int \<Rightarrow> string \<Rightarrow> ProcurementDesk \<Rightarrow> validation res" where
  "check_quote tool arguments amount currency s =
     (case (text_of (get_null arguments ''rfq_id''), text_of (get_null arguments ''quote_id'')) of
        (Some rfq_id, Some quote_id) \<Rightarrow>
          (case map_of (pd_quotations s) quote_id of
             None \<Rightarrow> Inr (refused ''PROCUREMENT_QUOTE_MISSING'')
           | Some quot \<Rightarrow>
               if qt_rfq_id quot \<noteq> rfq_id then Inr (refused ''PROCUREMENT_QUOTE_MISSING'')
               else if (case map_of (pd_vendors s) (qt_vendor_id quot) of
                          None \<Rightarrow> True | Some vendor \<Rightarrow> \<not> vr_registered vendor)
               then Inr (refused ''PROCUREMENT_VENDOR_UNREGISTERED'')
               else rbind (quotation_amount quot) (\<lambda>quoted.
                 if quoted \<noteq> amount \<or> qt_currency quot \<noteq> currency then Inr (refused ''PROCUREMENT_QUOTE_MISMATCH'')
                 else if tool = ''create_purchase_requisition'' then Inr (check_quantity arguments quot)
                 else Inr passed))
      | _ \<Rightarrow> Inr (refused ''PROCUREMENT_QUOTE_MISSING''))"

definition validate_procurement_money :: "string \<Rightarrow> jobj \<Rightarrow> ProcurementDesk \<Rightarrow> validation res" where
  "validate_procurement_money tool arguments s = (case parse_amount (get_null arguments ''amount_minor'') of
       Inl reason \<Rightarrow> Inr (refused reason)
     | Inr amount \<Rightarrow>
         (case supported_currency arguments of
            None \<Rightarrow> Inr (refused ''ACCOUNTS_CURRENCY_UNSUPPORTED'')
          | Some currency \<Rightarrow>
              if tool = ''release_purchase_order'' then Inr (check_requisition arguments amount currency s)
              else check_quote tool arguments amount currency s))"

definition validate_procurement :: "string \<Rightarrow> jobj \<Rightarrow> ProcurementDesk \<Rightarrow> validation res" where
  "validate_procurement tool arguments s =
     (if tool \<in> {''lookup_vendor'', ''change_vendor_bank'', ''post_erp_payment''} then
        Inr (case text_of (get_null arguments ''vendor_id'') of
               Some i \<Rightarrow> if map_of (pd_vendors s) i = None then refused ''PROCUREMENT_VENDOR_UNKNOWN'' else passed
             | None \<Rightarrow> refused ''PROCUREMENT_VENDOR_UNKNOWN'')
      else if tool = ''search_catalog'' then
        Inr (if text_field arguments ''query'' = None then refused ''PROCUREMENT_MATERIAL_UNKNOWN'' else passed)
      else if tool = ''send_rfq_email'' then validate_rfq arguments s
      else if tool = ''show_quotations'' then
        Inr (if text_field arguments ''rfq_id'' = None then refused ''PROCUREMENT_QUOTE_MISSING'' else passed)
      else if tool \<in> set procurement_money_tools then validate_procurement_money tool arguments s
      else Inr passed)"

section \<open>Validation\<close>

definition validate_company_action ::
  "CompanyAgentKind \<Rightarrow> ActionIntent \<Rightarrow> CompanyExecutionContext option \<Rightarrow> CompanySimulatorBundle option \<Rightarrow> validation res"
  where
  "validate_company_action kind action context bundle =
     (let tool = ai_tool_name action in
      if kind = LEGAL \<and> tool \<in> set legal_scoped_tools then
        (case context of
           None \<Rightarrow> Inr (refused ''LEGAL_MATTER_SCOPE_REQUIRED'')
         | Some c \<Rightarrow> rbind (ai_arguments action) (\<lambda>arguments. Inr (validate_legal tool arguments c bundle)))
      else if kind = ACCOUNTS \<and> tool \<in> set money_tools then
        rbind (ai_arguments action) (\<lambda>arguments. validate_money tool arguments bundle)
      else if kind = PROCUREMENT then
        (case bundle of
           None \<Rightarrow> Inr (refused ''PROCUREMENT_VENDOR_UNKNOWN'')
         | Some b \<Rightarrow> rbind (ai_arguments action) (\<lambda>arguments. validate_procurement tool arguments (sb_procurement b)))
      else Inr passed)"

section \<open>What a passed validation says\<close>

lemma parse_amount_Inr: "parse_amount v = Inr a \<Longrightarrow> 0 < a \<and> a \<le> amount_ceiling"
  by (auto simp: parse_amount_def Let_def split: option.splits if_splits)

text \<open>\<open>decimal_is d a\<close>: the decimal \<open>d\<close> is the integer \<open>a\<close>.\<close>

definition decimal_is :: "pydec \<Rightarrow> int \<Rightarrow> bool" where
  "decimal_is d a = (\<exists>neg m e. d = Dec neg m e \<and>
     (let x = (if neg then - int m else int m) in
      if 0 \<le> e then a = x * 10 ^ nat e else a * 10 ^ nat (- e) = x))"

lemma amount_differs_False: "amount_differs a d = Inr False \<longleftrightarrow> decimal_is d a"
  by (cases d) (auto simp: amount_differs_def dec_cmp_def decimal_is_def Let_def)

lemma validate_money_passed:
  assumes "validate_money tool arguments (Some b) = Inr (True, r)" and "tool = ''execute_payment''"
  shows "\<exists>amount currency invoice_id invoice d.
    parse_amount (get_null arguments ''amount_minor'') = Inr amount \<and>
    get_null arguments ''currency'' = JStr currency \<and> currency \<in> set supported_currencies \<and>
    get_null arguments ''invoice_id'' = JStr invoice_id \<and>
    map_of (ac_invoices (sb_accounts b)) invoice_id = Some invoice \<and>
    py_decimal (py_str (get_or invoice ''amount_minor'' (JStr ''0''))) = Inr d \<and> decimal_is d amount \<and>
    currency = py_str (get_or invoice ''currency'' (JStr [])) \<and>
    get_null arguments ''beneficiary_id'' = JStr (py_str (get_or invoice ''vendor_id'' (JStr [])))"
  using assms
  by (auto simp: validate_money_def check_invoice_def supported_currency_def text_of_def rbind_Inr_iff Let_def
      amount_differs_False split: sum.splits option.splits if_splits json.splits)

end
