(* ===== verification/Company_Handlers.thy ===== *)
theory Company_Handlers
  imports Company_Desk
begin

text \<open>
  \<^verbatim>\<open>cbrain/company/handlers.py\<close>: the tool handlers of the operations, legal, accounts, coding and procurement desks, each
  a computation on the state of its desk that may raise. The order in which a set is enumerated and the truncation of a
  float are arguments.
\<close>

type_synonym 's tool_handler = "jobj \<Rightarrow> ('s, json) eff"

definition reads :: "('s \<Rightarrow> 'a res) \<Rightarrow> ('s, 'a) eff" where
  "reads f s = (f s, s)"

definition writes :: "('s \<Rightarrow> 's) \<Rightarrow> ('s, unit) eff" where
  "writes f s = (Inr (), f s)"

text \<open>\<^verbatim>\<open>{**d, **e}\<close>.\<close>

definition merge_obj :: "jobj \<Rightarrow> jobj \<Rightarrow> jobj" where
  "merge_obj d e = fold (\<lambda>(k, v). jset k v) e d"

section \<open>Operations\<close>

definition check_service_health :: "OperationsSimulator tool_handler" where
  "check_service_health arguments =
     ebind (eret (item_text arguments ''service_id'')) (\<lambda>service_id.
     reads (\<lambda>s. Inr (JObj [(''service_id'', JStr service_id),
       (''status'', JStr (case map_of (os_services s) service_id of Some t \<Rightarrow> t | None \<Rightarrow> ''unknown''))])))"

definition search_runbooks :: "OperationsSimulator tool_handler" where
  "search_runbooks arguments =
     ebind (eret (item_text arguments ''query'')) (\<lambda>query.
     reads (\<lambda>s. Inr (JObj [(''matches'', JList (map (\<lambda>rb. JObj (snd rb)) (filter (\<lambda>rb.
       contains_text (py_lower query)
         (py_lower (py_str (case jget (snd rb) ''title'' of Some t \<Rightarrow> t | None \<Rightarrow> JStr [])))) (os_runbooks s))))])))"

definition triage_ticket :: "OperationsSimulator tool_handler" where
  "triage_ticket arguments =
     ebind (eret (item_text arguments ''ticket_id'')) (\<lambda>ticket_id.
     ebind (eret (item_text arguments ''summary'')) (\<lambda>summary.
     eret (Inr (JObj [(''ticket_id'', JStr ticket_id), (''summary'', JStr summary)]))))"

definition assign_severity :: "OperationsSimulator tool_handler" where
  "assign_severity arguments =
     ebind (eret (item_text arguments ''ticket_id'')) (\<lambda>ticket_id.
     ebind (eret (item_text arguments ''severity'')) (\<lambda>severity.
     ebind (writes (\<lambda>s. case map_of (os_tickets s) ticket_id of
         None \<Rightarrow> s
       | Some t \<Rightarrow> s\<lparr>os_tickets := AList.update ticket_id (jset ''severity'' (JStr severity) t) (os_tickets s)\<rparr>)) (\<lambda>_.
     eret (Inr (JObj [(''ticket_id'', JStr ticket_id), (''severity'', JStr severity)])))))"

definition create_incident_draft :: "OperationsSimulator tool_handler" where
  "create_incident_draft arguments =
     ebind (eret (item_text arguments ''title'')) (\<lambda>title.
     ebind (eret (item_text arguments ''severity'')) (\<lambda>severity.
     let draft = [(''title'', JStr title), (''severity'', JStr severity)] in
     ebind (writes (\<lambda>s. s\<lparr>os_incidents := os_incidents s @ [draft]\<rparr>)) (\<lambda>_. eret (Inr (JObj draft)))))"

definition prepare_escalation :: "OperationsSimulator tool_handler" where
  "prepare_escalation arguments =
     ebind (eret (item_text arguments ''ticket_id'')) (\<lambda>ticket_id.
     ebind (eret (item_text arguments ''channel'')) (\<lambda>channel.
     eret (Inr (JObj [(''ticket_id'', JStr ticket_id), (''channel'', JStr channel), (''prepared'', JBool True)]))))"

definition propose_restart :: "OperationsSimulator tool_handler" where
  "propose_restart arguments =
     ebind (eret (item_text arguments ''service_id'')) (\<lambda>service_id.
     ebind (writes (\<lambda>s. s\<lparr>os_restarts := os_restarts s @ [service_id]\<rparr>)) (\<lambda>_.
     eret (Inr (JObj [(''service_id'', JStr service_id), (''restarted'', JBool True)]))))"

definition propose_infra_change :: "OperationsSimulator tool_handler" where
  "propose_infra_change arguments =
     ebind (eret (item_text arguments ''change_id'')) (\<lambda>change_id.
     ebind (eret (item_text arguments ''description'')) (\<lambda>description.
     eret (Inr (JObj [(''change_id'', JStr change_id), (''description'', JStr description), (''proposed'', JBool True)]))))"

definition delete_data :: "OperationsSimulator tool_handler" where
  "delete_data arguments =
     ebind (eret (item_text arguments ''resource_id'')) (\<lambda>resource_id.
     eret (Inr (JObj [(''resource_id'', JStr resource_id), (''deleted'', JBool True)])))"

definition operations_handlers :: "(string \<times> OperationsSimulator tool_handler) list" where
  "operations_handlers = [(''check_service_health'', check_service_health), (''search_runbooks'', search_runbooks),
     (''triage_ticket'', triage_ticket), (''assign_severity'', assign_severity),
     (''create_incident_draft'', create_incident_draft), (''prepare_escalation'', prepare_escalation),
     (''propose_restart'', propose_restart), (''propose_infra_change'', propose_infra_change),
     (''delete_data'', delete_data)]"

section \<open>Legal\<close>

definition permitted_matters :: "CompanyExecutionContext option \<Rightarrow> string set res" where
  "permitted_matters context = (case context of
     None \<Rightarrow> Inl SimulatorValidationError | Some c \<Rightarrow> Inr (xc_permitted_matter_ids c))"

definition matter_contracts :: "LegalSimulator \<Rightarrow> string \<Rightarrow> string set" where
  "matter_contracts s m = (case map_of (lg_matters s) m of Some ids \<Rightarrow> ids | None \<Rightarrow> {})"

definition authorized_contracts :: "CompanyExecutionContext option \<Rightarrow> LegalSimulator \<Rightarrow> string set res" where
  "authorized_contracts context s =
     rbind (permitted_matters context) (\<lambda>permitted. Inr (\<Union>m\<in>permitted. matter_contracts s m))"

definition require_contract :: "CompanyExecutionContext option \<Rightarrow> string \<Rightarrow> (LegalSimulator, jobj) eff" where
  "require_contract context contract_id =
     ebind (reads (authorized_contracts context)) (\<lambda>ids.
     ebind (eret (ensure (contract_id \<in> ids) SimulatorValidationError)) (\<lambda>_.
     ebind (reads (\<lambda>s. of_option SimulatorValidationError (map_of (lg_contracts s) contract_id))) (\<lambda>contract.
     ebind (eret (item_text contract ''matter_id'')) (\<lambda>matter_id.
     ebind (writes (\<lambda>s. s\<lparr>lg_access_log := lg_access_log s @ [(matter_id, contract_id)]\<rparr>)) (\<lambda>_.
     eret (Inr contract))))))"

definition require_matter :: "CompanyExecutionContext option \<Rightarrow> string \<Rightarrow> unit res" where
  "require_matter context matter_id =
     rbind (permitted_matters context) (\<lambda>permitted. ensure (matter_id \<in> permitted) SimulatorValidationError)"

definition search_contracts ::
  "(string set \<Rightarrow> string list) \<Rightarrow> CompanyExecutionContext option \<Rightarrow> LegalSimulator tool_handler" where
  "search_contracts order context arguments =
     ebind (eret (item_text arguments ''matter_id'')) (\<lambda>matter_id.
     ebind (eret (require_matter context matter_id)) (\<lambda>_.
     ebind (eret (item_text arguments ''query'')) (\<lambda>query.
     ebind (reads (authorized_contracts context)) (\<lambda>ids.
     reads (\<lambda>s. Inr (JObj [(''matter_id'', JStr matter_id),
       (''matches'', JList (map JObj (filter (\<lambda>c. contains_text (py_lower query) (py_lower (py_str (JObj c))))
         (List.map_filter (map_of (lg_contracts s)) (order (matter_contracts s matter_id \<inter> ids))))))]))))))"

definition clause_text :: "json \<Rightarrow> string \<Rightarrow> json res" where
  "clause_text clauses clause_id = (case clauses of
       JObj d \<Rightarrow> of_option SimulatorValidationError (jget d clause_id)
     | JStr t \<Rightarrow> if contains_text clause_id t then Inl TypeError else Inl SimulatorValidationError
     | JList xs \<Rightarrow> if JStr clause_id \<in> set xs then Inl TypeError else Inl SimulatorValidationError
     | _ \<Rightarrow> Inl TypeError)"

definition extract_clause :: "CompanyExecutionContext option \<Rightarrow> LegalSimulator tool_handler" where
  "extract_clause context arguments =
     ebind (eret (item_text arguments ''contract_id'')) (\<lambda>contract_id.
     ebind (eret (item_text arguments ''clause_id'')) (\<lambda>clause_id.
     ebind (require_contract context contract_id) (\<lambda>contract.
     ebind (eret (clause_text (case jget contract ''clauses'' of Some c \<Rightarrow> c | None \<Rightarrow> JObj []) clause_id)) (\<lambda>text.
     eret (Inr (JObj [(''contract_id'', JStr contract_id), (''clause_id'', JStr clause_id), (''text'', text),
       (''citation'', JStr (contract_id @ '':'' @ clause_id))]))))))"

definition compare_contracts :: "CompanyExecutionContext option \<Rightarrow> LegalSimulator tool_handler" where
  "compare_contracts context arguments =
     ebind (eret (item_text arguments ''left_id'')) (\<lambda>left_id.
     ebind (require_contract context left_id) (\<lambda>l.
     ebind (eret (item_text arguments ''right_id'')) (\<lambda>right_id.
     ebind (require_contract context right_id) (\<lambda>r.
     ebind (eret (item l ''contract_id'')) (\<lambda>lid.
     ebind (eret (item r ''contract_id'')) (\<lambda>rid.
     eret (Inr (JObj [(''left_id'', lid), (''right_id'', rid),
       (''governing_law_match'', JBool (json_eq (get_null l ''governing_law'') (get_null r ''governing_law'')))]))))))))"

definition identify_deviations :: "CompanyExecutionContext option \<Rightarrow> LegalSimulator tool_handler" where
  "identify_deviations context arguments =
     ebind (eret (item_text arguments ''contract_id'')) (\<lambda>contract_id.
     ebind (require_contract context contract_id) (\<lambda>_.
     ebind (eret (item_text arguments ''playbook_id'')) (\<lambda>playbook_id.
     eret (Inr (JObj [(''contract_id'', JStr contract_id), (''playbook_id'', JStr playbook_id),
       (''deviations'', JList [])])))))"

definition prepare_redline :: "CompanyExecutionContext option \<Rightarrow> LegalSimulator tool_handler" where
  "prepare_redline context arguments =
     ebind (eret (item_text arguments ''contract_id'')) (\<lambda>contract_id.
     ebind (require_contract context contract_id) (\<lambda>_.
     ebind (eret (rbind (item arguments ''changes'') py_list)) (\<lambda>changes.
     eret (Inr (JObj [(''contract_id'', JStr contract_id), (''changes'', JList changes)])))))"

definition draft_legal_summary :: "CompanyExecutionContext option \<Rightarrow> LegalSimulator tool_handler" where
  "draft_legal_summary context arguments =
     ebind (eret (item_text arguments ''contract_id'')) (\<lambda>contract_id.
     ebind (require_contract context contract_id) (\<lambda>_.
     eret (Inr (JObj [(''contract_id'', JStr contract_id), (''summary'', JStr ''Source-grounded summary.''),
       (''citations'', JList [JStr (contract_id @ '':c1'')])]))))"

definition sign_contract :: "CompanyExecutionContext option \<Rightarrow> LegalSimulator tool_handler" where
  "sign_contract context arguments =
     ebind (eret (item_text arguments ''contract_id'')) (\<lambda>contract_id.
     ebind (require_contract context contract_id) (\<lambda>_.
     eret (Inr (JObj [(''contract_id'', JStr contract_id), (''signed'', JBool True)]))))"

definition file_document :: "CompanyExecutionContext option \<Rightarrow> LegalSimulator tool_handler" where
  "file_document context arguments =
     ebind (eret (item_text arguments ''document_id'')) (\<lambda>document_id.
     ebind (reads (authorized_contracts context)) (\<lambda>ids.
     ebind (eret (ensure (document_id \<in> ids) SimulatorValidationError)) (\<lambda>_.
     ebind (eret (item_text arguments ''court'')) (\<lambda>court.
     eret (Inr (JObj [(''document_id'', JStr document_id), (''court'', JStr court), (''filed'', JBool True)]))))))"

definition send_commitment :: "CompanyExecutionContext option \<Rightarrow> LegalSimulator tool_handler" where
  "send_commitment context arguments =
     ebind (eret (item_text arguments ''matter_id'')) (\<lambda>matter_id.
     ebind (eret (require_matter context matter_id)) (\<lambda>_.
     eret (Inr (JObj [(''matter_id'', JStr matter_id), (''sent'', JBool True)]))))"

definition provide_legal_advice :: "CompanyExecutionContext option \<Rightarrow> LegalSimulator tool_handler" where
  "provide_legal_advice context arguments =
     ebind (eret (item_text arguments ''matter_id'')) (\<lambda>matter_id.
     ebind (eret (require_matter context matter_id)) (\<lambda>_.
     ebind (eret (item_text arguments ''conclusion'')) (\<lambda>conclusion.
     eret (Inr (JObj [(''matter_id'', JStr matter_id), (''advice'', JStr conclusion)])))))"

definition legal_handlers ::
  "(string set \<Rightarrow> string list) \<Rightarrow> CompanyExecutionContext option \<Rightarrow> (string \<times> LegalSimulator tool_handler) list" where
  "legal_handlers order context = [(''search_contracts'', search_contracts order context),
     (''extract_clause'', extract_clause context), (''compare_contracts'', compare_contracts context),
     (''identify_deviations'', identify_deviations context), (''prepare_redline'', prepare_redline context),
     (''draft_legal_summary'', draft_legal_summary context), (''sign_contract'', sign_contract context),
     (''file_document'', file_document context), (''send_commitment'', send_commitment context),
     (''provide_legal_advice'', provide_legal_advice context)]"

section \<open>Accounts\<close>

definition read_invoices :: "AccountsSimulator tool_handler" where
  "read_invoices arguments =
     ebind (eret (item_text arguments ''vendor_id'')) (\<lambda>vendor_id.
     reads (\<lambda>s. Inr (JObj [(''vendor_id'', JStr vendor_id), (''invoices'', JList (map (\<lambda>i. JObj (snd i))
       (filter (\<lambda>i. get_null (snd i) ''vendor_id'' = JStr vendor_id) (ac_invoices s))))])))"

definition find_invoice :: "string \<Rightarrow> AccountsSimulator \<Rightarrow> jobj res" where
  "find_invoice invoice_id s = of_option SimulatorValidationError (map_of (ac_invoices s) invoice_id)"

definition extract_invoice_data :: "AccountsSimulator tool_handler" where
  "extract_invoice_data arguments =
     ebind (eret (item_text arguments ''invoice_id'')) (\<lambda>invoice_id.
     ebind (reads (find_invoice invoice_id)) (\<lambda>invoice. eret (Inr (JObj invoice))))"

definition reconcile_records :: "AccountsSimulator tool_handler" where
  "reconcile_records arguments =
     ebind (eret (item_text arguments ''invoice_id'')) (\<lambda>invoice_id.
     ebind (eret (item_text arguments ''po_id'')) (\<lambda>po_id.
     ebind (reads (find_invoice invoice_id)) (\<lambda>invoice.
     ebind (reads (\<lambda>s. of_option SimulatorValidationError (map_of (ac_purchase_orders s) po_id))) (\<lambda>po.
     eret (Inr (JObj [(''invoice_id'', JStr invoice_id), (''po_id'', JStr po_id),
       (''matched'', JBool (json_eq (get_null invoice ''amount_minor'') (get_null po ''amount_minor'')))]))))))"

definition detect_duplicate_invoices :: "AccountsSimulator tool_handler" where
  "detect_duplicate_invoices arguments =
     ebind (eret (item_text arguments ''invoice_number'')) (\<lambda>number.
     ebind (reads (\<lambda>s. rmapM (\<lambda>i. item (snd i) ''invoice_id'')
         (filter (\<lambda>i. get_null (snd i) ''invoice_number'' = JStr number) (ac_invoices s)))) (\<lambda>dupes.
     eret (Inr (JObj [(''invoice_number'', JStr number), (''duplicate'', JBool (1 < length dupes)),
       (''ids'', JList dupes)]))))"

definition prepare_aging_report :: "AccountsSimulator tool_handler" where
  "prepare_aging_report arguments =
     ebind (eret (item_text arguments ''as_of_date'')) (\<lambda>date.
     reads (\<lambda>s. Inr (JObj [(''as_of_date'', JStr date), (''rows'', JList (map (\<lambda>i. JObj (snd i)) (ac_invoices s)))])))"

definition inspect_ledger :: "AccountsSimulator tool_handler" where
  "inspect_ledger arguments =
     ebind (eret (item_text arguments ''account_id'')) (\<lambda>account_id.
     reads (\<lambda>s. Inr (JObj (case map_of (ac_ledger s) account_id of
         Some row \<Rightarrow> row
       | None \<Rightarrow> [(''account_id'', JStr account_id), (''balance_minor'', JStr ''0'')]))))"

text \<open>Invoice, text of the amount, currency.\<close>

definition payment_args :: "jobj \<Rightarrow> (string \<times> string \<times> string) res" where
  "payment_args arguments =
     rbind (item_text arguments ''amount_minor'') (\<lambda>t.
     rbind (parse_decimal_minor t) (\<lambda>(neg, m, e).
     rbind (item_text arguments ''invoice_id'') (\<lambda>invoice_id.
     rbind (item_text arguments ''currency'') (\<lambda>currency.
     Inr (invoice_id, dec_str neg m e, currency)))))"

definition prepared_payment :: "string \<Rightarrow> string \<Rightarrow> string \<Rightarrow> json" where
  "prepared_payment invoice_id amount currency =
     JObj [(''invoice_id'', JStr invoice_id), (''amount_minor'', JStr amount), (''currency'', JStr currency),
       (''prepared'', JBool True)]"

definition invoice_in_currency :: "string \<Rightarrow> string \<Rightarrow> AccountsSimulator \<Rightarrow> jobj res" where
  "invoice_in_currency invoice_id currency s =
     rbind (find_invoice invoice_id s) (\<lambda>invoice.
     rbind (ensure (get_null invoice ''currency'' = JStr currency) SimulatorValidationError) (\<lambda>_. Inr invoice))"

definition prepare_payment :: "AccountsSimulator tool_handler" where
  "prepare_payment arguments =
     ebind (eret (payment_args arguments)) (\<lambda>(invoice_id, amount, currency).
     ebind (reads (invoice_in_currency invoice_id currency)) (\<lambda>_.
     eret (Inr (prepared_payment invoice_id amount currency))))"

definition prepare_refund :: "AccountsSimulator tool_handler" where
  "prepare_refund arguments =
     ebind (eret (payment_args arguments)) (\<lambda>(invoice_id, amount, currency).
     eret (Inr (prepared_payment invoice_id amount currency)))"

definition payment_row :: "string \<Rightarrow> string \<Rightarrow> string \<Rightarrow> string \<Rightarrow> jobj" where
  "payment_row invoice_id amount currency beneficiary_id =
     [(''invoice_id'', JStr invoice_id), (''amount_minor'', JStr amount), (''currency'', JStr currency),
      (''beneficiary_id'', JStr beneficiary_id), (''executed'', JBool True)]"

definition execute_payment :: "AccountsSimulator tool_handler" where
  "execute_payment arguments =
     ebind (eret (payment_args arguments)) (\<lambda>(invoice_id, amount, currency).
     ebind (eret (item_text arguments ''beneficiary_id'')) (\<lambda>beneficiary_id.
     ebind (reads (invoice_in_currency invoice_id currency)) (\<lambda>invoice.
     ebind (eret (ensure (py_str (get_null invoice ''amount_minor'') = amount) SimulatorValidationError)) (\<lambda>_.
     let payload = payment_row invoice_id amount currency beneficiary_id in
     ebind (writes (\<lambda>s. s\<lparr>ac_payments := ac_payments s @ [payload]\<rparr>)) (\<lambda>_. eret (Inr (JObj payload)))))))"

definition set_vendor_field :: "string \<Rightarrow> string \<Rightarrow> AccountsSimulator tool_handler" where
  "set_vendor_field argument_name key arguments =
     ebind (eret (item_text arguments ''vendor_id'')) (\<lambda>vendor_id.
     ebind (reads (\<lambda>s. of_option SimulatorValidationError (map_of (ac_vendors s) vendor_id))) (\<lambda>row.
     ebind (eret (item_text arguments argument_name)) (\<lambda>v.
     ebind (writes (\<lambda>s. s\<lparr>ac_vendors := AList.update vendor_id (jset key (JStr v) row) (ac_vendors s)\<rparr>)) (\<lambda>_.
     eret (Inr (JObj [(''vendor_id'', JStr vendor_id), (''changed'', JBool True)]))))))"

definition change_bank_details :: "AccountsSimulator tool_handler" where
  "change_bank_details = set_vendor_field ''account_ref'' ''bank_ref''"

definition change_vendor :: "AccountsSimulator tool_handler" where
  "change_vendor = set_vendor_field ''new_name'' ''name''"

definition accounts_handlers :: "(string \<times> AccountsSimulator tool_handler) list" where
  "accounts_handlers = [(''read_invoices'', read_invoices), (''extract_invoice_data'', extract_invoice_data),
     (''reconcile_records'', reconcile_records), (''detect_duplicate_invoices'', detect_duplicate_invoices),
     (''prepare_aging_report'', prepare_aging_report), (''inspect_ledger'', inspect_ledger),
     (''prepare_payment'', prepare_payment), (''prepare_refund'', prepare_refund),
     (''execute_payment'', execute_payment), (''change_bank_details'', change_bank_details),
     (''change_vendor'', change_vendor)]"

section \<open>Coding\<close>

definition search_repo :: "CodingSimulator tool_handler" where
  "search_repo arguments =
     ebind (eret (item_text arguments ''query'')) (\<lambda>query.
     reads (\<lambda>s. Inr (JObj [(''query'', JStr query), (''matches'', JList (map (\<lambda>p. JStr (fst p))
       (filter (\<lambda>(path, blob). contains_text (py_lower query) (py_lower path) \<or>
          contains_text (py_lower query) (py_lower blob)) (cg_search_index s))))])))"

definition read_file :: "CodingSimulator tool_handler" where
  "read_file arguments =
     ebind (eret (item_text arguments ''path'')) (\<lambda>path.
     ebind (reads (\<lambda>s. of_option SimulatorValidationError (map_of (cg_files s) path))) (\<lambda>content.
     eret (Inr (JObj [(''path'', JStr path), (''content'', JStr content)]))))"

definition run_tests :: "CodingSimulator tool_handler" where
  "run_tests arguments =
     ebind (eret (item_text arguments ''suite'')) (\<lambda>suite.
     let payload = [(''suite'', JStr suite), (''passed'', JBool True), (''failed'', JInt 0)] in
     ebind (writes (\<lambda>s. s\<lparr>cg_test_runs := cg_test_runs s @ [payload]\<rparr>)) (\<lambda>_. eret (Inr (JObj payload))))"

definition propose_patch :: "CodingSimulator tool_handler" where
  "propose_patch arguments =
     ebind (eret (item_text arguments ''path'')) (\<lambda>path.
     ebind (eret (item_text arguments ''diff'')) (\<lambda>diff.
     let payload = [(''path'', JStr path), (''diff'', JStr diff), (''proposed'', JBool True)] in
     ebind (writes (\<lambda>s. s\<lparr>cg_patches := cg_patches s @ [payload]\<rparr>)) (\<lambda>_. eret (Inr (JObj payload)))))"

definition apply_patch :: "CodingSimulator tool_handler" where
  "apply_patch arguments =
     ebind (eret (item_text arguments ''path'')) (\<lambda>path.
     ebind (eret (item_text arguments ''diff'')) (\<lambda>diff.
     ebind (writes (\<lambda>s.
       let current = (case map_of (cg_files s) path of Some t \<Rightarrow> t | None \<Rightarrow> []) in
       s\<lparr>cg_files := AList.update path (if current = [] then diff else current @ [CHR 0x0A] @ diff) (cg_files s),
         cg_patches := cg_patches s @ [[(''path'', JStr path), (''diff'', JStr diff), (''applied'', JBool True)]]\<rparr>)) (\<lambda>_.
     eret (Inr (JObj [(''path'', JStr path), (''applied'', JBool True)])))))"

definition open_pull_request :: "CodingSimulator tool_handler" where
  "open_pull_request arguments =
     ebind (eret (item_text arguments ''title'')) (\<lambda>title.
     ebind (eret (item_text arguments ''body'')) (\<lambda>body.
     ebind (eret (item_text arguments ''head'')) (\<lambda>head.
     let payload = [(''title'', JStr title), (''body'', JStr body), (''head'', JStr head), (''opened'', JBool True)] in
     ebind (writes (\<lambda>s. s\<lparr>cg_pull_requests := cg_pull_requests s @ [payload]\<rparr>)) (\<lambda>_. eret (Inr (JObj payload))))))"

definition force_push :: "CodingSimulator tool_handler" where
  "force_push arguments =
     ebind (eret (item_text arguments ''ref'')) (\<lambda>ref. eret (Inr (JObj [(''ref'', JStr ref), (''forced'', JBool True)])))"

definition write_secret :: "CodingSimulator tool_handler" where
  "write_secret arguments =
     ebind (eret (item_text arguments ''path'')) (\<lambda>path.
     eret (Inr (JObj [(''path'', JStr path), (''written'', JBool True)])))"

definition coding_handlers :: "(string \<times> CodingSimulator tool_handler) list" where
  "coding_handlers = [(''search_repo'', search_repo), (''read_file'', read_file), (''run_tests'', run_tests),
     (''propose_patch'', propose_patch), (''apply_patch'', apply_patch), (''open_pull_request'', open_pull_request),
     (''force_push'', force_push), (''write_secret'', write_secret)]"

section \<open>Procurement\<close>

definition simulated_marker :: jobj where
  "simulated_marker = [(''delivery_mode'', JStr ''simulated''), (''live_email_delivered'', JBool False),
     (''live_erp_posted'', JBool False), (''privatevault_authorized'', JBool False)]"

definition board_for :: "string \<Rightarrow> ProcurementDesk \<Rightarrow> jobj res" where
  "board_for rfq_id s =
     rbind (quotation_board_payload (filter (\<lambda>q. qt_rfq_id q = rfq_id) (map snd (pd_quotations s)))) (\<lambda>payload.
     let board = payload @ [(''rfq_id'', JStr rfq_id)] in
     rbind (quote_board_digest board) (\<lambda>digest. Inr (board @ [(''quote_board_digest'', JStr digest)])))"

definition ranked_quote_ids :: "jobj \<Rightarrow> json list" where
  "ranked_quote_ids board = (case get_null board ''quotations'' of
     JList rows \<Rightarrow> map (\<lambda>r. case r of JObj d \<Rightarrow> JStr (py_str (get_null d ''quote_id'')) | _ \<Rightarrow> JNull) rows | _ \<Rightarrow> [])"

definition lookup_vendor :: "ProcurementDesk tool_handler" where
  "lookup_vendor arguments =
     ebind (eret (item_text arguments ''vendor_id'')) (\<lambda>vendor_id.
     ebind (reads (\<lambda>s. of_option KeyError (map_of (pd_vendors s) vendor_id))) (\<lambda>v.
     eret (Inr (JObj [(''vendor_id'', JStr (vr_vendor_id v)), (''name'', JStr (vr_name v)),
       (''registered'', JBool (vr_registered v)), (''source_system'', JStr (erp_value (vr_source_system v)))]))))"

definition search_catalog :: "ProcurementDesk tool_handler" where
  "search_catalog arguments =
     ebind (eret (item_text arguments ''query'')) (\<lambda>query.
     reads (\<lambda>s. Inr (JObj [(''matches'', JList (map (\<lambda>c. JObj [(''material_id'', JStr (cr_material_id c)),
         (''description'', JStr (cr_description c)), (''source_system'', JStr (erp_value (cr_source_system c)))])
       (filter (\<lambda>c. contains_text (py_lower query) (py_lower (cr_material_id c)) \<or>
          contains_text (py_lower query) (py_lower (cr_description c))) (map snd (pd_catalog s)))))])))"

definition list_registered_vendors :: "ProcurementDesk tool_handler" where
  "list_registered_vendors arguments =
     reads (\<lambda>s.
       let vendors = (''vendors'', JList (map (\<lambda>v. JObj [(''vendor_id'', JStr (vr_vendor_id v)),
             (''name'', JStr (vr_name v)), (''source_system'', JStr (erp_value (vr_source_system v)))])
             (filter vr_registered (map snd (pd_vendors s))))) in
       Inr (JObj (case text_field arguments ''material_id'' of
           Some m \<Rightarrow> [(''material_id'', JStr m), vendors] | None \<Rightarrow> [vendors])))"

definition open_po_json :: "OpenPurchaseOrder \<Rightarrow> json" where
  "open_po_json p = JObj [(''po_id'', JStr (op_po_id p)), (''vendor_id'', JStr (op_vendor_id p)),
     (''material_id'', JStr (op_material_id p)), (''amount_minor'', JStr (op_amount_minor p)),
     (''currency'', JStr (op_currency p)), (''source_system'', JStr (erp_value (op_source_system p)))]"

definition hashable :: "json \<Rightarrow> bool" where
  "hashable v = (case v of JList _ \<Rightarrow> False | JObj _ \<Rightarrow> False | _ \<Rightarrow> True)"

definition list_open_requisitions :: "ProcurementDesk tool_handler" where
  "list_open_requisitions arguments =
     reads (\<lambda>s.
       let vendor = get_null arguments ''vendor_id'' in
       rbind (ensure (hashable vendor \<or> pd_open_pos s = []) TypeError) (\<lambda>_.
       Inr (JObj [
         (''open_pos'', JList (map open_po_json (filter (\<lambda>p. vendor = JNull \<or> vendor = JStr (op_vendor_id p))
            (map snd (pd_open_pos s))))),
         (''requisitions'', JList (map JObj (case text_field arguments ''vendor_id'' of
              Some i \<Rightarrow> filter (\<lambda>r. get_null r ''vendor_id'' = JStr i) (map snd (pd_requisitions s))
            | None \<Rightarrow> map snd (pd_requisitions s))))])))"

text \<open>What one vendor of a request adds: the outbound mail and, where a template exists, its quotation.\<close>

definition outbound_rfq :: "string \<Rightarrow> string \<Rightarrow> string \<Rightarrow> jobj" where
  "outbound_rfq rfq_id material_id vendor_id =
     [(''rfq_id'', JStr rfq_id), (''vendor_id'', JStr vendor_id), (''material_id'', JStr material_id)]"

definition quote_id_for :: "string \<Rightarrow> string \<Rightarrow> string" where
  "quote_id_for rfq_id vendor_id = ''quote-'' @ rfq_id @ ''-'' @ vendor_id"

definition ask_vendor :: "string \<Rightarrow> string \<Rightarrow> string \<Rightarrow> ProcurementDesk \<Rightarrow> ProcurementDesk" where
  "ask_vendor rfq_id material_id vendor_id s =
     (let s1 = s\<lparr>pd_outbound_rfqs := pd_outbound_rfqs s @ [outbound_rfq rfq_id material_id vendor_id]\<rparr> in
      case map_of (pd_quote_templates s) (vendor_id, material_id) of
        None \<Rightarrow> s1
      | Some (amount_minor, currency) \<Rightarrow>
          let quote_id = quote_id_for rfq_id vendor_id in
          s1\<lparr>pd_quotations := AList.update quote_id
            \<lparr>qt_quote_id = quote_id, qt_rfq_id = rfq_id, qt_vendor_id = vendor_id, qt_material_id = material_id,
             qt_amount_minor = amount_minor, qt_currency = currency\<rparr> (pd_quotations s1)\<rparr>)"

definition send_out :: "string \<Rightarrow> string \<Rightarrow> string list \<Rightarrow> ProcurementDesk \<Rightarrow> ProcurementDesk" where
  "send_out rfq_id material_id vendor_ids s =
     fold (ask_vendor rfq_id material_id) vendor_ids
       (s\<lparr>pd_rfqs := AList.update rfq_id [(''rfq_id'', JStr rfq_id), (''material_id'', JStr material_id),
            (''vendor_ids'', JList (map JStr vendor_ids))] (pd_rfqs s)\<rparr>)"

definition rfq_outcome :: "string \<Rightarrow> string list \<Rightarrow> jobj \<Rightarrow> jobj" where
  "rfq_outcome rfq_id vendor_ids board =
     merge_obj (simulated_marker @ [(''rfq_id'', JStr rfq_id),
       (''simulated_recipient_vendor_ids'', JList (map JStr vendor_ids)), (''instant'', JBool True)]) board"

definition send_rfq_email :: "ProcurementDesk tool_handler" where
  "send_rfq_email arguments =
     ebind (eret (item_text arguments ''rfq_id'')) (\<lambda>rfq_id.
     ebind (reads (rfq_idempotency_conflict arguments)) (\<lambda>conflict.
     ebind (eret (ensure (\<not> conflict) ProcurementError)) (\<lambda>_.
     ebind (reads (\<lambda>s. Inr (replay_rfq_outcome rfq_id s))) (\<lambda>replay. case replay of
       Some outcome \<Rightarrow> eret (Inr (JObj outcome))
     | None \<Rightarrow>
         ebind (eret (item_text arguments ''material_id'')) (\<lambda>material_id.
         ebind (eret (rbind (item arguments ''vendor_ids'') py_list)) (\<lambda>items.
         let vendor_ids = map py_str items in
         ebind (writes (send_out rfq_id material_id vendor_ids)) (\<lambda>_.
         ebind (reads (board_for rfq_id)) (\<lambda>board.
         let outcome = rfq_outcome rfq_id vendor_ids board in
         ebind (record_rfq_outcome arguments outcome) (\<lambda>_.
         eret (Inr (JObj outcome)))))))))))"

definition show_quotations :: "ProcurementDesk tool_handler" where
  "show_quotations arguments =
     ebind (eret (item_text arguments ''rfq_id'')) (\<lambda>rfq_id.
     ebind (reads (board_for rfq_id)) (\<lambda>board. eret (Inr (JObj (merge_obj simulated_marker board)))))"

definition find_quote :: "jobj \<Rightarrow> (ProcurementDesk, Quotation) eff" where
  "find_quote arguments =
     ebind (eret (item_text arguments ''quote_id'')) (\<lambda>quote_id.
     reads (\<lambda>s. of_option KeyError (map_of (pd_quotations s) quote_id)))"

definition quote_fields :: "Quotation \<Rightarrow> jobj" where
  "quote_fields q = [(''pr_id'', JStr (''pr-'' @ qt_quote_id q)), (''rfq_id'', JStr (qt_rfq_id q)),
     (''quote_id'', JStr (qt_quote_id q)), (''vendor_id'', JStr (qt_vendor_id q))]"

definition put_requisition :: "Quotation \<Rightarrow> jobj \<Rightarrow> ProcurementDesk \<Rightarrow> ProcurementDesk" where
  "put_requisition q row s =
     s\<lparr>pd_requisitions := AList.update (''pr-'' @ qt_quote_id q) row (pd_requisitions s)\<rparr>"

definition create_purchase_requisition :: "(string \<Rightarrow> int) \<Rightarrow> ProcurementDesk tool_handler" where
  "create_purchase_requisition trunc arguments =
     ebind (find_quote arguments) (\<lambda>q.
     ebind (reads (board_for (qt_rfq_id q))) (\<lambda>board.
     ebind (eret (rbind (item arguments ''quantity'') (py_int trunc))) (\<lambda>quantity.
     let payload = simulated_marker @ quote_fields q @
           [(''material_id'', JStr (qt_material_id q)), (''quantity'', JInt quantity),
            (''amount_minor'', JStr (qt_amount_minor q)), (''currency'', JStr (qt_currency q)),
            (''quote_board_digest'', get_null board ''quote_board_digest''),
            (''ranked_quote_ids'', JList (ranked_quote_ids board))] in
     ebind (writes (put_requisition q payload)) (\<lambda>_. eret (Inr (JObj payload))))))"

definition award_quote :: "ProcurementDesk tool_handler" where
  "award_quote arguments =
     ebind (find_quote arguments) (\<lambda>q.
     ebind (reads (board_for (qt_rfq_id q))) (\<lambda>board.
     let digest = (''quote_board_digest'', get_null board ''quote_board_digest'');
         money = [(''amount_minor'', JStr (qt_amount_minor q)), (''currency'', JStr (qt_currency q))];
         payload = simulated_marker @ quote_fields q @ money @
           [digest, (''ranked_quote_ids'', JList (ranked_quote_ids board))] in
     ebind (writes (put_requisition q (quote_fields q @ [(''material_id'', JStr (qt_material_id q))] @ money @
         [digest, (''awarded'', JBool True)]))) (\<lambda>_.
     eret (Inr (JObj payload)))))"

definition release_purchase_order :: "ProcurementDesk tool_handler" where
  "release_purchase_order arguments =
     ebind (eret (item_text arguments ''pr_id'')) (\<lambda>pr_id.
     ebind (reads (\<lambda>s. of_option KeyError (map_of (pd_requisitions s) pr_id))) (\<lambda>requisition.
     ebind (eret (item_text requisition ''rfq_id'')) (\<lambda>rfq_id.
     ebind (reads (board_for rfq_id)) (\<lambda>board.
     ebind (eret (item_text requisition ''quote_id'')) (\<lambda>quote_id.
     ebind (eret (item requisition ''vendor_id'')) (\<lambda>vendor_id.
     ebind (eret (item requisition ''amount_minor'')) (\<lambda>amount_minor.
     ebind (eret (item requisition ''currency'')) (\<lambda>currency.
     let po_id = ''po-rel-'' @ pr_id;
         payload = simulated_marker @ [(''po_id'', JStr po_id), (''pr_id'', JStr pr_id), (''rfq_id'', JStr rfq_id),
           (''quote_id'', JStr quote_id), (''vendor_id'', vendor_id), (''amount_minor'', amount_minor),
           (''currency'', currency), (''quote_board_digest'', get_null board ''quote_board_digest''),
           (''ranked_quote_ids'', JList (ranked_quote_ids board))] in
     ebind (writes (\<lambda>s. s\<lparr>pd_purchase_orders := AList.update po_id payload (pd_purchase_orders s)\<rparr>)) (\<lambda>_.
     eret (Inr (JObj payload)))))))))))"

definition change_vendor_bank :: "ProcurementDesk tool_handler" where
  "change_vendor_bank arguments =
     ebind (eret (item_text arguments ''vendor_id'')) (\<lambda>vendor_id.
     ebind (eret (item_text arguments ''account_ref'')) (\<lambda>account_ref.
     eret (Inr (JObj (simulated_marker @ [(''vendor_id'', JStr vendor_id), (''account_ref'', JStr account_ref),
       (''simulated_effect'', JStr ''not_applied'')])))))"

definition post_erp_payment :: "ProcurementDesk tool_handler" where
  "post_erp_payment arguments =
     ebind (eret (item_text arguments ''vendor_id'')) (\<lambda>vendor_id.
     ebind (eret (item_text arguments ''amount_minor'')) (\<lambda>amount_minor.
     eret (Inr (JObj (simulated_marker @ [(''vendor_id'', JStr vendor_id), (''amount_minor'', JStr amount_minor),
       (''simulated_effect'', JStr ''not_posted'')])))))"

definition procurement_handlers :: "(string \<Rightarrow> int) \<Rightarrow> (string \<times> ProcurementDesk tool_handler) list" where
  "procurement_handlers trunc = [(''lookup_vendor'', lookup_vendor), (''search_catalog'', search_catalog),
     (''list_registered_vendors'', list_registered_vendors), (''list_open_requisitions'', list_open_requisitions),
     (''send_rfq_email'', send_rfq_email), (''show_quotations'', show_quotations),
     (''create_purchase_requisition'', create_purchase_requisition trunc), (''award_quote'', award_quote),
     (''release_purchase_order'', release_purchase_order), (''change_vendor_bank'', change_vendor_bank),
     (''post_erp_payment'', post_erp_payment)]"

section \<open>Lemmas\<close>

text \<open>\<open>transits m R\<close>: \<open>m\<close> relates its states by \<open>R\<close>, whether it raises or not.\<close>

definition transits :: "('s, 'a) eff \<Rightarrow> ('s \<Rightarrow> 's \<Rightarrow> bool) \<Rightarrow> bool" where
  "transits m R = (\<forall>s. R s (snd (m s)))"

lemma transits_ebind:
  assumes "transits m R" and "\<And>a. transits (f a) R" and "\<And>x y z. R x y \<Longrightarrow> R y z \<Longrightarrow> R x z"
  shows "transits (ebind m f) R"
  unfolding transits_def
proof
  fix s
  show "R s (snd (ebind m f s))"
    using assms(1) assms(2) [unfolded transits_def] assms(3)
    by (cases "m s") (auto simp: ebind_def transits_def split: sum.splits, (metis snd_conv)+)
qed

lemma transits_eret: "(\<And>s. R s s) \<Longrightarrow> transits (eret r) R"
  by (simp add: transits_def eret_def)

lemma transits_reads: "(\<And>s. R s s) \<Longrightarrow> transits (reads f) R"
  by (simp add: transits_def reads_def)

lemma transits_writes: "(\<And>s. R s (f s)) \<Longrightarrow> transits (writes f) R"
  by (simp add: transits_def writes_def)

end
