(* ===== verification/Company_Work.thy ===== *)
theory Company_Work
  imports Company_Handlers
begin

text \<open>
  The company desks at work: the handlers of a kind of agent on the bundle of all desks, and what validation and
  handlers guarantee together.
\<close>

section \<open>Handlers of a kind\<close>

definition on_part ::
  "('b \<Rightarrow> 's) \<Rightarrow> ('s \<Rightarrow> 'b \<Rightarrow> 'b) \<Rightarrow> (string \<times> 's tool_handler) list \<Rightarrow> (string \<times> 'b tool_handler) list" where
  "on_part get put handlers = map (\<lambda>(name, h). (name, \<lambda>arguments b.
     case h arguments (get b) of (r, s) \<Rightarrow> (r, put s b))) handlers"

text \<open>The handlers of the go-to-market desk are an argument.\<close>

fun build_handlers ::
  "(string \<times> CompanySimulatorBundle tool_handler) list \<Rightarrow> (string set \<Rightarrow> string list) \<Rightarrow> (string \<Rightarrow> int) \<Rightarrow>
   CompanyAgentKind \<Rightarrow> CompanyExecutionContext option \<Rightarrow> (string \<times> CompanySimulatorBundle tool_handler) list" where
  "build_handlers gtm order trunc GTM context = gtm"
| "build_handlers gtm order trunc OPERATIONS context =
     on_part sb_operations (\<lambda>s b. b\<lparr>sb_operations := s\<rparr>) operations_handlers"
| "build_handlers gtm order trunc LEGAL context =
     on_part sb_legal (\<lambda>s b. b\<lparr>sb_legal := s\<rparr>) (legal_handlers order context)"
| "build_handlers gtm order trunc CODING context =
     on_part sb_coding (\<lambda>s b. b\<lparr>sb_coding := s\<rparr>) coding_handlers"
| "build_handlers gtm order trunc PROCUREMENT context =
     on_part sb_procurement (\<lambda>s b. b\<lparr>sb_procurement := s\<rparr>) (procurement_handlers trunc)"
| "build_handlers gtm order trunc ACCOUNTS context =
     on_part sb_accounts (\<lambda>s b. b\<lparr>sb_accounts := s\<rparr>) accounts_handlers"

text \<open>A sequence of calls of tools by name, with the result of each; a name without handler is \<^verbatim>\<open>KeyError\<close>.\<close>

definition call_tool :: "(string \<times> 's tool_handler) list \<Rightarrow> string \<Rightarrow> 's tool_handler" where
  "call_tool handlers tool arguments = (case map_of handlers tool of
     None \<Rightarrow> eret (Inl KeyError) | Some h \<Rightarrow> h arguments)"

fun run_tools :: "(string \<times> 's tool_handler) list \<Rightarrow> (string \<times> jobj) list \<Rightarrow> 's \<Rightarrow> json res list \<times> 's" where
  "run_tools handlers [] s = ([], s)"
| "run_tools handlers ((tool, arguments) # rest) s =
     (case call_tool handlers tool arguments s of (r, s1) \<Rightarrow>
      case run_tools handlers rest s1 of (rs, s2) \<Rightarrow> (r # rs, s2))"

lemma map_of_on_part:
  "map_of (on_part get put handlers) tool =
   map_option (\<lambda>h arguments b. case h arguments (get b) of (r, s) \<Rightarrow> (r, put s b)) (map_of handlers tool)"
  by (induction handlers) (auto simp: on_part_def)

text \<open>
  \<^verbatim>\<open>CompanyRiskGateway\<close> with the validation of this development: a tool that was entered was validated on the state of
  the desks at the decision.
\<close>

definition bundle_validation ::
  "CompanyAgentSpec \<Rightarrow> CompanyExecutionContext option \<Rightarrow> ActionIntent \<Rightarrow> CompanySimulatorBundle gateway_world \<Rightarrow>
   validation res" where
  "bundle_validation spec context action w = validate_company_action (sp_kind spec) action context (Some (gs_rest w))"

lemma entered_tool_was_validated:
  assumes "run_prog h (company_decide_and_execute spec (bundle_validation spec context) a) s = (r, s')"
    and "entries s' \<noteq> entries s"
  shows "decision_for_tool spec (ai_tool_name a) = Inr RISK_ALLOW \<and>
    (\<exists>reason. validate_company_action (sp_kind spec) a context (Some (gs_rest (world s))) = Inr (True, reason))"
  using company_run [OF assms(1)] assms(2) by (auto simp: bundle_validation_def decided_def)

section \<open>Payments\<close>

text \<open>The text of an amount that validation lets through is read back by the handler as the same integer.\<close>

lemma digit_no_other: "is_digit c \<Longrightarrow> c \<noteq> CHR ''_'' \<and> c \<noteq> CHR ''-'' \<and> c \<noteq> CHR ''+'' \<and> c \<noteq> CHR ''e'' \<and> c \<noteq> CHR ''E'' \<and>
    c \<noteq> CHR ''.'' \<and> \<not> py_isspace c \<and> c \<noteq> CHR ''i'' \<and> c \<noteq> CHR ''n'' \<and> c \<noteq> CHR ''s''"
  by (auto simp: is_digit_def py_isspace_def Let_def)

lemma split_sign_digits: "list_all is_digit ds \<Longrightarrow> split_sign ds = (1, ds)"
  by (cases ds) (auto simp: split_sign_def dest: digit_no_other)

lemma takeWhile_digits:
  assumes "list_all is_digit ds" and "\<And>c. is_digit c \<Longrightarrow> \<not> p c"
  shows "split_at p ds = (ds, None)"
  using assms by (induction ds) (auto simp: split_at_def)

lemma parse_dec_digits:
  assumes "list_all is_digit ds" and "ds \<noteq> []"
  shows "parse_dec ds = Some (int (nat_of_digits ds), 0)"
proof -
  have "split_at (\<lambda>c. c = CHR ''e'' \<or> c = CHR ''E'') ds = (ds, None)"
    using assms(1) by (rule takeWhile_digits) (auto dest: digit_no_other)
  moreover have "split_at (\<lambda>c. c = CHR ''.'') ds = (ds, None)"
    using assms(1) by (rule takeWhile_digits) (auto dest: digit_no_other)
  ultimately show ?thesis
    using assms by (simp add: parse_dec_def split_sign_digits parse_exp_def)
qed

lemma lower_digits: "list_all is_digit ds \<Longrightarrow> py_lower ds = ds"
  by (induction ds) (auto simp: py_lower_def is_digit_def Let_def)

lemma filter_digits: "list_all is_digit ds \<Longrightarrow> filter (\<lambda>c. c \<noteq> CHR ''_'') ds = ds"
  by (induction ds) (auto dest: digit_no_other)

lemma py_decimal_digits:
  assumes "py_strip s = ds" and "list_all is_digit ds" and "ds \<noteq> []" and "nat_of_digits ds \<le> nat amount_ceiling"
  shows "py_decimal s = Inr (Dec False (nat_of_digits ds) 0)"
proof -
  obtain c r where ds: "ds = c # r" using assms(3) by (cases ds) auto
  have c: "c \<noteq> CHR ''i''" "c \<noteq> CHR ''n''" "c \<noteq> CHR ''s''" using assms(2) digit_no_other ds by auto
  have "nat_of_digits ds < 10 ^ 9" using assms(4) by (simp add: amount_ceiling_def)
  then have "length (digits (nat_of_digits ds)) \<le> 9" by (rule length_digits) simp
  then have range: "dec_in_range (nat_of_digits ds) 0" by (simp add: dec_in_range_def)
  show ?thesis
    using assms range c parse_dec_digits [OF assms(2,3)]
    by (simp add: py_decimal_def Let_def filter_digits lower_digits split_sign_digits)
      (auto simp: ds starts_with_def)
qed

lemma dec_str_int: "dec_str False m 0 = digits m"
proof -
  have "0 < length (digits m)" by simp
  then show ?thesis by (simp add: dec_str_def Let_def)
qed

lemma show_int_digits: "0 \<le> i \<Longrightarrow> show_int i = digits (nat i)"
  by (simp add: show_int_def)

lemma strip_digits: "list_all is_digit ds \<Longrightarrow> py_strip ds = ds"
proof -
  assume d: "list_all is_digit ds"
  have "dropWhile py_isspace xs = xs" if "list_all is_digit xs" for xs
    using that by (cases xs) (auto dest: digit_no_other)
  with d show ?thesis by (simp add: py_strip_def list_all_rev)
qed

lemma amount_read_back:
  assumes "parse_amount v = Inr amount"
  shows "parse_decimal_minor (py_str v) = Inr (False, nat amount, 0)"
proof -
  have a: "0 < amount" "amount \<le> amount_ceiling" using parse_amount_Inr [OF assms] by auto
  obtain t where t: "amount_text v = Some t" "integer_minor t = Some amount"
    using assms by (auto simp: parse_amount_def Let_def split: option.splits if_splits)
  have ds: "list_all is_digit t" "t \<noteq> []" "amount = int (nat_of_digits t)"
    using t(2) a(1)
    by (auto simp: integer_minor_def Let_def split: list.splits if_splits)
  have "py_strip (py_str v) = t"
  proof (cases v)
    case (JInt i)
    then show ?thesis using t(1) ds(1) by (auto simp: amount_text_def py_str_def strip_digits)
  qed (use t(1) in \<open>auto simp: amount_text_def py_str_def\<close>)
  from py_decimal_digits [OF this ds(1,2)] a(2) ds(3) have "py_decimal (py_str v) = Inr (Dec False (nat amount) 0)"
    by simp
  then show ?thesis by (simp add: parse_decimal_minor_def rescue_def dec_integral_def)
qed

text \<open>
  C4. A payment is the invoice. If an accounts action passed validation on the state of the desks and the handler of
  \<^verbatim>\<open>execute_payment\<close> then returns, it has recorded exactly one payment and changed nothing else: the amount is the
  invoice's amount, a positive integer of minor units below the ceiling, the currency is the invoice's, and the
  beneficiary is the vendor of the invoice.
\<close>

theorem validated_payment_pays_invoice:
  assumes "validate_company_action ACCOUNTS action context (Some b) = Inr (True, reason)"
    and "ai_tool_name action = ''execute_payment''" and "ai_arguments action = Inr arguments"
    and "call_tool (build_handlers gtm order trunc ACCOUNTS context) ''execute_payment'' arguments b = (Inr out, b')"
  shows "\<exists>invoice_id invoice amount currency d.
    map_of (ac_invoices (sb_accounts b)) invoice_id = Some invoice \<and> 0 < amount \<and> amount \<le> amount_ceiling \<and>
    get_null invoice ''currency'' = JStr currency \<and> currency \<in> set supported_currencies \<and>
    py_decimal (py_str (get_or invoice ''amount_minor'' (JStr ''0''))) = Inr d \<and> decimal_is d amount \<and>
    b' = b\<lparr>sb_accounts := (sb_accounts b)\<lparr>ac_payments := ac_payments (sb_accounts b) @
      [payment_row invoice_id (show_int amount) currency (py_str (get_or invoice ''vendor_id'' (JStr [])))]\<rparr>\<rparr>"
proof -
  have v: "validate_money ''execute_payment'' arguments (Some b) = Inr (True, reason)"
    using assms(1-3) by (simp add: validate_company_action_def money_tools_def)
  obtain amount currency invoice_id invoice d where
    a: "parse_amount (get_null arguments ''amount_minor'') = Inr amount" and
    cur: "get_null arguments ''currency'' = JStr currency" "currency \<in> set supported_currencies" and
    inv: "get_null arguments ''invoice_id'' = JStr invoice_id"
      "map_of (ac_invoices (sb_accounts b)) invoice_id = Some invoice" and
    d: "py_decimal (py_str (get_or invoice ''amount_minor'' (JStr ''0''))) = Inr d" "decimal_is d amount" and
    ben: "get_null arguments ''beneficiary_id'' = JStr (py_str (get_or invoice ''vendor_id'' (JStr [])))"
    using validate_money_passed [OF v refl] by blast
  have given: "item_text arguments k = Inr (py_str (get_null arguments k))" if "get_null arguments k \<noteq> JNull" for k
    using that by (auto simp: item_text_def item_def of_option_def get_null_def split: option.splits)
  have nn: "get_null arguments ''amount_minor'' \<noteq> JNull"
    using a by (auto simp: parse_amount_def amount_text_def)
  have pos: "0 < amount" "amount \<le> amount_ceiling" using parse_amount_Inr [OF a] by auto
  have args: "payment_args arguments = Inr (invoice_id, show_int amount, currency)"
    using amount_read_back [OF a] pos
    by (simp add: payment_args_def given nn cur(1) inv(1) py_str_def [of "JStr _"] dec_str_int show_int_digits)
  have h: "call_tool (build_handlers gtm order trunc ACCOUNTS context) ''execute_payment'' arguments b =
    (case execute_payment arguments (sb_accounts b) of (r, s) \<Rightarrow> (r, b\<lparr>sb_accounts := s\<rparr>))"
    by (simp add: call_tool_def map_of_on_part accounts_handlers_def)
  have "get_null invoice ''currency'' = JStr currency \<and>
    b' = b\<lparr>sb_accounts := (sb_accounts b)\<lparr>ac_payments := ac_payments (sb_accounts b) @
      [payment_row invoice_id (show_int amount) currency (py_str (get_or invoice ''vendor_id'' (JStr [])))]\<rparr>\<rparr>"
    using assms(4) unfolding h
    by (auto simp: execute_payment_def ebind_def eret_def reads_def writes_def args given ben py_str_def [of "JStr _"]
        invoice_in_currency_def find_invoice_def inv(2) of_option_def ensure_def Let_def
        split: if_splits)
  with pos cur(2) inv(2) d show ?thesis by blast
qed

section \<open>The legal scope\<close>

text \<open>The contracts of the matters that a run may touch.\<close>

definition scope_of :: "CompanyExecutionContext option \<Rightarrow> LegalSimulator \<Rightarrow> string set" where
  "scope_of context s = (case context of
     None \<Rightarrow> {} | Some c \<Rightarrow> (\<Union>m\<in>xc_permitted_matter_ids c. matter_contracts s m))"

lemma authorized_contracts_Inr: "authorized_contracts context s = Inr ids \<Longrightarrow> ids = scope_of context s"
  by (auto simp: authorized_contracts_def permitted_matters_def scope_of_def split: option.splits)

text \<open>Two states that agree on the matters and on every contract in scope.\<close>

definition agree :: "CompanyExecutionContext option \<Rightarrow> LegalSimulator \<Rightarrow> LegalSimulator \<Rightarrow> bool" where
  "agree context s t = (lg_matters s = lg_matters t \<and> lg_access_log s = lg_access_log t \<and>
     (\<forall>c\<in>scope_of context s. map_of (lg_contracts s) c = map_of (lg_contracts t) c))"

text \<open>A computation that gives the same result and agreeing states from agreeing states, and logs in scope only.\<close>

definition confined :: "CompanyExecutionContext option \<Rightarrow> (LegalSimulator, 'a) eff \<Rightarrow> bool" where
  "confined context m = (\<forall>s t. agree context s t \<longrightarrow> fst (m s) = fst (m t) \<and> agree context (snd (m s)) (snd (m t)) \<and>
     lg_matters (snd (m s)) = lg_matters s \<and> lg_contracts (snd (m s)) = lg_contracts s \<and>
     (\<exists>new. lg_access_log (snd (m s)) = lg_access_log s @ new \<and> snd ` set new \<subseteq> scope_of context s))"

lemma scope_of_matters: "lg_matters s = lg_matters t \<Longrightarrow> scope_of context s = scope_of context t"
proof -
  assume "lg_matters s = lg_matters t"
  then have "matter_contracts s = matter_contracts t" by (simp add: matter_contracts_def fun_eq_iff)
  then show ?thesis by (cases "context") (simp_all add: scope_of_def)
qed

lemma confined_eret: "confined context (eret r)"
  by (simp add: confined_def eret_def)

lemma confined_reads: "(\<And>s t. agree context s t \<Longrightarrow> f s = f t) \<Longrightarrow> confined context (reads f)"
  by (simp add: confined_def reads_def)

lemma confinedD:
  assumes "confined context m" and "agree context s t"
  obtains r s1 t1 new where "m s = (r, s1)" "m t = (r, t1)" "agree context s1 t1" "lg_matters s1 = lg_matters s"
    "lg_contracts s1 = lg_contracts s" "lg_access_log s1 = lg_access_log s @ new" "snd ` set new \<subseteq> scope_of context s"
proof -
  from assms have eq: "fst (m s) = fst (m t)" "agree context (snd (m s)) (snd (m t))"
    "lg_matters (snd (m s)) = lg_matters s" "lg_contracts (snd (m s)) = lg_contracts s"
    and "\<exists>new. lg_access_log (snd (m s)) = lg_access_log s @ new \<and> snd ` set new \<subseteq> scope_of context s"
    unfolding confined_def by blast+
  then obtain new where "lg_access_log (snd (m s)) = lg_access_log s @ new" "snd ` set new \<subseteq> scope_of context s" by blast
  with eq show thesis by (intro that [of "fst (m s)" "snd (m s)" "snd (m t)" new]) (simp_all add: prod_eq_iff)
qed

lemma confined_ebind:
  assumes "confined context m" and "\<And>a. confined context (f a)"
  shows "confined context (ebind m f)"
  unfolding confined_def
proof (intro allI impI)
  fix s t assume "agree context s t"
  from confinedD [OF assms(1) this] obtain r s1 t1 new where
    m: "m s = (r, s1)" "m t = (r, t1)" "agree context s1 t1" "lg_matters s1 = lg_matters s"
      "lg_contracts s1 = lg_contracts s" "lg_access_log s1 = lg_access_log s @ new" "snd ` set new \<subseteq> scope_of context s"
    by metis
  show "fst (ebind m f s) = fst (ebind m f t) \<and> agree context (snd (ebind m f s)) (snd (ebind m f t)) \<and>
    lg_matters (snd (ebind m f s)) = lg_matters s \<and> lg_contracts (snd (ebind m f s)) = lg_contracts s \<and>
    (\<exists>new. lg_access_log (snd (ebind m f s)) = lg_access_log s @ new \<and> snd ` set new \<subseteq> scope_of context s)"
  proof (cases r)
    case (Inl e)
    with m show ?thesis by (auto simp: ebind_def)
  next
    case (Inr a)
    from confinedD [OF assms(2) m(3), of a] obtain r2 s2 t2 new2 where
      f: "f a s1 = (r2, s2)" "f a t1 = (r2, t2)" "agree context s2 t2" "lg_matters s2 = lg_matters s1"
        "lg_contracts s2 = lg_contracts s1" "lg_access_log s2 = lg_access_log s1 @ new2"
        "snd ` set new2 \<subseteq> scope_of context s1" by metis
    have "snd ` set (new @ new2) \<subseteq> scope_of context s" using m(7) f(7) scope_of_matters [OF m(4)] by auto
    with m f Inr show ?thesis
      by (simp add: ebind_def)
  qed
qed

lemma confined_authorized: "confined context (reads (authorized_contracts context))"
  by (rule confined_reads) (auto simp: agree_def authorized_contracts_def matter_contracts_def)

lemma require_contract_eq:
  "require_contract context c s = (case authorized_contracts context s of
       Inl e \<Rightarrow> (Inl e, s)
     | Inr ids \<Rightarrow>
         if c \<notin> ids then (Inl SimulatorValidationError, s)
         else case map_of (lg_contracts s) c of
           None \<Rightarrow> (Inl SimulatorValidationError, s)
         | Some d \<Rightarrow>
             (case item_text d ''matter_id'' of
                Inl e \<Rightarrow> (Inl e, s)
              | Inr m \<Rightarrow> (Inr d, s\<lparr>lg_access_log := lg_access_log s @ [(m, c)]\<rparr>)))"
  by (simp add: require_contract_def ebind_def reads_def writes_def eret_def ensure_def of_option_def
      split: sum.splits option.splits)

lemma confined_require_contract: "confined context (require_contract context c)"
  unfolding confined_def
proof (intro allI impI)
  fix s t assume ag: "agree context s t"
  then have same: "authorized_contracts context t = authorized_contracts context s"
    by (auto simp: agree_def authorized_contracts_def matter_contracts_def)
  let ?m = "require_contract context c"
  show "fst (?m s) = fst (?m t) \<and> agree context (snd (?m s)) (snd (?m t)) \<and>
    lg_matters (snd (?m s)) = lg_matters s \<and> lg_contracts (snd (?m s)) = lg_contracts s \<and>
    (\<exists>new. lg_access_log (snd (?m s)) = lg_access_log s @ new \<and> snd ` set new \<subseteq> scope_of context s)"
  proof (cases "\<exists>ids. authorized_contracts context s = Inr ids \<and> c \<in> ids")
    case False
    then have "?m s = (fst (?m s), s)" "?m t = (fst (?m s), t)"
      unfolding require_contract_eq same by (auto split: sum.splits)
    then have "snd (?m s) = s" "snd (?m t) = t" "fst (?m t) = fst (?m s)" by (simp_all add: prod_eq_iff)
    with ag show ?thesis by simp
  next
    case True
    then have c: "c \<in> scope_of context s" using authorized_contracts_Inr by blast
    then have eq: "map_of (lg_contracts t) c = map_of (lg_contracts s) c" using ag by (simp add: agree_def)
    from True obtain ids where ids: "authorized_contracts context s = Inr ids" "c \<in> ids" by blast
    show ?thesis
    proof (cases "\<exists>d m. map_of (lg_contracts s) c = Some d \<and> item_text d ''matter_id'' = Inr m")
      case False
      then have "?m s = (fst (?m s), s)" "?m t = (fst (?m s), t)"
        unfolding require_contract_eq same eq using ids by (auto split: option.splits sum.splits)
      then have "snd (?m s) = s" "snd (?m t) = t" "fst (?m t) = fst (?m s)" by (simp_all add: prod_eq_iff)
      with ag show ?thesis by simp
    next
      case True
      then obtain d m where "map_of (lg_contracts s) c = Some d" "item_text d ''matter_id'' = Inr m" by blast
      then have m: "?m s = (Inr d, s\<lparr>lg_access_log := lg_access_log s @ [(m, c)]\<rparr>)"
        "?m t = (Inr d, t\<lparr>lg_access_log := lg_access_log t @ [(m, c)]\<rparr>)"
        unfolding require_contract_eq same eq using ids by simp_all
      have "scope_of context (s\<lparr>lg_access_log := l\<rparr>) = scope_of context s" for l
        by (rule scope_of_matters) simp
      with ag c show ?thesis unfolding m by (simp add: agree_def)
    qed
  qed
qed

lemmas confined_rules = confined_ebind confined_eret confined_authorized confined_require_contract

lemma confined_read_read:
  assumes "\<And>s t. agree context s t \<Longrightarrow> f s = f t"
    and "\<And>s t a. agree context s t \<Longrightarrow> f s = Inr a \<Longrightarrow> g a s = g a t"
  shows "confined context (ebind (reads f) (\<lambda>a. reads (g a)))"
proof -
  have "ebind (reads f) (\<lambda>a. reads (g a)) = reads (\<lambda>s. rbind (f s) (\<lambda>a. g a s))"
    by (auto simp: ebind_def reads_def fun_eq_iff split: sum.splits)
  moreover have "rbind (f s) (\<lambda>a. g a s) = rbind (f t) (\<lambda>a. g a t)" if "agree context s t" for s t
    using assms(1) [OF that] assms(2) [OF that] by (cases "f t") auto
  ultimately show ?thesis by (simp add: confined_reads)
qed

lemma map_filter_cong: "(\<And>x. x \<in> set xs \<Longrightarrow> f x = g x) \<Longrightarrow> List.map_filter f xs = List.map_filter g xs"
  by (induction xs) (auto split: option.splits)

text \<open>The enumeration of a set lists members of it.\<close>

definition lists_members :: "(string set \<Rightarrow> string list) \<Rightarrow> bool" where
  "lists_members order = (\<forall>ids. set (order ids) \<subseteq> ids)"

lemma confined_search:
  assumes "lists_members order"
  shows "confined context (search_contracts order context arguments)"
  unfolding search_contracts_def
proof (rule confined_ebind [OF confined_eret], rule confined_ebind [OF confined_eret], rule confined_ebind [OF confined_eret],
    rule confined_read_read)
  fix s t assume ag: "agree context s t"
  show "authorized_contracts context s = authorized_contracts context t"
    using ag by (auto simp: agree_def authorized_contracts_def matter_contracts_def)
next
  fix matter_id query s t ids
  assume ag: "agree context s t" and ids: "authorized_contracts context s = Inr ids"
  have m: "matter_contracts t matter_id = matter_contracts s matter_id"
    using ag by (simp add: agree_def matter_contracts_def)
  have "List.map_filter (map_of (lg_contracts s)) (order (matter_contracts s matter_id \<inter> ids)) =
    List.map_filter (map_of (lg_contracts t)) (order (matter_contracts s matter_id \<inter> ids))"
    using assms ag authorized_contracts_Inr [OF ids]
    by (intro map_filter_cong) (auto simp: lists_members_def agree_def)
  then show "Inr (JObj [(''matter_id'', JStr matter_id),
      (''matches'', JList (map JObj (filter (\<lambda>c. contains_text (py_lower query) (py_lower (py_str (JObj c))))
        (List.map_filter (map_of (lg_contracts s)) (order (matter_contracts s matter_id \<inter> ids))))))]) =
    (Inr (JObj [(''matter_id'', JStr matter_id),
      (''matches'', JList (map JObj (filter (\<lambda>c. contains_text (py_lower query) (py_lower (py_str (JObj c))))
        (List.map_filter (map_of (lg_contracts t)) (order (matter_contracts t matter_id \<inter> ids))))))]) :: json res)"
    by (simp add: m)
qed

lemma confined_handlers:
  assumes "lists_members order" and "map_of (legal_handlers order context) tool = Some h"
  shows "confined context (h arguments)"
  using assms(2) confined_search [OF assms(1)]
  by (auto simp: legal_handlers_def extract_clause_def compare_contracts_def identify_deviations_def prepare_redline_def
      draft_legal_summary_def sign_contract_def file_document_def send_commitment_def provide_legal_advice_def
      intro!: confined_rules split: if_splits)

lemma confined_call:
  "lists_members order \<Longrightarrow> confined context (call_tool (legal_handlers order context) tool arguments)"
  using confined_handlers by (auto simp: call_tool_def confined_eret split: option.splits)

text \<open>
  C16. The legal scope holds. However many legal tools are called, with whatever arguments, the results do not depend on
  any contract outside the matters that the deployment permitted to the run: two desks that agree on the matters and on
  the contracts in scope give the same results and the same access log. The calls change neither matters nor contracts,
  and the log grows by contracts in scope only.
\<close>

theorem legal_scope_holds:
  assumes "lists_members order" and "agree context s t"
    and "run_tools (legal_handlers order context) requests s = (rs, s')"
    and "run_tools (legal_handlers order context) requests t = (rt, t')"
  shows "rs = rt \<and> lg_access_log s' = lg_access_log t' \<and> lg_matters s' = lg_matters s \<and>
    lg_contracts s' = lg_contracts s \<and>
    (\<exists>new. lg_access_log s' = lg_access_log s @ new \<and> snd ` set new \<subseteq> scope_of context s)"
  using assms(2-)
proof (induction requests arbitrary: s t rs rt s' t')
  case Nil
  then show ?case by (simp add: agree_def)
next
  case (Cons request rest)
  obtain tool arguments where request: "request = (tool, arguments)" by (cases request)
  from confinedD [OF confined_call [OF assms(1)] Cons.prems(1), of tool arguments] obtain r s1 t1 new where
    m: "call_tool (legal_handlers order context) tool arguments s = (r, s1)"
      "call_tool (legal_handlers order context) tool arguments t = (r, t1)" "agree context s1 t1"
      "lg_matters s1 = lg_matters s" "lg_contracts s1 = lg_contracts s" "lg_access_log s1 = lg_access_log s @ new"
      "snd ` set new \<subseteq> scope_of context s" by metis
  obtain rs2 s2 rt2 t2 where
    rest: "run_tools (legal_handlers order context) rest s1 = (rs2, s2)"
      "run_tools (legal_handlers order context) rest t1 = (rt2, t2)" by fastforce
  have eq: "rs = r # rs2" "s' = s2" "rt = r # rt2" "t' = t2"
    using Cons.prems(2,3) m(1,2) rest by (simp_all add: request)
  from Cons.IH [OF m(3) rest] obtain new2 where
    ih: "rs2 = rt2" "lg_access_log s2 = lg_access_log t2" "lg_matters s2 = lg_matters s1" "lg_contracts s2 = lg_contracts s1"
      "lg_access_log s2 = lg_access_log s1 @ new2" "snd ` set new2 \<subseteq> scope_of context s1" by blast
  have "snd ` set (new @ new2) \<subseteq> scope_of context s" using m(7) ih(6) scope_of_matters [OF m(4)] by auto
  moreover have "lg_access_log s' = lg_access_log s @ (new @ new2)" using ih(5) m(6) eq by simp
  ultimately show ?case using ih(1-4) m(4,5) eq by (intro conjI exI [of _ "new @ new2"]) simp_all
qed

section \<open>Requests for quotation\<close>

text \<open>The ids of two quotations may be the same.\<close>

lemma quote_ids_collide: "quote_id_for ''a-b'' ''c'' = quote_id_for ''a'' ''b-c''"
  by (simp add: quote_id_for_def)

lemma send_out_keeps:
  "pd_rfq_fingerprints (send_out r m vs s) = pd_rfq_fingerprints s"
  "pd_rfq_outcomes (send_out r m vs s) = pd_rfq_outcomes s"
proof -
  have "pd_rfq_fingerprints (fold (ask_vendor r m) vs s) = pd_rfq_fingerprints s \<and>
    pd_rfq_outcomes (fold (ask_vendor r m) vs s) = pd_rfq_outcomes s" for s
    by (induction vs arbitrary: s) (auto simp: ask_vendor_def Let_def split: option.splits)
  then show "pd_rfq_fingerprints (send_out r m vs s) = pd_rfq_fingerprints s"
    "pd_rfq_outcomes (send_out r m vs s) = pd_rfq_outcomes s" by (simp_all add: send_out_def)
qed

text \<open>Every recorded outcome has the digest of its request.\<close>

definition rfq_inv :: "ProcurementDesk \<Rightarrow> bool" where
  "rfq_inv s = (\<forall>r. map_of (pd_rfq_outcomes s) r \<noteq> None \<longrightarrow> map_of (pd_rfq_fingerprints s) r \<noteq> None)"

abbreviation inv_kept :: "(ProcurementDesk, 'a) eff \<Rightarrow> bool" where
  "inv_kept m \<equiv> transits m (\<lambda>s s'. rfq_inv s \<longrightarrow> rfq_inv s')"

lemma inv_kept_record: "inv_kept (record_rfq_outcome arguments outcome)"
  by (auto simp: transits_def record_rfq_outcome_def rfq_inv_def update_conv' split: sum.splits option.splits)

lemma inv_kept_writes: "(\<And>s. pd_rfq_fingerprints (f s) = pd_rfq_fingerprints s \<and> pd_rfq_outcomes (f s) = pd_rfq_outcomes s)
    \<Longrightarrow> inv_kept (writes f)"
  by (rule transits_writes) (simp add: rfq_inv_def)

lemma inv_kept_ebind: "inv_kept m \<Longrightarrow> (\<And>a. inv_kept (f a)) \<Longrightarrow> inv_kept (ebind m f)"
  by (rule transits_ebind) auto

lemma inv_kept_pure: "inv_kept (eret r)" "inv_kept (reads g)"
  by (auto intro: transits_eret transits_reads)

lemmas inv_kept_rules = inv_kept_ebind inv_kept_pure inv_kept_record inv_kept_writes

lemma inv_kept_send: "inv_kept (send_rfq_email arguments)"
  unfolding send_rfq_email_def
  by (auto intro!: inv_kept_rules simp: Let_def send_out_keeps split: option.splits)

lemma procurement_keeps_inv:
  assumes "map_of (procurement_handlers trunc) tool = Some h" and "rfq_inv s"
  shows "rfq_inv (snd (h arguments s))"
proof -
  have "inv_kept (h arguments)"
    using assms(1) inv_kept_send
    by (auto simp: procurement_handlers_def lookup_vendor_def search_catalog_def list_registered_vendors_def
        list_open_requisitions_def show_quotations_def create_purchase_requisition_def award_quote_def find_quote_def
        release_purchase_order_def change_vendor_bank_def post_erp_payment_def put_requisition_def Let_def
        intro!: inv_kept_rules split: if_splits)
  with assms(2) show ?thesis by (simp add: transits_def)
qed

text \<open>A request that was answered: its outcome is on record under its digest.\<close>

definition answered :: "jobj \<Rightarrow> jobj \<Rightarrow> ProcurementDesk \<Rightarrow> bool" where
  "answered arguments outcome s = (\<exists>rfq_id. item_text arguments ''rfq_id'' = Inr rfq_id \<and>
     map_of (pd_rfq_outcomes s) rfq_id = Some outcome \<and>
     (rfq_inv s \<longrightarrow> map_of (pd_rfq_fingerprints s) rfq_id \<noteq> None) \<and>
     rfq_idempotency_conflict arguments s = Inr False)"

lemma conflict_after_record:
  assumes "record_rfq_outcome arguments outcome s = (Inr (), s')" and "item_text arguments ''rfq_id'' = Inr rfq_id"
  shows "map_of (pd_rfq_outcomes s') rfq_id = Some outcome" and "map_of (pd_rfq_fingerprints s') rfq_id \<noteq> None"
    and "rfq_idempotency_conflict arguments s' = Inr False" and "rfq_inv s \<Longrightarrow> rfq_inv s'"
proof -
  obtain digest where d: "canonical_rfq_digest arguments = Inr digest"
    using assms by (auto simp: record_rfq_outcome_def rbind_Inr_iff split: sum.splits)
  have s': "s' = s\<lparr>pd_rfq_fingerprints := AList.update rfq_id digest (pd_rfq_fingerprints s),
      pd_rfq_outcomes := AList.update rfq_id outcome (pd_rfq_outcomes s)\<rparr>"
    using assms d by (auto simp: record_rfq_outcome_def split: option.splits if_splits)
  show "map_of (pd_rfq_outcomes s') rfq_id = Some outcome" "map_of (pd_rfq_fingerprints s') rfq_id \<noteq> None"
    by (simp_all add: s' update_conv')
  show "rfq_inv s \<Longrightarrow> rfq_inv s'" by (auto simp: rfq_inv_def s' update_conv')
  have "text_field arguments ''rfq_id'' = None \<or> text_field arguments ''rfq_id'' = Some rfq_id"
    using assms(2)
    by (auto simp: text_field_def item_text_def item_def of_option_def py_str_def rbind_Inr_iff
        split: option.splits json.splits if_splits)
  then show "rfq_idempotency_conflict arguments s' = Inr False"
    by (auto simp: rfq_idempotency_conflict_def d s' update_conv')
qed

lemma send_rfq_answered:
  assumes "send_rfq_email arguments s = (Inr out, s')"
  shows "\<exists>outcome. out = JObj outcome \<and> answered arguments outcome s'"
proof -
  obtain rfq_id where r: "item_text arguments ''rfq_id'' = Inr rfq_id"
    using assms by (auto simp: send_rfq_email_def ebind_def eret_def split: sum.splits)
  have c: "rfq_idempotency_conflict arguments s = Inr False"
    using assms by (auto simp: send_rfq_email_def ebind_def eret_def reads_def ensure_def r split: sum.splits if_splits)
  show ?thesis
  proof (cases "map_of (pd_rfq_outcomes s) rfq_id")
    case (Some outcome)
    then have "out = JObj outcome" "s' = s"
      using assms by (simp_all add: send_rfq_email_def ebind_def eret_def reads_def ensure_def r c replay_rfq_outcome_def)
    with Some r c show ?thesis by (auto simp: answered_def rfq_inv_def)
  next
    case None
    then obtain m vs board s2 where
      "record_rfq_outcome arguments (rfq_outcome rfq_id vs board) s2 = (Inr (), s')"
      "out = JObj (rfq_outcome rfq_id vs board)"
      using assms
      by (auto simp: send_rfq_email_def ebind_def eret_def reads_def writes_def ensure_def r c replay_rfq_outcome_def Let_def
          split: sum.splits prod.splits)
    with conflict_after_record [OF this(1) r] r show ?thesis unfolding answered_def by blast
  qed
qed

text \<open>
  C21. A request for quotation is sent once. Once \<^verbatim>\<open>send_rfq_email\<close> has returned, the same request again returns the
  same outcome and changes nothing, so that no second mail goes out. Any other request under the same id changes
  nothing either: it is refused, unless it has the digest of the first, whose outcome it then gets.
\<close>

theorem rfq_sent_once:
  assumes "rfq_inv s" and "send_rfq_email arguments s = (Inr out, s')"
  shows "send_rfq_email arguments s' = (Inr out, s') \<and>
    (text_field other ''rfq_id'' = text_field arguments ''rfq_id'' \<and> text_field other ''rfq_id'' \<noteq> None \<and>
     canonical_rfq_digest other = Inr d
     \<longrightarrow> send_rfq_email other s' =
       (if canonical_rfq_digest arguments = Inr d then (Inr out, s') else (Inl ProcurementError, s')))"
proof -
  obtain outcome where out: "out = JObj outcome" and "answered arguments outcome s'"
    using send_rfq_answered [OF assms(2)] by blast
  then obtain rfq_id where r: "item_text arguments ''rfq_id'' = Inr rfq_id"
      "map_of (pd_rfq_outcomes s') rfq_id = Some outcome"
      "rfq_inv s' \<Longrightarrow> map_of (pd_rfq_fingerprints s') rfq_id \<noteq> None"
      "rfq_idempotency_conflict arguments s' = Inr False"
    by (auto simp: answered_def)
  have inv: "rfq_inv s'" using inv_kept_send [of arguments] assms unfolding transits_def by (metis snd_conv)
  note unfold = send_rfq_email_def ebind_def eret_def reads_def ensure_def replay_rfq_outcome_def
  have "send_rfq_email arguments s' = (Inr out, s')" by (simp add: unfold r out)
  moreover have "send_rfq_email other s' =
      (if canonical_rfq_digest arguments = Inr d then (Inr out, s') else (Inl ProcurementError, s'))"
    if same: "text_field other ''rfq_id'' = text_field arguments ''rfq_id''" "text_field other ''rfq_id'' = Some i"
      and d: "canonical_rfq_digest other = Inr d" for i
  proof -
    note given = text_field_def item_text_def item_def of_option_def py_str_def
    have i: "i = rfq_id" using r(1) same by (auto simp: given split: option.splits json.splits if_splits)
    have o: "item_text other ''rfq_id'' = Inr rfq_id"
      using same(2) i by (auto simp: given split: option.splits json.splits if_splits)
    obtain f where f: "map_of (pd_rfq_fingerprints s') rfq_id = Some f" using r(3) [OF inv] by blast
    have "text_field arguments ''rfq_id'' = Some rfq_id" using same i by simp
    with r(4) f have "canonical_rfq_digest arguments = Inr f"
      by (auto simp: rfq_idempotency_conflict_def rbind_Inr_iff)
    moreover have "rfq_idempotency_conflict other s' = Inr (f \<noteq> d)"
      using d by (simp add: rfq_idempotency_conflict_def same(2) i f)
    ultimately show ?thesis by (simp add: unfold o r(2) out)
  qed
  ultimately show ?thesis by blast
qed

end
