(* ===== verification/Witnesses_Company.thy ===== *)
theory Witnesses_Company
  imports Company_Work
begin

text \<open>Witnesses of the company desks: a payment of an invoice, a lawyer's two lookups, and a request for quotation.\<close>

section \<open>A payment\<close>

definition pay_args :: jobj where
  "pay_args = [(''invoice_id'', JStr ''inv-1''), (''amount_minor'', JStr '' 025''), (''currency'', JStr ''USD''),
     (''beneficiary_id'', JStr ''vendor-1'')]"

definition desk_action :: ActionIntent where
  "desk_action = \<lparr>ai_request_id = ''r1'', ai_idempotency_key = ''k1'', ai_agent_id = ''accounts'',
     ai_framework = ''cbrain'', ai_tool_name = ''execute_payment'', ai_capability = ''accounts.pay'',
     ai_timestamp = JInt 7, ai_arguments_json = Doc (JObj pay_args), ai_context_json = Doc (JObj []),
     ai_evidence_json = Doc (JObj [])\<rparr>"

definition invoice_1 :: jobj where
  "invoice_1 = [(''invoice_id'', JStr ''inv-1''), (''vendor_id'', JStr ''vendor-1''), (''amount_minor'', JStr ''25''),
     (''currency'', JStr ''USD'')]"

definition empty_procurement :: ProcurementDesk where
  "empty_procurement = \<lparr>pd_vendors = [], pd_catalog = [], pd_open_pos = [], pd_quotations = [], pd_rfqs = [],
     pd_requisitions = [], pd_purchase_orders = [], pd_outbound_rfqs = [], pd_quote_templates = [],
     pd_rfq_fingerprints = [], pd_rfq_outcomes = []\<rparr>"

definition desk_bundle :: CompanySimulatorBundle where
  "desk_bundle = \<lparr>
     sb_operations = \<lparr>os_services = [], os_runbooks = [], os_tickets = [], os_incidents = [], os_restarts = []\<rparr>,
     sb_legal = \<lparr>lg_matters = [], lg_contracts = [], lg_access_log = []\<rparr>,
     sb_accounts = \<lparr>ac_invoices = [(''inv-1'', invoice_1)], ac_purchase_orders = [], ac_ledger = [], ac_payments = [],
       ac_vendors = []\<rparr>,
     sb_coding = \<lparr>cg_files = [], cg_search_index = [], cg_patches = [], cg_pull_requests = [], cg_test_runs = []\<rparr>,
     sb_procurement = empty_procurement\<rparr>"

theorem validated_payment_pays_invoice_witness:
  "\<exists>invoice_id amount currency b'.
     snd (call_tool (build_handlers [] (\<lambda>_. []) (\<lambda>_. 0) ACCOUNTS None) ''execute_payment'' pay_args desk_bundle) = b' \<and>
     map_of (ac_invoices (sb_accounts desk_bundle)) invoice_id = Some invoice_1 \<and> amount \<le> amount_ceiling \<and>
     ac_payments (sb_accounts b') = [payment_row invoice_id (show_int amount) currency ''vendor-1'']"
proof -
  let ?call = "call_tool (build_handlers [] (\<lambda>_. []) (\<lambda>_. 0) ACCOUNTS None) ''execute_payment'' pay_args desk_bundle"
  have v: "validate_company_action ACCOUNTS desk_action None (Some desk_bundle) = Inr (True, None)" by code_simp
  have t: "ai_tool_name desk_action = ''execute_payment''" "ai_arguments desk_action = Inr pay_args" by code_simp+
  have "\<not> isl (fst ?call)" by code_simp
  then obtain out where out: "?call = (Inr out, snd ?call)" by (cases "?call"; cases "fst ?call") auto
  have vendor: "py_str (get_or invoice_1 ''vendor_id'' (JStr [])) = ''vendor-1''" by code_simp
  have base: "ac_payments (sb_accounts desk_bundle) = []" "ac_invoices (sb_accounts desk_bundle) = [(''inv-1'', invoice_1)]"
    by (simp_all add: desk_bundle_def)
  from validated_payment_pays_invoice [OF v t out] obtain invoice_id invoice amount currency where
    w: "map_of (ac_invoices (sb_accounts desk_bundle)) invoice_id = Some invoice" "amount \<le> amount_ceiling"
      "ac_payments (sb_accounts (snd ?call)) = ac_payments (sb_accounts desk_bundle) @
        [payment_row invoice_id (show_int amount) currency (py_str (get_or invoice ''vendor_id'' (JStr [])))]" by auto
  from w(1) have "invoice = invoice_1" unfolding base by (auto split: if_splits)
  with w vendor base(1) show ?thesis by (intro exI [of _ invoice_id] exI [of _ amount] exI [of _ currency]) simp
qed

section \<open>Two lookups\<close>

definition lawyer :: "CompanyExecutionContext option" where
  "lawyer = Some \<lparr>xc_principal_id = ''p1'', xc_agent_kind = LEGAL, xc_permitted_matter_ids = {''matter-a''},
     xc_authorization_scope_id = ''scope''\<rparr>"

definition contract_row :: "string \<Rightarrow> string \<Rightarrow> string \<Rightarrow> jobj" where
  "contract_row cid matter clause = [(''contract_id'', JStr cid), (''matter_id'', JStr matter),
     (''clauses'', JObj [(''c1'', JStr clause)])]"

definition archive :: "string \<Rightarrow> LegalSimulator" where
  "archive secret = \<lparr>lg_matters = [(''matter-a'', {''ctr-a''}), (''matter-b'', {''ctr-b''})],
     lg_contracts = [(''ctr-a'', contract_row ''ctr-a'' ''matter-a'' ''net 30''),
       (''ctr-b'', contract_row ''ctr-b'' ''matter-b'' secret)], lg_access_log = []\<rparr>"

definition lookups :: "(string \<times> jobj) list" where
  "lookups = [(''extract_clause'', [(''contract_id'', JStr ''ctr-a''), (''clause_id'', JStr ''c1'')]),
     (''extract_clause'', [(''contract_id'', JStr ''ctr-b''), (''clause_id'', JStr ''c1'')])]"

theorem legal_scope_holds_witness:
  "\<exists>rs s' t'. run_tools (legal_handlers sorted_list_of_set lawyer) lookups (archive ''x'') = (rs, s') \<and>
     run_tools (legal_handlers sorted_list_of_set lawyer) lookups (archive ''y'') = (rs, t') \<and>
     lg_access_log s' = lg_access_log t' \<and> lg_contracts s' = lg_contracts (archive ''x'')"
proof -
  have members: "lists_members sorted_list_of_set"
    unfolding lists_members_def by (metis empty_iff empty_set set_sorted_list_of_set sorted_list_of_set.fold_insort_key.infinite
        subsetI)
  have "scope_of lawyer (archive ''x'') = {''ctr-a''}"
    by (simp add: scope_of_def lawyer_def archive_def matter_contracts_def)
  then have ag: "agree lawyer (archive ''x'') (archive ''y'')" by (simp add: agree_def) (simp add: archive_def)
  obtain rs s' rt t' where run: "run_tools (legal_handlers sorted_list_of_set lawyer) lookups (archive ''x'') = (rs, s')"
    "run_tools (legal_handlers sorted_list_of_set lawyer) lookups (archive ''y'') = (rt, t')" by fastforce
  from legal_scope_holds [OF members ag run] run show ?thesis by auto
qed

section \<open>A request for quotation\<close>

definition rfq_args :: "string \<Rightarrow> jobj" where
  "rfq_args material = [(''rfq_id'', JStr ''rfq-1''), (''material_id'', JStr material),
     (''vendor_ids'', JList [JStr ''v1''])]"

lemma payload_hashed: "\<not> isl (canonical_json p) \<Longrightarrow> \<exists>d. hex_of_payload p = Inr d"
  by (cases "canonical_json p") (auto simp: hex_of_payload_def)

lemma rfq_digests:
  "\<exists>d. canonical_rfq_digest (rfq_args ''rod'') = Inr d" "\<exists>d. canonical_rfq_digest (rfq_args ''sheet'') = Inr d"
proof -
  have eq: "canonical_rfq_digest (rfq_args m) =
      hex_of_payload [(''material_id'', JStr m), (''rfq_id'', JStr ''rfq-1''), (''vendor_ids'', JList [JStr ''v1''])]" for m
    by (simp add: canonical_rfq_digest_def rfq_args_def item_def of_option_def jget_def py_list_def)
  show "\<exists>d. canonical_rfq_digest (rfq_args ''rod'') = Inr d" unfolding eq by (rule payload_hashed) code_simp
  show "\<exists>d. canonical_rfq_digest (rfq_args ''sheet'') = Inr d" unfolding eq by (rule payload_hashed) code_simp
qed

theorem rfq_sent_once_witness:
  "\<exists>out s' d. send_rfq_email (rfq_args ''rod'') empty_procurement = (Inr out, s') \<and>
     send_rfq_email (rfq_args ''rod'') s' = (Inr out, s') \<and>
     send_rfq_email (rfq_args ''sheet'') s' =
       (if canonical_rfq_digest (rfq_args ''rod'') = Inr d then (Inr out, s') else (Inl ProcurementError, s'))"
proof -
  obtain d1 d2 where d: "canonical_rfq_digest (rfq_args ''rod'') = Inr d1"
    "canonical_rfq_digest (rfq_args ''sheet'') = Inr d2" using rfq_digests by blast
  have id: "text_field (rfq_args m) ''rfq_id'' = Some ''rfq-1''" "item_text (rfq_args m) ''rfq_id'' = Inr ''rfq-1''"
    "item_text (rfq_args m) ''material_id'' = Inr m" "item (rfq_args m) ''vendor_ids'' = Inr (JList [JStr ''v1''])" for m
    by (simp_all add: text_field_def item_text_def item_def rfq_args_def jget_def of_option_def py_str_def nonblank_def
        py_isspace_def)
  have empty: "pd_rfq_fingerprints empty_procurement = []" "pd_rfq_outcomes empty_procurement = []"
    by (simp_all add: empty_procurement_def)
  define s1 where "s1 = send_out ''rfq-1'' ''rod'' [''v1''] empty_procurement"
  have s1: "pd_quotations s1 = []" "pd_rfq_fingerprints s1 = []"
    by (simp_all add: s1_def send_out_def ask_vendor_def empty_procurement_def Let_def)
  have "\<exists>h. hex_of_payload [(''count'', JInt 0), (''quotations'', JList [])] = Inr h" by (rule payload_hashed) code_simp
  then obtain board where b: "board_for ''rfq-1'' s1 = Inr board"
    by (auto simp: board_for_def s1 quotation_board_payload_def rank_quotations_def quote_board_digest_def get_null_def
        jget_def)
  have inv: "rfq_inv empty_procurement" by (simp add: rfq_inv_def empty_procurement_def)
  have "\<exists>out s'. send_rfq_email (rfq_args ''rod'') empty_procurement = (Inr out, s')"
    by (simp add: send_rfq_email_def ebind_def eret_def reads_def writes_def ensure_def id d(1) replay_rfq_outcome_def
        rfq_idempotency_conflict_def py_list_def py_str_def s1_def [symmetric] b record_rfq_outcome_def s1 empty Let_def)
  then obtain out s' where "send_rfq_email (rfq_args ''rod'') empty_procurement = (Inr out, s')" by blast
  with rfq_sent_once [OF inv this, of "rfq_args ''sheet''" d2] id d show ?thesis by auto
qed

end
