(* ===== verification/Providers.thy ===== *)
theory Providers
  imports Py_Text Py_Float
begin

text \<open>
  \<^verbatim>\<open>cbrain/models/anthropic.py\<close>, \<^verbatim>\<open>google.py\<close>, \<^verbatim>\<open>openai_compatible.py\<close>, \<^verbatim>\<open>transport.py\<close> and \<^verbatim>\<open>router.py\<close>: how a neutral
  request is put on the wire of a provider, how its answer is read, and how a route is chosen. The HTTP exchange and
  \<^verbatim>\<open>json.loads\<close> are arguments; the temperature of a request and the fresh id of a Google call are arguments, too.
\<close>

abbreviation ModelRoutingError :: exn where
  "ModelRoutingError \<equiv> External ''ModelRoutingError''"

text \<open>\<^verbatim>\<open>v in {...}\<close> for a set of texts; a list or a mapping has no hash.\<close>

definition in_texts :: "json \<Rightarrow> string list \<Rightarrow> bool res" where
  "in_texts v ts = (case v of
       JList _ \<Rightarrow> Inl TypeError
     | JObj _ \<Rightarrow> Inl TypeError
     | JStr s \<Rightarrow> Inr (s \<in> set ts)
     | _ \<Rightarrow> Inr False)"

definition system_text :: "Message list \<Rightarrow> string" where
  "system_text messages = join [CHR 0x0A, CHR 0x0A] (map ms_content (filter (\<lambda>m. ms_role m = ROLE_SYSTEM) messages))"

definition opt_text_json :: "string option \<Rightarrow> json" where
  "opt_text_json v = (case v of Some s \<Rightarrow> JStr s | None \<Rightarrow> JNull)"

text \<open>\<^verbatim>\<open>d.get(k, v)\<close>.\<close>

definition get_default :: "jobj \<Rightarrow> string \<Rightarrow> json \<Rightarrow> json" where
  "get_default d k v = (case jget d k of Some x \<Rightarrow> x | None \<Rightarrow> v)"

section \<open>Anthropic\<close>

definition anthropic_message :: "string \<Rightarrow> Message \<Rightarrow> jobj res" where
  "anthropic_message model m = (case ms_tool_call m of
       Some call \<Rightarrow>
         (case tc_continuation call of
            Some turn \<Rightarrow> for_route turn ''anthropic'' model ''anthropic''
          | None \<Rightarrow> Inr [(''role'', JStr ''assistant''), (''content'', JList [JObj [(''type'', JStr ''tool_use''),
              (''id'', JStr (tc_call_id call)), (''name'', JStr (tc_name call)), (''input'', JObj (tc_arguments call))]])])
     | None \<Rightarrow>
         if ms_role m = ROLE_TOOL
         then Inr [(''role'', JStr ''user''), (''content'', JList [JObj [(''type'', JStr ''tool_result''),
                (''tool_use_id'', opt_text_json (ms_tool_call_id m)), (''content'', JStr (ms_content m))]])]
         else Inr [(''role'', JStr (role_value (ms_role m))), (''content'', JStr (ms_content m))])"

definition anthropic_payload :: "string \<Rightarrow> json \<Rightarrow> CompletionRequest \<Rightarrow> jobj res" where
  "anthropic_payload model temperature request =
     rbind (rmapM (anthropic_message model) (filter (\<lambda>m. ms_role m \<noteq> ROLE_SYSTEM) (cr_messages request))) (\<lambda>messages.
     let system = system_text (cr_messages request) in
     Inr ([(''model'', JStr model), (''messages'', JList (map JObj messages)),
           (''max_tokens'', JInt (cr_max_output_tokens request)), (''temperature'', temperature)] @
          (if system = [] then [] else [(''system'', JStr system)]) @
          (if cr_tools request = [] then [] else [(''tools'', JList (map (\<lambda>t. JObj [(''name'', JStr (td_name t)),
             (''description'', JStr (td_description t)), (''input_schema'', JObj (td_input_schema t))])
             (cr_tools request)))])))"

text \<open>The tool uses and the texts of the content blocks.\<close>

fun anthropic_blocks :: "json list \<Rightarrow> (jobj list \<times> string list) res" where
  "anthropic_blocks [] = Inr ([], [])"
| "anthropic_blocks (raw # rest) =
     rbind (response_mapping (Some raw)) (\<lambda>block.
     rbind (anthropic_blocks rest) (\<lambda>(uses, texts).
     let kind = get_null block ''type'' in
     if kind = JStr ''tool_use'' then Inr (block # uses, texts)
     else if kind = JStr ''text'' then
       (case text_field block ''text'' of Some t \<Rightarrow> Inr (uses, t # texts) | None \<Rightarrow> Inr (uses, texts))
     else Inr (uses, texts)))"

definition text_output :: "string list \<Rightarrow> ModelOutput res" where
  "text_output texts = (if texts = [] then Inl ModelResponseError else Inr (OutText (concat texts)))"

definition call_with_turn ::
  "(string \<Rightarrow> json res) \<Rightarrow> string \<times> string \<times> string \<Rightarrow> jobj \<Rightarrow> string \<Rightarrow> string \<Rightarrow> jobj \<Rightarrow> ModelOutput res" where
  "call_with_turn loads route turn call_id name arguments = (case route of (provider, model, wire_format) \<Rightarrow>
     rbind (capture_continuation provider model wire_format (JObj turn)) (\<lambda>continuation.
     rbind (capture_tool_call loads call_id name (JObj arguments) (Some continuation)) (\<lambda>call.
     Inr (OutCall call))))"

definition anthropic_parse :: "(string \<Rightarrow> json res) \<Rightarrow> string \<Rightarrow> jobj \<Rightarrow> ModelOutput res" where
  "anthropic_parse loads model response =
     rbind (in_texts (get_null response ''stop_reason'') [''max_tokens'', ''pause_turn'', ''refusal'']) (\<lambda>stopped.
     rbind (ensure (\<not> stopped) ModelResponseError) (\<lambda>_.
     rbind (response_list (jget response ''content'')) (\<lambda>content.
     rbind (anthropic_blocks content) (\<lambda>(uses, texts). case uses of
       [] \<Rightarrow> text_output texts
     | [block] \<Rightarrow>
         rbind (response_text (jget block ''id'')) (\<lambda>call_id.
         rbind (response_text (jget block ''name'')) (\<lambda>name.
         rbind (parse_arguments loads (jget block ''input'')) (\<lambda>arguments.
         call_with_turn loads (''anthropic'', model, ''anthropic'')
           [(''role'', JStr ''assistant''), (''content'', JList content)] call_id name arguments)))
     | _ \<Rightarrow> Inl ModelResponseError))))"

section \<open>OpenAI-compatible\<close>

definition chat_message :: "string \<Rightarrow> string \<Rightarrow> Message \<Rightarrow> jobj res" where
  "chat_message provider model m = (case ms_tool_call m of
       Some call \<Rightarrow>
         (case tc_continuation call of
            Some turn \<Rightarrow> for_route turn provider model ''chat_completions''
          | None \<Rightarrow> Inr [(''role'', JStr ''assistant''), (''content'', JNull), (''tool_calls'', JList [JObj [
              (''id'', JStr (tc_call_id call)), (''type'', JStr ''function''),
              (''function'', JObj [(''name'', JStr (tc_name call)),
                 (''arguments'', JStr (dumps (JObj (tc_arguments call))))])]])])
     | None \<Rightarrow> Inr ([(''role'', JStr (role_value (ms_role m))), (''content'', JStr (ms_content m))] @
         (if ms_role m = ROLE_TOOL
          then [(''tool_call_id'', opt_text_json (ms_tool_call_id m)), (''name'', opt_text_json (ms_tool_name m))]
          else [])))"

definition chat_payload :: "string \<Rightarrow> string \<Rightarrow> json \<Rightarrow> CompletionRequest \<Rightarrow> jobj res" where
  "chat_payload provider model temperature request =
     rbind (rmapM (chat_message provider model) (cr_messages request)) (\<lambda>messages.
     Inr ([(''model'', JStr model), (''messages'', JList (map JObj messages)),
           (''max_tokens'', JInt (cr_max_output_tokens request)), (''temperature'', temperature)] @
          (if cr_tools request = [] then []
           else [(''tools'', JList (map (\<lambda>t. JObj [(''type'', JStr ''function''), (''function'', JObj [
               (''name'', JStr (td_name t)), (''description'', JStr (td_description t)),
               (''parameters'', JObj (td_input_schema t))])]) (cr_tools request))),
             (''tool_choice'', JStr ''auto'')])))"

definition chat_turn :: "jobj \<Rightarrow> jobj \<Rightarrow> jobj" where
  "chat_turn message call =
     [(''role'', JStr ''assistant''), (''content'', get_null message ''content''),
      (''tool_calls'', JList [JObj (jset ''type'' (get_default call ''type'' (JStr ''function'')) call)])] @
     (case jget message ''reasoning_content'' of Some r \<Rightarrow> [(''reasoning_content'', r)] | None \<Rightarrow> [])"

definition chat_tool_call ::
  "(string \<Rightarrow> json res) \<Rightarrow> string \<Rightarrow> string \<Rightarrow> jobj \<Rightarrow> ModelOutput res" where
  "chat_tool_call loads provider model message =
     rbind (response_list (jget message ''tool_calls'')) (\<lambda>calls.
     rbind (ensure (length calls = 1) ModelResponseError) (\<lambda>_.
     rbind (response_mapping (Some (hd calls))) (\<lambda>call.
     rbind (response_mapping (jget call ''function'')) (\<lambda>function.
     rbind (response_text (jget call ''id'')) (\<lambda>call_id.
     rbind (response_text (jget function ''name'')) (\<lambda>name.
     rbind (parse_arguments loads (jget function ''arguments'')) (\<lambda>arguments.
     call_with_turn loads (provider, model, ''chat_completions'') (chat_turn message call) call_id name arguments)))))))"

definition chat_parse :: "(string \<Rightarrow> json res) \<Rightarrow> string \<Rightarrow> string \<Rightarrow> jobj \<Rightarrow> ModelOutput res" where
  "chat_parse loads provider model response =
     rbind (response_list (jget response ''choices'')) (\<lambda>choices.
     rbind (ensure (length choices = 1) ModelResponseError) (\<lambda>_.
     rbind (response_mapping (Some (hd choices))) (\<lambda>choice.
     rbind (response_mapping (jget choice ''message'')) (\<lambda>message.
     rbind (in_texts (get_null choice ''finish_reason'') [''length'', ''content_filter'']) (\<lambda>stopped.
     rbind (ensure (\<not> stopped) ModelResponseError) (\<lambda>_.
     rbind (ensure (get_default message ''role'' (JStr ''assistant'') = JStr ''assistant'' \<and>
              \<not> truthy (get_null message ''refusal'')) ModelResponseError) (\<lambda>_.
     if get_null message ''tool_calls'' \<noteq> JNull then chat_tool_call loads provider model message
     else case text_field message ''content'' of
       Some t \<Rightarrow> Inr (OutText t)
     | None \<Rightarrow> Inl ModelResponseError)))))))"

section \<open>Google\<close>

text \<open>\<^verbatim>\<open>key in v\<close> for a decoded value.\<close>

definition py_in :: "string \<Rightarrow> json \<Rightarrow> bool res" where
  "py_in key v = (case v of
       JObj d \<Rightarrow> Inr (key \<in> jkeys d)
     | JStr s \<Rightarrow> Inr (contains_text key s)
     | JList xs \<Rightarrow> Inr (JStr key \<in> set xs)
     | _ \<Rightarrow> Inl TypeError)"

text \<open>\<^verbatim>\<open>v[key]\<close>.\<close>

definition py_item :: "json \<Rightarrow> string \<Rightarrow> json res" where
  "py_item v key = (case v of JObj d \<Rightarrow> item d key | _ \<Rightarrow> Inl TypeError)"

text \<open>The id of the function call in the parts of a turn; of several the last.\<close>

fun google_call_id :: "json option \<Rightarrow> json list \<Rightarrow> json option res" where
  "google_call_id found [] = Inr found"
| "google_call_id found (part # rest) =
     rbind (py_in ''functionCall'' part) (\<lambda>has_call.
     if \<not> has_call then google_call_id found rest
     else rbind (py_item part ''functionCall'') (\<lambda>function.
          rbind (py_in ''id'' function) (\<lambda>has_id.
          if \<not> has_id then google_call_id found rest
          else rbind (py_item function ''id'') (\<lambda>i. google_call_id (Some i) rest))))"

definition google_response_id :: "string \<Rightarrow> ToolCall option \<Rightarrow> json option res" where
  "google_response_id model preceding_call = (case preceding_call of
       Some call \<Rightarrow> (case tc_continuation call of
           Some turn \<Rightarrow>
             rbind (for_route turn ''google'' model ''google'') (\<lambda>assistant.
             rbind (item assistant ''parts'') (\<lambda>parts.
             rbind (py_list parts) (google_call_id None)))
         | None \<Rightarrow> Inr None)
     | None \<Rightarrow> Inr None)"

definition google_message :: "string \<Rightarrow> ToolCall option \<Rightarrow> Message \<Rightarrow> jobj res" where
  "google_message model preceding_call m = (case ms_tool_call m of
       Some call \<Rightarrow>
         (case tc_continuation call of
            Some turn \<Rightarrow> for_route turn ''google'' model ''google''
          | None \<Rightarrow> Inr [(''role'', JStr ''model''), (''parts'', JList [JObj [(''functionCall'', JObj [
              (''name'', JStr (tc_name call)), (''args'', JObj (tc_arguments call))])]])])
     | None \<Rightarrow>
         if ms_role m = ROLE_TOOL
         then rbind (google_response_id model preceding_call) (\<lambda>i.
              Inr [(''role'', JStr ''user''), (''parts'', JList [JObj [(''functionResponse'', JObj (
                [(''name'', opt_text_json (ms_tool_name m)),
                 (''response'', JObj [(''content'', JStr (ms_content m))])] @
                (case i of Some v \<Rightarrow> [(''id'', v)] | None \<Rightarrow> [])))]])])
         else Inr [(''role'', JStr (if ms_role m = ROLE_ASSISTANT then ''model'' else ''user'')),
                   (''parts'', JList [JObj [(''text'', JStr (ms_content m))]])])"

text \<open>Every message with the tool call of the message before it.\<close>

definition with_preceding :: "Message list \<Rightarrow> (ToolCall option \<times> Message) list" where
  "with_preceding messages = zip (None # map ms_tool_call messages) messages"

definition google_payload :: "string \<Rightarrow> json \<Rightarrow> CompletionRequest \<Rightarrow> jobj res" where
  "google_payload model temperature request =
     rbind (rmapM (\<lambda>(preceding, m). google_message model preceding m)
       (filter (\<lambda>(_, m). ms_role m \<noteq> ROLE_SYSTEM) (with_preceding (cr_messages request)))) (\<lambda>contents.
     let system = system_text (cr_messages request) in
     Inr ([(''contents'', JList (map JObj contents)),
           (''generationConfig'', JObj [(''maxOutputTokens'', JInt (cr_max_output_tokens request)),
              (''temperature'', temperature)])] @
          (if system = [] then []
           else [(''systemInstruction'', JObj [(''parts'', JList [JObj [(''text'', JStr system)]])])]) @
          (if cr_tools request = [] then []
           else [(''tools'', JList [JObj [(''functionDeclarations'', JList (map (\<lambda>t. JObj [
               (''name'', JStr (td_name t)), (''description'', JStr (td_description t)),
               (''parameters'', JObj (td_input_schema t))]) (cr_tools request)))]])])))"

text \<open>\<^verbatim>\<open>urllib.parse.quote(s, safe='-._')\<close>.\<close>

definition url_safe :: "char \<Rightarrow> bool" where
  "url_safe c = (is_upper c \<or> is_lower_alnum c \<or> c \<in> set ''_.-~'')"

definition upper_hex :: "nat \<Rightarrow> char" where
  "upper_hex n = char_of (if n < 10 then 48 + n else 55 + n)"

definition url_quote :: "string \<Rightarrow> string" where
  "url_quote s = concat (map (\<lambda>c. if url_safe c then [c]
     else concat (map (\<lambda>b. [CHR 0x25, upper_hex (unat b div 16), upper_hex (unat b mod 16)]) (utf8_char c))) s)"

definition google_path :: "string \<Rightarrow> string" where
  "google_path model = ''/v1beta/models/'' @ url_quote model @ '':generateContent''"

text \<open>The function calls and the texts of the parts, thoughts left out.\<close>

fun google_parts :: "json list \<Rightarrow> (jobj list \<times> string list) res" where
  "google_parts [] = Inr ([], [])"
| "google_parts (raw # rest) =
     rbind (response_mapping (Some raw)) (\<lambda>part.
     rbind (case jget part ''functionCall'' of
              Some f \<Rightarrow> rbind (response_mapping (Some f)) (\<lambda>d. Inr [d])
            | None \<Rightarrow> Inr []) (\<lambda>found.
     rbind (google_parts rest) (\<lambda>(found', texts).
     Inr (found @ found', (case text_field part ''text'' of
            Some t \<Rightarrow> if truthy (get_default part ''thought'' (JBool False)) then [] else [t]
          | None \<Rightarrow> []) @ texts))))"

definition google_parse :: "(string \<Rightarrow> json res) \<Rightarrow> string \<Rightarrow> string \<Rightarrow> jobj \<Rightarrow> ModelOutput res" where
  "google_parse loads model fresh response =
     rbind (response_list (jget response ''candidates'')) (\<lambda>candidates.
     rbind (ensure (length candidates = 1) ModelResponseError) (\<lambda>_.
     rbind (response_mapping (Some (hd candidates))) (\<lambda>candidate.
     rbind (ensure (get_default candidate ''finishReason'' (JStr ''STOP'') = JStr ''STOP'') ModelResponseError) (\<lambda>_.
     rbind (response_mapping (jget candidate ''content'')) (\<lambda>content.
     rbind (response_list (jget content ''parts'')) (\<lambda>parts.
     rbind (google_parts parts) (\<lambda>(found, texts). case found of
       [] \<Rightarrow> text_output texts
     | [function] \<Rightarrow>
         rbind (response_text (jget function ''name'')) (\<lambda>name.
         rbind (parse_arguments loads (Some (get_default function ''args'' (JObj [])))) (\<lambda>arguments.
         rbind (case jget function ''id'' of
                  Some i \<Rightarrow> response_text (Some i)
                | None \<Rightarrow> Inr (''google-'' @ fresh)) (\<lambda>call_id.
         call_with_turn loads (''google'', model, ''google'')
           [(''role'', JStr ''model''), (''parts'', JList parts)] call_id name arguments)))
     | _ \<Rightarrow> Inl ModelResponseError)))))))"

section \<open>The HTTPS transport\<close>

record EnvironmentCredentialHeaders =
  eh_environment_variable :: string
  eh_header_name :: string
  eh_prefix :: string

definition single_line :: "string \<Rightarrow> bool" where
  "single_line s = (CHR 0x0D \<notin> set s \<and> CHR 0x0A \<notin> set s)"

definition headers_post_init :: "EnvironmentCredentialHeaders \<Rightarrow> EnvironmentCredentialHeaders res" where
  "headers_post_init h =
     rbind (ensure (nonblank (eh_environment_variable h) \<and> single_line (eh_environment_variable h)) ValueError) (\<lambda>_.
     rbind (ensure (nonblank (eh_header_name h) \<and> single_line (eh_header_name h)) ValueError) (\<lambda>_.
     rbind (ensure (single_line (eh_prefix h)) ValueError) (\<lambda>_. Inr h)))"

text \<open>\<^verbatim>\<open>EnvironmentCredentialHeaders.__call__\<close>; \<open>env\<close> is the environment of the process.\<close>

definition credential_headers ::
  "(string \<rightharpoonup> string) \<Rightarrow> EnvironmentCredentialHeaders \<Rightarrow> (string \<times> string) list res" where
  "credential_headers env h =
     (let value = (case env (eh_environment_variable h) of Some v \<Rightarrow> v | None \<Rightarrow> []) in
      rbind (ensure (nonblank value) ModelCredentialError) (\<lambda>_.
      rbind (ensure (single_line value) ModelCredentialError) (\<lambda>_.
      Inr [(eh_header_name h, eh_prefix h @ value)])))"

text \<open>What \<^verbatim>\<open>urllib.parse.urlsplit\<close> makes of a URL; its \<^verbatim>\<open>port\<close> may raise.\<close>

record SplitResult =
  ur_scheme :: string
  ur_netloc :: string
  ur_path :: string
  ur_query :: string
  ur_fragment :: string
  ur_username :: "string option"
  ur_password :: "string option"
  ur_hostname :: "string option"
  ur_port :: "nat option res"

record HttpsJsonModelTransport =
  mt_host :: string
  mt_port :: "nat option"
  mt_base_path :: string
  mt_timeout_seconds :: pyfl
  mt_max_response_bytes :: int

definition validate_base_url :: "SplitResult \<Rightarrow> unit res" where
  "validate_base_url u =
     rbind (ensure (ur_scheme u = ''https'' \<and> ur_netloc u \<noteq> []) ValueError) (\<lambda>_.
     rbind (ensure (ur_query u = [] \<and> ur_fragment u = []) ValueError) (\<lambda>_.
     ensure (ur_username u = None \<and> ur_password u = None) ValueError))"

definition rstrip_slash :: "string \<Rightarrow> string" where
  "rstrip_slash s = rev (dropWhile (\<lambda>c. c = CHR ''/'') (rev s))"

definition model_transport_init :: "SplitResult \<Rightarrow> pyfl \<Rightarrow> int \<Rightarrow> HttpsJsonModelTransport res" where
  "model_transport_init u timeout_seconds max_response_bytes =
     rbind (validate_base_url u) (\<lambda>_.
     rbind (ensure (fl_finite timeout_seconds \<and> fl_less (Fl 0) timeout_seconds) ValueError) (\<lambda>_.
     rbind (ensure (1 \<le> max_response_bytes) ValueError) (\<lambda>_.
     rbind (of_option ValueError (ur_hostname u)) (\<lambda>host.
     rbind (ur_port u) (\<lambda>port.
     Inr \<lparr>mt_host = host, mt_port = port, mt_base_path = rstrip_slash (ur_path u),
          mt_timeout_seconds = timeout_seconds, mt_max_response_bytes = max_response_bytes\<rparr>)))))"

definition request_headers :: "(string \<times> string) list \<Rightarrow> (string \<times> string) list res" where
  "request_headers supplied =
     rbind (ensure (list_all (\<lambda>(key, value).
              py_casefold key \<notin> {''content-length'', ''content-type'', ''host''} \<and>
              single_line key \<and> single_line value) supplied) ModelCredentialError) (\<lambda>_.
     Inr (foldl (\<lambda>hs (key, value). AList.update key value hs)
       [(''Accept'', ''application/json''), (''Content-Type'', ''application/json'')] supplied))"

text \<open>One POST over TLS as \<^verbatim>\<open>http.client\<close> sends it, and the status, content type and body of its answer.\<close>

record ModelPost =
  mp_host :: string
  mp_port :: "nat option"
  mp_path :: string
  mp_headers :: "(string \<times> string) list"
  mp_body :: bytes

record ModelAnswer =
  mr_status :: int
  mr_content_type :: string
  mr_body :: bytes

definition origin_path :: "string \<Rightarrow> bool" where
  "origin_path path = (starts_with ''/'' path \<and> \<not> starts_with ''//'' path)"

text \<open>\<^verbatim>\<open>content_type.split(";", 1)[0].strip().lower()\<close>, as far as it can equal a media type of ASCII.\<close>

definition media_type :: "string \<Rightarrow> string" where
  "media_type content_type =
     map (\<lambda>c. if is_upper c then char_of ((of_char c :: nat) + 32) else c)
       (py_strip (takeWhile (\<lambda>c. c \<noteq> CHR 0x3B) content_type))"

definition decode_answer :: "(bytes \<Rightarrow> json res) \<Rightarrow> bytes \<Rightarrow> jobj res" where
  "decode_answer loads_bytes body = (case loads_bytes body of
       Inl e \<Rightarrow> if e \<in> {External ''UnicodeDecodeError'', External ''JSONDecodeError''}
               then Inl ModelResponseError else Inl e
     | Inr (JObj d) \<Rightarrow> Inr d
     | Inr _ \<Rightarrow> Inl ModelResponseError)"

definition read_answer :: "(bytes \<Rightarrow> json res) \<Rightarrow> int \<Rightarrow> ModelAnswer \<Rightarrow> jobj res" where
  "read_answer loads_bytes limit answer =
     (let body = take (nat (limit + 1)) (mr_body answer) in
      rbind (ensure (int (length body) \<le> limit) ModelResponseError) (\<lambda>_.
      rbind (ensure (200 \<le> mr_status answer \<and> mr_status answer \<le> 299) ModelTransportError) (\<lambda>_.
      rbind (ensure (media_type (mr_content_type answer) = ''application/json'') ModelResponseError) (\<lambda>_.
      decode_answer loads_bytes body))))"

text \<open>
  \<open>exchange\<close> raises \<^verbatim>\<open>OSError\<close> or \<^verbatim>\<open>HTTPException\<close> under these names for every class below them.
\<close>

definition model_exchange ::
  "(ModelPost \<Rightarrow> ('w, ModelAnswer) eff) \<Rightarrow> ModelPost \<Rightarrow> ('w, ModelAnswer) eff" where
  "model_exchange exchange post w = (case exchange post w of
       (Inl e, w') \<Rightarrow> (Inl (if e \<in> {External ''OSError'', External ''HTTPException''} then ModelTransportError else e), w')
     | (Inr answer, w') \<Rightarrow> (Inr answer, w'))"

definition post_json ::
  "(ModelPost \<Rightarrow> ('w, ModelAnswer) eff) \<Rightarrow> (bytes \<Rightarrow> json res) \<Rightarrow> HttpsJsonModelTransport \<Rightarrow>
   string \<Rightarrow> jobj \<Rightarrow> (string \<times> string) list \<Rightarrow> ('w, jobj) eff" where
  "post_json exchange loads_bytes t path payload headers =
     ebind (eret (ensure (origin_path path \<and> CHR ''?'' \<notin> set path \<and> CHR ''#'' \<notin> set path) ValueError)) (\<lambda>_.
     ebind (eret (ensure (valid_json (JObj payload)) ModelTransportError)) (\<lambda>_.
     ebind (eret (request_headers headers)) (\<lambda>hs.
     ebind (model_exchange exchange \<lparr>mp_host = mt_host t, mp_port = mt_port t, mp_path = mt_base_path t @ path,
              mp_headers = hs, mp_body = encode_utf8 (dumps (JObj payload))\<rparr>) (\<lambda>answer.
     eret (read_answer loads_bytes (mt_max_response_bytes t) answer)))))"

section \<open>What a wire promises\<close>

text \<open>The turn in the answer of a provider that a tool call carries on.\<close>

fun as_object :: "json \<Rightarrow> jobj" where
  "as_object (JObj d) = d"
| "as_object _ = []"

fun first_object :: "json \<Rightarrow> jobj" where
  "first_object (JList (x # _)) = as_object x"
| "first_object _ = []"

definition anthropic_turn :: "jobj \<Rightarrow> jobj" where
  "anthropic_turn response = [(''role'', JStr ''assistant''), (''content'', get_null response ''content'')]"

definition google_turn :: "jobj \<Rightarrow> jobj" where
  "google_turn response =
     (let content = as_object (get_null (first_object (get_null response ''candidates'')) ''content'')
      in [(''role'', JStr ''model''), (''parts'', get_null content ''parts'')])"

definition answered_turn :: "jobj \<Rightarrow> jobj" where
  "answered_turn response =
     (let message = as_object (get_null (first_object (get_null response ''choices'')) ''message'')
      in chat_turn message (first_object (get_null message ''tool_calls'')))"

locale provider_wire =
  fixes loads :: "string \<Rightarrow> json res"
    and route :: "string \<times> string \<times> string"
    and put :: "ToolCall option \<Rightarrow> Message \<Rightarrow> jobj res"
    and parse :: "jobj \<Rightarrow> ModelOutput res"
    and turn_of :: "jobj \<Rightarrow> jobj"
  assumes replays: "ms_tool_call m = Some c \<Longrightarrow> tc_continuation c = Some turn \<Longrightarrow>
        put p m = for_route turn (fst route) (fst (snd route)) (snd (snd route))"
    and captures: "parse r = Inr (OutCall c) \<Longrightarrow>
        \<exists>call_id name arguments. call_with_turn loads route (turn_of r) call_id name arguments = Inr (OutCall c)"
    and speaks: "parse r = Inr out \<Longrightarrow> (\<exists>c. out = OutCall c) \<or> (\<exists>t. out = OutText t \<and> nonblank t)"
begin

lemma call_has_turn:
  assumes "parse r = Inr (OutCall c)"
  shows "wf_call loads c \<and> (\<exists>turn. tc_continuation c = Some turn \<and> pc_message turn = canon_obj (turn_of r) \<and>
    (pc_provider turn, pc_model turn, pc_wire_format turn) = route)"
proof -
  from captures [OF assms] obtain i n a where c: "call_with_turn loads route (turn_of r) i n a = Inr (OutCall c)"
    by blast
  obtain pr mo wf where route: "route = (pr, mo, wf)" by (cases route) auto
  from c obtain turn where cont: "capture_continuation pr mo wf (JObj (turn_of r)) = Inr turn"
    and call: "capture_tool_call loads i n (JObj a) (Some turn) = Inr c"
    by (auto simp: call_with_turn_def route res_simps)
  have "wf_call loads c" using capture_call_wf [OF call] capture_continuation_wf [OF cont] by simp
  moreover have "tc_continuation c = Some turn"
    using call by (auto simp: capture_tool_call_def res_simps simp del: valid_json.simps no_sensitive_keys.simps)
  moreover have "pc_message turn = canon_obj (turn_of r) \<and>
      (pc_provider turn, pc_model turn, pc_wire_format turn) = route"
    using cont by (auto simp: capture_continuation_def model_canonical_object_def route res_simps simp del: valid_json.simps)
  ultimately show ?thesis by blast
qed

lemma output_wf: "parse r = Inr out \<Longrightarrow> wf_output loads out"
  using speaks [of r out] call_has_turn [of r] by (auto simp: wf_output_def)

lemma put_call:
  assumes "tc_continuation c = Some turn"
  shows "put p (as_message c) =
    (if (pc_provider turn, pc_model turn, pc_wire_format turn) = route then Inr (pc_message turn)
     else Inl ModelContractError)"
  using replays [of "as_message c" c turn p] assms
  by (cases route) (auto simp: as_message_def for_route_def rbind_def ensure_def)

end

lemma text_output_speaks:
  "text_output ts = Inr out \<Longrightarrow> list_all nonblank ts \<Longrightarrow> \<exists>t. out = OutText t \<and> nonblank t"
  by (cases ts) (auto simp: text_output_def split: if_splits)

lemma anthropic_texts: "anthropic_blocks bs = Inr (us, ts) \<Longrightarrow> list_all nonblank ts"
  by (induction bs arbitrary: us ts)
    (auto simp: res_simps Let_def text_field_def split: if_splits option.splits json.splits)

lemma google_texts: "google_parts ps = Inr (us, ts) \<Longrightarrow> list_all nonblank ts"
  by (induction ps arbitrary: us ts)
    (auto simp: res_simps text_field_def split: if_splits option.splits json.splits)

lemma response_list_Inr [res_simps]: "response_list v = Inr xs \<longleftrightarrow> v = Some (JList xs)"
  by (auto simp: response_list_def split: option.splits json.splits)

lemma response_mapping_Inr [res_simps]: "response_mapping v = Inr d \<longleftrightarrow> v = Some (JObj d)"
  by (auto simp: response_mapping_def split: option.splits json.splits)

lemma call_with_turn_speaks: "call_with_turn loads route t i n a = Inr out \<Longrightarrow> \<exists>c. out = OutCall c"
  by (cases route) (auto simp: call_with_turn_def res_simps)

lemma anthropic_parse_cases:
  assumes "anthropic_parse loads model r = Inr out"
  shows "(\<exists>i n a. call_with_turn loads (''anthropic'', model, ''anthropic'') (anthropic_turn r) i n a = Inr out) \<or>
    (\<exists>t. out = OutText t \<and> nonblank t)"
proof -
  from assms obtain content us ts where c: "jget r ''content'' = Some (JList content)"
    and b: "anthropic_blocks content = Inr (us, ts)"
    and k: "(case us of [] \<Rightarrow> text_output ts
      | [block] \<Rightarrow> rbind (response_text (jget block ''id'')) (\<lambda>i. rbind (response_text (jget block ''name'')) (\<lambda>n.
          rbind (parse_arguments loads (jget block ''input'')) (\<lambda>a.
          call_with_turn loads (''anthropic'', model, ''anthropic'')
            [(''role'', JStr ''assistant''), (''content'', JList content)] i n a)))
      | _ \<Rightarrow> Inl ModelResponseError) = Inr out"
    by (auto simp: anthropic_parse_def res_simps)
  show ?thesis
  proof (cases us)
    case Nil
    then show ?thesis using text_output_speaks anthropic_texts [OF b] k by auto
  next
    case (Cons block rest)
    then show ?thesis using k by (cases rest) (auto simp: res_simps anthropic_turn_def get_null_def c)
  qed
qed

lemma google_parse_cases:
  assumes "google_parse loads model fresh r = Inr out"
  shows "(\<exists>i n a. call_with_turn loads (''google'', model, ''google'') (google_turn r) i n a = Inr out) \<or>
    (\<exists>t. out = OutText t \<and> nonblank t)"
proof -
  from assms obtain cand content parts us ts where c: "jget r ''candidates'' = Some (JList [JObj cand])"
    and d: "jget cand ''content'' = Some (JObj content)" and e: "jget content ''parts'' = Some (JList parts)"
    and b: "google_parts parts = Inr (us, ts)"
    and k: "(case us of [] \<Rightarrow> text_output ts
      | [function] \<Rightarrow> rbind (response_text (jget function ''name'')) (\<lambda>n.
          rbind (parse_arguments loads (Some (get_default function ''args'' (JObj [])))) (\<lambda>a.
          rbind (case jget function ''id'' of Some i \<Rightarrow> response_text (Some i) | None \<Rightarrow> Inr (''google-'' @ fresh)) (\<lambda>i.
          call_with_turn loads (''google'', model, ''google'')
            [(''role'', JStr ''model''), (''parts'', JList parts)] i n a)))
      | _ \<Rightarrow> Inl ModelResponseError) = Inr out"
    by (auto simp: google_parse_def res_simps length_Suc_conv)
  have t: "google_turn r = [(''role'', JStr ''model''), (''parts'', JList parts)]"
    by (simp add: google_turn_def get_null_def c d e)
  show ?thesis
  proof (cases us)
    case Nil
    then show ?thesis using text_output_speaks google_texts [OF b] k by auto
  next
    case (Cons fc rest)
    then show ?thesis using k by (cases rest) (auto simp: res_simps t)
  qed
qed

lemma chat_parse_cases:
  assumes "chat_parse loads provider model r = Inr out"
  shows "(\<exists>i n a. call_with_turn loads (provider, model, ''chat_completions'') (answered_turn r) i n a = Inr out) \<or>
    (\<exists>t. out = OutText t \<and> nonblank t)"
proof -
  from assms obtain choice message where c: "jget r ''choices'' = Some (JList [JObj choice])"
    and d: "jget choice ''message'' = Some (JObj message)"
    and k: "(if get_null message ''tool_calls'' \<noteq> JNull then chat_tool_call loads provider model message
       else case text_field message ''content'' of Some t \<Rightarrow> Inr (OutText t) | None \<Rightarrow> Inl ModelResponseError) = Inr out"
    by (auto simp: chat_parse_def res_simps length_Suc_conv simp del: split_paired_Ex)
  show ?thesis
  proof (cases "get_null message ''tool_calls'' = JNull")
    case True
    then show ?thesis using k by (auto simp: text_field_def split: option.splits json.splits if_splits)
  next
    case False
    with k obtain call i n a where "jget message ''tool_calls'' = Some (JList [JObj call])"
      and "call_with_turn loads (provider, model, ''chat_completions'') (chat_turn message call) i n a = Inr out"
      by (auto simp: chat_tool_call_def res_simps length_Suc_conv)
    then show ?thesis by (auto simp: answered_turn_def get_null_def c d)
  qed
qed

lemma wire_laws:
  assumes "\<And>r out. parse r = Inr out \<Longrightarrow>
      (\<exists>i n a. call_with_turn loads route (turn_of r) i n a = Inr out) \<or> (\<exists>t. out = OutText t \<and> nonblank t)"
    and "\<And>p m c turn. ms_tool_call m = Some c \<Longrightarrow> tc_continuation c = Some turn \<Longrightarrow>
      put p m = for_route turn (fst route) (fst (snd route)) (snd (snd route))"
  shows "provider_wire loads route put parse turn_of"
proof
  show "\<exists>i n a. call_with_turn loads route (turn_of r) i n a = Inr (OutCall c)" if "parse r = Inr (OutCall c)" for r c
    using assms(1) [OF that] by simp
  show "(\<exists>c. out = OutCall c) \<or> (\<exists>t. out = OutText t \<and> nonblank t)" if "parse r = Inr out" for r out
    using assms(1) [OF that] call_with_turn_speaks by blast
qed (rule assms(2))

interpretation anthropic: provider_wire loads "(''anthropic'', model, ''anthropic'')" "\<lambda>_. anthropic_message model"
  "anthropic_parse loads model" anthropic_turn for loads model
  by (rule wire_laws, erule anthropic_parse_cases) (simp add: anthropic_message_def)

interpretation google: provider_wire loads "(''google'', model, ''google'')" "google_message model"
  "google_parse loads model fresh" google_turn for loads model fresh
  by (rule wire_laws, erule google_parse_cases) (simp add: google_message_def)

interpretation chat: provider_wire loads "(provider, model, ''chat_completions'')" "\<lambda>_. chat_message provider model"
  "chat_parse loads provider model" answered_turn for loads provider model
  by (rule wire_laws, erule chat_parse_cases) (simp add: chat_message_def)

end
