(* ===== verification/Model_Router.thy ===== *)
theory Model_Router
  imports Providers
begin

text \<open>
  The adapters of \<^verbatim>\<open>cbrain/models\<close> over the wire of \<open>Providers\<close>, and \<^verbatim>\<open>cbrain/models/router.py\<close>: what an adapter
  sends and returns, and that the turn of one provider is replayed to that provider and never sent to another.
\<close>

section \<open>Adapters\<close>

datatype Wire =
    AnthropicAdapter string string
  | GoogleAdapter string
  | OpenAICompatibleAdapter string string string

record ModelAdapter =
  ma_wire :: Wire
  ma_transport :: HttpsJsonModelTransport
  ma_headers_provider :: EnvironmentCredentialHeaders

definition anthropic_init ::
  "string \<Rightarrow> HttpsJsonModelTransport \<Rightarrow> EnvironmentCredentialHeaders \<Rightarrow> string \<Rightarrow> ModelAdapter res" where
  "anthropic_init model transport headers version =
     rbind (ensure (nonblank model \<and> nonblank version) ValueError) (\<lambda>_.
     Inr \<lparr>ma_wire = AnthropicAdapter model version, ma_transport = transport, ma_headers_provider = headers\<rparr>)"

definition google_init ::
  "string \<Rightarrow> HttpsJsonModelTransport \<Rightarrow> EnvironmentCredentialHeaders \<Rightarrow> ModelAdapter res" where
  "google_init model transport headers =
     (let normalized = removeprefix ''models/'' model in
      rbind (ensure (nonblank normalized \<and> CHR ''/'' \<notin> set normalized) ValueError) (\<lambda>_.
      Inr \<lparr>ma_wire = GoogleAdapter normalized, ma_transport = transport, ma_headers_provider = headers\<rparr>))"

definition openai_init ::
  "string \<Rightarrow> string \<Rightarrow> HttpsJsonModelTransport \<Rightarrow> EnvironmentCredentialHeaders \<Rightarrow> string \<Rightarrow> ModelAdapter res" where
  "openai_init provider model transport headers path =
     rbind (ensure (nonblank provider \<and> nonblank model) ValueError) (\<lambda>_.
     rbind (ensure (origin_path path) ValueError) (\<lambda>_.
     Inr \<lparr>ma_wire = OpenAICompatibleAdapter provider model path, ma_transport = transport,
          ma_headers_provider = headers\<rparr>))"

text \<open>Provider, model and wire format of an adapter: what a turn is bound to.\<close>

fun wire_route :: "Wire \<Rightarrow> string \<times> string \<times> string" where
  "wire_route (AnthropicAdapter model _) = (''anthropic'', model, ''anthropic'')"
| "wire_route (GoogleAdapter model) = (''google'', model, ''google'')"
| "wire_route (OpenAICompatibleAdapter provider model _) = (provider, model, ''chat_completions'')"

fun wire_payload :: "Wire \<Rightarrow> json \<Rightarrow> CompletionRequest \<Rightarrow> jobj res" where
  "wire_payload (AnthropicAdapter model _) = anthropic_payload model"
| "wire_payload (GoogleAdapter model) = google_payload model"
| "wire_payload (OpenAICompatibleAdapter provider model _) = chat_payload provider model"

fun wire_path :: "Wire \<Rightarrow> string" where
  "wire_path (AnthropicAdapter _ _) = ''/v1/messages''"
| "wire_path (GoogleAdapter model) = google_path model"
| "wire_path (OpenAICompatibleAdapter _ _ path) = path"

fun wire_headers :: "Wire \<Rightarrow> (string \<times> string) list \<Rightarrow> (string \<times> string) list" where
  "wire_headers (AnthropicAdapter _ version) headers = AList.update ''anthropic-version'' version headers"
| "wire_headers _ headers = headers"

fun wire_parse :: "(string \<Rightarrow> json res) \<Rightarrow> string \<Rightarrow> Wire \<Rightarrow> jobj \<Rightarrow> ModelOutput res" where
  "wire_parse loads fresh (AnthropicAdapter model _) = anthropic_parse loads model"
| "wire_parse loads fresh (GoogleAdapter model) = google_parse loads model fresh"
| "wire_parse loads fresh (OpenAICompatibleAdapter provider model _) = chat_parse loads provider model"

text \<open>What the adapters take from outside: the environment, the HTTP exchange and the two forms of \<^verbatim>\<open>json.loads\<close>.\<close>

record 'w ModelWorld =
  mw_env :: "string \<rightharpoonup> string"
  mw_exchange :: "ModelPost \<Rightarrow> ('w, ModelAnswer) eff"
  mw_loads :: "string \<Rightarrow> json res"
  mw_loads_bytes :: "bytes \<Rightarrow> json res"

definition adapter_complete ::
  "'w ModelWorld \<Rightarrow> string \<Rightarrow> json \<Rightarrow> ModelAdapter \<Rightarrow> CompletionRequest \<Rightarrow> ('w, ModelOutput) eff" where
  "adapter_complete mw fresh temperature ad request =
     ebind (eret (wire_payload (ma_wire ad) temperature request)) (\<lambda>payload.
     ebind (eret (credential_headers (mw_env mw) (ma_headers_provider ad))) (\<lambda>headers.
     ebind (post_json (mw_exchange mw) (mw_loads_bytes mw) (ma_transport ad) (wire_path (ma_wire ad)) payload
              (wire_headers (ma_wire ad) headers)) (\<lambda>response.
     eret (wire_parse (mw_loads mw) fresh (ma_wire ad) response))))"

section \<open>The router\<close>

type_synonym ModelRouter = "(string \<times> ModelAdapter) list"

definition router_init :: "ModelRouter \<Rightarrow> ModelRouter res" where
  "router_init routes =
     rbind (ensure (routes \<noteq> []) ValueError) (\<lambda>_.
     rbind (ensure (list_all (\<lambda>(route_id, _). nonblank route_id) routes) ValueError) (\<lambda>_. Inr routes))"

definition router_complete ::
  "'w ModelWorld \<Rightarrow> string \<Rightarrow> json \<Rightarrow> ModelRouter \<Rightarrow> string \<Rightarrow> CompletionRequest \<Rightarrow> ('w, ModelOutput) eff" where
  "router_complete mw fresh temperature routes route_id request =
     ebind (eret (of_option ModelRoutingError (map_of routes route_id))) (\<lambda>ad.
     adapter_complete mw fresh temperature ad request)"

definition require_routes :: "ModelRouter \<Rightarrow> string list \<Rightarrow> unit res" where
  "require_routes routes required = ensure (set required \<subseteq> set (map fst routes)) ModelRoutingError"

record FiveProviderSettings =
  fp_anthropic_model :: string
  fp_openai_model :: string
  fp_xai_model :: string
  fp_google_model :: string
  fp_runpod_model :: string
  fp_runpod_base_url :: string

definition settings_post_init :: "FiveProviderSettings \<Rightarrow> FiveProviderSettings res" where
  "settings_post_init s =
     rbind (ensure (list_all nonblank [fp_anthropic_model s, fp_openai_model s, fp_xai_model s, fp_google_model s,
       fp_runpod_model s, fp_runpod_base_url s]) ValueError) (\<lambda>_. Inr s)"

definition required_env :: "(string \<rightharpoonup> string) \<Rightarrow> string \<Rightarrow> string res" where
  "required_env env name =
     (let value = (case env name of Some v \<Rightarrow> v | None \<Rightarrow> []) in
      rbind (ensure (nonblank value) ModelRoutingError) (\<lambda>_. Inr value))"

definition settings_from_environment :: "(string \<rightharpoonup> string) \<Rightarrow> FiveProviderSettings res" where
  "settings_from_environment env =
     rbind (required_env env ''CBRAIN_ANTHROPIC_MODEL'') (\<lambda>a.
     rbind (required_env env ''CBRAIN_OPENAI_MODEL'') (\<lambda>b.
     rbind (required_env env ''CBRAIN_XAI_MODEL'') (\<lambda>c.
     rbind (required_env env ''CBRAIN_GOOGLE_MODEL'') (\<lambda>d.
     rbind (required_env env ''CBRAIN_RUNPOD_MODEL'') (\<lambda>e.
     rbind (required_env env ''CBRAIN_RUNPOD_BASE_URL'') (\<lambda>f.
     settings_post_init \<lparr>fp_anthropic_model = a, fp_openai_model = b, fp_xai_model = c, fp_google_model = d,
       fp_runpod_model = e, fp_runpod_base_url = f\<rparr>))))))"

definition default_transport :: "(string \<Rightarrow> SplitResult res) \<Rightarrow> string \<Rightarrow> HttpsJsonModelTransport res" where
  "default_transport urlsplit base_url =
     rbind (urlsplit base_url) (\<lambda>u. model_transport_init u (Fl 30) 4194304)"

definition credential_for :: "string \<Rightarrow> string \<Rightarrow> string \<Rightarrow> EnvironmentCredentialHeaders res" where
  "credential_for variable header prefix = headers_post_init
     \<lparr>eh_environment_variable = variable, eh_header_name = header, eh_prefix = prefix\<rparr>"

definition openai_route ::
  "(string \<Rightarrow> SplitResult res) \<Rightarrow> string \<Rightarrow> string \<Rightarrow> string \<Rightarrow> string \<Rightarrow> ModelAdapter res" where
  "openai_route urlsplit provider model base_url variable =
     rbind (default_transport urlsplit base_url) (\<lambda>t.
     rbind (credential_for variable ''Authorization'' ''Bearer '') (\<lambda>h.
     openai_init provider model t h ''/v1/chat/completions''))"

definition build_five_provider_router ::
  "(string \<Rightarrow> SplitResult res) \<Rightarrow> FiveProviderSettings \<Rightarrow> ModelRouter res" where
  "build_five_provider_router urlsplit s =
     rbind (rbind (default_transport urlsplit ''https://api.anthropic.com'') (\<lambda>t.
            rbind (credential_for ''ANTHROPIC_API_KEY'' ''x-api-key'' []) (\<lambda>h.
            anthropic_init (fp_anthropic_model s) t h ''2023-06-01''))) (\<lambda>a.
     rbind (openai_route urlsplit ''openai'' (fp_openai_model s) ''https://api.openai.com'' ''OPENAI_API_KEY'') (\<lambda>b.
     rbind (openai_route urlsplit ''xai'' (fp_xai_model s) ''https://api.x.ai'' ''XAI_API_KEY'') (\<lambda>c.
     rbind (rbind (default_transport urlsplit ''https://generativelanguage.googleapis.com'') (\<lambda>t.
            rbind (credential_for ''GOOGLE_API_KEY'' ''x-goog-api-key'' []) (\<lambda>h.
            google_init (fp_google_model s) t h))) (\<lambda>d.
     rbind (openai_route urlsplit ''runpod'' (fp_runpod_model s) (fp_runpod_base_url s) ''RUNPOD_API_KEY'') (\<lambda>e.
     router_init [(''anthropic'', a), (''openai'', b), (''xai'', c), (''google'', d), (''runpod'', e)])))))"

section \<open>Turns stay with their provider\<close>

text \<open>One message on the wire of an adapter, and the turn in an answer.\<close>

fun wire_message :: "Wire \<Rightarrow> ToolCall option \<Rightarrow> Message \<Rightarrow> jobj res" where
  "wire_message (AnthropicAdapter model _) = (\<lambda>_. anthropic_message model)"
| "wire_message (GoogleAdapter model) = google_message model"
| "wire_message (OpenAICompatibleAdapter provider model _) = (\<lambda>_. chat_message provider model)"

fun wire_turn :: "Wire \<Rightarrow> jobj \<Rightarrow> jobj" where
  "wire_turn (AnthropicAdapter _ _) = anthropic_turn"
| "wire_turn (GoogleAdapter _) = google_turn"
| "wire_turn (OpenAICompatibleAdapter _ _ _) = answered_turn"

interpretation wire: provider_wire loads "wire_route k" "wire_message k" "wire_parse loads fresh k" "wire_turn k"
  for loads fresh k
  by (cases k) (simp_all add: anthropic.provider_wire_axioms google.provider_wire_axioms chat.provider_wire_axioms)

lemma rmapM_all: "rmapM f xs = Inr ys \<Longrightarrow> x \<in> set xs \<Longrightarrow> \<exists>y \<in> set ys. f x = Inr y"
  by (auto simp: rmapM_Inr_iff list_all2_conv_all_nth in_set_conv_nth)

lemma with_preceding_member:
  assumes "m \<in> set messages"
  shows "\<exists>p. (p, m) \<in> set (with_preceding messages)"
proof -
  from assms obtain i where "i < length messages" and "messages ! i = m" by (auto simp: in_set_conv_nth)
  then show ?thesis by (auto simp: with_preceding_def set_zip intro!: exI [of _ "(None # map ms_tool_call messages) ! i"])
qed

text \<open>A payload exists only if every message of the conversation but the system's goes on the wire.\<close>

lemma payload_messages:
  assumes "wire_payload k t request = Inr payload" and "m \<in> set (cr_messages request)" and "ms_role m \<noteq> ROLE_SYSTEM"
  shows "\<exists>p doc. wire_message k p m = Inr doc"
proof (cases k)
  case (AnthropicAdapter model version)
  with assms show ?thesis
    by (auto simp: anthropic_payload_def Let_def res_simps dest!: rmapM_all [where x = m])
next
  case (GoogleAdapter model)
  from with_preceding_member [OF assms(2)] obtain p where "(p, m) \<in> set (with_preceding (cr_messages request))" ..
  with assms GoogleAdapter show ?thesis
    by (auto simp: google_payload_def Let_def res_simps dest!: rmapM_all [where x = "(p, m)"])
next
  case (OpenAICompatibleAdapter provider model path)
  with assms show ?thesis
    by (auto simp: chat_payload_def res_simps dest!: rmapM_all [where x = m])
qed

lemma foreign_turn_refused:
  assumes "tc_continuation c = Some turn" and "as_message c \<in> set (cr_messages request)"
    and "(pc_provider turn, pc_model turn, pc_wire_format turn) \<noteq> wire_route k"
  shows "\<exists>e. wire_payload k t request = Inl e"
proof (cases "wire_payload k t request")
  case (Inr payload)
  have "ms_role (as_message c) \<noteq> ROLE_SYSTEM" by (simp add: as_message_def)
  from payload_messages [OF Inr assms(2) this] obtain p doc where "wire_message k p (as_message c) = Inr doc" by blast
  with wire.put_call [OF assms(1), of k p] assms(3) show ?thesis by simp
qed simp

lemma post_json_Inr:
  assumes "post_json exchange loads_bytes t path payload headers w = (Inr response, w')"
  shows "\<exists>post answer. exchange post w = (Inr answer, w') \<and> mp_host post = mt_host t \<and>
    mp_body post = encode_utf8 (dumps (JObj payload)) \<and>
    read_answer loads_bytes (mt_max_response_bytes t) answer = Inr response"
proof -
  from assms obtain hs answer where
    "model_exchange exchange \<lparr>mp_host = mt_host t, mp_port = mt_port t, mp_path = mt_base_path t @ path,
       mp_headers = hs, mp_body = encode_utf8 (dumps (JObj payload))\<rparr> w = (Inr answer, w')"
    and "read_answer loads_bytes (mt_max_response_bytes t) answer = Inr response"
    by (auto simp: post_json_def ebind_Inr eret_Inr)
  then show ?thesis
    by (intro exI [of _ "\<lparr>mp_host = mt_host t, mp_port = mt_port t, mp_path = mt_base_path t @ path,
       mp_headers = hs, mp_body = encode_utf8 (dumps (JObj payload))\<rparr>"] exI [of _ answer])
      (simp add: model_exchange_def split: prod.splits sum.splits if_splits)
qed

lemma complete_answer:
  assumes "adapter_complete mw fresh t ad request w = (Inr out, w')"
  shows "\<exists>post answer response. mw_exchange mw post w = (Inr answer, w') \<and> mp_host post = mt_host (ma_transport ad) \<and>
    read_answer (mw_loads_bytes mw) (mt_max_response_bytes (ma_transport ad)) answer = Inr response \<and>
    wire_parse (mw_loads mw) fresh (ma_wire ad) response = Inr out"
proof -
  from assms obtain payload headers response w1 where
    "post_json (mw_exchange mw) (mw_loads_bytes mw) (ma_transport ad) (wire_path (ma_wire ad)) payload headers w
       = (Inr response, w')"
    and "wire_parse (mw_loads mw) fresh (ma_wire ad) response = Inr out"
    by (auto simp: adapter_complete_def ebind_Inr eret_Inr)
  with post_json_Inr [OF this(1)] show ?thesis by blast
qed

text \<open>
  C28: a tool call that an adapter returns is a well-formed call; its provider turn is the turn of the answer that the
  endpoint of the adapter gave, in canonical form, and is bound to the route of the adapter. Put on the wire again,
  an adapter of that route sends this turn as it was received; an adapter of any other provider, model or wire format
  refuses every request that holds the call, without an exchange.
\<close>

theorem provider_turn_stays_with_provider:
  assumes "adapter_complete mw fresh t ad request w = (Inr (OutCall call), w')"
  shows "wf_call (mw_loads mw) call \<and>
    (\<exists>turn post answer response. tc_continuation call = Some turn \<and>
      mw_exchange mw post w = (Inr answer, w') \<and> mp_host post = mt_host (ma_transport ad) \<and>
      read_answer (mw_loads_bytes mw) (mt_max_response_bytes (ma_transport ad)) answer = Inr response \<and>
      pc_message turn = canon_obj (wire_turn (ma_wire ad) response) \<and>
      (\<forall>k p. wire_route k = wire_route (ma_wire ad) \<longrightarrow> wire_message k p (as_message call) = Inr (pc_message turn))) \<and>
    (\<forall>mw2 fresh2 t2 other request2 w2. wire_route (ma_wire other) \<noteq> wire_route (ma_wire ad) \<longrightarrow>
      as_message call \<in> set (cr_messages request2) \<longrightarrow>
      (\<exists>e. adapter_complete mw2 fresh2 t2 other request2 (w2 :: 'v) = (Inl e, w2)))"
proof -
  from complete_answer [OF assms] obtain post answer response
    where x: "mw_exchange mw post w = (Inr answer, w')" "mp_host post = mt_host (ma_transport ad)"
      "read_answer (mw_loads_bytes mw) (mt_max_response_bytes (ma_transport ad)) answer = Inr response"
    and parsed: "wire_parse (mw_loads mw) fresh (ma_wire ad) response = Inr (OutCall call)" by blast
  from wire.call_has_turn [OF parsed] obtain turn where wf: "wf_call (mw_loads mw) call"
    and turn: "tc_continuation call = Some turn" "pc_message turn = canon_obj (wire_turn (ma_wire ad) response)"
      "(pc_provider turn, pc_model turn, pc_wire_format turn) = wire_route (ma_wire ad)" by blast
  have "wire_message k p (as_message call) = Inr (pc_message turn)" if "wire_route k = wire_route (ma_wire ad)" for k p
    using wire.put_call [OF turn(1), of k p] turn(3) that by simp
  moreover have "\<exists>e. adapter_complete mw2 fresh2 t2 other request2 w2 = (Inl e, w2)"
    if "wire_route (ma_wire other) \<noteq> wire_route (ma_wire ad)" and "as_message call \<in> set (cr_messages request2)"
    for mw2 fresh2 t2 other request2 and w2 :: 'v
    using foreign_turn_refused [OF turn(1) that(2), of "ma_wire other" t2] turn(3) that(1)
    by (auto simp: adapter_complete_def ebind_def eret_def)
  ultimately show ?thesis using wf x turn(1,2) by blast
qed

text \<open>The router returns well-formed outputs only, and an unknown route reaches no provider.\<close>

theorem router_output_wf:
  "router_complete mw fresh t routes route_id request w = (Inr out, w') \<Longrightarrow> wf_output (mw_loads mw) out"
  by (auto simp: router_complete_def ebind_Inr eret_Inr dest!: complete_answer wire.output_wf)

theorem unknown_route_sends_nothing:
  "route_id \<notin> fst ` set routes \<Longrightarrow>
   router_complete mw fresh t routes route_id request w = (Inl ModelRoutingError, w)"
  by (simp add: router_complete_def ebind_def eret_def map_of_eq_None_iff [THEN iffD2] of_option_def)

end
