(* ===== verification/Model_Usage.thy ===== *)
theory Model_Usage
  imports Agent_Profile Py_Float
begin

text \<open>
  \<^verbatim>\<open>cbrain/models/usage.py\<close> and \<^verbatim>\<open>cbrain/models/instrumented.py\<close>: the token usage of a completion, its totals, and the
  adapter that records an observation of every completion. The reading of the clock is an argument, as is the usage
  that the wrapped adapter reported last, if it keeps one.
\<close>

abbreviation UsageContractError :: exn where
  "UsageContractError \<equiv> External ''UsageContractError''"

section \<open>Usage\<close>

datatype UsageSource = PROVIDER_REPORTED | ESTIMATED | USAGE_UNKNOWN

fun usage_source_value :: "UsageSource \<Rightarrow> string" where
  "usage_source_value PROVIDER_REPORTED = ''provider_reported''"
| "usage_source_value ESTIMATED = ''estimated''"
| "usage_source_value USAGE_UNKNOWN = ''unknown''"

record TokenUsage =
  tu_provider :: string
  tu_model :: string
  tu_source :: UsageSource
  tu_input_tokens :: "int option"
  tu_cached_input_tokens :: "int option"
  tu_output_tokens :: "int option"
  tu_reasoning_tokens :: "int option"
  tu_total_tokens :: "int option"
  tu_request_id :: "string option"
  tu_run_id :: "string option"
  tu_cached_input_accounting :: "string option"

definition usage_counts :: "TokenUsage \<Rightarrow> int option list" where
  "usage_counts u = [tu_input_tokens u, tu_cached_input_tokens u, tu_output_tokens u, tu_reasoning_tokens u,
     tu_total_tokens u]"

definition usage_post_init :: "TokenUsage \<Rightarrow> TokenUsage res" where
  "usage_post_init u =
     rbind (ensure (nonblank (tu_provider u)) UsageContractError) (\<lambda>_.
     rbind (ensure (nonblank (tu_model u)) UsageContractError) (\<lambda>_.
     rbind (ensure (list_all (\<lambda>v. case v of None \<Rightarrow> True | Some n \<Rightarrow> 0 \<le> n) (usage_counts u)) UsageContractError) (\<lambda>_.
     rbind (ensure (\<not> (tu_source u = USAGE_UNKNOWN \<and> list_ex (\<lambda>v. v \<noteq> None) (usage_counts u))) UsageContractError) (\<lambda>_.
     rbind (ensure (\<not> (tu_source u = PROVIDER_REPORTED \<and> tu_input_tokens u = None \<and> tu_output_tokens u = None))
              UsageContractError) (\<lambda>_.
     rbind (ensure (tu_cached_input_accounting u \<in> {None, Some ''simulated_assumption'', Some ''provider_reported''})
              UsageContractError) (\<lambda>_.
     rbind (ensure (case tu_request_id u of None \<Rightarrow> True | Some s \<Rightarrow> nonblank s) UsageContractError) (\<lambda>_.
     rbind (ensure (case tu_run_id u of None \<Rightarrow> True | Some s \<Rightarrow> nonblank s) UsageContractError) (\<lambda>_.
     Inr u))))))))"

definition unknown_usage :: "string \<Rightarrow> string \<Rightarrow> string option \<Rightarrow> string option \<Rightarrow> TokenUsage res" where
  "unknown_usage provider model request_id run_id = usage_post_init
     \<lparr>tu_provider = provider, tu_model = model, tu_source = USAGE_UNKNOWN, tu_input_tokens = None,
      tu_cached_input_tokens = None, tu_output_tokens = None, tu_reasoning_tokens = None, tu_total_tokens = None,
      tu_request_id = request_id, tu_run_id = run_id, tu_cached_input_accounting = None\<rparr>"

definition opt_int_json :: "int option \<Rightarrow> json" where
  "opt_int_json v = (case v of Some n \<Rightarrow> JInt n | None \<Rightarrow> JNull)"

definition usage_payload :: "TokenUsage \<Rightarrow> jobj" where
  "usage_payload u =
     [(''provider'', JStr (tu_provider u)), (''model'', JStr (tu_model u)),
      (''source'', JStr (usage_source_value (tu_source u))), (''input_tokens'', opt_int_json (tu_input_tokens u)),
      (''cached_input_tokens'', opt_int_json (tu_cached_input_tokens u)),
      (''output_tokens'', opt_int_json (tu_output_tokens u)),
      (''reasoning_tokens'', opt_int_json (tu_reasoning_tokens u)),
      (''total_tokens'', opt_int_json (tu_total_tokens u)), (''request_id'', opt_str_json (tu_request_id u)),
      (''run_id'', opt_str_json (tu_run_id u)),
      (''cached_input_accounting'', opt_str_json (tu_cached_input_accounting u))]"

section \<open>Totals\<close>

record TokenUsageTotals =
  ut_input_tokens :: int
  ut_cached_input_tokens :: int
  ut_output_tokens :: int
  ut_reasoning_tokens :: int
  ut_total_tokens :: int
  ut_measured_completions :: int
  ut_estimated_completions :: int
  ut_unknown_completions :: int
  ut_simulated_cache_completions :: int

definition no_usage :: TokenUsageTotals where
  "no_usage = \<lparr>ut_input_tokens = 0, ut_cached_input_tokens = 0, ut_output_tokens = 0, ut_reasoning_tokens = 0,
     ut_total_tokens = 0, ut_measured_completions = 0, ut_estimated_completions = 0, ut_unknown_completions = 0,
     ut_simulated_cache_completions = 0\<rparr>"

definition totals_payload :: "TokenUsageTotals \<Rightarrow> jobj" where
  "totals_payload t =
     [(''input_tokens'', JInt (ut_input_tokens t)), (''cached_input_tokens'', JInt (ut_cached_input_tokens t)),
      (''output_tokens'', JInt (ut_output_tokens t)), (''reasoning_tokens'', JInt (ut_reasoning_tokens t)),
      (''total_tokens'', JInt (ut_total_tokens t)), (''measured_completions'', JInt (ut_measured_completions t)),
      (''estimated_completions'', JInt (ut_estimated_completions t)),
      (''unknown_completions'', JInt (ut_unknown_completions t)),
      (''simulated_cache_completions'', JInt (ut_simulated_cache_completions t))]"

definition or_zero :: "int option \<Rightarrow> int" where
  "or_zero v = (case v of Some n \<Rightarrow> n | None \<Rightarrow> 0)"

definition usage_total :: "TokenUsage \<Rightarrow> int" where
  "usage_total u = (case tu_total_tokens u of
       Some n \<Rightarrow> n
     | None \<Rightarrow> or_zero (tu_input_tokens u) + or_zero (tu_cached_input_tokens u) + or_zero (tu_output_tokens u) +
               or_zero (tu_reasoning_tokens u))"

definition add_usage :: "TokenUsageTotals \<Rightarrow> TokenUsage \<Rightarrow> TokenUsageTotals" where
  "add_usage t u =
     (if tu_source u = USAGE_UNKNOWN
      then t\<lparr>ut_unknown_completions := ut_unknown_completions t + 1\<rparr>
      else
        let t1 = (if tu_source u = PROVIDER_REPORTED
                  then t\<lparr>ut_measured_completions := ut_measured_completions t + 1\<rparr>
                  else t\<lparr>ut_estimated_completions := ut_estimated_completions t + 1\<rparr>);
            t2 = (if tu_cached_input_accounting u = Some ''simulated_assumption''
                  then t1\<lparr>ut_simulated_cache_completions := ut_simulated_cache_completions t1 + 1\<rparr> else t1)
        in t2\<lparr>ut_input_tokens := ut_input_tokens t2 + or_zero (tu_input_tokens u),
              ut_cached_input_tokens := ut_cached_input_tokens t2 + or_zero (tu_cached_input_tokens u),
              ut_output_tokens := ut_output_tokens t2 + or_zero (tu_output_tokens u),
              ut_reasoning_tokens := ut_reasoning_tokens t2 + or_zero (tu_reasoning_tokens u),
              ut_total_tokens := ut_total_tokens t2 + usage_total u\<rparr>)"

definition aggregate_usage :: "TokenUsage list \<Rightarrow> TokenUsageTotals" where
  "aggregate_usage records = foldl add_usage no_usage records"

section \<open>The instrumented adapter\<close>

record CompletionObservation =
  ob_output :: ModelOutput
  ob_usage :: TokenUsage
  ob_latency_seconds :: pyfl
  ob_route_id :: string

record 'w InstrumentedModelAdapter =
  im_route_id :: string
  im_provider :: string
  im_model :: string
  im_complete :: "CompletionRequest \<Rightarrow> ('w, ModelOutput) eff"
  im_run_id :: "string option"
  im_chars_per_token :: int
  im_cached_input_tokens :: int

definition instrumented_init :: "'w InstrumentedModelAdapter \<Rightarrow> 'w InstrumentedModelAdapter res" where
  "instrumented_init im =
     rbind (ensure (nonblank (im_route_id im)) ValueError) (\<lambda>_.
     rbind (ensure (1 \<le> im_chars_per_token im) ValueError) (\<lambda>_.
     rbind (ensure (0 \<le> im_cached_input_tokens im) ValueError) (\<lambda>_. Inr im)))"

definition tokens_from_chars :: "int \<Rightarrow> int \<Rightarrow> int" where
  "tokens_from_chars char_count chars_per_token =
     (if char_count \<le> 0 then 0 else max 1 ((char_count + chars_per_token - 1) div chars_per_token))"

text \<open>The length of \<^verbatim>\<open>json.dumps(d, sort_keys=True)\<close>.\<close>

definition dumps_length :: "jobj \<Rightarrow> int res" where
  "dumps_length d =
     rbind (render_ascii '', '' '': '' (\<lambda>_. Inl TypeError) (canon (JObj d))) (\<lambda>s. Inr (int (length s)))"

definition tool_history_chars :: "ToolCall \<Rightarrow> int res" where
  "tool_history_chars call = (case tc_continuation call of
       Some turn \<Rightarrow> Inr (int (length (dumps (JObj (pc_message turn)))))
     | None \<Rightarrow> dumps_length (tc_arguments call))"

definition input_chars :: "CompletionRequest \<Rightarrow> int res" where
  "input_chars request =
     rbind (rmapM (\<lambda>m. case ms_tool_call m of Some c \<Rightarrow> tool_history_chars c | None \<Rightarrow> Inr 0) (cr_messages request))
       (\<lambda>histories.
     rbind (rmapM (\<lambda>t. dumps_length (td_input_schema t)) (cr_tools request)) (\<lambda>schemas.
     Inr (sum_list (map (\<lambda>m. int (length (ms_content m))) (cr_messages request)) + sum_list histories +
          sum_list schemas)))"

definition output_chars :: "ModelOutput \<Rightarrow> int res" where
  "output_chars out = (case out of
       OutText t \<Rightarrow> Inr (int (length t))
     | OutCall c \<Rightarrow> tool_history_chars c
     | OutOther \<Rightarrow> Inl (External ''AttributeError''))"

definition estimate_usage :: "'w InstrumentedModelAdapter \<Rightarrow> CompletionRequest \<Rightarrow> ModelOutput \<Rightarrow> TokenUsage res" where
  "estimate_usage im request out =
     rbind (input_chars request) (\<lambda>chars.
     let input_tokens = tokens_from_chars chars (im_chars_per_token im);
         cached = (if im_cached_input_tokens im > input_tokens then input_tokens else im_cached_input_tokens im);
         billable = input_tokens - cached in
     rbind (output_chars out) (\<lambda>answered.
     let output_tokens = tokens_from_chars answered (im_chars_per_token im) in
     usage_post_init \<lparr>tu_provider = im_provider im, tu_model = im_model im, tu_source = ESTIMATED,
       tu_input_tokens = Some billable, tu_cached_input_tokens = Some cached, tu_output_tokens = Some output_tokens,
       tu_reasoning_tokens = Some 0, tu_total_tokens = Some (billable + cached + output_tokens),
       tu_request_id = None, tu_run_id = im_run_id im,
       tu_cached_input_accounting = (if cached > 0 then Some ''simulated_assumption'' else None)\<rparr>))"

definition usage_int :: "json option \<Rightarrow> int option res" where
  "usage_int v = (case v of
       None \<Rightarrow> Inr None
     | Some JNull \<Rightarrow> Inr None
     | Some (JInt n) \<Rightarrow> if n < 0 then Inl ValueError else Inr (Some n)
     | _ \<Rightarrow> Inl ValueError)"

definition usage_text :: "json option \<Rightarrow> string option res" where
  "usage_text v = (case v of
       None \<Rightarrow> Inr None
     | Some JNull \<Rightarrow> Inr None
     | Some (JStr s) \<Rightarrow> if nonblank s then Inr (Some s) else Inl ValueError
     | _ \<Rightarrow> Inl ValueError)"

definition provider_reported_usage :: "string \<Rightarrow> string \<Rightarrow> jobj \<Rightarrow> string option \<Rightarrow> TokenUsage res" where
  "provider_reported_usage provider model payload run_id =
     rbind (usage_int (jget payload ''cached_input_tokens'')) (\<lambda>cached.
     rbind (usage_int (jget payload ''input_tokens'')) (\<lambda>input.
     rbind (usage_int (jget payload ''output_tokens'')) (\<lambda>output.
     rbind (usage_int (jget payload ''reasoning_tokens'')) (\<lambda>reasoning.
     rbind (usage_int (jget payload ''total_tokens'')) (\<lambda>total.
     rbind (usage_text (jget payload ''request_id'')) (\<lambda>request_id.
     usage_post_init \<lparr>tu_provider = provider, tu_model = model, tu_source = PROVIDER_REPORTED,
       tu_input_tokens = input, tu_cached_input_tokens = cached, tu_output_tokens = output,
       tu_reasoning_tokens = reasoning, tu_total_tokens = total, tu_request_id = request_id, tu_run_id = run_id,
       tu_cached_input_accounting =
         (case cached of Some n \<Rightarrow> if n > 0 then Some ''provider_reported'' else None | None \<Rightarrow> None)\<rparr>))))))"

definition resolve_usage ::
  "'w InstrumentedModelAdapter \<Rightarrow> jobj option \<Rightarrow> CompletionRequest \<Rightarrow> ModelOutput \<Rightarrow> TokenUsage res" where
  "resolve_usage im reported request out = (case reported of
       Some payload \<Rightarrow> provider_reported_usage (im_provider im) (im_model im) payload (im_run_id im)
     | None \<Rightarrow> estimate_usage im request out)"

text \<open>\<open>reported w\<close> is the mapping that the wrapped adapter holds as \<^verbatim>\<open>last_reported_usage\<close> after the completion.\<close>

definition instrumented_complete ::
  "'w InstrumentedModelAdapter \<Rightarrow> ('w \<Rightarrow> jobj option) \<Rightarrow> pyfl \<Rightarrow> CompletionRequest \<Rightarrow>
   ('w \<times> CompletionObservation list, ModelOutput) eff" where
  "instrumented_complete im reported latency request = (\<lambda>(w, observations).
     case im_complete im request w of
       (Inl e, w') \<Rightarrow> (Inl e, w', observations)
     | (Inr out, w') \<Rightarrow>
         (case (if out = OutOther then unknown_usage (im_provider im) (im_model im) None (im_run_id im)
                else resolve_usage im (reported w') request out) of
            Inl e \<Rightarrow> (Inl e, w', observations)
          | Inr usage \<Rightarrow> (Inr out, w', observations @ [\<lparr>ob_output = out, ob_usage = usage,
              ob_latency_seconds = latency, ob_route_id = im_route_id im\<rparr>])))"

section \<open>Totals account for every completion\<close>

definition known_usage :: "TokenUsage list \<Rightarrow> TokenUsage list" where
  "known_usage us = filter (\<lambda>u. tu_source u \<noteq> USAGE_UNKNOWN) us"

lemma known_usage_simps [simp]:
  "known_usage [] = []"
  "known_usage (u # us) = (if tu_source u = USAGE_UNKNOWN then known_usage us else u # known_usage us)"
  by (simp_all add: known_usage_def)

lemma add_usage_counts:
  "ut_total_tokens (add_usage t u) = ut_total_tokens t + (if tu_source u = USAGE_UNKNOWN then 0 else usage_total u)"
  "ut_measured_completions (add_usage t u) + ut_estimated_completions (add_usage t u) =
     ut_measured_completions t + ut_estimated_completions t + (if tu_source u = USAGE_UNKNOWN then 0 else 1)"
  "ut_unknown_completions (add_usage t u) = ut_unknown_completions t + (if tu_source u = USAGE_UNKNOWN then 1 else 0)"
  by (simp_all add: add_usage_def Let_def)

lemma aggregate_from:
  "ut_total_tokens (foldl add_usage t us) = ut_total_tokens t + sum_list (map usage_total (known_usage us))"
  "ut_measured_completions (foldl add_usage t us) + ut_estimated_completions (foldl add_usage t us) =
     ut_measured_completions t + ut_estimated_completions t + int (length (known_usage us))"
  "ut_unknown_completions (foldl add_usage t us) = ut_unknown_completions t + int (length us) - int (length (known_usage us))"
  by (induction us arbitrary: t) (simp_all add: add_usage_counts)

theorem aggregate_accounts_for_all:
  fixes us
  defines "t \<equiv> aggregate_usage us"
  shows "ut_measured_completions t + ut_estimated_completions t + ut_unknown_completions t = int (length us)"
    and "ut_total_tokens t = sum_list (map usage_total (known_usage us))"
proof -
  show "ut_measured_completions t + ut_estimated_completions t + ut_unknown_completions t = int (length us)"
    unfolding t_def aggregate_usage_def aggregate_from by (simp add: no_usage_def)
  show "ut_total_tokens t = sum_list (map usage_total (known_usage us))"
    unfolding t_def aggregate_usage_def aggregate_from by (simp add: no_usage_def)
qed

section \<open>Instrumentation is transparent\<close>

text \<open>The estimate is the least number of tokens that the characters fit into.\<close>

lemma tokens_cover:
  assumes "1 \<le> c" and "0 \<le> n"
  shows "n \<le> c * tokens_from_chars n c \<and> c * tokens_from_chars n c < n + c \<and> 0 \<le> tokens_from_chars n c"
proof (cases "n = 0")
  case False
  let ?q = "(n + c - 1) div c"
  have e: "n + c - 1 = c * ?q + (n + c - 1) mod c" by simp
  have m: "0 \<le> (n + c - 1) mod c" "(n + c - 1) mod c < c" using assms by simp_all
  have "1 \<le> ?q" using assms False zdiv_mono1 [of c "n + c - 1" c] by simp
  then have t: "tokens_from_chars n c = ?q" using assms False by (simp add: tokens_from_chars_def)
  show ?thesis unfolding t using e m \<open>1 \<le> ?q\<close> by linarith
qed (use assms in \<open>simp add: tokens_from_chars_def\<close>)

lemma rmapM_Ex: "\<forall>x \<in> set xs. \<exists>y. f x = Inr y \<Longrightarrow> \<exists>ys. rmapM f xs = Inr ys"
  by (induction xs) (auto simp: rbind_def)

lemma render_ascii_valid: "valid_json j \<Longrightarrow> \<exists>s. render_ascii isep ksep dflt j = Inr s"
proof (induction j)
  case (JList xs)
  then have "\<exists>ts. rmapM id (map (render_ascii isep ksep dflt) xs) = Inr ts"
    by (intro rmapM_Ex) (auto simp: list_all_iff)
  then show ?case by (auto simp: rbind_def)
next
  case (JObj kvs)
  have "\<exists>s. render_ascii isep ksep dflt v = Inr s" if "(k, v) \<in> set kvs" for k v
    using JObj that by (fastforce simp: list_all_iff)
  then have "\<exists>ts. rmapM (\<lambda>(k, t). rbind t (\<lambda>s. Inr (quote_ascii k @ ksep @ s)))
      (map (map_prod id (render_ascii isep ksep dflt)) kvs) = Inr ts"
    by (intro rmapM_Ex) (force simp: rbind_def)
  then show ?case by (auto simp: rbind_def)
qed simp_all

lemma dumps_length_valid:
  assumes "valid_json (JObj d)"
  shows "\<exists>n. dumps_length d = Inr n \<and> 0 \<le> n"
proof -
  have "valid_json (canon (JObj d))" using assms by (simp only: valid_json_canon)
  from render_ascii_valid [OF this] obtain s where
    "render_ascii '', '' '': '' (\<lambda>_. Inl TypeError) (canon (JObj d)) = Inr s" by blast
  then show ?thesis by (simp add: dumps_length_def rbind_def)
qed

definition measurable_request :: "(string \<Rightarrow> json res) \<Rightarrow> CompletionRequest \<Rightarrow> bool" where
  "measurable_request loads request =
     (list_all (wf_message loads) (cr_messages request) \<and>
      list_all (\<lambda>t. valid_json (JObj (td_input_schema t))) (cr_tools request))"

lemma history_chars_wf:
  assumes "wf_call loads c"
  shows "\<exists>n. tool_history_chars c = Inr n \<and> 0 \<le> n"
proof -
  have "valid_json (JObj (tc_arguments c))"
    using assms by (auto simp: wf_call_def capture_tool_call_def model_canonical_object_def res_simps
        simp del: valid_json.simps no_sensitive_keys.simps)
  from dumps_length_valid [OF this] show ?thesis
    by (auto simp: tool_history_chars_def split: option.splits)
qed

lemma sum_list_nonneg_int: "\<forall>x \<in> set xs. 0 \<le> (x :: int) \<Longrightarrow> 0 \<le> sum_list xs"
  by (simp add: sum_list_nonneg)

lemma rmapM_nonneg:
  assumes "\<forall>x \<in> set xs. \<exists>n. f x = Inr n \<and> 0 \<le> (n :: int)"
  shows "\<exists>ns. rmapM f xs = Inr ns \<and> 0 \<le> sum_list ns"
  using assms by (induction xs) (auto simp: rbind_def)

lemma input_chars_measurable:
  assumes "measurable_request loads request"
  shows "\<exists>n. input_chars request = Inr n \<and> 0 \<le> n"
proof -
  have "\<exists>n. (case ms_tool_call m of Some c \<Rightarrow> tool_history_chars c | None \<Rightarrow> Inr 0) = Inr n \<and> 0 \<le> n"
    if "m \<in> set (cr_messages request)" for m
    using assms that history_chars_wf [of loads]
    by (auto simp: measurable_request_def list_all_iff wf_message_def split: option.splits)
  then obtain hs where hs: "rmapM (\<lambda>m. case ms_tool_call m of Some c \<Rightarrow> tool_history_chars c | None \<Rightarrow> Inr 0)
      (cr_messages request) = Inr hs" "0 \<le> sum_list hs"
    using rmapM_nonneg [of "cr_messages request"
        "\<lambda>m. case ms_tool_call m of Some c \<Rightarrow> tool_history_chars c | None \<Rightarrow> Inr 0"] by blast
  have "\<exists>n. dumps_length (td_input_schema t) = Inr n \<and> 0 \<le> n" if "t \<in> set (cr_tools request)" for t
    using assms that dumps_length_valid by (simp add: measurable_request_def list_all_iff del: valid_json.simps)
  then obtain ts where ts: "rmapM (\<lambda>t. dumps_length (td_input_schema t)) (cr_tools request) = Inr ts" "0 \<le> sum_list ts"
    using rmapM_nonneg [of "cr_tools request" "\<lambda>t. dumps_length (td_input_schema t)"] by blast
  have "0 \<le> sum_list (map (\<lambda>m. int (length (ms_content m))) (cr_messages request))"
    by (rule sum_list_nonneg_int) simp
  then show ?thesis using hs ts by (simp add: input_chars_def rbind_def)
qed

text \<open>What an estimate says: the tokens of the request split into billed and cached ones, and their sum.\<close>

definition estimates :: "'w InstrumentedModelAdapter \<Rightarrow> CompletionRequest \<Rightarrow> ModelOutput \<Rightarrow> TokenUsage \<Rightarrow> bool" where
  "estimates im request out u =
     (case (input_chars request, output_chars out) of
        (Inr n, Inr k) \<Rightarrow>
          tu_source u = ESTIMATED \<and>
          or_zero (tu_input_tokens u) + or_zero (tu_cached_input_tokens u) = tokens_from_chars n (im_chars_per_token im) \<and>
          or_zero (tu_cached_input_tokens u) = min (im_cached_input_tokens im) (tokens_from_chars n (im_chars_per_token im)) \<and>
          tu_output_tokens u = Some (tokens_from_chars k (im_chars_per_token im)) \<and>
          usage_total u = tokens_from_chars n (im_chars_per_token im) + tokens_from_chars k (im_chars_per_token im) \<and>
          usage_post_init u = Inr u
      | _ \<Rightarrow> False)"

lemma estimate_usage_ok:
  assumes "instrumented_init im = Inr im" and "nonblank (im_provider im)" and "nonblank (im_model im)"
    and "case im_run_id im of None \<Rightarrow> True | Some s \<Rightarrow> nonblank s"
    and "measurable_request loads request" and "wf_output loads out" and "out \<noteq> OutOther"
  shows "\<exists>u. estimate_usage im request out = Inr u \<and> estimates im request out u"
proof -
  from input_chars_measurable [OF assms(5)] obtain n where n: "input_chars request = Inr n" "0 \<le> n" by blast
  have "\<exists>k. output_chars out = Inr k \<and> 0 \<le> k"
    using assms(6,7) history_chars_wf by (cases out) (auto simp: output_chars_def wf_output_def)
  then obtain k where k: "output_chars out = Inr k" "0 \<le> k" by blast
  have im: "1 \<le> im_chars_per_token im" "0 \<le> im_cached_input_tokens im"
    using assms(1) by (auto simp: instrumented_init_def res_simps)
  have t: "0 \<le> tokens_from_chars n (im_chars_per_token im)" "0 \<le> tokens_from_chars k (im_chars_per_token im)"
    using tokens_cover [OF im(1) n(2)] tokens_cover [OF im(1) k(2)] by auto
  show ?thesis
    using assms(2-4) im t
    by (auto simp: estimate_usage_def estimates_def n(1) k(1) Let_def usage_post_init_def usage_counts_def rbind_def
        ensure_def or_zero_def usage_total_def min_def)
qed

theorem instrumentation_is_transparent:
  assumes "instrumented_init im = Inr im" and "nonblank (im_provider im)" and "nonblank (im_model im)"
    and "case im_run_id im of None \<Rightarrow> True | Some s \<Rightarrow> nonblank s"
    and "measurable_request loads request"
    and "im_complete im request w = (Inr out, w')" and "wf_output loads out" and "out \<noteq> OutOther" and "reported w' = None"
  shows "\<exists>ob. instrumented_complete im reported latency request (w, obs) = (Inr out, w', obs @ [ob]) \<and>
    ob_output ob = out \<and> ob_route_id ob = im_route_id im \<and> estimates im request out (ob_usage ob)"
  using estimate_usage_ok [OF assms(1-5,7,8)] assms(6,8,9)
  by (auto simp: instrumented_complete_def resolve_usage_def)

end
