(* ===== verification/Witnesses_Models.thy ===== *)
theory Witnesses_Models
  imports Model_Router Model_Usage
begin

text \<open>Witnesses of the model layer: an adapter that receives a tool call.\<close>

section \<open>A tool call from Anthropic\<close>

definition look_request :: CompletionRequest where
  "look_request = \<lparr>cr_messages = [\<lparr>ms_role = ROLE_USER, ms_content = ''look'', ms_tool_call_id = None,
     ms_tool_name = None, ms_tool_call = None\<rparr>], cr_tools = [], cr_max_output_tokens = 9\<rparr>"

definition look_block :: json where
  "look_block = JObj [(''type'', JStr ''tool_use''), (''id'', JStr ''c1''), (''name'', JStr ''look''),
     (''input'', JObj [(''at'', JInt 3)])]"

definition look_response :: jobj where
  "look_response = [(''stop_reason'', JStr ''tool_use''),
     (''content'', JList [JObj [(''type'', JStr ''text''), (''text'', JStr ''ok'')], look_block])]"

definition look_turn :: ProviderContinuation where
  "look_turn = \<lparr>pc_provider = ''anthropic'', pc_model = ''m'', pc_wire_format = ''anthropic'',
     pc_message = canon_obj (anthropic_turn look_response)\<rparr>"

definition look_call :: ToolCall where
  "look_call = \<lparr>tc_call_id = ''c1'', tc_name = ''look'', tc_arguments = [(''at'', JInt 3)],
     tc_continuation = Some look_turn\<rparr>"

definition look_adapter :: ModelAdapter where
  "look_adapter = \<lparr>ma_wire = AnthropicAdapter ''m'' ''v'',
     ma_transport = \<lparr>mt_host = ''h'', mt_port = None, mt_base_path = [], mt_timeout_seconds = Fl 30,
       mt_max_response_bytes = 5\<rparr>,
     ma_headers_provider = \<lparr>eh_environment_variable = ''K'', eh_header_name = ''x-api-key'', eh_prefix = []\<rparr>\<rparr>"

definition look_world :: "nat ModelWorld" where
  "look_world = \<lparr>mw_env = [''K'' \<mapsto> ''s''],
     mw_exchange = (\<lambda>post n. (Inr \<lparr>mr_status = 200, mr_content_type = ''Application/JSON; q=1'', mr_body = [123, 125]\<rparr>, Suc n)),
     mw_loads = (\<lambda>_. Inl (External ''JSONDecodeError'')), mw_loads_bytes = (\<lambda>_. Inr (JObj look_response))\<rparr>"

lemma look_length: "length (encode_utf8 (dumps (JObj (canon_obj (anthropic_turn look_response))))) \<le> 200"
  by code_simp

lemma look_valid: "valid_json (JObj (anthropic_turn look_response))"
  by code_simp

lemma look_continuation:
  "capture_continuation ''anthropic'' ''m'' ''anthropic'' (JObj (anthropic_turn look_response)) = Inr look_turn"
  using look_length look_valid
  by (simp add: capture_continuation_def model_canonical_object_def rbind_def ensure_def model_text_def nonblank_def
      py_isspace_def look_turn_def del: valid_json.simps)

lemma look_capture:
  "capture_tool_call (\<lambda>_. Inl (External ''JSONDecodeError'')) ''c1'' ''look'' (JObj [(''at'', JInt 3)]) (Some look_turn)
     = Inr look_call"
  by code_simp

lemma look_blocks:
  "anthropic_blocks [JObj [(''type'', JStr ''text''), (''text'', JStr ''ok'')], look_block] =
     Inr ([[(''type'', JStr ''tool_use''), (''id'', JStr ''c1''), (''name'', JStr ''look''),
        (''input'', JObj [(''at'', JInt 3)])]], [''ok''])"
  by code_simp

lemma look_arguments:
  "parse_arguments (\<lambda>_. Inl (External ''JSONDecodeError'')) (Some (JObj [(''at'', JInt 3)])) = Inr [(''at'', JInt 3)]"
  by code_simp

lemma look_parses: "anthropic_parse (mw_loads look_world) ''m'' look_response = Inr (OutCall look_call)"
proof -
  have t: "[(''role'', JStr ''assistant''), (''content'', JList [JObj [(''type'', JStr ''text''), (''text'', JStr ''ok'')], look_block])]
      = anthropic_turn look_response"
    by (simp add: anthropic_turn_def get_null_def jget_def look_response_def)
  have stop: "in_texts (get_null look_response ''stop_reason'') [''max_tokens'', ''pause_turn'', ''refusal''] = Inr False"
    by code_simp
  have content: "response_list (map_of look_response ''content'') =
      Inr [JObj [(''type'', JStr ''text''), (''text'', JStr ''ok'')], look_block]"
    by (simp add: response_list_def look_response_def)
  show ?thesis
    using look_continuation look_capture
    by (simp add: anthropic_parse_def stop content rbind_def ensure_def look_blocks t look_arguments look_world_def jget_def
        response_text_def nonblank_def py_isspace_def call_with_turn_def del: anthropic_blocks.simps)
qed

lemma look_payload:
  "\<exists>p. wire_payload (ma_wire look_adapter) (JInt 0) look_request = Inr p \<and> valid_json (JObj p)"
  by (simp add: look_adapter_def look_request_def anthropic_payload_def anthropic_message_def system_text_def rbind_def)

lemma look_headers: "request_headers [(''x-api-key'', ''s''), (''anthropic-version'', ''v'')] =
    Inr [(''Accept'', ''application/json''), (''Content-Type'', ''application/json''), (''x-api-key'', ''s''),
      (''anthropic-version'', ''v'')]"
  by code_simp

lemma look_answer:
  "read_answer (mw_loads_bytes look_world) 5
     \<lparr>mr_status = 200, mr_content_type = ''Application/JSON; q=1'', mr_body = [123, 125]\<rparr> = Inr look_response"
proof -
  have "media_type ''Application/JSON; q=1'' = ''application/json''" by code_simp
  then show ?thesis by (simp add: read_answer_def rbind_def ensure_def look_world_def decode_answer_def)
qed

lemma look_completes:
  "adapter_complete look_world [] (JInt 0) look_adapter look_request 0 = (Inr (OutCall look_call), 1)"
proof -
  have k: "ma_wire look_adapter = AnthropicAdapter ''m'' ''v''" by (simp add: look_adapter_def)
  from look_payload obtain p where p: "anthropic_payload ''m'' (JInt 0) look_request = Inr p" "valid_json (JObj p)"
    by (auto simp: look_adapter_def)
  have h: "credential_headers (mw_env look_world) (ma_headers_provider look_adapter) = Inr [(''x-api-key'', ''s'')]"
    by (simp add: credential_headers_def look_world_def look_adapter_def rbind_def ensure_def single_line_def
        nonblank_def py_isspace_def)
  have "post_json (mw_exchange look_world) (mw_loads_bytes look_world) (ma_transport look_adapter) ''/v1/messages'' p
      [(''x-api-key'', ''s''), (''anthropic-version'', ''v'')] 0 = (Inr look_response, 1)"
    using p(2) look_answer
    by (simp add: post_json_def ebind_def eret_def look_headers origin_path_def starts_with_def ensure_def
        model_exchange_def look_adapter_def look_world_def del: valid_json.simps)
  then show ?thesis
    using look_parses by (simp add: adapter_complete_def ebind_def eret_def h p(1) k)
qed

theorem provider_turn_stays_with_provider_witness:
  "wf_call (mw_loads look_world) look_call \<and>
   wire_message (AnthropicAdapter ''m'' ''w'') None (as_message look_call) = Inr (canon_obj (anthropic_turn look_response)) \<and>
   (\<exists>e. adapter_complete look_world [] (JInt 0)
      (look_adapter\<lparr>ma_wire := AnthropicAdapter ''n'' ''v''\<rparr>)
      (look_request\<lparr>cr_messages := [as_message look_call]\<rparr>) 7 = (Inl e, 7))"
proof -
  note t = provider_turn_stays_with_provider [OF look_completes, where ?'v = nat]
  have route: "wire_route (AnthropicAdapter ''m'' ''w'') = wire_route (ma_wire look_adapter)"
    and other: "wire_route (ma_wire (look_adapter\<lparr>ma_wire := AnthropicAdapter ''n'' ''v''\<rparr>)) \<noteq> wire_route (ma_wire look_adapter)"
    by (simp_all add: look_adapter_def)
  from t obtain turn where "tc_continuation look_call = Some turn" and
      "\<And>k p. wire_route k = wire_route (ma_wire look_adapter) \<Longrightarrow> wire_message k p (as_message look_call) = Inr (pc_message turn)"
    by blast
  with route have "wire_message (AnthropicAdapter ''m'' ''w'') None (as_message look_call) =
      Inr (canon_obj (anthropic_turn look_response))"
    by (simp only: look_call_def look_turn_def ToolCall.select_convs ProviderContinuation.select_convs option.inject) auto
  moreover from t other have "\<exists>e. adapter_complete look_world [] (JInt 0)
      (look_adapter\<lparr>ma_wire := AnthropicAdapter ''n'' ''v''\<rparr>)
      (look_request\<lparr>cr_messages := [as_message look_call]\<rparr>) 7 = (Inl e, 7)" by simp
  ultimately show ?thesis using t by blast
qed

end
