(* ===== verification/Spec2Isabelle.thy ===== *)
theory Spec2Isabelle
  imports Witnesses_Boundary Witnesses_State Witnesses_Agent Witnesses_Targets Witnesses_Knowledge Knowledge_Runtime
    Witnesses_Company Witnesses_Models
begin

text \<open>
  \<^bold>\<open>A verification development of cbrain.\<close>

  cbrain puts a governed runtime between an agent framework and the tools it calls. An intent
  is captured as immutable data, planned into exact wire bytes, decided by PrivateVault, permitted by a
  signed single-use authorization, dispatched once by an independent sidecar, and closed with evidence
  that Agent DNA verifies. Around that core stand the company agents' risk policy and approval inbox, the
  target simulators and the durable run stores of the agent loop.

  \<^bold>\<open>Conventions.\<close> \<open>Cbrain_Prelude\<close> has the exception classes as values of \<open>exn\<close>, results \<open>'a res\<close>, effects
  over a world, and Python text. \<open>Py_Json\<close>, \<open>Py_Bytes\<close>, \<open>Py_Decimal\<close> and \<open>Py_Hash\<close> model what the source
  uses of the language and its library: JSON values and canonical documents, base64 and UTF-8, decimal
  texts, and SHA-256 in full. A byte snapshot of the source is the document it decodes to. Code outside
  the repository (Agent DNA, the HTTP and TLS layers, the signer and the closure writer, the
  database drivers below SQL) is a parameter of the definitions that call it, and every way in which it
  can fail is a branch.

  \<^bold>\<open>The governed path.\<close>
  \<^item> \<open>Contracts\<close> (\<^verbatim>\<open>contracts.py\<close>): \<open>ActionIntent\<close>, \<open>GovernedExecution\<close> and their constructors.
  \<^item> \<open>Interaction\<close> and \<open>Governed_Runtime\<close> (\<^verbatim>\<open>runtime.py\<close>): a gateway is any program that may act on the
    world and call the handler it was given; C1 bounds what any of them can make of a handler.
  \<^item> \<open>Dispatch\<close> (\<^verbatim>\<open>dispatch.py\<close>), \<open>Consumption\<close> (\<^verbatim>\<open>consumption.py\<close>): the prepared dispatch and the store of
    single-use authorizations, with the locales \<open>single_use_claim\<close> and \<open>single_use_store\<close> (C2).
  \<^item> \<open>PV_Decision\<close> (\<^verbatim>\<open>adapters/privatevault.py\<close>): binding and decision client (C3).
  \<^item> \<open>PV_Execution\<close> (\<^verbatim>\<open>adapters/privatevault_execution.py\<close>, \<^verbatim>\<open>_claim.py\<close>, \<^verbatim>\<open>_consumption.py\<close>): verification
    stages and the claim coordinator (C5).
  \<^item> \<open>Transport\<close> (\<^verbatim>\<open>execution/transport.py\<close>) with the locale \<open>pre_execution_refusals\<close>, \<open>Gateway\<close>
    (\<^verbatim>\<open>execution/gateway.py\<close>, C6, C7), \<open>Planner\<close> (\<^verbatim>\<open>execution/planner.py\<close>, C8, C9).
  \<^item> \<open>Sidecar_Protocol\<close> and \<open>Sidecar\<close> (\<^verbatim>\<open>execution/sidecar.py\<close>): codecs (C10 to C12), egress discipline over
    a trace of external calls, front door, connector and channel (C13 to C15, C17).

  \<^bold>\<open>Company agents.\<close>
  \<^item> \<open>Company_Risk\<close> (\<^verbatim>\<open>company/risk.py\<close>, \<^verbatim>\<open>company/spec.py\<close>, \<^verbatim>\<open>evaluation/company_gateway.py\<close>): C18.
  \<^item> \<open>Py_Text\<close>, \<open>Procurement_Records\<close> (\<^verbatim>\<open>procurement/erp.py\<close>, \<^verbatim>\<open>mailbox.py\<close>, \<^verbatim>\<open>extracts.py\<close>), \<open>Company_Desk\<close>
    (\<^verbatim>\<open>company/authority.py\<close>, \<^verbatim>\<open>simulators.py\<close>, \<^verbatim>\<open>validation.py\<close>), \<open>Company_Handlers\<close> (\<^verbatim>\<open>company/handlers.py\<close>) and
    \<open>Company_Work\<close>: the state of the desks, the validation of arguments and the handlers of the tools. A validated
    payment is the invoice (C4), legal tools see nothing outside their scope (C16), a request for quotation is sent
    once (C21).
  \<^item> \<open>Approval\<close> (\<^verbatim>\<open>company/approval.py\<close>): the inbox as a sequence of atomic operations, an interpretation of
    \<open>single_use_claim\<close>, and the gateway in front of it (C19, C20, C22).
  \<^item> \<open>Review_Store\<close> (\<^verbatim>\<open>company/durable_approval.py\<close>): the durable review table of many workers. The inductive
    \<open>review_life\<close> is the lifecycle of a review; every operation is shown to move rows along it, from which single
    consumption (by \<open>single_use_claim\<close>) and the backing of a consumption follow (C38, C39).

  \<^bold>\<open>Targets and state.\<close>
  \<^item> \<open>Simulator_Contracts\<close> (\<^verbatim>\<open>simulators/contracts.py\<close>) has the shared skeleton and the locales
    \<open>idempotent_target\<close> and, for targets with a clock and an operator, \<open>stepped_target\<close>; \<open>Ledger\<close>, \<open>Crm\<close>, \<open>Mail\<close> and
    \<open>Orders\<close> (the simulators of these names) interpret them, and \<open>Targets\<close> has what they promise together (C23, C24,
    C40).
  \<^item> \<open>Durable_Record\<close> (\<^verbatim>\<open>agent/durable.py\<close>): the stored run record and its JSON (C26).
  \<^item> \<open>Run_Store\<close> (\<^verbatim>\<open>agent/store_memory.py\<close>, \<^verbatim>\<open>agent/store_sqlite.py\<close>): both stores, the locale
    \<open>versioned_store\<close> with its sublocale of \<open>single_use_claim\<close>, and the refinement of one store by the
    other (C27, C29).

  \<^bold>\<open>The agent loop.\<close>
  \<^item> \<open>Messages\<close> (\<^verbatim>\<open>models/contracts.py\<close>, \<^verbatim>\<open>models/continuation.py\<close> and the messages of \<^verbatim>\<open>agent/durable.py\<close>): tool calls with
    the provider turn they came from, messages and histories (C35, C36).
  \<^item> \<open>Agent_Profile\<close> (\<^verbatim>\<open>agent/profile.py\<close>, \<^verbatim>\<open>agent/limits.py\<close>, \<^verbatim>\<open>agent/tools.py\<close>): profile, fingerprint, limits, tool
    registry and completion requests.
  \<^item> \<open>Durable_Loop\<close> (\<^verbatim>\<open>agent/durable_loop.py\<close>): checkpoints, resumption and restoration, over a world with a
    trace of the calls of the store, of the model and of the tools.
  \<^item> \<open>Agent_Loop\<close> (\<^verbatim>\<open>agent/foundation.py\<close>): the ephemeral and the durable run, turn by turn.
  \<^item> \<open>Agent_Safety\<close>: predicates of traces as the locales \<open>trace_property\<close>, \<open>tool_predicate\<close> and
    \<open>dispatch_predicate\<close>; a tool is dispatched only on a claim just won, at most once per stored version over all
    workers, and a settled run is not touched (C30 to C32).
  \<^item> \<open>Agent_Bounds\<close>: the limits of a run without a store, the action of a resumed run, and that every run ends
    (C33, C34).

  \<^bold>\<open>Models.\<close>
  \<^item> \<open>Providers\<close> (\<^verbatim>\<open>models/anthropic.py\<close>, \<^verbatim>\<open>google.py\<close>, \<^verbatim>\<open>openai_compatible.py\<close>, \<^verbatim>\<open>transport.py\<close>): messages and payloads on
    the wire of each provider, the reading of answers, and the HTTPS transport over an exchange. The locale
    \<open>provider_wire\<close> says that a wire replays turns by their route and captures the turn of an answer; the three wires
    interpret it.
  \<^item> \<open>Model_Router\<close> (\<^verbatim>\<open>router.py\<close> and the adapters): a turn goes back to its own provider and model as it was received
    and to no other (C28); a router returns well-formed outputs only, and an unknown route reaches no provider.
  \<^item> \<open>Model_Usage\<close> (\<^verbatim>\<open>usage.py\<close>, \<^verbatim>\<open>instrumented.py\<close>): totals account for every completion, and observing a completion
    changes neither its output nor its effects.

  \<^bold>\<open>Knowledge.\<close>
  \<^item> \<open>Py_Float\<close>: floats with their order, infinities and nan; rounded operations are a parameter.
  \<^item> \<open>Knowledge\<close> (\<^verbatim>\<open>knowledge/contracts.py\<close>, \<^verbatim>\<open>configuration.py\<close>): the data of the knowledge runtime with the checks of
    its constructors.
  \<^item> \<open>Knowledge_Chunks\<close> (\<^verbatim>\<open>chunking.py\<close>, \<^verbatim>\<open>fusion.py\<close>, \<^verbatim>\<open>graph.py\<close>): cutting a document, which ends and loses nothing (C25),
    diverse selection, rank fusion, and the walk of the graph within its bounds.
  \<^item> \<open>Knowledge_Store\<close> (\<^verbatim>\<open>ports.py\<close>, \<^verbatim>\<open>stores/memory.py\<close>): the ports as records of operations over a world, the store and
    the caches in memory.
  \<^item> \<open>Retrieval\<close> (\<^verbatim>\<open>retrieval.py\<close>, \<^verbatim>\<open>ingestion.py\<close>): the locale \<open>knowledge_reads\<close> has what the retriever needs of its
    ports. It is interpreted for every store, which gives access control, citations, ranks and budgets (C37), and for
    the store in memory, where a tombstoned source is never returned.
  \<^item> \<open>Knowledge_Runtime\<close> (\<^verbatim>\<open>runtime.py\<close>, \<^verbatim>\<open>context.py\<close>): the choice of store and cache of a deployment.

  \<open>Witnesses\<close>, \<open>Witnesses_Boundary\<close>, \<open>Witnesses_State\<close>, \<open>Witnesses_Agent\<close>, \<open>Witnesses_Targets\<close>,
  \<open>Witnesses_Knowledge\<close>, \<open>Witnesses_Company\<close> and \<open>Witnesses_Models\<close> apply every property that has hypotheses to concrete objects.

  \<^bold>\<open>Bounds.\<close> Every function is total; loops of the source are structural recursions over lists or
  trees, so no fuel is used. The two loops that are not, the cutting of a text and the walk of the graph, are a partial
  function shown to return on every input and a recursion on a measure. Text is modelled on the first 256 code points. Finite floats are their
  \<^verbatim>\<open>repr\<close>. Integers stay unbounded as in Python, except where they meet a float, a decimal context of 28
  digits or a 64-bit SQLite parameter, where the overflow is an error branch.

  \<^bold>\<open>Not modelled.\<close> Sockets, TLS and HTTP servers; the
  databases behind the knowledge ports; computer use; the go-to-market
  desk and fixtures of the company agents; evaluation harnesses and reports.
\<close>

end
